(* ===== verification/Py_Prelude.thy ===== *)
theory Py_Prelude
  imports Main
    "HOL-Library.List_Lexorder"
    "HOL-Library.Char_ord"
    "HOL-Library.Product_Lexorder"
    "HOL-Library.Sublist"
    "HOL-Library.AList"
    "HOL-Library.Code_Target_Nat"
    "HOL-Library.Multiset"
begin

text \<open>
  The prelude: what the components share of the Python language and its standard library.

  Python text is modelled by \<^typ>\<open>string\<close>; a character is a code point below 256, which is the
  range in which the JSON manifests, identifiers and digests of the program live. Code that raises
  returns \<^typ>\<open>'e + 'a\<close> with \<^const>\<open>Inl\<close> for the exception; \<open>bind_r\<close>, \<open>for_each\<close> and \<open>map_r\<close> are
  sequencing, a \<open>for\<close> loop over an accumulator and a list comprehension whose body may raise.
  The text operations (\<open>strip\<close>, \<open>split\<close>, \<open>join\<close>, decimal printing) follow \<open>str\<close> of Python.
  The two locales at the end state the contracts that the state machines of the program satisfy:
  an invariant kept by every step, and a preorder every step respects.
\<close>

section \<open>Collections of facts\<close>

named_theorems result_intros \<open>introduction of successful results\<close>
named_theorems result_dests \<open>what a successful result says about its parts\<close>

section \<open>Results: exceptions as values\<close>

type_synonym ('e, 'a) result = "'e + 'a"

definition bind_r :: "('e, 'a) result \<Rightarrow> ('a \<Rightarrow> ('e, 'b) result) \<Rightarrow> ('e, 'b) result" where
  "bind_r m f = (case m of Inl e \<Rightarrow> Inl e | Inr x \<Rightarrow> f x)"

fun for_each :: "('s \<Rightarrow> 'a \<Rightarrow> ('e, 's) result) \<Rightarrow> 's \<Rightarrow> 'a list \<Rightarrow> ('e, 's) result" where
  "for_each f s [] = Inr s"
| "for_each f s (x # xs) = (case f s x of Inl e \<Rightarrow> Inl e | Inr s' \<Rightarrow> for_each f s' xs)"

fun map_r :: "('a \<Rightarrow> ('e, 'b) result) \<Rightarrow> 'a list \<Rightarrow> ('e, 'b list) result" where
  "map_r f [] = Inr []"
| "map_r f (x # xs) = (case f x of Inl e \<Rightarrow> Inl e | Inr y \<Rightarrow>
     (case map_r f xs of Inl e \<Rightarrow> Inl e | Inr ys \<Rightarrow> Inr (y # ys)))"

definition ok :: "('e, 'a) result \<Rightarrow> bool" where
  "ok m = (case m of Inl _ \<Rightarrow> False | Inr _ \<Rightarrow> True)"

text \<open>\<open>if b: raise e\<close>, and a sequence of such statements: the first one that raises decides.\<close>

definition fail_if :: "bool \<Rightarrow> 'e \<Rightarrow> ('e, unit) result" where
  "fail_if b e = (if b then Inl e else Inr ())"

fun checks :: "('e, unit) result list \<Rightarrow> ('e, unit) result" where
  "checks [] = Inr ()"
| "checks (c # cs) = (case c of Inl e \<Rightarrow> Inl e | Inr _ \<Rightarrow> checks cs)"

declare checks.simps(2) [simp del]

lemma checks_step [simp]: "checks (Inl e # cs) = Inl e" "checks (Inr u # cs) = checks cs"
  by (simp_all add: checks.simps)

lemma fail_if_Inr [simp]: "fail_if b e = Inr u \<longleftrightarrow> \<not> b"
  and fail_if_simps [simp]: "fail_if True e = Inl e" "fail_if False e = Inr ()"
  by (auto simp: fail_if_def)

lemma checks_Inr_iff: "checks cs = Inr u \<longleftrightarrow> (\<forall>c\<in>set cs. c = Inr ())"
  by (induction cs) (auto simp: checks.simps split: sum.splits)

lemma checks_Cons_Inr [simp]: "checks (c # cs) = Inr u \<longleftrightarrow> c = Inr () \<and> checks cs = Inr ()"
  by (auto simp: checks_Inr_iff)

lemma checks_append_Inr: "checks (xs @ ys) = Inr u \<longleftrightarrow> checks xs = Inr u \<and> checks ys = Inr u"
  by (auto simp: checks_Inr_iff)

lemma checks_map_fail: "checks (map (\<lambda>x. fail_if (b x) (e x)) xs) = Inr u \<longleftrightarrow> (\<forall>x\<in>set xs. \<not> b x)"
  by (induction xs) auto

lemma bind_r_simps [simp]: "bind_r (Inl e) f = Inl e" "bind_r (Inr x) f = f x"
  by (simp_all add: bind_r_def)

lemma bind_r_Inr_iff: "bind_r m f = Inr y \<longleftrightarrow> (\<exists>x. m = Inr x \<and> f x = Inr y)"
  by (cases m) auto

lemma bind_r_Inl_iff: "bind_r m f = Inl e \<longleftrightarrow> m = Inl e \<or> (\<exists>x. m = Inr x \<and> f x = Inl e)"
  by (cases m) auto

lemma bind_r_InrE [elim!]:
  assumes "bind_r m f = Inr y"
  obtains x where "m = Inr x" "f x = Inr y"
  using assms by (auto simp: bind_r_Inr_iff)

lemma ok_simps [simp]: "ok (Inr x)" "\<not> ok (Inl e)"
  by (simp_all add: ok_def)

lemma if_Inl_Inr [simp]:
  "(if b then Inl e else m) = Inr x \<longleftrightarrow> \<not> b \<and> m = Inr x"
  "(if b then m else Inl e) = Inr x \<longleftrightarrow> b \<and> m = Inr x"
  by auto

text \<open>A loop that returns keeps every property its body keeps; the property may speak of the
  elements already visited.\<close>

lemma for_each_rule:
  assumes "for_each f s xs = Inr t"
    and "P [] s"
    and step: "\<And>ys y zs s s'. xs = ys @ y # zs \<Longrightarrow> P ys s \<Longrightarrow> f s y = Inr s' \<Longrightarrow> P (ys @ [y]) s'"
  shows "P xs t"
proof -
  have "for_each f s zs = Inr t \<Longrightarrow> xs = ys @ zs \<Longrightarrow> P ys s \<Longrightarrow> P xs t" for ys zs s
  proof (induction zs arbitrary: ys s)
    case Nil
    then show ?case by simp
  next
    case (Cons z zs)
    then obtain s' where "f s z = Inr s'" "for_each f s' zs = Inr t"
      by (auto split: sum.splits)
    with Cons.IH[of s' "ys @ [z]"] Cons.prems step show ?case by simp
  qed
  from this[where ys = "[]" and zs = xs and s = s] assms(1,2) show ?thesis by simp
qed

lemma for_each_append:
  "for_each f s (xs @ ys) = (case for_each f s xs of Inl e \<Rightarrow> Inl e | Inr t \<Rightarrow> for_each f t ys)"
  by (induction xs arbitrary: s) (auto split: sum.splits)

text \<open>The body of a unit loop is a check on each element.\<close>

lemma for_each_unit:
  "for_each (\<lambda>_. g) () xs = Inr () \<longleftrightarrow> (\<forall>x\<in>set xs. g x = Inr ())"
proof (induction xs)
  case (Cons x xs)
  then show ?case by (cases "g x") auto
qed simp

lemma map_r_Cons_iff:
  "map_r f (x # xs) = Inr ys \<longleftrightarrow> (\<exists>y zs. f x = Inr y \<and> map_r f xs = Inr zs \<and> ys = y # zs)"
  by (auto split: sum.splits)

lemma map_r_Inr_iff: "map_r f xs = Inr ys \<longleftrightarrow> list_all2 (\<lambda>x y. f x = Inr y) xs ys"
proof (induction xs arbitrary: ys)
  case (Cons x xs)
  then show ?case unfolding map_r_Cons_iff list_all2_Cons1 by blast
qed auto

lemma map_r_length: "map_r f xs = Inr ys \<Longrightarrow> length ys = length xs"
  by (auto simp: map_r_Inr_iff dest: list_all2_lengthD)

lemma map_r_mem:
  assumes "map_r f xs = Inr ys" "y \<in> set ys"
  obtains x where "x \<in> set xs" "f x = Inr y"
  using assms by (auto simp: map_r_Inr_iff list_all2_conv_all_nth in_set_conv_nth)
    (metis nth_mem in_set_conv_nth)

lemma map_r_pure: "(\<And>x. x \<in> set xs \<Longrightarrow> f x = Inr (g x)) \<Longrightarrow> map_r f xs = Inr (map g xs)"
  by (induction xs) auto

text \<open>Loops over related lists, with bodies that agree on related elements whenever they return.\<close>

lemma for_each_transfer:
  assumes "for_each f s xs = Inr t" "list_all2 R xs ys"
    and "\<And>s x y s'. R x y \<Longrightarrow> f s x = Inr s' \<Longrightarrow> g s y = Inr s'"
  shows "for_each g s ys = Inr t"
  using assms(2,1)
proof (induction arbitrary: s rule: list_all2_induct)
  case (Cons x xs y ys)
  then show ?case using assms(3) by (auto split: sum.splits)
qed simp

lemma distinct_set_singleton: "distinct xs \<Longrightarrow> set xs = {a} \<Longrightarrow> xs = [a]"
proof (cases xs)
  case (Cons y ys)
  assume "distinct xs" "set xs = {a}"
  with Cons have "y = a" "a \<notin> set ys" "set ys \<subseteq> {a}" by auto
  then have "ys = []" by (metis subset_singletonD insertI1 set_empty)
  with Cons \<open>y = a\<close> show ?thesis by simp
qed simp

section \<open>Characters\<close>

definition code :: "char \<Rightarrow> nat" where
  "code c = of_char c"

text \<open>A literal character evaluates.\<close>

lemma code_Char [simp]:
  "code (Char b0 b1 b2 b3 b4 b5 b6 b7) = of_char (Char b0 b1 b2 b3 b4 b5 b6 b7)"
  by (simp add: code_def)

definition is_digit :: "char \<Rightarrow> bool" where
  "is_digit c \<longleftrightarrow> 48 \<le> code c \<and> code c \<le> 57"

definition is_lower :: "char \<Rightarrow> bool" where
  "is_lower c \<longleftrightarrow> 97 \<le> code c \<and> code c \<le> 122"

definition is_upper :: "char \<Rightarrow> bool" where
  "is_upper c \<longleftrightarrow> 65 \<le> code c \<and> code c \<le> 90"

definition is_alnum :: "char \<Rightarrow> bool" where
  "is_alnum c \<longleftrightarrow> is_digit c \<or> is_lower c \<or> is_upper c"

definition is_hex :: "char \<Rightarrow> bool" where
  "is_hex c \<longleftrightarrow> is_digit c \<or> (97 \<le> code c \<and> code c \<le> 102)"

text \<open>\<open>str.isspace\<close> of one character.\<close>

definition is_space :: "char \<Rightarrow> bool" where
  "is_space c \<longleftrightarrow> (9 \<le> code c \<and> code c \<le> 13) \<or> (28 \<le> code c \<and> code c \<le> 32)
     \<or> code c = 133 \<or> code c = 160"

text \<open>The same classes on the bits of a character, for evaluation.\<close>

lemma is_digit_bits [code]:
  "is_digit (Char b0 b1 b2 b3 b4 b5 b6 b7) \<longleftrightarrow> \<not> b7 \<and> \<not> b6 \<and> b5 \<and> b4 \<and> (\<not> b3 \<or> \<not> b2 \<and> \<not> b1)"
  by (cases b7; cases b6; cases b5; cases b4; cases b3; cases b2; cases b1; cases b0) (simp_all add: is_digit_def)

lemma is_lower_bits [code]:
  "is_lower (Char b0 b1 b2 b3 b4 b5 b6 b7) \<longleftrightarrow> \<not> b7 \<and> b6 \<and> b5
     \<and> (b0 \<or> b1 \<or> b2 \<or> b3 \<or> b4) \<and> \<not> (b4 \<and> b3 \<and> (b2 \<or> b1 \<and> b0))"
  by (cases b7; cases b6; cases b5; cases b4; cases b3; cases b2; cases b1; cases b0) (simp_all add: is_lower_def)

lemma is_hex_bits [code]:
  "is_hex (Char b0 b1 b2 b3 b4 b5 b6 b7) \<longleftrightarrow> \<not> b7 \<and>
     (\<not> b6 \<and> b5 \<and> b4 \<and> (\<not> b3 \<or> \<not> b2 \<and> \<not> b1)
      \<or> b6 \<and> b5 \<and> \<not> b4 \<and> \<not> b3 \<and> (b2 \<or> b1 \<or> b0) \<and> \<not> (b2 \<and> b1 \<and> b0))"
  by (cases b7; cases b6; cases b5; cases b4; cases b3; cases b2; cases b1; cases b0)
    (simp_all add: is_hex_def is_digit_def)

section \<open>Text\<close>

definition strip :: "string \<Rightarrow> string" where
  "strip s = rev (dropWhile is_space (rev (dropWhile is_space s)))"

lemma strip_Nil_iff: "strip s = [] \<longleftrightarrow> list_all is_space s"
proof -
  have "list_all is_space (dropWhile is_space s) = list_all is_space s" by (induction s) auto
  then show ?thesis by (simp add: strip_def list_all_iff)
qed

lemma strip_strip [simp]: "strip (strip s) = strip s"
proof -
  define t where "t = dropWhile is_space s"
  define u where "u = rev (dropWhile is_space (rev t))"
  have "dropWhile is_space u = u"
  proof (cases u)
    case (Cons c cs)
    have "prefix u t" unfolding u_def by (metis rev_rev_ident suffix_dropWhile suffix_to_prefix)
    then have "hd t = c" "t \<noteq> []" using Cons by (auto simp: prefix_def)
    then have "\<not> is_space c" using hd_dropWhile[of is_space s] by (simp add: t_def)
    then show ?thesis by (simp add: Cons)
  qed simp
  then show ?thesis by (simp add: strip_def t_def[symmetric] u_def)
qed

text \<open>\<open>s.split(c)\<close> with a one-character separator, and \<open>c.join(parts)\<close>.\<close>

fun split_on :: "char \<Rightarrow> string \<Rightarrow> string list" where
  "split_on c [] = [[]]"
| "split_on c (x # xs) =
     (if x = c then [] # split_on c xs
      else (case split_on c xs of [] \<Rightarrow> [[x]] | p # ps \<Rightarrow> (x # p) # ps))"

fun join :: "string \<Rightarrow> string list \<Rightarrow> string" where
  "join sep [] = []"
| "join sep [p] = p"
| "join sep (p # q # ps) = p @ sep @ join sep (q # ps)"

lemma split_on_not_Nil [simp]: "split_on c s \<noteq> []"
  by (induction s) (auto split: list.splits)

lemma join_Cons: "ps \<noteq> [] \<Longrightarrow> join sep (p # ps) = p @ sep @ join sep ps"
  by (cases ps) auto

lemma join_split_on [simp]: "join [c] (split_on c s) = s"
proof (induction s)
  case (Cons x xs)
  then show ?case
    by (cases "split_on c xs") (auto simp: join_Cons split: list.splits, cases "tl (split_on c xs)", auto)
qed simp

lemma split_on_no_sep: "c \<notin> set s \<Longrightarrow> split_on c s = [s]"
  by (induction s) auto

lemma split_on_append_sep:
  "c \<notin> set p \<Longrightarrow> split_on c (p @ c # s) = p # split_on c s"
  by (induction p) (auto split: list.splits)

lemma split_on_join:
  assumes "ps \<noteq> []" and "\<forall>p\<in>set ps. c \<notin> set p"
  shows "split_on c (join [c] ps) = ps"
  using assms
proof (induction ps)
  case (Cons p ps)
  then show ?case by (cases ps) (auto simp: split_on_no_sep split_on_append_sep)
qed simp

lemma split_on_parts: "p \<in> set (split_on c s) \<Longrightarrow> c \<notin> set p"
proof (induction s arbitrary: p)
  case (Cons x xs)
  then show ?case by (cases "split_on c xs") (auto split: if_splits)
qed simp

subsection \<open>Lines\<close>

text \<open>Text mode: every line ending becomes a newline.\<close>

fun universal_newlines :: "string \<Rightarrow> string" where
  "universal_newlines [] = []"
| "universal_newlines [c] = [if c = CHR 0x0D then CHR 0x0A else c]"
| "universal_newlines (c # d # cs) =
    (if c = CHR 0x0D then CHR 0x0A # (if d = CHR 0x0A then universal_newlines cs else universal_newlines (d # cs))
     else c # universal_newlines (d # cs))"

text \<open>\<open>str.splitlines\<close>: \<open>\r\n\<close> is one line ending, and the last line need not have one.\<close>

definition line_break :: "char \<Rightarrow> bool" where
  "line_break c \<longleftrightarrow> (10 \<le> code c \<and> code c \<le> 13) \<or> (28 \<le> code c \<and> code c \<le> 30) \<or> code c = 133"

function split_lines :: "string \<Rightarrow> string list" where
  "split_lines [] = []"
| "split_lines (c # s) =
    (let line = takeWhile (\<lambda>x. \<not> line_break x) (c # s); rest = dropWhile (\<lambda>x. \<not> line_break x) (c # s) in
     line # (if rest = [] then []
       else if hd rest = CHR 0x0D \<and> tl rest \<noteq> [] \<and> hd (tl rest) = CHR 0x0A then split_lines (tl (tl rest))
       else split_lines (tl rest)))"
  by pat_completeness auto
termination
proof (relation "measure length")
  show "wf (measure length)" by simp
  fix c :: char and s line rest :: string
  assume r: "rest = dropWhile (\<lambda>x. \<not> line_break x) (c # s)" "rest \<noteq> []"
  have "length rest \<le> length (c # s)" unfolding r(1) by (rule length_dropWhile_le)
  then show "(tl rest, c # s) \<in> measure length" using r(2) by (cases rest) auto
  then show "(tl (tl rest), c # s) \<in> measure length" by auto
qed

lemma split_lines_single: "s \<noteq> [] \<Longrightarrow> list_all (\<lambda>c. \<not> line_break c) s \<Longrightarrow> split_lines (s @ [CHR 0x0A]) = [s]"
  by (cases s) (auto simp: Let_def list_all_iff takeWhile_append2 dropWhile_append2 line_break_def)

subsection \<open>Relative paths (\<open>PurePosixPath\<close>)\<close>

definition posix_parts :: "string \<Rightarrow> string list" where
  "posix_parts s = filter (\<lambda>p. p \<noteq> [] \<and> p \<noteq> ''.'') (split_on CHR ''/'' s)"

definition as_posix :: "string \<Rightarrow> string" where
  "as_posix s = (if posix_parts s = [] then ''.'' else join ''/'' (posix_parts s))"

text \<open>\<open>suffix\<close>: from the last dot, if it is neither the first nor the last character.\<close>

definition path_suffix :: "string \<Rightarrow> string" where
  "path_suffix name =
     (let ext = rev (takeWhile (\<lambda>c. c \<noteq> CHR ''.'') (rev name)) in
      if CHR ''.'' \<in> set name \<and> ext \<noteq> [] \<and> length name > length ext + 1 then CHR ''.'' # ext else [])"

subsection \<open>Decimal numerals\<close>

definition digit_char :: "nat \<Rightarrow> char" where
  "digit_char d = char_of (48 + d)"

fun nat_repr :: "nat \<Rightarrow> string" where
  "nat_repr n = (if n < 10 then [digit_char n] else nat_repr (n div 10) @ [digit_char (n mod 10)])"

declare nat_repr.simps [simp del]

definition int_repr :: "int \<Rightarrow> string" where
  "int_repr i = (if i < 0 then ''-'' @ nat_repr (nat (- i)) else nat_repr (nat i))"

text \<open>\<open>f"{n:0w}"\<close>.\<close>

definition zero_padded :: "nat \<Rightarrow> nat \<Rightarrow> string" where
  "zero_padded w n = replicate (w - length (nat_repr n)) CHR ''0'' @ nat_repr n"

fun nat_parse :: "nat \<Rightarrow> string \<Rightarrow> nat" where
  "nat_parse a [] = a"
| "nat_parse a (c # cs) = nat_parse (10 * a + (code c - 48)) cs"

lemma code_digit_char [simp]: "d < 10 \<Longrightarrow> code (digit_char d) = 48 + d"
  by (simp add: code_def digit_char_def)

lemma is_digit_digit_char [simp]: "d < 10 \<Longrightarrow> is_digit (digit_char d)"
  by (simp add: is_digit_def)

lemma nat_repr_digits: "c \<in> set (nat_repr n) \<Longrightarrow> is_digit c"
proof (induction n rule: nat_repr.induct)
  case (1 n)
  then show ?case by (subst (asm) nat_repr.simps) (auto split: if_splits)
qed

lemma nat_repr_not_Nil [simp]: "nat_repr n \<noteq> []"
  by (subst nat_repr.simps) simp

lemma nat_parse_append: "nat_parse a (xs @ ys) = nat_parse (nat_parse a xs) ys"
  by (induction xs arbitrary: a) auto

lemma nat_parse_repr: "nat_parse 0 (nat_repr n) = n"
proof (induction n rule: nat_repr.induct)
  case (1 n)
  then show ?case
    by (subst nat_repr.simps) (auto simp: nat_parse_append)
qed

lemma nat_repr_inj: "nat_repr m = nat_repr n \<longleftrightarrow> m = n"
  by (metis nat_parse_repr)

lemma int_repr_inj: "int_repr i = int_repr j \<longleftrightarrow> i = j"
proof -
  have minus: "CHR ''-'' \<notin> set (nat_repr n)" for n
    using nat_repr_digits[of "CHR ''-''" n] by (auto simp: is_digit_def code_def)
  have "CHR ''-'' # nat_repr m \<noteq> nat_repr n" "nat_repr n \<noteq> CHR ''-'' # nat_repr m" for m n
    using minus[of n] by (metis list.set_intros(1))+
  then show ?thesis
    by (auto simp: int_repr_def nat_repr_inj)
qed

section \<open>Dictionaries\<close>

text \<open>A Python dict is an association list in insertion order; assignment is
  \<^const>\<open>AList.update\<close>, which keeps the position of a key that is present and appends a new
  one, \<open>pop\<close> is \<^const>\<open>AList.delete\<close>.\<close>

type_synonym 'v dict = "(string \<times> 'v) list"

definition keys :: "('k \<times> 'v) list \<Rightarrow> 'k set" where
  "keys d = set (map fst d)"

lemma keys_dom: "keys d = dom (map_of d)"
  by (simp add: keys_def dom_map_of_conv_image_fst)

lemma keys_update [simp]: "keys (AList.update k v d) = insert k (keys d)"
  by (auto simp: keys_dom update_conv)

lemma keys_delete [simp]: "keys (AList.delete k d) = keys d - {k}"
  by (auto simp: keys_dom delete_conv split: if_splits)

lemma map_of_update [simp]: "map_of (AList.update k v d) k' = (if k' = k then Some v else map_of d k')"
  by (simp add: update_conv)

lemma map_of_delete [simp]: "map_of (AList.delete k d) k' = (if k' = k then None else map_of d k')"
  by (simp add: delete_conv)

text \<open>Sorting by key is stable, so it does not change what a key reads.\<close>

lemma map_of_filter_key:
  "map_of xs k = (case filter (\<lambda>x. fst x = k) xs of [] \<Rightarrow> None | x # _ \<Rightarrow> Some (snd x))"
  by (induction xs) auto

lemma filter_sort_key_same: "filter (\<lambda>x. f x = k) (sort_key f xs) = filter (\<lambda>x. f x = k) xs"
  by (metis (mono_tags, lifting) sort_key_stable)

lemma map_of_sort_key [simp]: "map_of (sort_key fst xs) k = map_of xs k"
  by (simp add: map_of_filter_key[of _ k] filter_sort_key_same)

lemma distinct_map_mset: "mset xs = mset ys \<Longrightarrow> distinct (map f xs) = distinct (map f ys)"
  by (metis mset_eq_imp_distinct_iff mset_map)

lemma distinct_map_sort_key [simp]: "distinct (map f (sort_key g xs)) = distinct (map f xs)"
  by (metis mset_sort distinct_map_mset)

section \<open>Contracts of state machines\<close>

text \<open>A component whose operations keep an invariant. Each component that has state interprets
  this locale with its own step relation, and inherits that the invariant holds after any
  sequence of operations.\<close>

locale kept_invariant =
  fixes step :: "'s \<Rightarrow> 's \<Rightarrow> bool"
    and inv :: "'s \<Rightarrow> bool"
  assumes step_inv: "step s t \<Longrightarrow> inv s \<Longrightarrow> inv t"
begin

lemma run_inv: "step\<^sup>*\<^sup>* s t \<Longrightarrow> inv s \<Longrightarrow> inv t"
  by (induction rule: rtranclp_induct) (auto intro: step_inv)

end

text \<open>A component whose state only grows along a preorder: evidence that is never rewritten,
  counters that never go back.\<close>

locale respected_preorder =
  fixes step :: "'s \<Rightarrow> 's \<Rightarrow> bool"
    and le :: "'s \<Rightarrow> 's \<Rightarrow> bool"
  assumes step_le: "step s t \<Longrightarrow> le s t"
    and le_refl: "le s s"
    and le_trans: "le s t \<Longrightarrow> le t u \<Longrightarrow> le s u"
begin

lemma run_le: "step\<^sup>*\<^sup>* s t \<Longrightarrow> le s t"
  by (induction rule: rtranclp_induct) (auto intro: le_refl step_le le_trans)

end

sublocale respected_preorder \<subseteq> above: kept_invariant step "le u" for u
  by unfold_locales (auto intro: le_trans step_le)

end
