(* ===== verification/Py_Json.thy ===== *)
theory Py_Json
  imports Py_Prelude
begin

text \<open>
  JSON values as Python sees them after \<open>json.loads\<close>, the operations the program applies to
  them (\<open>dict.get\<close>, truth value, \<open>==\<close>, \<open>str\<close>), and the canonical serialisation
  \<open>json.dumps(value, sort_keys=True, separators=(",", ":"), ensure_ascii=True)\<close> that every digest
  and signature of the program is taken over. A float is represented by its \<open>repr\<close>. The main
  result is that the canonical bytes determine the value up to the order of object keys: it is
  the fact that makes a digest pin of a manifest meaningful. It is stated as the contract
  \<open>canonical_encoding\<close>, interpreted here on \<open>dumps\<close> and used by the release and queue theories.
\<close>

section \<open>Values\<close>

datatype json =
  JNull
| JBool bool
| JInt int
| JFloat string
| JStr string
| JArr "json list"
| JObj "(string \<times> json) list"

type_synonym jobj = "(string \<times> json) list"

text \<open>\<open>d.get(k)\<close>: a missing key reads as \<open>None\<close>.\<close>

definition dget :: "jobj \<Rightarrow> string \<Rightarrow> json" where
  "dget d k = (case map_of d k of None \<Rightarrow> JNull | Some v \<Rightarrow> v)"

fun is_str :: "json \<Rightarrow> bool" where
  "is_str (JStr _) = True" | "is_str _ = False"

fun is_obj :: "json \<Rightarrow> bool" where
  "is_obj (JObj _) = True" | "is_obj _ = False"

fun is_arr :: "json \<Rightarrow> bool" where
  "is_arr (JArr _) = True" | "is_arr _ = False"

text \<open>\<open>isinstance(v, int) and not isinstance(v, bool)\<close>.\<close>

fun is_int :: "json \<Rightarrow> bool" where
  "is_int (JInt _) = True" | "is_int _ = False"

fun str_of :: "json \<Rightarrow> string" where
  "str_of (JStr s) = s" | "str_of _ = []"

fun obj_of :: "json \<Rightarrow> jobj" where
  "obj_of (JObj d) = d" | "obj_of _ = []"

fun arr_of :: "json \<Rightarrow> json list" where
  "arr_of (JArr xs) = xs" | "arr_of _ = []"

fun int_of :: "json \<Rightarrow> int" where
  "int_of (JInt i) = i" | "int_of _ = 0"

text \<open>A value that can be a member of a set; a list or a dict raises \<open>TypeError\<close>.\<close>

fun hashable :: "json \<Rightarrow> bool" where
  "hashable (JArr _) = False" | "hashable (JObj _) = False" | "hashable _ = True"

text \<open>The truth value of a value.\<close>

fun truthy :: "json \<Rightarrow> bool" where
  "truthy JNull = False"
| "truthy (JBool b) = b"
| "truthy (JInt i) = (i \<noteq> 0)"
| "truthy (JFloat t) = (t \<noteq> ''0.0'' \<and> t \<noteq> ''-0.0'')"
| "truthy (JStr s) = (s \<noteq> [])"
| "truthy (JArr xs) = (xs \<noteq> [])"
| "truthy (JObj d) = (d \<noteq> [])"

text \<open>\<open>v is True\<close>.\<close>

definition is_true :: "json \<Rightarrow> bool" where
  "is_true v \<longleftrightarrow> v = JBool True"

section \<open>Equality\<close>

text \<open>Python's \<open>==\<close> identifies \<open>True\<close> with 1, integral floats with integers and dicts that differ
  in the order of their keys. The integral floats below 10^16 are exactly those whose \<open>repr\<close> is a
  decimal numeral followed by \<open>.0\<close>; larger floats are kept apart from integers.\<close>

definition float_int :: "string \<Rightarrow> int option" where
  "float_int t =
     (let neg = (t \<noteq> [] \<and> hd t = CHR ''-''); body = (if neg then tl t else t);
          ds = takeWhile is_digit body
      in if ds \<noteq> [] \<and> body = ds @ ''.0''
         then Some (if neg then - int (nat_parse 0 ds) else int (nat_parse 0 ds)) else None)"

primrec eq_norm :: "json \<Rightarrow> json" where
  "eq_norm JNull = JNull"
| "eq_norm (JBool b) = JInt (if b then 1 else 0)"
| "eq_norm (JInt i) = JInt i"
| "eq_norm (JFloat t) = (case float_int t of Some i \<Rightarrow> JInt i | None \<Rightarrow> JFloat t)"
| "eq_norm (JStr s) = JStr s"
| "eq_norm (JArr xs) = JArr (map eq_norm xs)"
| "eq_norm (JObj d) = JObj (sort_key fst (map (map_prod id eq_norm) d))"

definition py_eq :: "json \<Rightarrow> json \<Rightarrow> bool" where
  "py_eq a b \<longleftrightarrow> eq_norm a = eq_norm b"

text \<open>\<open>v in {s1, ..., sn}\<close> for strings; the caller checks \<^const>\<open>hashable\<close> where it matters.\<close>

definition in_strs :: "json \<Rightarrow> string list \<Rightarrow> bool" where
  "in_strs v ss \<longleftrightarrow> is_str v \<and> str_of v \<in> set ss"

section \<open>Printing\<close>

subsection \<open>\<open>str(v)\<close>\<close>

definition hex_char :: "nat \<Rightarrow> char" where
  "hex_char d = (if d < 10 then char_of (48 + d) else char_of (87 + d))"

definition hex2 :: "char \<Rightarrow> string" where
  "hex2 c = [hex_char (code c div 16), hex_char (code c mod 16)]"

definition repr_char :: "char \<Rightarrow> char \<Rightarrow> string" where
  "repr_char q c =
     (if c = q \<or> code c = 92 then [CHR 0x5C, c]
      else if code c = 9 then [CHR 0x5C, CHR ''t'']
      else if code c = 10 then [CHR 0x5C, CHR ''n'']
      else if code c = 13 then [CHR 0x5C, CHR ''r'']
      else if code c < 32 \<or> (127 \<le> code c \<and> code c \<le> 160) \<or> code c = 173
        then [CHR 0x5C, CHR ''x''] @ hex2 c
      else [c])"

definition str_repr :: "string \<Rightarrow> string" where
  "str_repr s =
     (let q = (if CHR 0x27 \<in> set s \<and> CHR 0x22 \<notin> set s then CHR 0x22 else CHR 0x27)
      in [q] @ concat (map (repr_char q) s) @ [q])"

primrec py_repr :: "json \<Rightarrow> string" where
  "py_repr JNull = ''None''"
| "py_repr (JBool b) = (if b then ''True'' else ''False'')"
| "py_repr (JInt i) = int_repr i"
| "py_repr (JFloat t) = t"
| "py_repr (JStr s) = str_repr s"
| "py_repr (JArr xs) = ''['' @ join '', '' (map py_repr xs) @ '']''"
| "py_repr (JObj d) =
     ''{'' @ join '', '' (map (\<lambda>(k, r). str_repr k @ '': '' @ r) (map (map_prod id py_repr) d)) @ ''}''"

fun py_str :: "json \<Rightarrow> string" where
  "py_str (JStr s) = s"
| "py_str v = py_repr v"

text \<open>\<open>str(v or "")\<close>.\<close>

definition str_or_empty :: "json \<Rightarrow> string" where
  "str_or_empty v = (if truthy v then py_str v else [])"

subsection \<open>\<open>json.dumps\<close>, canonical form\<close>

definition esc_char :: "char \<Rightarrow> string" where
  "esc_char c =
     (if code c = 34 \<or> code c = 92 then [CHR 0x5C, c]
      else if code c = 10 then [CHR 0x5C, CHR ''n'']
      else if code c = 13 then [CHR 0x5C, CHR ''r'']
      else if code c = 9 then [CHR 0x5C, CHR ''t'']
      else if code c = 12 then [CHR 0x5C, CHR ''f'']
      else if code c = 8 then [CHR 0x5C, CHR ''b'']
      else if 32 \<le> code c \<and> code c \<le> 126 then [c]
      else [CHR 0x5C, CHR ''u'', CHR ''0'', CHR ''0''] @ hex2 c)"

definition dumps_str :: "string \<Rightarrow> string" where
  "dumps_str s = CHR 0x22 # concat (map esc_char s) @ [CHR 0x22]"

primrec sort_keys :: "json \<Rightarrow> json" where
  "sort_keys JNull = JNull"
| "sort_keys (JBool b) = JBool b"
| "sort_keys (JInt i) = JInt i"
| "sort_keys (JFloat t) = JFloat t"
| "sort_keys (JStr s) = JStr s"
| "sort_keys (JArr xs) = JArr (map sort_keys xs)"
| "sort_keys (JObj d) = JObj (sort_key fst (map (map_prod id sort_keys) d))"

text \<open>Printing in the order the object has its keys.\<close>

primrec print_json :: "json \<Rightarrow> string" where
  "print_json JNull = ''null''"
| "print_json (JBool b) = (if b then ''true'' else ''false'')"
| "print_json (JInt i) = int_repr i"
| "print_json (JFloat t) = t"
| "print_json (JStr s) = dumps_str s"
| "print_json (JArr xs) = ''['' @ join '','' (map print_json xs) @ '']''"
| "print_json (JObj d) =
     ''{'' @ join '','' (map (\<lambda>(k, r). dumps_str k @ '':'' @ r) (map (map_prod id print_json) d)) @ ''}''"

definition dumps :: "json \<Rightarrow> string" where
  "dumps v = print_json (sort_keys v)"

text \<open>\<open>json.dumps(v, indent=2, sort_keys=True)\<close>.\<close>

definition newline_indent :: "nat \<Rightarrow> string" where
  "newline_indent n = CHR 0x0A # replicate (2 * n) CHR '' ''"

primrec print_indented :: "json \<Rightarrow> nat \<Rightarrow> string" where
  "print_indented JNull = (\<lambda>n. ''null'')"
| "print_indented (JBool b) = (\<lambda>n. if b then ''true'' else ''false'')"
| "print_indented (JInt i) = (\<lambda>n. int_repr i)"
| "print_indented (JFloat t) = (\<lambda>n. t)"
| "print_indented (JStr s) = (\<lambda>n. dumps_str s)"
| "print_indented (JArr xs) = (\<lambda>n. if xs = [] then ''[]'' else
     ''['' @ newline_indent (n + 1) @ join ('','' @ newline_indent (n + 1)) (map (\<lambda>p. p (n + 1)) (map print_indented xs))
       @ newline_indent n @ '']'')"
| "print_indented (JObj d) = (\<lambda>n. if d = [] then ''{}'' else
     ''{'' @ newline_indent (n + 1) @ join ('','' @ newline_indent (n + 1))
       (map (\<lambda>(k, p). dumps_str k @ '': '' @ p (n + 1)) (map (map_prod id print_indented) d))
       @ newline_indent n @ ''}'')"

definition dumps_indent :: "json \<Rightarrow> string" where
  "dumps_indent v = print_indented (sort_keys v) 0"

text \<open>The texts \<open>float.__repr__\<close> can give: a numeral with a fraction point or an exponent, never
  one that could also be read as an integer.\<close>

definition float_text :: "string \<Rightarrow> bool" where
  "float_text t \<longleftrightarrow> t \<noteq> [] \<and> (\<forall>c\<in>set t. is_digit c \<or> c \<in> set ''.e+-'')
     \<and> (\<exists>c\<in>set t. c \<in> set ''.e'') \<and> (is_digit (hd t) \<or> hd t = CHR ''-'')"

primrec wf_json :: "json \<Rightarrow> bool" where
  "wf_json JNull = True"
| "wf_json (JBool b) = True"
| "wf_json (JInt i) = True"
| "wf_json (JFloat t) = float_text t"
| "wf_json (JStr s) = True"
| "wf_json (JArr xs) = list_all id (map wf_json xs)"
| "wf_json (JObj d) = list_all snd (map (map_prod id wf_json) d)"

section \<open>Lemmas on values\<close>

lemma py_eq_refl [simp]: "py_eq a a" and py_eq_sym: "py_eq a b \<Longrightarrow> py_eq b a"
  and py_eq_trans: "py_eq a b \<Longrightarrow> py_eq b c \<Longrightarrow> py_eq a c"
  by (auto simp: py_eq_def)

lemma float_int_float: "eq_norm (JFloat t) \<noteq> JStr s" "eq_norm (JFloat t) \<noteq> JNull"
  "eq_norm (JFloat t) \<noteq> JArr xs" "eq_norm (JFloat t) \<noteq> JObj d"
  by (auto split: option.splits)

lemma py_eq_JStr [simp]: "py_eq v (JStr s) \<longleftrightarrow> v = JStr s" "py_eq (JStr s) v \<longleftrightarrow> v = JStr s"
  by (cases v; auto simp: py_eq_def split: option.splits)+

lemma py_eq_JNull [simp]: "py_eq v JNull \<longleftrightarrow> v = JNull" "py_eq JNull v \<longleftrightarrow> v = JNull"
  by (cases v; auto simp: py_eq_def split: option.splits)+

lemma py_eq_JInt_JInt [simp]: "py_eq (JInt i) (JInt j) \<longleftrightarrow> i = j"
  by (simp add: py_eq_def)

lemma py_eq_JArr [simp]: "py_eq (JArr xs) (JArr ys) \<longleftrightarrow> list_all2 py_eq xs ys"
  by (auto simp: py_eq_def[abs_def] list_all2_conv_all_nth list_eq_iff_nth_eq)

lemma py_eq_JArrE:
  assumes "py_eq v (JArr ys)"
  obtains xs where "v = JArr xs" "list_all2 py_eq xs ys"
proof (cases v)
  case (JArr xs)
  with assms that show ?thesis by simp
qed (use assms in \<open>auto simp: py_eq_def split: option.splits\<close>)

lemma py_eq_JArr_JStrs: "py_eq v (JArr (map JStr ss)) \<longleftrightarrow> v = JArr (map JStr ss)"
proof
  assume "py_eq v (JArr (map JStr ss))"
  then obtain xs where v: "v = JArr xs" and "list_all2 py_eq xs (map JStr ss)"
    by (rule py_eq_JArrE)
  then have "xs = map JStr ss"
    by (auto simp: list_all2_conv_all_nth list_eq_iff_nth_eq)
  with v show "v = JArr (map JStr ss)" by simp
qed simp

lemma py_eq_JObj_set:
  assumes "py_eq (JObj d) (JObj e)"
  shows "map_prod id eq_norm ` set d = map_prod id eq_norm ` set e"
proof -
  define A B where "A = map (map_prod id eq_norm) d" and "B = map (map_prod id eq_norm) e"
  from assms have "sort_key fst A = sort_key fst B" by (simp add: py_eq_def A_def B_def)
  then have "set A = set B" by (metis set_sort)
  then show ?thesis by (simp add: A_def B_def)
qed

text \<open>Equal dicts agree on every key.\<close>

lemma map_of_map_prod: "map_of (map (map_prod id f) d) k = map_option f (map_of d k)"
  by (induction d) auto

lemma py_eq_JObj_get:
  assumes "py_eq (JObj d) (JObj e)"
  shows "rel_option py_eq (map_of d k) (map_of e k)"
proof -
  from assms have "map_of (sort_key fst (map (map_prod id eq_norm) d)) k = map_of (sort_key fst (map (map_prod id eq_norm) e)) k"
    by (simp add: py_eq_def)
  then have "map_option eq_norm (map_of d k) = map_option eq_norm (map_of e k)"
    by (simp add: map_of_map_prod)
  then show ?thesis by (cases "map_of d k"; cases "map_of e k") (auto simp: py_eq_def)
qed

lemma py_eq_dget: "py_eq (JObj d) (JObj e) \<Longrightarrow> py_eq (dget d k) (dget e k)"
  using py_eq_JObj_get[of d e k] by (auto simp: dget_def option_rel_Some1 split: option.splits)

lemma py_eq_JObjE:
  assumes "py_eq v (JObj e)"
  obtains d where "v = JObj d"
proof (cases v)
  case (JObj d)
  with that show ?thesis by blast
qed (use assms in \<open>auto simp: py_eq_def split: option.splits\<close>)

lemma py_eq_str_of: "py_eq a b \<Longrightarrow> str_of a = str_of b"
  by (cases a; cases b) (auto simp: py_eq_def split: option.splits)

lemma is_str_iff: "is_str v \<longleftrightarrow> (\<exists>s. v = JStr s)"
  by (cases v) auto

lemma is_obj_iff: "is_obj v \<longleftrightarrow> (\<exists>d. v = JObj d)"
  by (cases v) auto

lemma is_arr_iff: "is_arr v \<longleftrightarrow> (\<exists>xs. v = JArr xs)"
  by (cases v) auto

lemma is_int_iff: "is_int v \<longleftrightarrow> (\<exists>i. v = JInt i)"
  by (cases v) auto

lemma dget_Nil [simp]: "dget [] k = JNull"
  and dget_Cons [simp]: "dget ((k', v) # d) k = (if k = k' then v else dget d k)"
  by (simp_all add: dget_def)

lemma keys_Cons [simp]: "keys [] = {}" "keys (kv # d) = insert (fst kv) (keys d)"
  by (simp_all add: keys_def)

lemma dget_update [simp]: "dget (AList.update k v d) k' = (if k' = k then v else dget d k')"
  by (simp add: dget_def)

lemma dget_delete [simp]: "dget (AList.delete k d) k' = (if k' = k then JNull else dget d k')"
  by (simp add: dget_def)

lemma dget_not_null_key: "dget d k \<noteq> JNull \<Longrightarrow> k \<in> keys d"
  by (auto simp: dget_def keys_dom split: option.splits)

section \<open>Canonical bytes determine the value\<close>

lemma code_less_256 [simp]: "code c < 256"
  by (simp add: code_def)

lemma char_of_code [simp]: "char_of (code c) = c"
  by (simp add: code_def)

lemma code_inj [simp]: "code c = code d \<longleftrightarrow> c = d"
  by (metis char_of_code)

lemma code_char_of [simp]: "n < 256 \<Longrightarrow> code (char_of n) = n"
  by (simp add: code_def)

subsection \<open>Strings are self-delimiting\<close>

definition hexval :: "char \<Rightarrow> nat" where
  "hexval c = (if code c < 58 then code c - 48 else code c - 87)"

fun unesc :: "string \<Rightarrow> (char \<times> string) option" where
  "unesc [] = None"
| "unesc (c # cs) =
     (if code c \<noteq> 92 then Some (c, cs)
      else (case cs of [] \<Rightarrow> None | d # ds \<Rightarrow>
        (if d = CHR ''n'' then Some (CHR 0x0A, ds)
         else if d = CHR ''r'' then Some (CHR 0x0D, ds)
         else if d = CHR ''t'' then Some (CHR 0x09, ds)
         else if d = CHR ''f'' then Some (CHR 0x0C, ds)
         else if d = CHR ''b'' then Some (CHR 0x08, ds)
         else if d = CHR ''u'' then Some (char_of (16 * hexval (ds ! 2) + hexval (ds ! 3)), drop 4 ds)
         else Some (d, ds))))"

lemma hexval_hex_char [simp]: "n < 16 \<Longrightarrow> hexval (hex_char n) = n"
  by (auto simp: hexval_def hex_char_def)

lemma code_lit:
  "code c = 34 \<longleftrightarrow> c = CHR 0x22" "code c = 92 \<longleftrightarrow> c = CHR 0x5C" "code c = 10 \<longleftrightarrow> c = CHR 0x0A"
  "code c = 13 \<longleftrightarrow> c = CHR 0x0D" "code c = 9 \<longleftrightarrow> c = CHR 0x09" "code c = 12 \<longleftrightarrow> c = CHR 0x0C"
  "code c = 8 \<longleftrightarrow> c = CHR 0x08"
  using code_inj[of c "CHR 0x22"] code_inj[of c "CHR 0x5C"] code_inj[of c "CHR 0x0A"]
    code_inj[of c "CHR 0x0D"] code_inj[of c "CHR 0x09"] code_inj[of c "CHR 0x0C"]
    code_inj[of c "CHR 0x08"] by simp_all

lemma unesc_esc: "unesc (esc_char c @ r) = Some (c, r)"
proof (cases "c \<in> {CHR 0x22, CHR 0x5C, CHR 0x0A, CHR 0x0D, CHR 0x09, CHR 0x0C, CHR 0x08}")
  case True
  then show ?thesis by (elim insertE) (simp_all add: esc_char_def)
next
  case False
  have "code c div 16 < 16"
    using code_less_256[of c] by linarith
  then have "char_of (16 * hexval (hex_char (code c div 16)) + hexval (hex_char (code c mod 16))) = c"
    by simp
  with False show ?thesis
    by (simp add: esc_char_def hex2_def code_lit)
qed

lemma esc_char_split: "esc_char c @ r = esc_char d @ s \<Longrightarrow> c = d \<and> r = s"
  by (metis unesc_esc option.inject prod.inject)

lemma esc_char_head: "esc_char c = x # xs \<Longrightarrow> x \<noteq> CHR 0x22"
  by (auto simp: esc_char_def split: if_splits)

lemma esc_char_not_Nil [simp]: "esc_char c \<noteq> []"
  by (simp add: esc_char_def)

lemma esc_concat_split:
  "concat (map esc_char s) @ CHR 0x22 # r = concat (map esc_char t) @ CHR 0x22 # u \<Longrightarrow> s = t \<and> r = u"
proof (induction s arbitrary: t)
  case Nil
  then show ?case by (cases t) (auto simp: Cons_eq_append_conv dest: esc_char_head[OF sym])
next
  case (Cons c s)
  then obtain d t' where t: "t = d # t'"
    by (cases t) (auto simp: append_eq_Cons_conv dest: esc_char_head)
  with Cons.prems have "c = d \<and> concat (map esc_char s) @ CHR 0x22 # r
      = concat (map esc_char t') @ CHR 0x22 # u"
    by (intro esc_char_split) simp
  with Cons.IH t show ?case by auto
qed

lemma dumps_str_split: "dumps_str s @ r = dumps_str t @ u \<Longrightarrow> s = t \<and> r = u"
  using esc_concat_split[of s r t u] by (simp add: dumps_str_def)

subsection \<open>Numbers end at a delimiter\<close>

definition delim :: "string \<Rightarrow> bool" where
  "delim r \<longleftrightarrow> r = [] \<or> hd r \<in> set '',]}''"

definition num_char :: "char \<Rightarrow> bool" where
  "num_char c \<longleftrightarrow> is_digit c \<or> c \<in> set ''.e+-''"

lemma delim_Cons [simp]: "delim (CHR '','' # r)" "delim (CHR '']'' # r)" "delim (CHR ''}'' # r)" "delim []"
  by (simp_all add: delim_def)

lemma takeWhile_num:
  assumes "\<forall>c\<in>set t. num_char c" and "delim r"
  shows "takeWhile num_char (t @ r) = t"
proof (cases r)
  case (Cons c r')
  with assms(2) have "\<not> num_char c"
    by (auto simp: delim_def num_char_def is_digit_def)
  with assms(1) Cons show ?thesis by (auto simp: takeWhile_append)
qed (use assms(1) in \<open>simp add: takeWhile_eq_all_conv\<close>)

lemma num_split:
  assumes "\<forall>c\<in>set t. num_char c" "\<forall>c\<in>set u. num_char c" "delim r" "delim s" "t @ r = u @ s"
  shows "t = u \<and> r = s"
  using takeWhile_num[of t r] takeWhile_num[of u s] assms by (metis same_append_eq)

lemma int_repr_num: "c \<in> set (int_repr i) \<Longrightarrow> is_digit c \<or> c = CHR ''-''"
  by (auto simp: int_repr_def dest: nat_repr_digits split: if_splits)

lemma int_repr_not_Nil [simp]: "int_repr i \<noteq> []"
  by (simp add: int_repr_def)

lemma int_not_float: "float_text t \<Longrightarrow> int_repr i \<noteq> t"
  by (auto simp: float_text_def is_digit_def dest!: int_repr_num)

subsection \<open>Sequences\<close>

lemma join_split:
  assumes inj: "\<And>x y r s. x \<in> set xs \<Longrightarrow> y \<in> set ys \<Longrightarrow> delim r \<Longrightarrow> delim s
      \<Longrightarrow> p x @ r = p y @ s \<Longrightarrow> x = y \<and> r = s"
    and head: "\<And>x. x \<in> set xs \<union> set ys \<Longrightarrow> p x \<noteq> [] \<and> hd (p x) \<noteq> c"
    and c: "c \<in> set '']}''"
    and eq: "join '','' (map p xs) @ c # r = join '','' (map p ys) @ c # s"
  shows "xs = ys \<and> r = s"
  using inj head eq
proof (induction xs arbitrary: ys)
  case Nil
  show ?case
  proof (cases ys)
    case (Cons y ys')
    with Nil.prems(2)[of y] Nil.prems(3) show ?thesis
      by (cases ys'; cases "p y") (auto simp: join_Cons)
  qed (use Nil in simp)
next
  case (Cons x xs)
  have dc: "delim (c # t)" for t using c by (auto simp: delim_def)
  obtain y ys' where ys: "ys = y # ys'"
    using Cons.prems(2)[of x] Cons.prems(3)
    by (cases ys; cases xs; cases "p x") (auto simp: join_Cons)
  define R where "R zs t = (if zs = [] then c # t else CHR '','' # join '','' (map p zs) @ c # t)"
    for zs t
  have cut: "join '','' (p z # map p zs) @ c # t = p z @ R zs t" for z zs t
    by (cases zs) (auto simp: R_def)
  have "delim (R xs r)" "delim (R ys' s)" by (auto simp: R_def dc)
  with Cons.prems(3) have xy: "x = y" and R: "R xs r = R ys' s"
    using Cons.prems(1)[of x y "R xs r" "R ys' s"] by (simp_all add: ys cut del: join.simps)
  have "c \<noteq> CHR '',''" using c by auto
  with R have "join '','' (map p xs) @ c # r = join '','' (map p ys') @ c # s"
    by (auto simp: R_def split: if_splits)
  moreover have "x' \<in> set xs \<Longrightarrow> y' \<in> set ys' \<Longrightarrow> delim r \<Longrightarrow> delim s
      \<Longrightarrow> p x' @ r = p y' @ s \<Longrightarrow> x' = y' \<and> r = s" for x' y' r s
    using Cons.prems(1)[of x' y' r s] by (simp add: ys)
  moreover have "x' \<in> set xs \<union> set ys' \<Longrightarrow> p x' \<noteq> [] \<and> hd (p x') \<noteq> c" for x'
    using Cons.prems(2)[of x'] by (auto simp: ys)
  ultimately have "xs = ys' \<and> r = s"
    by (rule Cons.IH[rotated 2])
  with xy ys show ?case by simp
qed

subsection \<open>The canonical printer is injective\<close>

text \<open>The first character tells the constructor; numbers share theirs.\<close>

fun head_ok :: "json \<Rightarrow> char \<Rightarrow> bool" where
  "head_ok JNull c = (c = CHR ''n'')"
| "head_ok (JBool b) c = (c = (if b then CHR ''t'' else CHR ''f''))"
| "head_ok (JInt _) c = (is_digit c \<or> c = CHR ''-'')"
| "head_ok (JFloat _) c = (is_digit c \<or> c = CHR ''-'')"
| "head_ok (JStr _) c = (c = CHR 0x22)"
| "head_ok (JArr _) c = (c = CHR ''['')"
| "head_ok (JObj _) c = (c = CHR ''{'')"

lemma print_json_head: "wf_json v \<Longrightarrow> \<exists>c cs. print_json v = c # cs \<and> head_ok v c"
proof (cases v)
  case (JInt i)
  then show ?thesis using int_repr_num[of "hd (int_repr i)" i] by (cases "int_repr i") auto
next
  case (JFloat t)
  moreover assume "wf_json v"
  ultimately show ?thesis by (cases t) (auto simp: float_text_def)
qed (auto simp: dumps_str_def)

lemma head_ok_not_close: "head_ok v c \<Longrightarrow> c \<noteq> CHR '']''"
  by (cases v) (auto simp: is_digit_def)

definition json_split :: "json \<Rightarrow> bool" where
  "json_split a \<longleftrightarrow> (\<forall>b r s. wf_json b \<longrightarrow> delim r \<longrightarrow> delim s
     \<longrightarrow> print_json a @ r = print_json b @ s \<longrightarrow> a = b \<and> r = s)"

lemma json_splitD:
  "json_split a \<Longrightarrow> wf_json b \<Longrightarrow> delim r \<Longrightarrow> delim s \<Longrightarrow> print_json a @ r = print_json b @ s
    \<Longrightarrow> a = b \<and> r = s"
  unfolding json_split_def by blast

text \<open>Two values whose texts agree up to a delimiter have the same kind of head.\<close>

lemma same_head:
  assumes "wf_json a" "wf_json b" "print_json a @ r = print_json b @ s"
  obtains c where "head_ok a c" "head_ok b c"
  using print_json_head[OF assms(1)] print_json_head[OF assms(2)] assms(3) that by auto

lemma json_split_num:
  assumes "wf_json a" and a: "print_json a = t" "\<forall>c\<in>set t. num_char c" "a = JInt i \<or> a = JFloat t"
  shows "json_split a"
  unfolding json_split_def
proof (intro allI impI)
  fix b r s
  assume b: "wf_json b" and d: "delim r" "delim s" and eq: "print_json a @ r = print_json b @ s"
  obtain c where "head_ok a c" "head_ok b c" using same_head[OF assms(1) b eq] .
  with a(3) have "(\<exists>j. b = JInt j) \<or> (\<exists>u. b = JFloat u)"
    by (cases b) (auto simp: is_digit_def split: if_splits)
  moreover have "\<forall>c\<in>set (print_json b). num_char c"
    using calculation b by (auto simp: num_char_def float_text_def dest: int_repr_num)
  ultimately show "a = b \<and> r = s"
    using num_split[of t "print_json b" r s] a d eq assms(1) b
    by (auto simp: int_repr_inj dest: int_not_float)
qed

lemma json_split_const:
  assumes "wf_json a" and "case a of JNull \<Rightarrow> True | JBool _ \<Rightarrow> True | JStr _ \<Rightarrow> True | _ \<Rightarrow> False"
  shows "json_split a"
  unfolding json_split_def
proof (intro allI impI)
  fix b r s
  assume b: "wf_json b" and eq: "print_json a @ r = print_json b @ s"
  obtain c where "head_ok a c" "head_ok b c" using same_head[OF assms(1) b eq] .
  with assms(2) eq show "a = b \<and> r = s"
    by (cases a; cases b) (auto simp: is_digit_def dest: dumps_str_split split: if_splits)
qed

lemma json_split_arr:
  assumes "wf_json (JArr xs)" and "\<And>x. x \<in> set xs \<Longrightarrow> json_split x"
  shows "json_split (JArr xs)"
  unfolding json_split_def
proof (intro allI impI)
  fix b r s
  assume b: "wf_json b" and eq: "print_json (JArr xs) @ r = print_json b @ s"
  obtain c where "head_ok (JArr xs) c" "head_ok b c" using same_head[OF assms(1) b eq] .
  then obtain ys where ys: "b = JArr ys"
    by (cases b) (auto simp: is_digit_def split: if_splits)
  with b assms(1) have wf: "\<And>x. x \<in> set xs \<union> set ys \<Longrightarrow> wf_json x"
    by (auto simp: list_all_iff)
  have "xs = ys \<and> r = s"
  proof (rule join_split[where p = print_json and c = "CHR '']''"])
    show "x = y \<and> r = s" if "x \<in> set xs" "y \<in> set ys" "delim r" "delim s"
      "print_json x @ r = print_json y @ s" for x y r s
      using json_splitD[OF assms(2)] that wf by blast
    show "print_json x \<noteq> [] \<and> hd (print_json x) \<noteq> CHR '']''" if "x \<in> set xs \<union> set ys" for x
      using print_json_head[OF wf[OF that]] by (auto dest: head_ok_not_close)
  qed (use eq ys in auto)
  with ys show "JArr xs = b \<and> r = s" by simp
qed

abbreviation print_pair :: "string \<times> json \<Rightarrow> string" where
  "print_pair p \<equiv> dumps_str (fst p) @ '':'' @ print_json (snd p)"

lemma print_json_obj:
  "print_json (JObj d) = ''{'' @ join '','' (map print_pair d) @ ''}''"
  by (simp add: comp_def map_prod_def split_def)

lemma json_split_obj:
  assumes "wf_json (JObj d)" and "\<And>k v. (k, v) \<in> set d \<Longrightarrow> json_split v"
  shows "json_split (JObj d)"
  unfolding json_split_def
proof (intro allI impI)
  fix b r s
  assume b: "wf_json b" and eq: "print_json (JObj d) @ r = print_json b @ s"
  obtain c where "head_ok (JObj d) c" "head_ok b c" using same_head[OF assms(1) b eq] .
  then obtain e where e: "b = JObj e"
    by (cases b) (auto simp: is_digit_def split: if_splits)
  with b assms(1) have wf: "\<And>x. x \<in> set d \<union> set e \<Longrightarrow> wf_json (snd x)"
    by (auto simp: list_all_iff)
  have "d = e \<and> r = s"
  proof (rule join_split[where p = print_pair and c = "CHR ''}''"])
    fix x y r s
    assume x: "x \<in> set d" "y \<in> set e" and dl: "delim r" "delim s"
      and pr: "print_pair x @ r = print_pair y @ s"
    then have k: "fst x = fst y" and "print_json (snd x) @ r = print_json (snd y) @ s"
      by (auto dest: dumps_str_split)
    moreover have "json_split (snd x)" using assms(2)[of "fst x" "snd x"] x(1) by simp
    ultimately show "x = y \<and> r = s"
      using json_splitD[of "snd x" "snd y" r s] x dl wf[of y] by (auto simp: prod_eq_iff)
  qed (use eq e in \<open>auto simp: print_json_obj dumps_str_def simp del: print_json.simps(7)\<close>)
  with e show "JObj d = b \<and> r = s" by simp
qed

lemma print_json_split: "wf_json a \<Longrightarrow> json_split a"
proof (induction a)
  case (JInt i)
  show ?case by (rule json_split_num[of _ "int_repr i" i]) (auto simp: num_char_def dest: int_repr_num)
next
  case (JFloat t)
  then show ?case by (intro json_split_num[of _ t]) (auto simp: num_char_def float_text_def)
next
  case (JArr xs)
  then show ?case by (intro json_split_arr) (auto simp: list_all_iff)
next
  case (JObj d)
  from JObj.prems have "wf_json v" if "(k, v) \<in> set d" for k v
    using that by (auto simp: list_all_iff)
  with JObj.IH have "json_split v" if "(k, v) \<in> set d" for k v
    using that by (metis snds.intros snd_conv)
  with JObj.prems show ?case by (rule json_split_obj)
qed (auto intro: json_split_const)

lemma print_json_inj: "wf_json a \<Longrightarrow> wf_json b \<Longrightarrow> print_json a = print_json b \<longleftrightarrow> a = b"
  using json_splitD[OF print_json_split, of a b "[]" "[]"] by auto

lemma wf_sort_keys [simp]: "wf_json (sort_keys a) = wf_json a"
  by (induction a) (force simp: list_all_iff)+

lemma dumps_inj: "wf_json a \<Longrightarrow> wf_json b \<Longrightarrow> dumps a = dumps b \<longleftrightarrow> sort_keys a = sort_keys b"
  by (simp add: dumps_def print_json_inj)

text \<open>Equal normal forms agree key by key.\<close>

lemma sort_keys_get:
  assumes "distinct (map fst d)" "distinct (map fst e)" "sort_keys (JObj d) = sort_keys (JObj e)"
  shows "map_option sort_keys (map_of d k) = map_option sort_keys (map_of e k)"
proof -
  let ?f = "map (map_prod id sort_keys)"
  have "set (?f d) = set (?f e)"
    using assms(3) by simp (metis set_map set_sort)
  moreover have "distinct (map fst (?f d))" "distinct (map fst (?f e))"
    using assms(1,2) by (simp_all add: comp_def)
  ultimately have "map_of (?f d) = map_of (?f e)"
    by (metis map_of_inject_set)
  moreover have "map_of (?f d) k = map_option sort_keys (map_of d k)" for d k
    by (induction d) auto
  ultimately show ?thesis by metis
qed

lemma sort_keys_leaf [simp]:
  "sort_keys v = JStr s \<longleftrightarrow> v = JStr s" "sort_keys v = JInt i \<longleftrightarrow> v = JInt i"
  "sort_keys v = JBool b \<longleftrightarrow> v = JBool b" "sort_keys v = JNull \<longleftrightarrow> v = JNull"
  by (cases v; auto)+

section \<open>Values that differ only in the order of their keys\<close>

text \<open>\<open>json.loads\<close> gives dicts with distinct keys.\<close>

primrec distinct_keys :: "json \<Rightarrow> bool" where
  "distinct_keys JNull = True"
| "distinct_keys (JBool b) = True"
| "distinct_keys (JInt i) = True"
| "distinct_keys (JFloat t) = True"
| "distinct_keys (JStr s) = True"
| "distinct_keys (JArr xs) = list_all id (map distinct_keys xs)"
| "distinct_keys (JObj d) =
     (distinct (map fst (map (map_prod id distinct_keys) d)) \<and> list_all snd (map (map_prod id distinct_keys) d))"

definition jeqv :: "json \<Rightarrow> json \<Rightarrow> bool" where
  "jeqv a b \<longleftrightarrow> sort_keys a = sort_keys b \<and> distinct_keys a \<and> distinct_keys b"

lemma jeqv_sym: "jeqv a b \<Longrightarrow> jeqv b a"
  by (simp add: jeqv_def)

lemma jeqv_leaf [simp]:
  "jeqv (JStr s) b \<longleftrightarrow> b = JStr s" "jeqv (JInt i) b \<longleftrightarrow> b = JInt i"
  "jeqv (JBool t) b \<longleftrightarrow> b = JBool t" "jeqv JNull b \<longleftrightarrow> b = JNull"
  "jeqv b (JStr s) \<longleftrightarrow> b = JStr s" "jeqv b (JInt i) \<longleftrightarrow> b = JInt i"
  "jeqv b (JBool t) \<longleftrightarrow> b = JBool t" "jeqv b JNull \<longleftrightarrow> b = JNull"
  by (cases b; auto simp: jeqv_def)+

lemma jeqv_float [simp]: "jeqv (JFloat t) b \<longleftrightarrow> b = JFloat t"
  by (cases b) (auto simp: jeqv_def)

lemma jeqv_JArrE:
  assumes "jeqv (JArr xs) b"
  obtains ys where "b = JArr ys" "list_all2 jeqv xs ys"
proof (cases b)
  case (JArr ys)
  with assms have "map sort_keys xs = map sort_keys ys" "\<forall>x\<in>set xs. distinct_keys x" "\<forall>y\<in>set ys. distinct_keys y"
    by (auto simp: jeqv_def list_all_iff)
  then have "list_all2 jeqv xs ys"
    unfolding jeqv_def list_all2_conv_all_nth by (metis length_map nth_map nth_mem)
  with JArr that show ?thesis by blast
qed (use assms in \<open>auto simp: jeqv_def\<close>)

lemma distinct_keys_get: "distinct_keys (JObj d) \<Longrightarrow> distinct_keys (dget d k)"
  by (force simp: dget_def list_all_iff split: option.splits dest: map_of_SomeD)

lemma wf_json_get: "wf_json (JObj d) \<Longrightarrow> wf_json (dget d k)"
  by (force simp: dget_def list_all_iff split: option.splits dest: map_of_SomeD)

lemma jeqv_JObjE:
  assumes "jeqv (JObj d) b"
  obtains e where "b = JObj e" "keys e = keys d" "\<And>k. jeqv (dget d k) (dget e k)"
proof (cases b)
  case (JObj e)
  let ?m = "\<lambda>d k. map_option sort_keys (map_of d k)"
  have "distinct (map fst d)" "distinct (map fst e)"
    using assms by (simp_all add: jeqv_def JObj comp_def)
  then have get: "?m d k = ?m e k" for k
    using assms by (intro sort_keys_get) (simp_all only: jeqv_def JObj)
  have "keys e = keys d"
  proof -
    have "k \<in> keys e \<longleftrightarrow> k \<in> keys d" for k
      using get[of k] by (cases "map_of d k"; cases "map_of e k") (auto simp: keys_dom)
    then show ?thesis by blast
  qed
  moreover have "jeqv (dget d k) (dget e k)" for k
    using get[of k] assms distinct_keys_get[of d k] distinct_keys_get[of e k]
    by (auto simp: jeqv_def JObj dget_def simp del: sort_keys.simps distinct_keys.simps
        split: option.splits)
  ultimately show ?thesis using that JObj by blast
qed (use assms in \<open>auto simp: jeqv_def\<close>)

lemma jeqv_get: "jeqv (JObj d) (JObj e) \<Longrightarrow> jeqv (dget d k) (dget e k)"
  and jeqv_keys: "jeqv (JObj d) (JObj e) \<Longrightarrow> keys e = keys d"
  by (auto elim: jeqv_JObjE)

lemma jeqv_is_str: "jeqv a b \<Longrightarrow> is_str b = is_str a" and jeqv_str_of: "jeqv a b \<Longrightarrow> str_of b = str_of a"
  and jeqv_is_int: "jeqv a b \<Longrightarrow> is_int b = is_int a" and jeqv_int_of: "jeqv a b \<Longrightarrow> int_of b = int_of a"
  by (cases a; cases b; auto simp: jeqv_def)+

lemmas jeqv_reads = jeqv_is_str jeqv_str_of jeqv_is_int jeqv_int_of

text \<open>A list or a dict prints with an opening bracket.\<close>

lemma str_or_empty_jeqv:
  assumes "jeqv a b"
  shows "str_or_empty b = str_or_empty a
     \<or> (str_or_empty a \<noteq> [] \<and> hd (str_or_empty a) \<in> set ''[{'' \<and> str_or_empty b \<noteq> [] \<and> hd (str_or_empty b) \<in> set ''[{'')"
proof (cases a)
  case (JArr xs)
  then obtain ys where "b = JArr ys" "list_all2 jeqv xs ys" using assms jeqv_JArrE by metis
  then show ?thesis using JArr by (auto simp: str_or_empty_def)
next
  case (JObj d)
  then obtain e where "b = JObj e" "keys e = keys d" using assms jeqv_JObjE by metis
  then show ?thesis using JObj by (cases d; cases e) (auto simp: str_or_empty_def keys_def)
qed (use assms in auto)

section \<open>The contract of a canonical encoding\<close>

text \<open>An encoding under which a digest identifies the encoded value: equal codes come from equal
  normal forms. A client that pins a digest and whose two digests agree without a collision has
  pinned the normal form.\<close>

locale canonical_encoding =
  fixes enc :: "'v \<Rightarrow> 'c" and norm :: "'v \<Rightarrow> 'n" and wf :: "'v \<Rightarrow> bool"
  assumes enc_norm: "wf a \<Longrightarrow> wf b \<Longrightarrow> enc a = enc b \<longleftrightarrow> norm a = norm b"
begin

lemma pin_determines:
  assumes "wf a" "wf b" "h (enc a) = h (enc b)"
    and "h (enc a) = h (enc b) \<Longrightarrow> enc a = enc b"
  shows "norm a = norm b"
  using assms enc_norm by blast

lemma pin_stable: "wf a \<Longrightarrow> wf b \<Longrightarrow> norm a = norm b \<Longrightarrow> h (enc a) = h (enc b)"
  using enc_norm by metis

end

interpretation canon: canonical_encoding dumps sort_keys wf_json
  by unfold_locales (rule dumps_inj)

end
