(* ===== verification/Corpus_Release.thy ===== *)
theory Corpus_Release
  imports Py_Base64
begin

text \<open>
  Verification of signed corpus release objects (\<open>src/axiom_encode/corpus_release.py\<close>).

  A release object is a JSON document with a \<open>content\<close> (scopes, artifacts, validation evidence),
  the digest of that content, and an Ed25519 signature over the canonical bytes of the document
  without its signature. \<open>verify_release_object\<close> and the functions it calls are translated one by
  one, in the order of the source, each \<open>raise\<close> with its message. SHA-256, Ed25519 and
  the PEM parser are fields of the record \<open>crypto\<close> that the definitions take as an argument.

  The lemmas show what acceptance establishes: the signature was made by a key of the keyring over
  exactly the bytes that carry the returned inventory, scopes and artifacts are well formed and
  duplicate free, every artifact belongs to a declared scope and every scope has all its artifacts,
  the staged evidence agrees with the scopes, and the content digest pins the whole inventory.
\<close>

section \<open>External primitives\<close>

datatype pem = Pem_invalid | Pem_other_algorithm | Pem_ed25519 string

record crypto =
  sha256 :: "string \<Rightarrow> string"
  ed25519_verify :: "string \<Rightarrow> string \<Rightarrow> string \<Rightarrow> bool"
  load_pem :: "string \<Rightarrow> pem"

section \<open>Data\<close>

record release_artifact =
  artifact_class :: string
  path :: string
  sha256_hex :: string
  byte_count :: int
  row_count :: "int option"

record release_scope =
  jurisdiction :: string
  document_class :: string
  version :: string
  provision_rows :: int
  provision_projection_sha256 :: string
  navigation_projection_sha256 :: string

record verified_release =
  name :: string
  content_sha256 :: string
  selector_sha256 :: string
  scopes :: "release_scope list"
  artifacts :: "release_artifact list"

datatype public_key = Single string | Ring "json list"

text \<open>\<open>CorpusReleaseObjectError\<close> with its message.\<close>

datatype release_error = CorpusReleaseObjectError string

abbreviation fails :: "string \<Rightarrow> (release_error, 'a) result" where
  "fails msg \<equiv> Inl (CorpusReleaseObjectError msg)"

section \<open>Constants and patterns\<close>

definition release_object_schema_v2 :: string where
  "release_object_schema_v2 = ''axiom-corpus/release-object/v2''"

definition release_object_schema_version :: string where
  "release_object_schema_version = ''axiom-corpus/release-object/v3''"

definition complete_expression_dates_profile :: string where
  "complete_expression_dates_profile = ''complete-expression-dates-v1''"

definition artifact_classes :: "string list" where
  "artifact_classes = [''inventory'', ''provisions'', ''coverage'', ''sources'']"

definition document_classes :: "string list" where
  "document_classes = [''district-plan'', ''statute'', ''regulation'', ''guidance'', ''policy'',
     ''manual'', ''form'', ''rulemaking'', ''other'']"

definition sha256_re :: "string \<Rightarrow> bool" where
  "sha256_re s \<longleftrightarrow> length s = 64 \<and> list_all is_hex s"

definition commit_re :: "string \<Rightarrow> bool" where
  "commit_re s \<longleftrightarrow> length s = 40 \<and> list_all is_hex s"

text \<open>\<open>^[a-z0-9]+(?:-[a-z0-9]+)*$\<close>: nonempty runs of lower-case letters and digits, joined by
  hyphens.\<close>

definition release_name_re :: "string \<Rightarrow> bool" where
  "release_name_re s \<longleftrightarrow>
     list_all (\<lambda>p. p \<noteq> [] \<and> list_all (\<lambda>c. is_lower c \<or> is_digit c) p) (split_on CHR ''-'' s)"

text \<open>\<open>^[a-z0-9][a-z0-9._-]{0,255}$\<close>.\<close>

definition scope_component_re :: "string \<Rightarrow> bool" where
  "scope_component_re s \<longleftrightarrow> s \<noteq> [] \<and> length s \<le> 256 \<and> (is_lower (hd s) \<or> is_digit (hd s))
     \<and> list_all (\<lambda>c. is_lower c \<or> is_digit c \<or> c \<in> set ''._-'') (tl s)"

definition path_unsafe :: "string \<Rightarrow> bool" where
  "path_unsafe s \<longleftrightarrow> prefix ''/'' s \<or> CHR 0x5C \<in> set s
     \<or> list_ex (\<lambda>p. p \<in> set ['''', ''.'', ''..'']) (split_on CHR ''/'' s)"

definition is_sha :: "json \<Rightarrow> bool" where
  "is_sha v \<longleftrightarrow> is_str v \<and> sha256_re (str_of v)"

definition nonempty_str :: "json \<Rightarrow> bool" where
  "nonempty_str v \<longleftrightarrow> is_str v \<and> str_of v \<noteq> []"

section \<open>Operations\<close>

definition validate_release_name :: "json \<Rightarrow> (release_error, string) result" where
  "validate_release_name raw =
     (if \<not> is_str raw \<or> length (str_of raw) > 128 \<or> \<not> release_name_re (str_of raw)
      then fails ''release object has an invalid release name''
      else if str_of raw = ''current'' then fails (''legacy mutable release name '' @ [CHR 0x27] @ ''current'' @ [CHR 0x27] @ '' is forbidden'')
      else Inr (str_of raw))"

definition canonical_release_object_bytes :: "jobj \<Rightarrow> string" where
  "canonical_release_object_bytes payload = dumps (JObj (AList.delete ''signature'' payload))"

definition scope_fields :: "string list" where
  "scope_fields = [''jurisdiction'', ''document_class'', ''version'', ''provision_rows'',
     ''navigation_rows'', ''provision_projection_sha256'', ''navigation_projection_sha256'']"

type_synonym identity = "string \<times> string \<times> string"

definition identity_of :: "jobj \<Rightarrow> identity" where
  "identity_of d = (str_or_empty (dget d ''jurisdiction''), str_or_empty (dget d ''document_class''),
     str_or_empty (dget d ''version''))"

definition scope_identity :: "release_scope \<Rightarrow> identity" where
  "scope_identity s = (jurisdiction s, document_class s, version s)"

text \<open>One iteration of the loop of \<open>_validate_scopes\<close>; the state is the list of scopes so far,
  whose identities are the \<open>seen\<close> set.\<close>

definition validate_scope :: "release_scope list \<Rightarrow> json \<Rightarrow> (release_error, release_scope list) result" where
  "validate_scope acc raw =
     (case raw of JObj d \<Rightarrow>
        if keys d \<noteq> set scope_fields then fails ''release object scope does not match the v2 schema'' else
        let (j, c, v) = identity_of d;
            rows = dget d ''provision_rows''; nav = dget d ''navigation_rows'';
            pp = dget d ''provision_projection_sha256''; np = dget d ''navigation_projection_sha256''
        in if \<not> (scope_component_re j \<and> scope_component_re c \<and> scope_component_re v)
              \<or> c \<notin> set document_classes \<or> (j, c, v) \<in> set (map scope_identity acc)
           then fails ''release object contains an invalid or duplicate scope''
           else if \<not> is_int rows \<or> int_of rows \<le> 0 \<or> \<not> is_int nav \<or> int_of nav \<noteq> int_of rows
           then fails ''release object scope has inconsistent row counts''
           else if \<not> is_sha pp \<or> \<not> is_sha np then fails ''release object scope has invalid projection sha256 evidence''
           else Inr (acc @ [\<lparr>jurisdiction = j, document_class = c, version = v,
                  provision_rows = int_of rows, provision_projection_sha256 = str_of pp,
                  navigation_projection_sha256 = str_of np\<rparr>])
      | _ \<Rightarrow> fails ''release object scope does not match the v2 schema'')"

definition validate_scopes :: "json list \<Rightarrow> (release_error, release_scope list) result" where
  "validate_scopes raws = for_each validate_scope [] raws"

definition r2_key :: "string \<Rightarrow> string" where
  "r2_key digest = ''objects/sha256/'' @ take 2 digest @ ''/'' @ digest"

definition artifact_fields :: "json \<Rightarrow> string list" where
  "artifact_fields cls =
     [''artifact_class'', ''path'', ''sha256'', ''bytes'', ''r2_bucket'', ''r2_key'']
       @ (if cls = JStr ''provisions'' then [''rows''] else [])"

text \<open>One iteration of the loop of \<open>_validate_artifacts\<close>; the \<open>seen\<close> set is the set of paths of
  the artifacts so far.\<close>

definition validate_artifact ::
  "string \<Rightarrow> release_artifact list \<Rightarrow> json \<Rightarrow> (release_error, release_artifact list) result" where
  "validate_artifact bucket acc raw =
     (case raw of JObj d \<Rightarrow>
        let cls = dget d ''artifact_class''; pth = dget d ''path''; digest = dget d ''sha256'';
            bytes = dget d ''bytes''; rows = dget d ''rows''; p = str_of pth
        in if keys d \<noteq> set (artifact_fields cls) then fails ''release artifact does not match the v2 schema''
           else if \<not> in_strs cls artifact_classes then fails ''release artifact has an unsupported class''
           else if \<not> is_str pth \<or> \<not> prefix (''data/corpus/'' @ str_of cls @ ''/'') p \<or> path_unsafe p
              \<or> p \<in> set (map path acc) then fails ''release artifact path is non-canonical or duplicated''
           else if \<not> is_sha digest then fails (''release artifact has invalid sha256: '' @ p)
           else if dget d ''r2_key'' \<noteq> JStr (r2_key (str_of digest)) then fails (''release artifact has a non-content-addressed R2 key: '' @ p)
           else if dget d ''r2_bucket'' \<noteq> JStr bucket then fails (''release artifact uses the wrong R2 bucket: '' @ p)
           else if \<not> is_int bytes \<or> int_of bytes < 0 then fails (''release artifact has invalid byte count: '' @ p)
           else if cls = JStr ''provisions'' \<and> (\<not> is_int rows \<or> int_of rows \<le> 0)
             then fails (''release provisions artifact has an invalid row count: '' @ p)
           else Inr (acc @ [\<lparr>artifact_class = str_of cls, path = p, sha256_hex = str_of digest,
                  byte_count = int_of bytes, row_count = (if is_int rows then Some (int_of rows) else None)\<rparr>])
      | _ \<Rightarrow> fails ''release object contains a non-object artifact'')"

definition validate_artifacts :: "json list \<Rightarrow> string \<Rightarrow> (release_error, release_artifact list) result" where
  "validate_artifacts raws bucket =
     bind_r (for_each (validate_artifact bucket) [] raws) (\<lambda>arts.
       if map path arts \<noteq> sort (map path arts) then fails ''release artifacts are not in canonical path order'' else Inr arts)"

definition scope_prefix :: "release_scope \<Rightarrow> string" where
  "scope_prefix s = jurisdiction s @ ''/'' @ document_class s @ ''/'' @ version s"

definition required_artifacts :: "string \<Rightarrow> (string \<times> string) list" where
  "required_artifacts pre =
     [(''inventory'', ''data/corpus/inventory/'' @ pre @ ''.json''),
      (''provisions'', ''data/corpus/provisions/'' @ pre @ ''.jsonl''),
      (''coverage'', ''data/corpus/coverage/'' @ pre @ ''.json'')]"

definition by_path :: "release_artifact list \<Rightarrow> (string \<times> release_artifact) list" where
  "by_path arts = map (\<lambda>a. (path a, a)) arts"

definition claim_required ::
  "release_artifact list \<Rightarrow> string \<Rightarrow> string list \<Rightarrow> string \<times> string \<Rightarrow> (release_error, string list) result" where
  "claim_required arts pre claimed req =
     (case map_of (by_path arts) (snd req) of
        Some a \<Rightarrow> if artifact_class a \<noteq> fst req then fails (''release scope lacks its '' @ fst req @ '' artifact: '' @ pre)
                  else Inr (claimed @ [snd req])
      | None \<Rightarrow> fails (''release scope lacks its '' @ fst req @ '' artifact: '' @ pre))"

definition source_paths :: "release_artifact list \<Rightarrow> string \<Rightarrow> string list" where
  "source_paths arts pre =
     map path (filter (\<lambda>a. prefix (''data/corpus/sources/'' @ pre @ ''/'') (path a)
       \<and> artifact_class a = ''sources'') arts)"

definition claim_scope ::
  "release_artifact list \<Rightarrow> string list \<Rightarrow> release_scope \<Rightarrow> (release_error, string list) result" where
  "claim_scope arts claimed s =
     (let pre = scope_prefix s in
      bind_r (for_each (claim_required arts pre) claimed (required_artifacts pre)) (\<lambda>claimed'.
        case map_of (by_path arts) (''data/corpus/provisions/'' @ pre @ ''.jsonl'') of
          None \<Rightarrow> fails (''release scope lacks its provisions artifact: '' @ pre)
        | Some a \<Rightarrow>
          if row_count a \<noteq> Some (provision_rows s) then fails (''release scope row count does not match its provisions artifact: '' @ pre)
          else if source_paths arts pre = [] then fails (''release scope lacks source artifacts: '' @ pre)
          else Inr (claimed' @ source_paths arts pre)))"

definition validate_scope_artifact_membership ::
  "release_scope list \<Rightarrow> release_artifact list \<Rightarrow> (release_error, unit) result" where
  "validate_scope_artifact_membership scs arts =
     bind_r (for_each (claim_scope arts) [] scs) (\<lambda>claimed.
       if set (map path arts) \<noteq> set claimed then fails ''release object contains artifacts outside its declared scopes'' else Inr ())"

definition staged_fields :: "string list" where
  "staged_fields = [''jurisdiction'', ''document_class'', ''version'', ''expected'', ''actual'',
     ''expected_navigation'', ''actual_navigation'',
     ''expected_provision_projection_sha256'', ''actual_provision_projection_sha256'',
     ''expected_navigation_projection_sha256'', ''actual_navigation_projection_sha256'']"

definition staged_item ::
  "release_scope list \<Rightarrow> identity list \<Rightarrow> json \<Rightarrow> (release_error, identity list) result" where
  "staged_item scs seen item =
     (case item of JObj d \<Rightarrow>
        if keys d \<noteq> set staged_fields then fails ''release staged-count evidence does not match the v2 schema'' else
        let i = identity_of d in
        (case map_of (rev (map (\<lambda>s. (scope_identity s, s)) scs)) i of
           None \<Rightarrow> fails ''release object has invalid staged-count identity''
         | Some s \<Rightarrow>
           if i \<in> set seen then fails ''release object has invalid staged-count identity''
           else if list_ex (\<lambda>f. \<not> is_int (dget d f) \<or> int_of (dget d f) \<noteq> provision_rows s)
               [''expected'', ''actual'', ''expected_navigation'', ''actual_navigation'']
           then fails ''release object staged-count evidence does not match its scope''
           else if list_ex (\<lambda>(f, x). \<not> is_sha (dget d f) \<or> dget d f \<noteq> JStr x)
               [(''expected_provision_projection_sha256'', provision_projection_sha256 s),
                (''actual_provision_projection_sha256'', provision_projection_sha256 s),
                (''expected_navigation_projection_sha256'', navigation_projection_sha256 s),
                (''actual_navigation_projection_sha256'', navigation_projection_sha256 s)]
           then fails ''release object staged projection evidence does not match its scope''
           else Inr (seen @ [i]))
      | _ \<Rightarrow> fails ''release staged-count evidence does not match the v2 schema'')"

definition deep_ok :: "json \<Rightarrow> nat \<Rightarrow> bool" where
  "deep_ok v n \<longleftrightarrow> is_obj v \<and>
     (let d = obj_of v in keys d = set [''error_count'', ''warning_count'', ''scope_count'']
        \<and> is_int (dget d ''error_count'') \<and> int_of (dget d ''error_count'') = 0
        \<and> is_int (dget d ''scope_count'') \<and> int_of (dget d ''scope_count'') = int n
        \<and> is_int (dget d ''warning_count'') \<and> int_of (dget d ''warning_count'') \<ge> 0)"

definition readback_ok :: "json \<Rightarrow> release_artifact list \<Rightarrow> string \<Rightarrow> bool" where
  "readback_ok v arts bucket \<longleftrightarrow> is_obj v \<and>
     (let d = obj_of v in keys d = set [''bucket'', ''artifact_count'', ''artifact_bytes'', ''verified_keys'']
        \<and> is_int (dget d ''artifact_count'') \<and> is_int (dget d ''artifact_bytes'')
        \<and> dget d ''bucket'' = JStr bucket
        \<and> int_of (dget d ''artifact_count'') = int (length arts)
        \<and> int_of (dget d ''artifact_bytes'') = sum_list (map byte_count arts)
        \<and> dget d ''verified_keys'' = JArr (map (\<lambda>a. JStr (r2_key (sha256_hex a))) arts))"

definition validate_validation_attestation ::
  "json \<Rightarrow> release_scope list \<Rightarrow> release_artifact list \<Rightarrow> string \<Rightarrow> string option \<Rightarrow> (release_error, unit) result" where
  "validate_validation_attestation raw scs arts bucket profile =
     (case raw of JObj d \<Rightarrow>
        if keys d \<noteq> set ([''passed'', ''deep_validation'', ''r2_readback'', ''supabase_projection_evidence'']
             @ (if profile \<noteq> None then [''quality_profile''] else []))
           \<or> \<not> is_true (dget d ''passed'') then fails ''release validation does not match its object schema''
        else if profile \<noteq> None \<and> dget d ''quality_profile'' \<noteq> JStr (the profile) then fails ''release validation quality profile is inconsistent''
        else if \<not> deep_ok (dget d ''deep_validation'') (length scs) then fails ''release object deep-validation evidence is inconsistent''
        else if \<not> readback_ok (dget d ''r2_readback'') arts bucket then fails ''release object R2 readback evidence is inconsistent''
        else (case dget d ''supabase_projection_evidence'' of JArr counts \<Rightarrow>
           if length counts \<noteq> length scs then fails ''release object staged-count evidence is incomplete''
           else bind_r (for_each (staged_item scs) [] counts) (\<lambda>_. Inr ())
         | _ \<Rightarrow> fails ''release object staged-count evidence is incomplete'')
      | _ \<Rightarrow> fails ''release validation does not match its object schema'')"

definition content_fields :: "string \<Rightarrow> string list" where
  "content_fields schema =
     [''release'', ''created_at'', ''selector_sha256'', ''corpus_base'', ''git'', ''r2'', ''scopes'',
      ''artifacts'', ''validation'']
       @ (if schema = release_object_schema_version then [''quality_profile''] else [])"

definition git_ok :: "json \<Rightarrow> bool" where
  "git_ok v \<longleftrightarrow> is_obj v \<and>
     (let g = obj_of v in keys g = set [''commit'', ''committed_at'']
        \<and> is_str (dget g ''commit'') \<and> commit_re (str_of (dget g ''commit''))
        \<and> nonempty_str (dget g ''committed_at''))"

definition r2_ok :: "json \<Rightarrow> bool" where
  "r2_ok v \<longleftrightarrow> is_obj v \<and>
     (let r = obj_of v in keys r = set [''bucket'', ''addressing'']
        \<and> nonempty_str (dget r ''bucket'') \<and> dget r ''addressing'' = JStr ''sha256'')"

definition selector_payload :: "string \<Rightarrow> release_scope list \<Rightarrow> string option \<Rightarrow> json" where
  "selector_payload release scs profile =
     JObj ([(''name'', JStr release),
            (''scopes'', JArr (map (\<lambda>s. JObj [(''jurisdiction'', JStr (jurisdiction s)),
               (''document_class'', JStr (document_class s)), (''version'', JStr (version s))]) scs))]
           @ (case profile of None \<Rightarrow> [] | Some p \<Rightarrow> [(''quality_profile'', JStr p)]))"

text \<open>The part of \<open>_validate_unsigned_release_object\<close> after the checks on the document's frame:
  scopes, selector, artifacts, membership, attestation.\<close>

definition validate_release_content ::
  "crypto \<Rightarrow> string \<Rightarrow> string option \<Rightarrow> string \<Rightarrow> jobj \<Rightarrow> (release_error, verified_release) result" where
  "validate_release_content C release profile digest content =
     (case dget content ''scopes'' of JArr raw_scopes \<Rightarrow>
        if raw_scopes = [] then fails ''release object must contain at least one scope'' else
        (case dget content ''artifacts'' of JArr raw_artifacts \<Rightarrow>
           if raw_artifacts = [] then fails ''release object must contain artifact entries'' else
           bind_r (validate_scopes raw_scopes) (\<lambda>scs.
             let sel = dget content ''selector_sha256'';
                 bucket = str_of (dget (obj_of (dget content ''r2'')) ''bucket'')
             in if \<not> is_sha sel \<or> str_of sel \<noteq> sha256 C (dumps (selector_payload release scs profile))
                then fails ''release selector sha256 does not match its scopes''
                else bind_r (validate_artifacts raw_artifacts bucket) (\<lambda>arts.
                  bind_r (validate_scope_artifact_membership scs arts) (\<lambda>_.
                    bind_r (validate_validation_attestation (dget content ''validation'') scs arts bucket profile) (\<lambda>_.
                      Inr \<lparr>name = release, content_sha256 = digest, selector_sha256 = str_of sel,
                            scopes = scs, artifacts = arts\<rparr>))))
         | _ \<Rightarrow> fails ''release object must contain artifact entries'')
      | _ \<Rightarrow> fails ''release object must contain at least one scope'')"

definition validate_unsigned_release_object ::
  "crypto \<Rightarrow> jobj \<Rightarrow> (release_error, verified_release) result" where
  "validate_unsigned_release_object C payload =
     (if \<not> keys payload \<subseteq> set [''schema_version'', ''release'', ''content_sha256'', ''content'', ''signature'']
      then fails ''release object has unsupported top-level fields'' else
      let schema = dget payload ''schema_version'' in
      if \<not> in_strs schema [release_object_schema_v2, release_object_schema_version]
      then fails ''release object uses an unsupported schema version'' else
      bind_r (validate_release_name (dget payload ''release'')) (\<lambda>release.
        case dget payload ''content'' of JObj content \<Rightarrow>
          let v3 = (schema = JStr release_object_schema_version);
              digest = sha256 C (dumps (JObj content))
          in if keys content \<noteq> set (content_fields (str_of schema)) then fails (''release object content does not match the '' @ str_of schema @ '' schema'')
             else if v3 \<and> dget content ''quality_profile'' \<noteq> JStr complete_expression_dates_profile
               then fails ''release object has an unsupported quality profile''
             else if dget content ''release'' \<noteq> JStr release then fails ''release object name does not match its content''
             else if \<not> nonempty_str (dget content ''created_at'') then fails ''release object has an invalid creation time''
             else if \<not> git_ok (dget content ''git'') then fails ''release object has invalid git provenance''
             else if dget payload ''content_sha256'' \<noteq> JStr digest then fails ''release object content sha256 does not match''
             else if dget content ''corpus_base'' \<noteq> JStr ''data/corpus'' then fails ''release object uses a non-canonical corpus base''
             else if \<not> r2_ok (dget content ''r2'') then fails ''release object has an invalid R2 content boundary''
             else validate_release_content C release
                    (if v3 then Some complete_expression_dates_profile else None) digest content
        | _ \<Rightarrow> fails (''release object content does not match the '' @ str_of schema @ '' schema'')))"

definition release_public_keyring :: "public_key \<Rightarrow> (release_error, string list) result" where
  "release_public_keyring k =
     (case k of Single s \<Rightarrow> Inr [s]
      | Ring ks \<Rightarrow> if ks = [] then fails ''release public keyring must not be empty''
                   else if list_ex (\<lambda>v. \<not> is_str v) ks then fails ''release public keyring must contain only encoded public keys''
                   else Inr (map str_of ks))"

text \<open>\<open>text.replace("\\n", "\n")\<close>: the two characters backslash and n become a line feed.\<close>

fun unescape_newlines :: "string \<Rightarrow> string" where
  "unescape_newlines (a # b # r) =
     (if a = CHR 0x5C \<and> b = CHR ''n'' then CHR 0x0A # unescape_newlines r
      else a # unescape_newlines (b # r))"
| "unescape_newlines r = r"

definition load_ed25519_public_key :: "crypto \<Rightarrow> string \<Rightarrow> (release_error, string) result" where
  "load_ed25519_public_key C key =
     (let txt = unescape_newlines (strip key) in
      if prefix ''-----BEGIN '' txt then
        (case load_pem C txt of Pem_invalid \<Rightarrow> fails ''release public key PEM is invalid'' | Pem_other_algorithm \<Rightarrow> fails ''release public key must be Ed25519''
         | Pem_ed25519 raw \<Rightarrow> Inr raw)
      else if list_ex (\<lambda>c. code c \<ge> 128) txt then fails ''release public key must be raw base64 or PEM''
      else (case b64decode txt of None \<Rightarrow> fails ''release public key must be raw base64 or PEM''
            | Some raw \<Rightarrow> if length raw \<noteq> 32 then fails ''release public key must decode to 32 bytes'' else Inr raw))"

definition decode_signature :: "json \<Rightarrow> (release_error, string) result" where
  "decode_signature v =
     (case v of JObj s \<Rightarrow>
        if keys s \<noteq> set [''algorithm'', ''key_id'', ''value''] then fails ''release object signature does not match the v2 schema''
        else if dget s ''algorithm'' \<noteq> JStr ''ed25519'' then fails ''release object uses an unsupported signature algorithm''
        else if dget s ''key_id'' \<noteq> JStr ''axiom-corpus-release-v2'' then fails ''release object uses an unknown signing key''
        else (case dget s ''value'' of JStr encoded \<Rightarrow>
           if list_ex (\<lambda>c. code c \<ge> 128) encoded then fails ''release object signature encoding is invalid''
           else (case b64decode encoded of None \<Rightarrow> fails ''release object signature encoding is invalid''
                 | Some raw \<Rightarrow> if length raw \<noteq> 64 then fails ''release object signature has invalid length'' else Inr raw)
         | _ \<Rightarrow> fails ''release object signature value is missing'')
      | _ \<Rightarrow> fails ''release object signature does not match the v2 schema'')"

definition verify_release_object ::
  "crypto \<Rightarrow> jobj \<Rightarrow> public_key \<Rightarrow> (release_error, verified_release) result" where
  "verify_release_object C payload k =
     bind_r (validate_unsigned_release_object C payload) (\<lambda>verified.
       bind_r (decode_signature (dget payload ''signature'')) (\<lambda>raw_signature.
         bind_r (release_public_keyring k) (\<lambda>public_keys.
           bind_r (map_r (load_ed25519_public_key C) public_keys) (\<lambda>loaded.
             if list_ex (\<lambda>key. ed25519_verify C key raw_signature (canonical_release_object_bytes payload)) loaded
             then Inr verified else fails ''release object signature is invalid''))))"

section \<open>What an accepted inventory satisfies\<close>

definition scope_wf :: "release_scope \<Rightarrow> bool" where
  "scope_wf s \<longleftrightarrow> scope_component_re (jurisdiction s) \<and> scope_component_re (document_class s)
     \<and> scope_component_re (version s) \<and> document_class s \<in> set document_classes
     \<and> provision_rows s > 0 \<and> sha256_re (provision_projection_sha256 s)
     \<and> sha256_re (navigation_projection_sha256 s)"

definition artifact_wf :: "release_artifact \<Rightarrow> bool" where
  "artifact_wf a \<longleftrightarrow> artifact_class a \<in> set artifact_classes
     \<and> prefix (''data/corpus/'' @ artifact_class a @ ''/'') (path a) \<and> \<not> path_unsafe (path a)
     \<and> sha256_re (sha256_hex a) \<and> byte_count a \<ge> 0
     \<and> (artifact_class a = ''provisions'' \<longrightarrow> (\<exists>n>0. row_count a = Some n))"

text \<open>The paths a scope claims: its three required artifacts and its sources.\<close>

definition scope_paths :: "release_artifact list \<Rightarrow> release_scope \<Rightarrow> string set" where
  "scope_paths arts s = snd ` set (required_artifacts (scope_prefix s)) \<union> set (source_paths arts (scope_prefix s))"

lemma validate_scope_Inr:
  assumes "validate_scope acc raw = Inr acc'"
  obtains s where "acc' = acc @ [s]" "scope_wf s" "scope_identity s \<notin> set (map scope_identity acc)"
proof (cases raw)
  case (JObj d)
  obtain j c v where id: "identity_of d = (j, c, v)" by (cases "identity_of d") auto
  show ?thesis
    using assms that[of "last acc'"]
    by (auto simp: validate_scope_def JObj id Let_def scope_wf_def scope_identity_def is_sha_def)
qed (use assms in \<open>auto simp: validate_scope_def\<close>)

lemma validate_scopes_Inr:
  assumes "validate_scopes raws = Inr scs"
  shows "distinct (map scope_identity scs) \<and> (\<forall>s\<in>set scs. scope_wf s) \<and> length scs = length raws"
  using assms unfolding validate_scopes_def
  by (rule for_each_rule) (auto elim!: validate_scope_Inr)

lemma validate_artifact_Inr:
  assumes "validate_artifact bucket acc raw = Inr acc'"
  obtains a where "acc' = acc @ [a]" "artifact_wf a" "path a \<notin> set (map path acc)"
proof (cases raw)
  case (JObj d)
  show ?thesis
    using assms that[of "last acc'"]
    by (auto simp: validate_artifact_def JObj Let_def artifact_wf_def in_strs_def is_sha_def is_str_iff)
qed (use assms in \<open>auto simp: validate_artifact_def\<close>)

lemma validate_artifacts_Inr:
  assumes "validate_artifacts raws bucket = Inr arts"
  shows "distinct (map path arts) \<and> sorted (map path arts) \<and> (\<forall>a\<in>set arts. artifact_wf a)
    \<and> length arts = length raws"
proof -
  from assms have loop: "for_each (validate_artifact bucket) [] raws = Inr arts"
    and srt: "map path arts = sort (map path arts)"
    by (auto simp: validate_artifacts_def)
  from loop have "distinct (map path arts) \<and> (\<forall>a\<in>set arts. artifact_wf a) \<and> length arts = length raws"
    by (rule for_each_rule) (auto elim!: validate_artifact_Inr)
  moreover have "sorted (map path arts)"
    using srt by (metis sorted_sort)
  ultimately show ?thesis by simp
qed

lemma claim_required_Inr:
  "claim_required arts pre claimed req = Inr claimed' \<longleftrightarrow>
     (\<exists>a. map_of (by_path arts) (snd req) = Some a \<and> artifact_class a = fst req \<and> claimed' = claimed @ [snd req])"
  by (auto simp: claim_required_def split: option.splits)

lemma by_path_Some: "map_of (by_path arts) p = Some a \<Longrightarrow> a \<in> set arts \<and> path a = p"
  by (auto simp: by_path_def dest: map_of_SomeD)

lemma claim_all_required:
  assumes "for_each (claim_required arts pre) claimed reqs = Inr claimed'"
  shows "claimed' = claimed @ map snd reqs \<and>
    (\<forall>req\<in>set reqs. \<exists>a\<in>set arts. path a = snd req \<and> artifact_class a = fst req)"
  using assms
  by (rule for_each_rule) (auto simp: claim_required_Inr dest: by_path_Some)

lemma claim_scope_Inr:
  assumes "claim_scope arts claimed s = Inr claimed'"
  shows "set claimed' = set claimed \<union> scope_paths arts s"
    and "\<forall>req\<in>set (required_artifacts (scope_prefix s)).
      \<exists>a\<in>set arts. path a = snd req \<and> artifact_class a = fst req"
    and "source_paths arts (scope_prefix s) \<noteq> []"
    and "\<exists>a\<in>set arts. path a = ''data/corpus/provisions/'' @ scope_prefix s @ ''.jsonl''
      \<and> row_count a = Some (provision_rows s)"
proof -
  let ?pre = "scope_prefix s"
  from assms obtain c a
    where req: "for_each (claim_required arts ?pre) claimed (required_artifacts ?pre) = Inr c"
      and a: "map_of (by_path arts) (''data/corpus/provisions/'' @ ?pre @ ''.jsonl'') = Some a"
      and rows: "row_count a = Some (provision_rows s)"
      and src: "source_paths arts ?pre \<noteq> []" "claimed' = c @ source_paths arts ?pre"
    unfolding claim_scope_def Let_def by (auto split: option.splits)
  note c = claim_all_required[OF req]
  show "set claimed' = set claimed \<union> scope_paths arts s"
    using c src by (auto simp: scope_paths_def)
  show "\<forall>req\<in>set (required_artifacts ?pre). \<exists>a\<in>set arts. path a = snd req \<and> artifact_class a = fst req"
    using c by blast
  show "source_paths arts ?pre \<noteq> []" by (fact src)
  show "\<exists>a\<in>set arts. path a = ''data/corpus/provisions/'' @ ?pre @ ''.jsonl''
      \<and> row_count a = Some (provision_rows s)"
    using by_path_Some[OF a] rows by blast
qed

text \<open>Every artifact is claimed by a declared scope and every scope is complete.\<close>

definition inventory_complete :: "release_scope list \<Rightarrow> release_artifact list \<Rightarrow> bool" where
  "inventory_complete scs arts \<longleftrightarrow>
     path ` set arts = (\<Union>s\<in>set scs. scope_paths arts s) \<and>
     (\<forall>s\<in>set scs.
        (\<forall>req\<in>set (required_artifacts (scope_prefix s)). \<exists>a\<in>set arts. path a = snd req \<and> artifact_class a = fst req)
      \<and> source_paths arts (scope_prefix s) \<noteq> []
      \<and> (\<exists>a\<in>set arts. path a = ''data/corpus/provisions/'' @ scope_prefix s @ ''.jsonl''
           \<and> row_count a = Some (provision_rows s)))"

lemma validate_membership_Inr:
  assumes "validate_scope_artifact_membership scs arts = Inr u"
  shows "inventory_complete scs arts"
proof -
  from assms obtain claimed where loop: "for_each (claim_scope arts) [] scs = Inr claimed"
    and paths: "set (map path arts) = set claimed"
    by (auto simp: validate_scope_artifact_membership_def)
  from loop have "set claimed = (\<Union>s\<in>set scs. scope_paths arts s) \<and>
      (\<forall>s\<in>set scs.
        (\<forall>req\<in>set (required_artifacts (scope_prefix s)). \<exists>a\<in>set arts. path a = snd req \<and> artifact_class a = fst req)
      \<and> source_paths arts (scope_prefix s) \<noteq> []
      \<and> (\<exists>a\<in>set arts. path a = ''data/corpus/provisions/'' @ scope_prefix s @ ''.jsonl''
           \<and> row_count a = Some (provision_rows s)))"
  proof (rule for_each_rule, goal_cases)
    case (2 ys y zs st st')
    then show ?case
      using claim_scope_Inr[of arts st y st'] by (simp add: Un_commute)
  qed simp
  with paths show ?thesis by (simp add: inventory_complete_def)
qed

text \<open>The staged evidence names every declared scope exactly once: the identities are distinct,
  all declared, and as many as the scopes.\<close>

lemma staged_item_Inr:
  assumes "staged_item scs seen item = Inr seen'"
  obtains i s where "seen' = seen @ [i]" "i \<notin> set seen" "i \<in> scope_identity ` set scs"
proof (cases item)
  case (JObj d)
  then show ?thesis
    using assms that[of "identity_of d"]
    by (auto simp: staged_item_def Let_def rev_map[symmetric] split: option.splits if_splits
        dest!: map_of_SomeD)
qed (use assms in \<open>auto simp: staged_item_def\<close>)

lemma staged_items_Inr:
  assumes "for_each (staged_item scs) [] counts = Inr seen"
  shows "distinct seen \<and> set seen \<subseteq> scope_identity ` set scs \<and> length seen = length counts"
  using assms by (rule for_each_rule) (auto elim!: staged_item_Inr)

lemma staged_covers:
  assumes "for_each (staged_item scs) [] counts = Inr seen" "length counts = length scs"
  shows "set seen = scope_identity ` set scs"
proof (rule card_subset_eq)
  note * = staged_items_Inr[OF assms(1)]
  show "set seen \<subseteq> scope_identity ` set scs" using * by simp
  have "card (scope_identity ` set scs) \<le> length scs"
    by (metis card_length length_map set_map)
  with * assms(2) have "card (scope_identity ` set scs) \<le> card (set seen)"
    by (simp add: distinct_card)
  with * show "card (set seen) = card (scope_identity ` set scs)"
    by (meson card_mono finite_imageI finite_set le_antisym)
qed simp

section \<open>What acceptance of a release object establishes\<close>

definition release_wf :: "verified_release \<Rightarrow> bool" where
  "release_wf v \<longleftrightarrow> scopes v \<noteq> [] \<and> distinct (map scope_identity (scopes v)) \<and> (\<forall>s\<in>set (scopes v). scope_wf s)
     \<and> distinct (map path (artifacts v)) \<and> sorted (map path (artifacts v))
     \<and> (\<forall>a\<in>set (artifacts v). artifact_wf a) \<and> inventory_complete (scopes v) (artifacts v)"

lemma validate_release_content_Inr:
  assumes "validate_release_content C release profile digest content = Inr v"
  shows "release_wf v" "name v = release" "content_sha256 v = digest"
    "selector_sha256 v = sha256 C (dumps (selector_payload release (scopes v) profile))"
    "\<exists>raw. dget content ''scopes'' = JArr raw \<and> validate_scopes raw = Inr (scopes v)"
    "\<exists>raw. dget content ''artifacts'' = JArr raw \<and>
       validate_artifacts raw (str_of (dget (obj_of (dget content ''r2'')) ''bucket'')) = Inr (artifacts v)"
proof -
  from assms obtain rs ra where rs: "dget content ''scopes'' = JArr rs" "rs \<noteq> []"
    and ra: "dget content ''artifacts'' = JArr ra"
    by (auto simp: validate_release_content_def split: json.splits)
  from assms have v: "validate_scopes rs = Inr (scopes v)"
    "validate_artifacts ra (str_of (dget (obj_of (dget content ''r2'')) ''bucket'')) = Inr (artifacts v)"
    "validate_scope_artifact_membership (scopes v) (artifacts v) = Inr ()"
    "name v = release" "content_sha256 v = digest"
    "selector_sha256 v = sha256 C (dumps (selector_payload release (scopes v) profile))"
    by (auto simp: validate_release_content_def rs ra Let_def)
  then show "name v = release" "content_sha256 v = digest"
    "selector_sha256 v = sha256 C (dumps (selector_payload release (scopes v) profile))"
    "\<exists>raw. dget content ''scopes'' = JArr raw \<and> validate_scopes raw = Inr (scopes v)"
    "\<exists>raw. dget content ''artifacts'' = JArr raw \<and>
       validate_artifacts raw (str_of (dget (obj_of (dget content ''r2'')) ''bucket'')) = Inr (artifacts v)"
    using rs ra by auto
  have "scopes v \<noteq> []" using validate_scopes_Inr[OF v(1)] rs(2) by auto
  then show "release_wf v"
    using validate_scopes_Inr[OF v(1)] validate_artifacts_Inr[OF v(2)] validate_membership_Inr[OF v(3)]
    by (simp add: release_wf_def)
qed

lemma validate_unsigned_Inr:
  assumes "validate_unsigned_release_object C payload = Inr v"
  obtains content where "dget payload ''content'' = JObj content"
    "dget payload ''content_sha256'' = JStr (sha256 C (dumps (JObj content)))"
    "dget content ''release'' = JStr (name v)"
    "validate_release_content C (name v)
       (if dget payload ''schema_version'' = JStr release_object_schema_version
        then Some complete_expression_dates_profile else None)
       (sha256 C (dumps (JObj content))) content = Inr v"
    "keys content = set (content_fields (str_of (dget payload ''schema_version'')))"
    "in_strs (dget payload ''schema_version'') [release_object_schema_v2, release_object_schema_version]"
proof -
  obtain content where content: "dget payload ''content'' = JObj content"
    using assms by (auto simp: validate_unsigned_release_object_def Let_def split: json.splits)
  let ?p = "if dget payload ''schema_version'' = JStr release_object_schema_version
        then Some complete_expression_dates_profile else None"
  from assms obtain x where x: "dget content ''release'' = JStr x"
    "validate_release_content C x ?p (sha256 C (dumps (JObj content))) content = Inr v"
    "dget payload ''content_sha256'' = JStr (sha256 C (dumps (JObj content)))"
    "keys content = set (content_fields (str_of (dget payload ''schema_version'')))"
    "in_strs (dget payload ''schema_version'') [release_object_schema_v2, release_object_schema_version]"
    by (auto simp: validate_unsigned_release_object_def Let_def content)
  then show ?thesis
    using that[OF content] validate_release_content_Inr(2)[OF x(2)] by simp
qed

lemma verify_release_object_Inr:
  assumes "verify_release_object C payload k = Inr v"
  obtains sig encoded key where "validate_unsigned_release_object C payload = Inr v"
    "decode_signature (dget payload ''signature'') = Inr sig"
    "ed25519_verify C key sig (canonical_release_object_bytes payload)"
    "encoded \<in> (case k of Single s \<Rightarrow> {s} | Ring ks \<Rightarrow> str_of ` set ks)"
    "load_ed25519_public_key C encoded = Inr key"
proof -
  from assms obtain sig encs loaded key where v: "validate_unsigned_release_object C payload = Inr v"
      and sig: "decode_signature (dget payload ''signature'') = Inr sig"
      and encs: "release_public_keyring k = Inr encs"
      and loaded: "map_r (load_ed25519_public_key C) encs = Inr loaded"
      and key: "key \<in> set loaded" "ed25519_verify C key sig (canonical_release_object_bytes payload)"
    by (auto simp: verify_release_object_def list_ex_iff)
  from loaded key(1) obtain encoded where "encoded \<in> set encs" "load_ed25519_public_key C encoded = Inr key"
    by (rule map_r_mem)
  moreover have "set encs \<subseteq> (case k of Single s \<Rightarrow> {s} | Ring ks \<Rightarrow> str_of ` set ks)"
    using encs by (auto simp: release_public_keyring_def split: public_key.splits)
  ultimately show ?thesis using that v sig key(2) by blast
qed

section \<open>The content digest pins the inventory\<close>

text \<open>The validators read a document only up to the order of its keys, so contents with the same
  canonical bytes give the same scopes and artifacts.\<close>

lemma scope_component_re_open: "scope_component_re s \<Longrightarrow> hd s \<notin> set ''[{''"
  by (auto simp: scope_component_re_def is_lower_def is_digit_def)

lemma str_or_empty_component:
  "jeqv a b \<Longrightarrow> scope_component_re (str_or_empty a) \<Longrightarrow> str_or_empty b = str_or_empty a"
  using str_or_empty_jeqv[of a b] scope_component_re_open by blast

lemma is_sha_jeqv: "jeqv a b \<Longrightarrow> is_sha b = is_sha a"
  by (simp add: is_sha_def jeqv_reads)

lemma jeqv_JStr_eq: "jeqv a b \<Longrightarrow> a = JStr s \<longleftrightarrow> b = JStr s"
  by (metis jeqv_leaf(1,5))

lemma validate_scope_jeqv:
  assumes "jeqv raw raw'" "validate_scope acc raw = Inr acc'"
  shows "validate_scope acc raw' = Inr acc'"
proof -
  obtain d where d: "raw = JObj d" using assms(2) by (cases raw) (auto simp: validate_scope_def)
  then obtain e where e: "raw' = JObj e" "keys e = keys d" and g: "\<And>k. jeqv (dget d k) (dget e k)"
    using assms(1) by (auto elim: jeqv_JObjE)
  have "identity_of e = identity_of d"
    using assms(2) g[THEN str_or_empty_component]
    by (auto simp: validate_scope_def d identity_of_def Let_def split: if_splits)
  then show ?thesis
    using assms(2) e(2) by (cases "identity_of d") (simp add: validate_scope_def d e(1) Let_def g[THEN jeqv_is_int] g[THEN jeqv_int_of]
        g[THEN is_sha_jeqv] g[THEN jeqv_str_of])
qed

lemma validate_artifact_jeqv:
  assumes "jeqv raw raw'" "validate_artifact bucket acc raw = Inr acc'"
  shows "validate_artifact bucket acc raw' = Inr acc'"
proof -
  obtain d where d: "raw = JObj d" using assms(2) by (cases raw) (auto simp: validate_artifact_def)
  then obtain e where e: "raw' = JObj e" "keys e = keys d" and g: "\<And>k. jeqv (dget d k) (dget e k)"
    using assms(1) by (auto elim: jeqv_JObjE)
  have cls: "dget e ''artifact_class'' = dget d ''artifact_class''"
    using assms(2) g[of "''artifact_class''"]
    by (auto simp: validate_artifact_def d Let_def in_strs_def is_str_iff)
  have key: "dget e k = JStr s \<longleftrightarrow> dget d k = JStr s" for k s
    using g[of k] jeqv_JStr_eq by blast
  show ?thesis
    using assms(2) by (auto simp: validate_artifact_def d e cls key Let_def in_strs_def
        g[THEN jeqv_is_int] g[THEN jeqv_int_of] g[THEN is_sha_jeqv] g[THEN jeqv_str_of] g[THEN jeqv_is_str])
qed

lemma validate_scopes_jeqv:
  assumes "validate_scopes xs = Inr scs" "list_all2 jeqv xs ys"
  shows "validate_scopes ys = Inr scs"
  using assms(1) unfolding validate_scopes_def
  by (rule for_each_transfer[OF _ assms(2)]) (rule validate_scope_jeqv)

lemma validate_artifacts_jeqv:
  assumes "validate_artifacts xs bucket = Inr arts" "list_all2 jeqv xs ys"
  shows "validate_artifacts ys bucket = Inr arts"
proof -
  from assms(1) have loop: "for_each (validate_artifact bucket) [] xs = Inr arts"
    and srt: "map path arts = sort (map path arts)"
    by (auto simp: validate_artifacts_def)
  from loop have "for_each (validate_artifact bucket) [] ys = Inr arts"
    by (rule for_each_transfer[OF _ assms(2)]) (rule validate_artifact_jeqv)
  with srt show ?thesis by (simp add: validate_artifacts_def)
qed

text \<open>The inventory an accepted object yields is a function of the canonical bytes of its
  content and of the schema version, which \<open>profile\<close> reflects.\<close>

lemma validate_release_content_jeqv:
  assumes "validate_release_content C release profile digest content = Inr v"
    and "validate_release_content C release' profile' digest content' = Inr w"
    and "jeqv (JObj content) (JObj content')"
  shows "scopes w = scopes v" "artifacts w = artifacts v"
proof -
  have g: "jeqv (dget content k) (dget content' k)" for k
    using assms(3) by (rule jeqv_get)
  obtain xs ys where xs: "dget content ''scopes'' = JArr xs" "validate_scopes xs = Inr (scopes v)"
    and ys: "dget content' ''scopes'' = JArr ys" "validate_scopes ys = Inr (scopes w)"
    using validate_release_content_Inr(5)[OF assms(1)] validate_release_content_Inr(5)[OF assms(2)] by blast
  have "list_all2 jeqv xs ys" using g[of "''scopes''"] xs(1) ys(1) by (auto elim: jeqv_JArrE)
  from validate_scopes_jeqv[OF xs(2) this] ys(2) show "scopes w = scopes v" by simp
  let ?b = "\<lambda>c. str_of (dget (obj_of (dget c ''r2'')) ''bucket'')"
  obtain as bs where as: "dget content ''artifacts'' = JArr as" "validate_artifacts as (?b content) = Inr (artifacts v)"
    and bs: "dget content' ''artifacts'' = JArr bs" "validate_artifacts bs (?b content') = Inr (artifacts w)"
    using validate_release_content_Inr(6)[OF assms(1)] validate_release_content_Inr(6)[OF assms(2)] by blast
  have "?b content' = ?b content"
    using g[of "''r2''"] by (cases "dget content ''r2''"; cases "dget content' ''r2''")
      (auto elim!: jeqv_JObjE jeqv_JArrE dest: jeqv_str_of)
  moreover have "list_all2 jeqv as bs" using g[of "''artifacts''"] as(1) bs(1) by (auto elim: jeqv_JArrE)
  ultimately show "artifacts w = artifacts v"
    using validate_artifacts_jeqv[OF as(2)] bs(2) by simp
qed

text \<open>The schema version is visible in the keys of the content.\<close>

lemma content_fields_profile:
  assumes "in_strs a [release_object_schema_v2, release_object_schema_version]"
    and "in_strs b [release_object_schema_v2, release_object_schema_version]"
    and "set (content_fields (str_of a)) = set (content_fields (str_of b))"
  shows "a = JStr release_object_schema_version \<longleftrightarrow> b = JStr release_object_schema_version"
proof -
  have "''quality_profile'' \<in> set (content_fields s) \<longleftrightarrow> s = release_object_schema_version" for s
    by (auto simp: content_fields_def)
  then have "str_of a = release_object_schema_version \<longleftrightarrow> str_of b = release_object_schema_version"
    using assms(3) by metis
  with assms(1,2) show ?thesis by (auto simp: in_strs_def is_str_iff)
qed

lemma validated_eq_of_content:
  assumes "validate_unsigned_release_object C p = Inr v" "validate_unsigned_release_object C q = Inr w"
    and "jeqv (dget p ''content'') (dget q ''content'')"
    and digest: "dumps (dget p ''content'') = dumps (dget q ''content'')"
  shows "v = w"
proof -
  let ?prof = "\<lambda>p. if dget p ''schema_version'' = JStr release_object_schema_version
        then Some complete_expression_dates_profile else None"
  obtain c where c: "dget p ''content'' = JObj c" "dget c ''release'' = JStr (name v)"
    "validate_release_content C (name v) (?prof p) (sha256 C (dumps (JObj c))) c = Inr v"
    "keys c = set (content_fields (str_of (dget p ''schema_version'')))"
    "in_strs (dget p ''schema_version'') [release_object_schema_v2, release_object_schema_version]"
    using assms(1) by (rule validate_unsigned_Inr) blast
  obtain d where d: "dget q ''content'' = JObj d" "dget d ''release'' = JStr (name w)"
    "validate_release_content C (name w) (?prof q) (sha256 C (dumps (JObj d))) d = Inr w"
    "keys d = set (content_fields (str_of (dget q ''schema_version'')))"
    "in_strs (dget q ''schema_version'') [release_object_schema_v2, release_object_schema_version]"
    using assms(2) by (rule validate_unsigned_Inr) blast
  have e: "jeqv (JObj c) (JObj d)" using assms(3) c(1) d(1) by simp
  have dig: "dumps (JObj c) = dumps (JObj d)" using digest c(1) d(1) by simp
  have k: "keys d = keys c" and n: "name v = name w"
    using jeqv_keys[OF e] jeqv_get[OF e, of "''release''"] c(2) d(2) by simp_all
  have "?prof p = ?prof q" using content_fields_profile[OF c(5) d(5)] c(4) d(4) k by simp
  then show ?thesis
    using validate_release_content_Inr(2-4)[OF c(3)] validate_release_content_Inr(2-4)[OF d(3)]
      validate_release_content_jeqv[OF c(3) d(3)[folded dig] e] n dig
    by (intro verified_release.equality) simp_all
qed

lemma canonical_bytes_content:
  assumes "wf_json (JObj p)" "wf_json (JObj q)" "distinct_keys (JObj p)" "distinct_keys (JObj q)"
    and "canonical_release_object_bytes p = canonical_release_object_bytes q"
    and "k \<noteq> ''signature''"
  shows "jeqv (dget p k) (dget q k)"
proof -
  let ?del = "AList.delete ''signature''"
  have sub: "set (?del d) \<subseteq> set d" for d :: jobj by (auto simp: AList.delete_eq)
  have wf: "wf_json (JObj (?del d))" if "wf_json (JObj d)" for d
    using that sub[of d] by (auto simp: list_all_iff)
  have dk: "distinct_keys (JObj (?del d))" if "distinct_keys (JObj d)" for d
    using that sub[of d] distinct_delete[of d] by (auto simp: list_all_iff comp_def)
  have "sort_keys (JObj (?del p)) = sort_keys (JObj (?del q))"
    using assms(5) canon.enc_norm[OF wf[OF assms(1)] wf[OF assms(2)]]
    by (simp add: canonical_release_object_bytes_def)
  with dk assms(3,4) have "jeqv (JObj (?del p)) (JObj (?del q))" by (simp only: jeqv_def)
  then have "jeqv (dget (?del p) k) (dget (?del q) k)" by (rule jeqv_get)
  with assms(6) show ?thesis by simp
qed

lemma decode_signature_Inr:
  assumes "decode_signature sv = Inr sig"
  obtains s e where "sv = JObj s" "dget s ''algorithm'' = JStr ''ed25519''"
    "dget s ''key_id'' = JStr ''axiom-corpus-release-v2''" "dget s ''value'' = JStr e"
    "b64decode e = Some sig" "length sig = 64"
proof -
  obtain s where s: "sv = JObj s" using assms by (cases sv) (auto simp: decode_signature_def)
  show ?thesis
    using assms that[OF s] by (auto simp: decode_signature_def s split: json.splits option.splits)
qed

lemma validate_unsigned_name:
  assumes "validate_unsigned_release_object C payload = Inr v"
  shows "validate_release_name (JStr (name v)) = Inr (name v)"
  using assms
  by (auto simp: validate_unsigned_release_object_def validate_release_name_def Let_def is_str_iff
      split: json.splits dest: validate_release_content_Inr(2))

lemma validated_digest:
  assumes "validate_unsigned_release_object C payload = Inr v"
  shows "content_sha256 v = sha256 C (dumps (dget payload ''content''))"
  using assms by (rule validate_unsigned_Inr) (auto dest: validate_release_content_Inr(3))

section \<open>Properties\<close>

text \<open>C1. A release object is accepted only with a signature of a key of the caller's keyring over
  exactly the canonical bytes of the document, by the expected algorithm and key id, and only when
  the recorded content digest is the digest of the content's canonical bytes.\<close>

theorem release_signature_sound:
  assumes "verify_release_object C payload k = Inr v"
  shows "\<exists>sig key encoded s e. dget payload ''signature'' = JObj s
      \<and> dget s ''algorithm'' = JStr ''ed25519'' \<and> dget s ''key_id'' = JStr ''axiom-corpus-release-v2''
      \<and> dget s ''value'' = JStr e \<and> b64decode e = Some sig \<and> length sig = 64
      \<and> encoded \<in> (case k of Single e \<Rightarrow> {e} | Ring ks \<Rightarrow> str_of ` set ks)
      \<and> load_ed25519_public_key C encoded = Inr key
      \<and> ed25519_verify C key sig (canonical_release_object_bytes payload)
      \<and> content_sha256 v = sha256 C (dumps (dget payload ''content''))
      \<and> dget payload ''content_sha256'' = JStr (content_sha256 v)"
proof -
  obtain sig encoded key where v: "validate_unsigned_release_object C payload = Inr v"
    and sig: "decode_signature (dget payload ''signature'') = Inr sig"
    and key: "ed25519_verify C key sig (canonical_release_object_bytes payload)"
      "encoded \<in> (case k of Single s \<Rightarrow> {s} | Ring ks \<Rightarrow> str_of ` set ks)"
      "load_ed25519_public_key C encoded = Inr key"
    using assms by (rule verify_release_object_Inr)
  obtain s e where "dget payload ''signature'' = JObj s" "dget s ''algorithm'' = JStr ''ed25519''"
    "dget s ''key_id'' = JStr ''axiom-corpus-release-v2''" "dget s ''value'' = JStr e"
    "b64decode e = Some sig" "length sig = 64"
    using sig by (rule decode_signature_Inr)
  moreover have "content_sha256 v = sha256 C (dumps (dget payload ''content''))
      \<and> dget payload ''content_sha256'' = JStr (content_sha256 v)"
    using v by (rule validate_unsigned_Inr) (auto dest: validate_release_content_Inr(3))
  ultimately show ?thesis using key by blast
qed

text \<open>C2. Every accepted release is well formed: it has scopes, their identities are valid and pairwise
  different; artifact paths are sorted, pairwise different, confined to the directory of their class
  and free of dot segments, backslashes and empty segments; every artifact is claimed by a declared
  scope, and every scope has its inventory, provisions, coverage and source artifacts with the declared
  number of rows.\<close>

theorem verified_release_wf:
  assumes "verify_release_object C payload k = Inr v"
  shows "release_wf v \<and> validate_release_name (JStr (name v)) = Inr (name v)"
proof -
  obtain sig encoded key where "validate_unsigned_release_object C payload = Inr v"
    using assms by (rule verify_release_object_Inr)
  then show ?thesis
    using validate_unsigned_name by (auto elim: validate_unsigned_Inr dest: validate_release_content_Inr(1))
qed

text \<open>C3. A digest pin pins the inventory: two accepted release objects with the same content digest,
  whose contents do not collide under SHA-256, yield the same verified release.\<close>

theorem content_pin_determines_release:
  assumes "verify_release_object C p k = Inr v" "verify_release_object C q l = Inr w"
    and "content_sha256 v = content_sha256 w"
    and "sha256 C (dumps (dget p ''content'')) = sha256 C (dumps (dget q ''content''))
      \<Longrightarrow> dumps (dget p ''content'') = dumps (dget q ''content'')"
    and "wf_json (JObj p)" "wf_json (JObj q)" "distinct_keys (JObj p)" "distinct_keys (JObj q)"
  shows "v = w"
proof -
  have v: "validate_unsigned_release_object C p = Inr v" and w: "validate_unsigned_release_object C q = Inr w"
    using assms(1,2) by (auto elim: verify_release_object_Inr)
  note digests = validated_digest[OF v] validated_digest[OF w]
  have eq: "dumps (dget p ''content'') = dumps (dget q ''content'')"
    using assms(3,4) digests by simp
  have "wf_json (dget p ''content'')" "wf_json (dget q ''content'')"
    using assms(5,6) by (auto intro: wf_json_get)
  then have "jeqv (dget p ''content'') (dget q ''content'')"
    using eq assms(7,8) canon.enc_norm by (auto simp: jeqv_def intro: distinct_keys_get)
  from validated_eq_of_content[OF v w this eq] show ?thesis .
qed

text \<open>What is signed is what is used: two documents with the same canonical bytes (the bytes the
  signature covers) that are both accepted yield the same verified release, whatever their
  signature fields, their keyrings or the order of their keys.\<close>

theorem signed_bytes_determine_release:
  assumes "verify_release_object C p k = Inr v" "verify_release_object C q l = Inr w"
    and "canonical_release_object_bytes p = canonical_release_object_bytes q"
    and "wf_json (JObj p)" "wf_json (JObj q)" "distinct_keys (JObj p)" "distinct_keys (JObj q)"
  shows "v = w"
proof -
  have v: "validate_unsigned_release_object C p = Inr v" and w: "validate_unsigned_release_object C q = Inr w"
    using assms(1,2) by (auto elim: verify_release_object_Inr)
  have e: "jeqv (dget p ''content'') (dget q ''content'')"
    using canonical_bytes_content[OF assms(4-7) assms(3)] by simp
  have "dumps (dget p ''content'') = dumps (dget q ''content'')"
    using e by (simp add: dumps_def jeqv_def)
  from validated_eq_of_content[OF v w e this] show ?thesis .
qed

end
