(* ===== verification/Release_Examples.thy ===== *)
theory Release_Examples
  imports Corpus_Release
begin

text \<open>
  A concrete release object, with one scope and its four artifacts, on which the hypotheses of the
  properties of \<open>Corpus_Release\<close> hold. The primitives are instantiated by a constant digest, a
  signature check that accepts one fixed key, and a PEM parser that rejects every text.
\<close>

section \<open>The object\<close>

definition zero_digest :: string where "zero_digest = replicate 64 CHR ''0''"

definition toy_crypto :: crypto where
  "toy_crypto = \<lparr>sha256 = (\<lambda>_. zero_digest), ed25519_verify = (\<lambda>k s m. k = replicate 32 CHR ''K''), load_pem = (\<lambda>_. Pem_invalid)\<rparr>"

definition toy_artifact :: "string \<Rightarrow> string \<Rightarrow> jobj \<Rightarrow> json" where
  "toy_artifact cls p extra = JObj ([(''artifact_class'', JStr cls), (''path'', JStr p),
    (''sha256'', JStr zero_digest), (''bytes'', JInt 10), (''r2_bucket'', JStr ''b''),
    (''r2_key'', JStr (r2_key zero_digest))] @ extra)"

definition toy_raw_artifacts :: "json list" where
  "toy_raw_artifacts = [toy_artifact ''coverage'' ''data/corpus/coverage/us/statute/v1.json'' [],
        toy_artifact ''inventory'' ''data/corpus/inventory/us/statute/v1.json'' [],
        toy_artifact ''provisions'' ''data/corpus/provisions/us/statute/v1.jsonl'' [(''rows'', JInt 2)],
        toy_artifact ''sources'' ''data/corpus/sources/us/statute/v1/a.xml'' []]"

definition toy_artifacts :: "release_artifact list" where
  "toy_artifacts = map (\<lambda>(c, p, r). \<lparr>artifact_class = c, path = p, sha256_hex = zero_digest, byte_count = 10, row_count = r\<rparr>)
     [(''coverage'', ''data/corpus/coverage/us/statute/v1.json'', None),
      (''inventory'', ''data/corpus/inventory/us/statute/v1.json'', None),
      (''provisions'', ''data/corpus/provisions/us/statute/v1.jsonl'', Some 2),
      (''sources'', ''data/corpus/sources/us/statute/v1/a.xml'', None)]"

definition toy_scope :: release_scope where
  "toy_scope = \<lparr>jurisdiction = ''us'', document_class = ''statute'', version = ''v1'', provision_rows = 2,
     provision_projection_sha256 = zero_digest, navigation_projection_sha256 = zero_digest\<rparr>"

definition toy_raw_scope :: json where
  "toy_raw_scope = JObj [(''jurisdiction'', JStr ''us''), (''document_class'', JStr ''statute''),
        (''version'', JStr ''v1''), (''provision_rows'', JInt 2), (''navigation_rows'', JInt 2),
        (''provision_projection_sha256'', JStr zero_digest), (''navigation_projection_sha256'', JStr zero_digest)]"

definition toy_validation :: json where
  "toy_validation = JObj [(''passed'', JBool True),
        (''deep_validation'', JObj [(''error_count'', JInt 0), (''warning_count'', JInt 1), (''scope_count'', JInt 1)]),
        (''r2_readback'', JObj [(''bucket'', JStr ''b''), (''artifact_count'', JInt 4), (''artifact_bytes'', JInt 40),
           (''verified_keys'', JArr (replicate 4 (JStr (r2_key zero_digest))))]),
        (''supabase_projection_evidence'', JArr [JObj [(''jurisdiction'', JStr ''us''),
           (''document_class'', JStr ''statute''), (''version'', JStr ''v1''), (''expected'', JInt 2), (''actual'', JInt 2),
           (''expected_navigation'', JInt 2), (''actual_navigation'', JInt 2),
           (''expected_provision_projection_sha256'', JStr zero_digest),
           (''actual_provision_projection_sha256'', JStr zero_digest),
           (''expected_navigation_projection_sha256'', JStr zero_digest),
           (''actual_navigation_projection_sha256'', JStr zero_digest)]])]"

definition toy_content :: jobj where
  "toy_content = [(''release'', JStr ''r-1''), (''created_at'', JStr ''now''),
     (''selector_sha256'', JStr zero_digest), (''corpus_base'', JStr ''data/corpus''),
     (''git'', JObj [(''commit'', JStr (replicate 40 CHR ''a'')), (''committed_at'', JStr ''now'')]),
     (''r2'', JObj [(''bucket'', JStr ''b''), (''addressing'', JStr ''sha256'')]),
     (''scopes'', JArr [toy_raw_scope]), (''artifacts'', JArr toy_raw_artifacts),
     (''validation'', toy_validation)]"

definition toy_signature :: json where
  "toy_signature = JObj [(''algorithm'', JStr ''ed25519''), (''key_id'', JStr ''axiom-corpus-release-v2''),
       (''value'', JStr (b64encode (replicate 64 CHR ''S'')))]"

definition toy_release :: jobj where
  "toy_release = [(''schema_version'', JStr ''axiom-corpus/release-object/v2''), (''release'', JStr ''r-1''),
    (''content_sha256'', JStr zero_digest), (''content'', JObj toy_content), (''signature'', toy_signature)]"

definition toy_verified :: verified_release where
  "toy_verified = \<lparr>name = ''r-1'', content_sha256 = zero_digest, selector_sha256 = zero_digest,
     scopes = [toy_scope], artifacts = toy_artifacts\<rparr>"

text \<open>The same document with its members in another order, and a keyring of two keys of which the
  second is the signer's.\<close>

definition toy_release_reordered :: jobj where
  "toy_release_reordered = rev toy_release"

definition toy_key :: string where
  "toy_key = b64encode (replicate 32 CHR ''K'')"

definition toy_ring :: public_key where
  "toy_ring = Ring [JStr (b64encode (replicate 32 CHR ''J'')), JStr toy_key]"

section \<open>Its verification\<close>

lemma toy_sha [simp]: "sha256 toy_crypto x = zero_digest"
  by (simp add: toy_crypto_def)

lemma toy_scopes_ok: "validate_scopes [toy_raw_scope] = Inr [toy_scope]"
  by code_simp

lemma toy_artifacts_ok: "validate_artifacts toy_raw_artifacts ''b'' = Inr toy_artifacts"
  by code_simp

lemma toy_membership_ok: "validate_scope_artifact_membership [toy_scope] toy_artifacts = Inr ()"
  by code_simp

lemma toy_validation_ok: "validate_validation_attestation toy_validation [toy_scope] toy_artifacts ''b'' None = Inr ()"
  by code_simp

lemma toy_signature_ok: "decode_signature toy_signature = Inr (replicate 64 CHR ''S'')"
  by code_simp

lemma toy_key_ok: "load_ed25519_public_key toy_crypto toy_key = Inr (replicate 32 CHR ''K'')"
  by code_simp

lemma toy_other_key_ok:
  "load_ed25519_public_key toy_crypto (b64encode (replicate 32 CHR ''J'')) = Inr (replicate 32 CHR ''J'')"
  by code_simp

lemma zero_digest_ok: "sha256_re zero_digest"
  by code_simp

lemma toy_raw_artifacts_ne: "toy_raw_artifacts \<noteq> []"
  by (simp add: toy_raw_artifacts_def)

lemma toy_content_ok:
  "validate_release_content toy_crypto ''r-1'' None zero_digest toy_content = Inr toy_verified"
proof -
  have "dget toy_content ''scopes'' = JArr [toy_raw_scope]" "dget toy_content ''artifacts'' = JArr toy_raw_artifacts"
    "dget toy_content ''selector_sha256'' = JStr zero_digest" "dget toy_content ''validation'' = toy_validation"
    "dget (obj_of (dget toy_content ''r2'')) ''bucket'' = JStr ''b''"
    by (simp_all add: toy_content_def dget_def)
  then show ?thesis
    by (simp add: validate_release_content_def toy_scopes_ok toy_artifacts_ok toy_membership_ok
        toy_validation_ok toy_raw_artifacts_ne is_sha_def zero_digest_ok toy_verified_def)
qed

lemma toy_frame_ok:
  "keys toy_content = set (content_fields release_object_schema_v2)" "git_ok (dget toy_content ''git'')"
  "r2_ok (dget toy_content ''r2'')" "nonempty_str (dget toy_content ''created_at'')"
  "dget toy_content ''release'' = JStr ''r-1''" "dget toy_content ''corpus_base'' = JStr ''data/corpus''"
  "validate_release_name (JStr ''r-1'') = Inr ''r-1''"
  by code_simp+

lemma toy_release_reads:
  "dget toy_release ''schema_version'' = JStr release_object_schema_v2"
  "dget toy_release ''release'' = JStr ''r-1''" "dget toy_release ''content_sha256'' = JStr zero_digest"
  "dget toy_release ''content'' = JObj toy_content" "dget toy_release ''signature'' = toy_signature"
  "keys toy_release = {''schema_version'', ''release'', ''content_sha256'', ''content'', ''signature''}"
  by (auto simp: toy_release_def dget_def release_object_schema_v2_def keys_def)

lemma toy_reordered_reads:
  "dget toy_release_reordered k = dget toy_release k" "keys toy_release_reordered = keys toy_release"
  by (auto simp: toy_release_reordered_def toy_release_def dget_def keys_def)

lemma toy_verifies:
  assumes "\<And>k. dget p k = dget toy_release k" "keys p = keys toy_release"
  shows "verify_release_object toy_crypto p (Single toy_key) = Inr toy_verified"
    and "verify_release_object toy_crypto p toy_ring = Inr toy_verified"
proof -
  have "release_object_schema_v2 \<noteq> release_object_schema_version"
    by (simp add: release_object_schema_v2_def release_object_schema_version_def)
  then have v: "validate_unsigned_release_object toy_crypto p = Inr toy_verified"
    by (simp add: validate_unsigned_release_object_def Let_def assms toy_release_reads toy_frame_ok
        toy_content_ok in_strs_def)
  have key: "ed25519_verify toy_crypto (replicate 32 CHR ''K'') s m" for s m
    by (simp add: toy_crypto_def)
  show "verify_release_object toy_crypto p (Single toy_key) = Inr toy_verified"
    by (simp add: verify_release_object_def v assms toy_release_reads toy_signature_ok
        release_public_keyring_def toy_key_ok key)
  show "verify_release_object toy_crypto p toy_ring = Inr toy_verified"
    by (simp add: verify_release_object_def v assms toy_release_reads toy_signature_ok
        release_public_keyring_def toy_ring_def toy_key_ok toy_other_key_ok key)
qed

lemmas toy_release_verifies = toy_verifies[OF refl refl]

lemmas toy_reordered_verifies = toy_verifies[OF toy_reordered_reads]

lemma toy_release_wf: "wf_json (JObj toy_release)" "wf_json (JObj toy_release_reordered)"
  "distinct_keys (JObj toy_release)" "distinct_keys (JObj toy_release_reordered)"
  by code_simp+

lemma toy_same_bytes:
  "canonical_release_object_bytes toy_release = canonical_release_object_bytes toy_release_reordered"
  by (simp add: canonical_release_object_bytes_def dumps_def toy_release_reordered_def toy_release_def)

section \<open>Witnesses\<close>

theorem release_signature_sound_witness:
  "\<exists>key sig. ed25519_verify toy_crypto key sig (canonical_release_object_bytes toy_release)
     \<and> length sig = 64 \<and> content_sha256 toy_verified = zero_digest"
  using release_signature_sound[OF toy_release_verifies(2)] by fastforce

theorem verified_release_wf_witness: "release_wf toy_verified"
  using verified_release_wf[OF toy_release_verifies(2)] by blast

theorem content_pin_determines_release_witness:
  "verify_release_object toy_crypto toy_release (Single toy_key) = Inr toy_verified
     \<and> projr (verify_release_object toy_crypto toy_release (Single toy_key))
       = projr (verify_release_object toy_crypto toy_release_reordered toy_ring)"
  using content_pin_determines_release[OF toy_release_verifies(1) toy_reordered_verifies(2) refl _ toy_release_wf(1,2,3,4)]
    toy_release_verifies(1) toy_reordered_verifies(2) toy_reordered_reads by simp

theorem signed_bytes_determine_release_witness:
  "canonical_release_object_bytes toy_release = canonical_release_object_bytes toy_release_reordered
     \<and> projr (verify_release_object toy_crypto toy_release (Single toy_key))
       = projr (verify_release_object toy_crypto toy_release_reordered toy_ring)"
  using signed_bytes_determine_release[OF toy_release_verifies(1) toy_reordered_verifies(2) toy_same_bytes
      toy_release_wf(1,2,3,4)] toy_same_bytes toy_release_verifies(1) toy_reordered_verifies(2) by simp

end
