(* ===== verification/Signed_Queue.thy ===== *)
theory Signed_Queue
  imports Py_Json
begin

text \<open>
  The protected encoding queue (\<open>scripts/prepare_signed_queue.py\<close>): the manifest, its validation,
  the selection of bounded tranches and the transitions that pause a queue and dispose of an item.

  A queue is a JSON object, as in the code, because its digests are taken over the object and its
  transitions copy it. \<open>validate_queue\<close> is one definition per part of the Python function, in the
  order of its checks; each \<open>raise\<close> is a value of \<open>queue_error\<close> with its message (a message that
  prints a dictionary is cut before it). The profile table
  \<open>_queue_profile\<close> and the SHA-256 function are fields of the record \<open>queue_env\<close> that every operation
  takes, and \<open>program_env\<close> is the environment of the program: the properties hold in every
  environment, and so in this one. What the code accesses with \<open>x[k]\<close> after validation is read with
  \<open>dget\<close>, since validation has established that the key is there.
\<close>

section \<open>Errors\<close>

text \<open>\<open>ValueError\<close> with its message; \<open>OtherError\<close> names another exception class (\<open>KeyError\<close>,
  \<open>TypeError\<close>, \<open>re.error\<close>).\<close>

datatype queue_error = ValueError string | OtherError string

abbreviation invalid :: "string \<Rightarrow> (queue_error, 'a) result" where
  "invalid msg \<equiv> Inl (ValueError msg)"

abbreviation invalid_if :: "bool \<Rightarrow> string \<Rightarrow> (queue_error, unit) result" where
  "invalid_if b msg \<equiv> fail_if b (ValueError msg)"

section \<open>Constants and patterns\<close>

definition queue_schema :: string where
  "queue_schema = ''axiom-encode/signed-encoding-queue/v1''"

definition queue_id_re :: "string \<Rightarrow> bool" where
  "queue_id_re s \<longleftrightarrow> s \<noteq> [] \<and> length s \<le> 64 \<and> (is_lower (hd s) \<or> is_digit (hd s))
     \<and> list_all (\<lambda>c. is_lower c \<or> is_digit c \<or> c = CHR ''-'') (tl s)"

definition item_id_re :: "string \<Rightarrow> bool" where
  "item_id_re s \<longleftrightarrow> list_all is_lower (take 2 s) \<and> take 1 (drop 2 s) = ''-''
     \<and> list_all is_digit (drop 3 s) \<and> length (drop 3 s) \<in> {4, 5}"

definition queue_release_name_re :: "string \<Rightarrow> bool" where
  "queue_release_name_re s \<longleftrightarrow> s \<noteq> [] \<and> length s \<le> 128 \<and> (is_lower (hd s) \<or> is_digit (hd s))
     \<and> list_all (\<lambda>c. is_lower c \<or> is_digit c \<or> c = CHR ''-'') (tl s)"

definition sha_re :: "string \<Rightarrow> bool" where
  "sha_re s \<longleftrightarrow> length s = 40 \<and> list_all is_hex s"

definition digest_re :: "string \<Rightarrow> bool" where
  "digest_re s \<longleftrightarrow> length s = 64 \<and> list_all is_hex s"

text \<open>\<open>prefix[0-9]+\<close>: the shape of the URL patterns.\<close>

definition numbered :: "string \<Rightarrow> string \<Rightarrow> bool" where
  "numbered pre s \<longleftrightarrow> prefix pre s \<and> drop (length pre) s \<noteq> [] \<and> list_all is_digit (drop (length pre) s)"

definition rulespec_pr_re :: "string \<Rightarrow> bool" where
  "rulespec_pr_re s \<longleftrightarrow> numbered ''https://github.com/TheAxiomFoundation/rulespec-us/pull/'' s"

definition run_url_prefix :: string where
  "run_url_prefix = ''https://github.com/TheAxiomFoundation/axiom-encode/actions/runs/''"

definition finalizer_run_re :: "string \<Rightarrow> bool" where
  "finalizer_run_re s \<longleftrightarrow> numbered run_url_prefix s"

definition issue_comment_re :: "int \<Rightarrow> string \<Rightarrow> bool" where
  "issue_comment_re n s \<longleftrightarrow> numbered (''https://github.com/TheAxiomFoundation/axiom-encode/issues/''
     @ int_repr n @ ''#issuecomment-'') s"

definition source_kind_re :: "string \<Rightarrow> bool" where
  "source_kind_re s \<longleftrightarrow> s \<noteq> [] \<and> length s \<le> 32 \<and> is_lower (hd s)
     \<and> list_all (\<lambda>c. is_lower c \<or> is_digit c \<or> c \<in> set ''_-'') (tl s)"

definition allowed_statuses :: "string list" where
  "allowed_statuses = [''blocked'', ''completed'', ''no-executable-rule'', ''pending'', ''retryable'']"

definition selectable_statuses :: "string list" where
  "selectable_statuses = [''pending'', ''retryable'']"

definition terminal_statuses :: "string list" where
  "terminal_statuses = [''blocked'', ''completed'', ''no-executable-rule'']"

definition max_batch_size :: nat where
  "max_batch_size = 4"

section \<open>Profiles\<close>

record profile =
  p_activation_path :: string
  p_expected_counts :: "(string \<times> int) list"
  p_issue :: int
  p_inventory :: json
  p_item_width :: nat
  p_priority_citations :: "string list"
  p_supersedes :: json

definition expected_counts :: "(string \<times> int) list" where
  "expected_counts = [(''total'', 831), (''us-or'', 530), (''us-ut'', 301)]"

definition all_state_expected_counts :: "(string \<times> int) list" where
  "all_state_expected_counts =
    [(''total'', 17784), (''us-ak'', 239), (''us-al'', 17), (''us-ar'', 8), (''us-az'', 7),
     (''us-ca'', 15), (''us-co'', 302), (''us-ct'', 279), (''us-dc'', 349), (''us-de'', 264),
     (''us-fl'', 48), (''us-ga'', 100), (''us-hi'', 20), (''us-ia'', 12), (''us-id'', 70),
     (''us-il'', 4750), (''us-in'', 483), (''us-ks'', 255), (''us-ky'', 2), (''us-la'', 346),
     (''us-ma'', 9), (''us-md'', 51), (''us-me'', 2), (''us-mi'', 196), (''us-mn'', 1353),
     (''us-mo'', 515), (''us-ms'', 384), (''us-mt'', 83), (''us-nc'', 79), (''us-nd'', 67),
     (''us-ne'', 5), (''us-nh'', 1), (''us-nj'', 265), (''us-nm'', 28), (''us-nv'', 51),
     (''us-ny'', 17), (''us-oh'', 82), (''us-ok'', 87), (''us-or'', 1322), (''us-pa'', 297),
     (''us-ri'', 272), (''us-sc'', 459), (''us-sd'', 339), (''us-tn'', 27), (''us-tx'', 11),
     (''us-ut'', 655), (''us-va'', 677), (''us-vt'', 32), (''us-wa'', 200), (''us-wi'', 372),
     (''us-wv'', 2276), (''us-wy'', 4)]"

definition priority_citations :: "string list" where
  "priority_citations =
    [''us-ut/manual/dws/eligibility-manual/'' @
       ''tables-appendicies-and-charts-tables-appendicies-and-charts-table-2-'' @
       ''snap-monthly-income-limits-and-m/block-2'',
     ''us-or/manual/odhs/open/page-272'', ''us-or/manual/odhs/open/page-273'',
     ''us-or/manual/odhs/open/page-274'']"

definition all_state_queue_id :: string where
  "all_state_queue_id = ''us-snap-all-states-2026-07''"

definition queue_profile :: "string \<Rightarrow> (queue_error, profile) result" where
  "queue_profile queue_id =
    (if queue_id = ''us-snap-or-ut-2026-07'' then
       Inr \<lparr>p_activation_path = ''data/encoding-queues/us-snap-or-ut-2026-07.json'',
            p_expected_counts = expected_counts, p_issue = 1257, p_inventory = JNull, p_item_width = 4,
            p_priority_citations = priority_citations, p_supersedes = JNull\<rparr>
     else if queue_id = all_state_queue_id then
       Inr \<lparr>p_activation_path = ''data/encoding-queues/'' @ all_state_queue_id @ ''.json'',
            p_expected_counts = all_state_expected_counts, p_issue = 1287,
            p_inventory = JObj [(''jurisdictions'', JInt 51),
              (''path'', JStr ''manifests/state-snap-manual-agent-queue.yaml''),
              (''sha256'', JStr ''23b32cef7957d56b171abe51ed63de6cf22c6c29475ba7a2190b3da4692422b6'')],
            p_item_width = 5, p_priority_citations = [],
            p_supersedes = JArr [JStr ''us-snap-or-ut-2026-07'']\<rparr>
     else invalid (''unsupported protected SNAP queue: '' @ queue_id))"

record queue_env =
  profile_of :: "string \<Rightarrow> (queue_error, profile) result"
  sha :: "string \<Rightarrow> string"

definition program_env :: "(string \<Rightarrow> string) \<Rightarrow> queue_env" where
  "program_env sha256 = \<lparr>profile_of = queue_profile, sha = sha256\<rparr>"

section \<open>Reading\<close>

definition require_sha :: "json \<Rightarrow> string \<Rightarrow> (queue_error, string) result" where
  "require_sha v label = (if is_str v \<and> sha_re (str_of v) then Inr (str_of v)
     else invalid (label @ '' must be a full lowercase commit SHA''))"

definition require_digest :: "json \<Rightarrow> string \<Rightarrow> (queue_error, string) result" where
  "require_digest v label = (if is_str v \<and> digest_re (str_of v) then Inr (str_of v)
     else invalid (label @ '' must be a lowercase SHA-256 digest''))"

text \<open>A call whose value the code discards.\<close>

definition discard :: "('e, 'a) result \<Rightarrow> ('e, unit) result" where
  "discard m = bind_r m (\<lambda>_. Inr ())"

definition json_sha256 :: "queue_env \<Rightarrow> json \<Rightarrow> string" where
  "json_sha256 E v = sha E (dumps v)"

definition items_of :: "jobj \<Rightarrow> jobj list" where
  "items_of q = map obj_of (arr_of (dget q ''items''))"

definition item_id :: "jobj \<Rightarrow> string" where "item_id i = str_of (dget i ''id'')"
definition item_status :: "jobj \<Rightarrow> string" where "item_status i = str_of (dget i ''status'')"
definition item_attempt :: "jobj \<Rightarrow> int" where "item_attempt i = int_of (dget i ''attempt'')"
definition item_citation :: "jobj \<Rightarrow> string" where "item_citation i = str_of (dget i ''citation'')"
definition queue_state :: "jobj \<Rightarrow> string" where "queue_state q = str_of (dget q ''state'')"

lemmas item_reads = item_id_def item_status_def item_attempt_def item_citation_def queue_state_def

lemma discard_Inr [simp]: "discard m = Inr u \<longleftrightarrow> (\<exists>x. m = Inr x)"
  by (cases m) (auto simp: discard_def)

lemma require_sha_Inr [simp]: "require_sha v l = Inr s \<longleftrightarrow> v = JStr s \<and> sha_re s"
  by (auto simp: require_sha_def is_str_iff)

lemma require_digest_Inr [simp]: "require_digest v l = Inr s \<longleftrightarrow> v = JStr s \<and> digest_re s"
  by (auto simp: require_digest_def is_str_iff)

section \<open>Validation\<close>

definition check_state :: "jobj \<Rightarrow> (queue_error, unit) result" where
  "check_state q =
    (let st = dget q ''state''; pause_reason = dget q ''pause_reason'' in
     checks [fail_if (\<not> hashable st) (OtherError ''TypeError''),
       invalid_if (\<not> in_strs st [''active'', ''paused'']) ''queue state must be active or paused'',
       (if st = JStr ''paused''
        then invalid_if (\<not> is_str pause_reason \<or> strip (str_of pause_reason) = []) ''paused queue requires a pause_reason''
        else invalid_if (pause_reason \<noteq> JNull) ''active queue must not have a pause_reason'')])"

definition check_suspension :: "json \<Rightarrow> (queue_error, unit) result" where
  "check_suspension v =
    (if v = JNull then Inr () else
     checks [invalid_if (\<not> is_obj v \<or> keys (obj_of v) \<noteq> {''active_queue_sha256'', ''schema''}
         \<or> dget (obj_of v) ''schema'' \<noteq> JStr ''axiom-encode/signed-encoding-queue-suspension/v1'')
         ''paused queue suspension evidence is malformed'',
       discard (require_digest (dget (obj_of v) ''active_queue_sha256'') ''suspension active_queue_sha256'')])"

definition activation_fields :: "string set" where
  "activation_fields = {''check_runs_sha256'', ''finalizer_head_sha'', ''finalizer_run_attempt'',
     ''finalizer_run_url'', ''previous_queue_object_sha256'', ''pull_requests_sha256'',
     ''rulespec_ref'', ''schema'', ''workflow_runs_sha256''}"

definition check_activation :: "jobj \<Rightarrow> json \<Rightarrow> (queue_error, unit) result" where
  "check_activation q v =
    (let a = obj_of v; dispatch = dget q ''dispatch'' in
     checks ([invalid_if (\<not> is_obj v \<or> keys a \<noteq> activation_fields
         \<or> dget a ''schema'' \<noteq> JStr ''axiom-encode/signed-encoding-queue-activation/v1''
         \<or> \<not> py_eq (dget a ''rulespec_ref'') (if is_obj dispatch then dget (obj_of dispatch) ''rulespec_ref'' else JNull)
         \<or> \<not> is_str (dget a ''finalizer_run_url'') \<or> \<not> finalizer_run_re (str_of (dget a ''finalizer_run_url''))
         \<or> \<not> py_eq (dget a ''finalizer_run_attempt'') (JInt 1))
         ''active queue requires valid finalization evidence'',
       discard (require_sha (dget a ''finalizer_head_sha'') ''finalizer_head_sha'')]
      @ map (\<lambda>f. discard (require_digest (dget a f) f))
          [''check_runs_sha256'', ''previous_queue_object_sha256'', ''pull_requests_sha256'', ''workflow_runs_sha256'']))"

definition check_evidence_state :: "jobj \<Rightarrow> (queue_error, unit) result" where
  "check_evidence_state q =
    (if dget q ''state'' = JStr ''paused''
     then checks [invalid_if (dget q ''activation'' \<noteq> JNull) ''paused queue must not have activation evidence'',
                  check_suspension (dget q ''suspension'')]
     else checks [invalid_if (dget q ''suspension'' \<noteq> JNull) ''active queue must not have suspension evidence'',
                  check_activation q (dget q ''activation'')])"

definition check_release :: "json \<Rightarrow> (queue_error, unit) result" where
  "check_release v =
    (let r = obj_of v; n = dget r ''name'' in
     checks [invalid_if (\<not> is_obj v) ''queue release binding is missing'',
       invalid_if (\<not> is_str n \<or> strip (str_of n) = []) ''queue release name is missing'',
       invalid_if (\<not> queue_release_name_re (str_of n)) ''queue release name is malformed'',
       discard (require_digest (dget r ''content_sha256'') ''release content_sha256''),
       discard (require_digest (dget r ''manifest_sha256'') ''release manifest_sha256'')])"

definition check_dispatch :: "json \<Rightarrow> (queue_error, unit) result" where
  "check_dispatch v =
    (let d = obj_of v in
     checks ([invalid_if (\<not> is_obj v) ''queue dispatch binding is missing'',
       invalid_if (dget d ''country'' \<noteq> JStr ''us'') ''SNAP queue country must be us'',
       invalid_if (dget d ''pr_base_branch'' \<noteq> JStr ''hard-cut/canonical-layout-us'') ''SNAP queue PR base branch is not approved'',
       invalid_if (\<not> is_true (dget d ''open_pr'')) ''SNAP queue must publish draft pull requests'',
       invalid_if (\<not> py_eq (dget d ''max_batch_size'') (JInt (int max_batch_size))) ''SNAP queue max_batch_size must be 4'']
      @ map (\<lambda>f. discard (require_sha (dget d f) f)) [''corpus_ref'', ''rules_engine_ref'', ''rulespec_ref'']))"

definition counts_json :: "(string \<times> int) list \<Rightarrow> json" where
  "counts_json cs = JObj (map (map_prod id JInt) cs)"

text \<open>The lexical safety of a manifest path: relative, below the manifest directory, with no
  parent segment (\<open>Path.parts\<close> drops empty and dot segments, which are not dot-dot).\<close>

definition manifest_path_ok :: "json \<Rightarrow> bool" where
  "manifest_path_ok v \<longleftrightarrow> is_str v \<and> prefix ''.axiom/encoding-manifests/'' (str_of v)
     \<and> \<not> prefix ''/'' (str_of v) \<and> ''..'' \<notin> set (split_on CHR ''/'' (str_of v))"

definition check_completed :: "jobj \<Rightarrow> string \<Rightarrow> (queue_error, unit) result" where
  "check_completed ev iid =
    (let url = dget ev ''url''; lbl = (\<lambda>f. iid @ '' evidence '' @ f) in
     checks [invalid_if (dget ev ''type'' \<noteq> JStr ''merged-rulespec-pr'' \<or> \<not> is_str url \<or> \<not> rulespec_pr_re (str_of url))
         (''completed queue item requires a merged RuleSpec PR: '' @ iid),
       discard (require_sha (dget ev ''merge_commit'') (lbl ''merge_commit'')),
       discard (require_digest (dget ev ''generation_sha256'') (lbl ''generation_sha256'')),
       discard (require_digest (dget ev ''applied_manifest_sha256'') (lbl ''applied_manifest_sha256'')),
       discard (require_digest (dget ev ''artifact_metadata_sha256'') (lbl ''artifact_metadata_sha256'')),
       discard (require_sha (dget ev ''rulespec_pr_head_sha'') (lbl ''rulespec_pr_head_sha'')),
       discard (require_sha (dget ev ''target_run_head_sha'') (lbl ''target_run_head_sha'')),
       invalid_if (\<not> is_str (dget ev ''target_run_url'') \<or> \<not> finalizer_run_re (str_of (dget ev ''target_run_url''))
         \<or> \<not> py_eq (dget ev ''target_run_attempt'') (JInt 1) \<or> \<not> manifest_path_ok (dget ev ''applied_manifest_path''))
         (''completed queue item evidence is malformed: '' @ iid)])"

definition check_disposed :: "jobj \<Rightarrow> string \<Rightarrow> int \<Rightarrow> string \<Rightarrow> (queue_error, unit) result" where
  "check_disposed ev status issue iid =
    (let url = dget ev ''url''; note = dget ev ''note'' in
     invalid_if (dget ev ''type'' \<noteq> JStr ''issue-comment'' \<or> \<not> is_str url \<or> \<not> issue_comment_re issue (str_of url)
       \<or> \<not> is_str note \<or> strip (str_of note) = [])
       (status @ '' queue item requires an issue comment and note: '' @ iid))"

definition check_item_evidence :: "jobj \<Rightarrow> string \<Rightarrow> int \<Rightarrow> (queue_error, unit) result" where
  "check_item_evidence item iid issue =
    (let status = str_of (dget item ''status''); ev = dget item ''evidence'' in
     if status \<notin> set terminal_statuses
     then invalid_if (ev \<noteq> JNull) (''nonterminal queue item must not have evidence: '' @ iid)
     else checks [invalid_if (\<not> is_obj ev) (''terminal queue item requires durable evidence: '' @ iid),
       (if status = ''completed'' then check_completed (obj_of ev) iid
        else check_disposed (obj_of ev) status issue iid)])"

text \<open>The pattern of the item id is built from the text of the jurisdiction. A jurisdiction of a
  profile has no character with a meaning for \<open>re\<close> and stands for itself; a text with such a
  character is not a jurisdiction of a profile and fails here or two checks later, with an exception
  whose class depends on how \<open>re\<close> reads it.\<close>

definition re_literal :: "string \<Rightarrow> bool" where
  "re_literal s \<longleftrightarrow> list_all (\<lambda>c. c \<notin> set ''.^$*+?{}[]|()'' \<and> c \<noteq> CHR 0x5C) s"

definition check_item_id :: "profile \<Rightarrow> json \<Rightarrow> string \<Rightarrow> (queue_error, unit) result" where
  "check_item_id P jurisdiction iid =
    (let code = drop 3 (py_str jurisdiction) in
     if \<not> re_literal code then Inl (OtherError ''re.error'')
     else invalid_if (\<not> (prefix (code @ ''-'') iid \<and> length iid = length code + 1 + p_item_width P
         \<and> list_all is_digit (drop (length code + 1) iid)))
       (''queue item id does not match jurisdiction: '' @ iid))"

text \<open>What the loop over the items carries.\<close>

record scan =
  seen_ids :: "string list"
  seen_citations :: "string list"
  counts :: "(string \<times> int) list"

definition jurisdictions :: "profile \<Rightarrow> string list" where
  "jurisdictions P = sort (remdups (filter (\<lambda>j. j \<noteq> ''total'') (map fst (p_expected_counts P))))"

definition check_item :: "profile \<Rightarrow> int \<Rightarrow> scan \<Rightarrow> nat \<times> json \<Rightarrow> (queue_error, scan) result" where
  "check_item P issue S nitem =
    (case snd nitem of JObj item \<Rightarrow>
       let iid = str_of (dget item ''id''); j = dget item ''jurisdiction''; cit = dget item ''citation'';
           attempt = dget item ''attempt''; status = dget item ''status''; kind = dget item ''source_kind'';
           label = dget item ''label''
       in bind_r (checks
           [invalid_if (\<not> is_str (dget item ''id'') \<or> \<not> item_id_re iid) ''queue item id is malformed'',
            check_item_id P j iid,
            invalid_if (iid \<in> set (seen_ids S)) (''duplicate queue item id: '' @ iid),
            fail_if (\<not> hashable j) (OtherError ''TypeError''),
            invalid_if (\<not> in_strs j (jurisdictions P)) (''queue item jurisdiction is invalid: '' @ iid),
            invalid_if (\<not> is_str cit \<or> \<not> prefix (str_of j @ ''/'') (str_of cit) \<or> list_ex is_space (str_of cit))
              (''queue item citation is invalid: '' @ iid),
            invalid_if (str_of cit \<in> set (seen_citations S)) (''duplicate queue citation: '' @ str_of cit),
            invalid_if (\<not> py_eq (dget item ''sequence'') (JInt (int (fst nitem)))) (''queue item sequence is invalid: '' @ iid),
            invalid_if (\<not> is_int attempt \<or> int_of attempt \<le> 0) (''queue item attempt is invalid: '' @ iid),
            fail_if (\<not> hashable status) (OtherError ''TypeError''),
            invalid_if (\<not> in_strs status allowed_statuses) (''queue item status is invalid: '' @ iid),
            check_item_evidence item iid issue,
            invalid_if (\<not> is_str kind \<or> \<not> source_kind_re (str_of kind)) (''queue item source_kind is invalid: '' @ iid),
            invalid_if (\<not> is_str label \<or> strip (str_of label) = []) (''queue item label is missing: '' @ iid)])
         (\<lambda>_. Inr \<lparr>seen_ids = seen_ids S @ [iid], seen_citations = seen_citations S @ [str_of cit],
            counts = AList.update (str_of j)
              ((case map_of (counts S) (str_of j) of Some n \<Rightarrow> n | None \<Rightarrow> 0) + 1) (counts S)\<rparr>)
     | _ \<Rightarrow> invalid ''queue item must be an object'')"

definition scan_start :: "profile \<Rightarrow> json list \<Rightarrow> scan" where
  "scan_start P items = \<lparr>seen_ids = [], seen_citations = [],
     counts = (''total'', int (length items)) # map (\<lambda>j. (j, 0)) (jurisdictions P)\<rparr>"

definition check_items :: "profile \<Rightarrow> int \<Rightarrow> json list \<Rightarrow> (queue_error, unit) result" where
  "check_items P issue items =
    bind_r (for_each (check_item P issue) (scan_start P items) (enumerate 1 items)) (\<lambda>S.
      checks [invalid_if (\<not> py_eq (counts_json (counts S)) (counts_json (p_expected_counts P)))
          ''queue jurisdiction counts drifted'',
        invalid_if (p_priority_citations P \<noteq> [] \<and>
            map (\<lambda>i. dget (obj_of i) ''citation'') (take (length (p_priority_citations P)) items)
              \<noteq> map JStr (p_priority_citations P))
          ''queue priority tranche has drifted''])"

definition validate_queue :: "queue_env \<Rightarrow> jobj \<Rightarrow> (queue_error, unit) result" where
  "validate_queue E q =
    (let queue_id = dget q ''queue_id''; issue = dget q ''issue''; items = dget q ''items'' in
     bind_r (checks
       [invalid_if (dget q ''schema'' \<noteq> JStr queue_schema) (''queue schema must be '' @ queue_schema),
        invalid_if (\<not> is_str queue_id \<or> \<not> queue_id_re (str_of queue_id)) ''queue_id is malformed'']) (\<lambda>_.
     bind_r (profile_of E (str_of queue_id)) (\<lambda>P.
       checks
        [invalid_if (\<not> is_int issue \<or> int_of issue \<le> 0) ''queue issue must be a positive integer'',
         invalid_if (int_of issue \<noteq> p_issue P) (''queue issue must be '' @ int_repr (p_issue P)),
         invalid_if (\<not> py_eq (dget q ''supersedes'') (p_supersedes P)
            \<and> \<not> (p_supersedes P = JNull \<and> ''supersedes'' \<notin> keys q)) ''queue supersession binding is invalid'',
         invalid_if (\<not> py_eq (dget q ''inventory'') (p_inventory P)
            \<and> \<not> (p_inventory P = JNull \<and> ''inventory'' \<notin> keys q)) ''queue inventory binding is invalid'',
         check_state q, check_evidence_state q, check_release (dget q ''release''),
         check_dispatch (dget q ''dispatch''),
         invalid_if (\<not> py_eq (dget q ''expected_counts'') (counts_json (p_expected_counts P)))
           ''SNAP queue expected_counts must be those of the profile'',
         invalid_if (\<not> is_arr items) ''queue items must be a list'',
         invalid_if (map_of (p_expected_counts P) ''total'' \<noteq> Some (int (length (arr_of items))))
           ''queue item count does not match expected_counts'',
         check_items P (int_of issue) (arr_of items)])))"

section \<open>Digests\<close>

text \<open>A manifest file: its bytes and the value \<open>json.loads\<close> gives for them.\<close>

record queue_file =
  raw_bytes :: string
  parsed :: json

definition load_json :: "queue_file \<Rightarrow> (queue_error, jobj) result" where
  "load_json f = (case parsed f of JObj d \<Rightarrow> Inr d | _ \<Rightarrow> invalid ''queue manifest must be a JSON object'')"

definition queue_file_sha256 :: "queue_env \<Rightarrow> queue_file \<Rightarrow> string" where
  "queue_file_sha256 E f = sha E (raw_bytes f)"

definition queue_object_file_sha256 :: "queue_env \<Rightarrow> jobj \<Rightarrow> string" where
  "queue_object_file_sha256 E q = sha E (dumps_indent (JObj q) @ [CHR 0x0A])"

definition dispatch_queue_sha256 :: "queue_env \<Rightarrow> jobj \<Rightarrow> (queue_error, string) result" where
  "dispatch_queue_sha256 E q =
    (if dget q ''state'' = JStr ''active'' then Inr (queue_object_file_sha256 E q)
     else case dget q ''suspension'' of
       JObj s \<Rightarrow> require_digest (dget s ''active_queue_sha256'') ''suspension active_queue_sha256''
     | _ \<Rightarrow> invalid ''paused queue lacks active dispatch digest evidence'')"

definition generation :: "jobj \<Rightarrow> jobj \<Rightarrow> jobj" where
  "generation q item = [(''attempt'', dget item ''attempt''), (''citation'', dget item ''citation''),
     (''dispatch'', dget q ''dispatch''), (''item_id'', dget item ''id''),
     (''queue_id'', dget q ''queue_id''), (''release'', dget q ''release'')]"

definition item_generation_sha256 :: "queue_env \<Rightarrow> jobj \<Rightarrow> jobj \<Rightarrow> string" where
  "item_generation_sha256 E q item = sha E (dumps (JObj (generation q item)))"

section \<open>Selection\<close>

definition selectable :: "jobj \<Rightarrow> bool" where
  "selectable i \<longleftrightarrow> item_status i \<in> set selectable_statuses"

definition selection_payload :: "queue_env \<Rightarrow> jobj \<Rightarrow> jobj list \<Rightarrow> jobj" where
  "selection_payload E q items =
    [(''dispatch'', dget q ''dispatch''), (''issue'', dget q ''issue''),
     (''items'', JArr (map (\<lambda>i. JObj (AList.update ''generation_sha256'' (JStr (item_generation_sha256 E q i)) i)) items)),
     (''queue_id'', dget q ''queue_id''), (''schema'', JStr queue_schema), (''state'', dget q ''state'')]
    @ (if dget q ''pause_reason'' \<noteq> JNull then [(''pause_reason'', dget q ''pause_reason'')] else [])"

definition selectable_items :: "queue_env \<Rightarrow> jobj \<Rightarrow> (queue_error, jobj) result" where
  "selectable_items E q =
    bind_r (validate_queue E q) (\<lambda>_. Inr (selection_payload E q
      (if queue_state q = ''active'' then filter selectable (items_of q) else [])))"

text \<open>\<open>re.split(r"[,\n]", item_ids)\<close>, stripped, without the empty parts.\<close>

definition requested_ids :: "string \<Rightarrow> string list" where
  "requested_ids s = filter (\<lambda>v. v \<noteq> []) (map strip
     (split_on CHR '','' (map (\<lambda>c. if c = CHR 0x0A then CHR '','' else c) s)))"

definition by_id :: "jobj list \<Rightarrow> string \<rightharpoonup> jobj" where
  "by_id items = map_of (rev (map (\<lambda>i. (item_id i, i)) items))"

definition pick :: "jobj \<Rightarrow> string list \<Rightarrow> int \<Rightarrow> (queue_error, jobj list) result" where
  "pick q requested limit =
    (if requested \<noteq> [] then
       if queue_state q \<noteq> ''active'' then invalid ''queue is paused''
       else if int (length requested) > limit then invalid ''explicit item_ids exceed the requested limit''
       else Inr (map (\<lambda>x. the (by_id (items_of q) x)) requested)
     else Inr (if queue_state q = ''active'' then take (nat limit) (filter selectable (items_of q)) else []))"

definition select_items :: "queue_env \<Rightarrow> jobj \<Rightarrow> string \<Rightarrow> int \<Rightarrow> (queue_error, jobj) result" where
  "select_items E q ids limit =
    bind_r (validate_queue E q) (\<lambda>_.
      let requested = requested_ids ids;
          unknown = filter (\<lambda>x. by_id (items_of q) x = None) requested
      in bind_r (checks
           [invalid_if (limit < 1 \<or> limit > int max_batch_size) ''limit must be between 1 and 4'',
            invalid_if (\<not> distinct requested) ''item_ids contains duplicates'',
            invalid_if (unknown \<noteq> []) (''unknown queue item ids: '' @ join '', '' unknown)]) (\<lambda>_.
         bind_r (pick q requested limit) (\<lambda>selected.
           let blocked = map item_id (filter (\<lambda>i. \<not> selectable i) selected) in
           if blocked \<noteq> [] then invalid (''queue items are not selectable: '' @ join '', '' blocked)
           else Inr (selection_payload E q selected))))"

section \<open>Binding a dispatch to the queue\<close>

record dispatch_inputs =
  di_queue_id :: string
  di_item_id :: string
  di_manifest_sha256 :: string
  di_generation :: string
  di_citation :: string
  di_country :: string
  di_rulespec_ref :: string
  di_pr_base_branch :: string
  di_corpus_ref :: string
  di_rules_engine_ref :: string
  di_open_pr :: bool

definition expected_dispatch :: "dispatch_inputs \<Rightarrow> jobj" where
  "expected_dispatch d = [(''country'', JStr (di_country d)), (''rulespec_ref'', JStr (di_rulespec_ref d)),
     (''pr_base_branch'', JStr (di_pr_base_branch d)), (''corpus_ref'', JStr (di_corpus_ref d)),
     (''rules_engine_ref'', JStr (di_rules_engine_ref d)), (''open_pr'', JBool (di_open_pr d))]"

definition validate_tracked_dispatch :: "queue_env \<Rightarrow> queue_file \<Rightarrow> dispatch_inputs \<Rightarrow> (queue_error, unit) result" where
  "validate_tracked_dispatch E f d =
    bind_r (load_json f) (\<lambda>q.
    bind_r (validate_queue E q) (\<lambda>_.
      let matches = filter (\<lambda>i. item_id i = di_item_id d) (items_of q); item = hd matches;
          dispatch = obj_of (dget q ''dispatch'');
          mismatches = filter (\<lambda>(k, v). \<not> py_eq (dget dispatch k) v) (expected_dispatch d)
      in checks
        [invalid_if (dget q ''queue_id'' \<noteq> JStr (di_queue_id d)) ''tracked dispatch queue_id does not match the manifest'',
         invalid_if (queue_file_sha256 E f \<noteq> di_manifest_sha256 d) ''tracked dispatch queue manifest digest does not match'',
         invalid_if (length matches \<noteq> 1) ''tracked dispatch queue item is unavailable'',
         invalid_if (item_citation item \<noteq> di_citation d) ''tracked dispatch citation does not match the queue item'',
         invalid_if (\<not> selectable item) ''tracked dispatch queue item is not selectable'',
         invalid_if (queue_state q \<noteq> ''active'') ''tracked dispatch queue is paused'',
         invalid_if (item_generation_sha256 E q item \<noteq> di_generation d) ''tracked dispatch queue item generation does not match'',
         invalid_if (mismatches \<noteq> []) (''tracked dispatch trust inputs do not match the queue: '' @ join '', '' (map fst mismatches))]))"

text \<open>\<open>load_release_pin\<close> of \<open>scripts/materialize_corpus_release.py\<close>, on the value of the TOML
  document (\<open>None\<close> when it cannot be read or parsed).\<close>

definition load_release_pin :: "json option \<Rightarrow> (queue_error, string \<times> string) result" where
  "load_release_pin doc =
    (case doc of Some (JObj d) \<Rightarrow>
       (case dget d ''toolchain'' of JObj t \<Rightarrow>
          let n = dget t ''axiom_corpus_release''; s = dget t ''axiom_corpus_release_content_sha256'' in
          if ''axiom_corpus_release'' \<notin> keys t \<or> ''axiom_corpus_release_content_sha256'' \<notin> keys t
          then invalid ''invalid RuleSpec toolchain''
          else if \<not> is_str n \<or> \<not> list_all (\<lambda>p. p \<noteq> [] \<and> list_all (\<lambda>c. is_lower c \<or> is_digit c) p) (split_on CHR ''-'' (str_of n))
          then invalid ''RuleSpec corpus release name is invalid''
          else if \<not> is_str s \<or> \<not> digest_re (str_of s) then invalid ''RuleSpec corpus release digest is invalid''
          else Inr (str_of n, str_of s)
        | _ \<Rightarrow> invalid ''invalid RuleSpec toolchain'')
     | _ \<Rightarrow> invalid ''invalid RuleSpec toolchain'')"

definition validate_release_pin :: "queue_env \<Rightarrow> queue_file \<Rightarrow> json option \<Rightarrow> string \<Rightarrow> (queue_error, unit) result" where
  "validate_release_pin E f toolchain manifest_sha256 =
    bind_r (load_json f) (\<lambda>q.
    bind_r (validate_queue E q) (\<lambda>_.
      if queue_file_sha256 E f \<noteq> manifest_sha256 then invalid ''runtime queue manifest digest does not match''
      else bind_r (load_release_pin toolchain) (\<lambda>pin.
        let release = obj_of (dget q ''release'') in
        invalid_if (JStr (fst pin) \<noteq> dget release ''name'' \<or> JStr (snd pin) \<noteq> dget release ''content_sha256'')
          ''runtime RuleSpec corpus release pin does not match the queue'')))"

section \<open>Transitions\<close>

definition opt_str :: "string option \<Rightarrow> json" where
  "opt_str o_str = (case o_str of None \<Rightarrow> JNull | Some s \<Rightarrow> JStr s)"

definition dispose_item :: "string \<Rightarrow> string option \<Rightarrow> string option \<Rightarrow> jobj \<Rightarrow> jobj" where
  "dispose_item status url note item =
    (let item' = AList.delete ''evidence'' (AList.update ''status'' (JStr status) item) in
     if status \<in> {''blocked'', ''no-executable-rule''}
     then AList.update ''evidence'' (JObj [(''note'', opt_str note), (''type'', JStr ''issue-comment''), (''url'', opt_str url)]) item'
     else if status = ''retryable'' then AList.update ''attempt'' (JInt (item_attempt item' + 1)) item'
     else item')"

text \<open>The item list with one item replaced by its image, as the code mutates the one match in the
  copy.\<close>

definition map_item :: "string \<Rightarrow> (jobj \<Rightarrow> jobj) \<Rightarrow> jobj \<Rightarrow> jobj" where
  "map_item iid f q = AList.update ''items''
     (JArr (map (\<lambda>i. JObj (if item_id i = iid then f i else i)) (items_of q))) q"

definition record_disposition ::
  "queue_env \<Rightarrow> jobj \<Rightarrow> string \<Rightarrow> string \<Rightarrow> string option \<Rightarrow> string option \<Rightarrow> (queue_error, jobj) result" where
  "record_disposition E q iid status url note =
    bind_r (validate_queue E q) (\<lambda>_.
      if status \<notin> {''blocked'', ''no-executable-rule'', ''retryable''}
      then invalid ''disposition status must be blocked, no-executable-rule, or retryable''
      else if length (filter (\<lambda>i. item_id i = iid) (items_of q)) \<noteq> 1
      then invalid ''disposition queue item is unavailable''
      else let updated = map_item iid (dispose_item status url note) q in
        bind_r (validate_queue E updated) (\<lambda>_. Inr updated))"

definition suspension_of :: "string \<Rightarrow> json" where
  "suspension_of digest = JObj [(''active_queue_sha256'', JStr digest),
     (''schema'', JStr ''axiom-encode/signed-encoding-queue-suspension/v1'')]"

definition paused :: "jobj \<Rightarrow> string \<Rightarrow> string \<Rightarrow> jobj" where
  "paused q reason digest =
     AList.update ''suspension'' (suspension_of digest)
       (AList.delete ''activation''
         (AList.update ''pause_reason'' (JStr (strip reason))
           (AList.update ''state'' (JStr ''paused'') q)))"

definition pause_queue :: "queue_env \<Rightarrow> jobj \<Rightarrow> string \<Rightarrow> string \<Rightarrow> (queue_error, jobj) result" where
  "pause_queue E q reason digest =
    bind_r (validate_queue E q) (\<lambda>_.
    bind_r (checks
      [invalid_if (queue_state q \<noteq> ''active'') ''only an active queue can be paused'',
       invalid_if (strip reason = []) ''pause reason must not be empty'',
       discard (require_digest (JStr digest) ''active_queue_sha256'')]) (\<lambda>_.
      let updated = paused q reason digest in
      bind_r (validate_queue E updated) (\<lambda>_. Inr updated)))"

end
