(* ===== verification/Queue_Facts.thy ===== *)
theory Queue_Facts
  imports Signed_Queue
begin

text \<open>
  What validation of a queue establishes, and the properties of selection and of the pausing and
  disposing transitions of \<open>Signed_Queue\<close>.
\<close>

section \<open>Items\<close>

text \<open>The checks on one item that do not depend on the items before it.\<close>

definition item_ok :: "profile \<Rightarrow> int \<Rightarrow> nat \<Rightarrow> jobj \<Rightarrow> bool" where
  "item_ok P issue n item \<longleftrightarrow>
     is_str (dget item ''id'') \<and> item_id_re (item_id item)
     \<and> check_item_id P (dget item ''jurisdiction'') (item_id item) = Inr ()
     \<and> in_strs (dget item ''jurisdiction'') (jurisdictions P)
     \<and> is_str (dget item ''citation'') \<and> prefix (str_of (dget item ''jurisdiction'') @ ''/'') (item_citation item)
     \<and> \<not> list_ex is_space (item_citation item)
     \<and> py_eq (dget item ''sequence'') (JInt (int n))
     \<and> is_int (dget item ''attempt'') \<and> item_attempt item > 0
     \<and> in_strs (dget item ''status'') allowed_statuses
     \<and> check_item_evidence item (item_id item) issue = Inr ()
     \<and> is_str (dget item ''source_kind'') \<and> source_kind_re (str_of (dget item ''source_kind''))
     \<and> is_str (dget item ''label'') \<and> strip (str_of (dget item ''label'')) \<noteq> []"

definition item_jurisdiction :: "jobj \<Rightarrow> string" where
  "item_jurisdiction i = str_of (dget i ''jurisdiction'')"

definition bump :: "(string \<times> int) list \<Rightarrow> string \<Rightarrow> (string \<times> int) list" where
  "bump cs j = AList.update j ((case map_of cs j of Some n \<Rightarrow> n | None \<Rightarrow> 0) + 1) cs"

lemma in_strs_hashable: "in_strs v ss \<Longrightarrow> hashable v"
  by (auto simp: in_strs_def is_str_iff)

lemma check_item_Inr:
  "check_item P issue S (n, raw) = Inr S' \<longleftrightarrow>
    (\<exists>item. raw = JObj item \<and> item_ok P issue n item \<and> item_id item \<notin> set (seen_ids S)
      \<and> item_citation item \<notin> set (seen_citations S)
      \<and> S' = \<lparr>seen_ids = seen_ids S @ [item_id item], seen_citations = seen_citations S @ [item_citation item],
              counts = bump (counts S) (item_jurisdiction item)\<rparr>)"
proof (cases raw)
  case (JObj item)
  then show ?thesis
    by (auto simp: check_item_def Let_def bind_r_Inr_iff item_ok_def item_reads item_jurisdiction_def bump_def
        dest: in_strs_hashable)
qed (auto simp: check_item_def)

lemma check_items_loop:
  assumes "for_each (check_item P issue) S (enumerate n items) = Inr T"
    and "distinct (seen_ids S)" "distinct (seen_citations S)"
  shows "\<exists>its. items = map JObj its \<and> (\<forall>k<length its. item_ok P issue (n + k) (its ! k))
    \<and> seen_ids T = seen_ids S @ map item_id its \<and> distinct (seen_ids T)
    \<and> seen_citations T = seen_citations S @ map item_citation its \<and> distinct (seen_citations T)
    \<and> counts T = foldl bump (counts S) (map item_jurisdiction its)"
  using assms
proof (induction items arbitrary: S n)
  case Nil
  then show ?case by simp
next
  case (Cons raw items)
  then obtain S1 where step: "check_item P issue S (n, raw) = Inr S1"
    and rest: "for_each (check_item P issue) S1 (enumerate (Suc n) items) = Inr T"
    by (auto split: sum.splits)
  then obtain item where item: "raw = JObj item" "item_ok P issue n item"
      "item_id item \<notin> set (seen_ids S)" "item_citation item \<notin> set (seen_citations S)"
      and S1: "S1 = \<lparr>seen_ids = seen_ids S @ [item_id item], seen_citations = seen_citations S @ [item_citation item],
              counts = bump (counts S) (item_jurisdiction item)\<rparr>"
    unfolding check_item_Inr by blast
  have "distinct (seen_ids S1)" "distinct (seen_citations S1)"
    using S1 item Cons.prems by auto
  from Cons.IH[OF rest this] obtain its where its: "items = map JObj its"
    "\<forall>k<length its. item_ok P issue (Suc n + k) (its ! k)"
    "seen_ids T = seen_ids S1 @ map item_id its" "distinct (seen_ids T)"
    "seen_citations T = seen_citations S1 @ map item_citation its" "distinct (seen_citations T)"
    "counts T = foldl bump (counts S1) (map item_jurisdiction its)"
    by blast
  have "item_ok P issue (n + k) ((item # its) ! k)" if "k < length (item # its)" for k
    using that item(2) its(2) by (cases k) auto
  with its item(1) S1 show ?case by (intro exI[of _ "item # its"]) auto
qed

text \<open>The counters count.\<close>

lemma bump_get: "map_of cs j \<noteq> None \<Longrightarrow>
   map_of (bump cs j) k = (if k = j then map_option (\<lambda>n. n + 1) (map_of cs j) else map_of cs k)"
  by (auto simp: bump_def)

lemma foldl_bump_get:
  assumes "set js \<subseteq> keys cs"
  shows "map_of (foldl bump cs js) k = map_option (\<lambda>n. n + int (count_list js k)) (map_of cs k)
     \<and> keys (foldl bump cs js) = keys cs"
  using assms
proof (induction js arbitrary: cs)
  case Nil
  then show ?case by (simp add: option.map_ident)
next
  case (Cons j js)
  then have j: "map_of cs j \<noteq> None" "keys (bump cs j) = keys cs"
    by (simp_all add: bump_def insert_absorb) (auto simp: keys_dom)
  with Cons show ?case
    by (auto simp: bump_get option.map_comp comp_def algebra_simps)
qed

lemma distinct_bump: "distinct (map fst cs) \<Longrightarrow> distinct (map fst (foldl bump cs js))"
  by (induction js arbitrary: cs) (auto simp: bump_def distinct_update)

lemma py_eq_counts:
  assumes "py_eq (counts_json a) (counts_json b)"
  shows "set a = set b"
proof -
  have inj: "inj (map_prod id JInt)" by (auto intro!: injI)
  have comp: "map_prod id eq_norm ` map_prod id JInt ` S = map_prod id JInt ` S" for S :: "(string \<times> int) set"
    by (auto simp: image_image intro!: image_cong)
  have "map_prod id JInt ` set a = map_prod id JInt ` set b"
    using py_eq_JObj_set[OF assms[unfolded counts_json_def]] by (simp only: set_map comp)
  then show ?thesis by (simp add: inj_image_eq_iff[OF inj])
qed

lemma set_jurisdictions: "set (jurisdictions P) = fst ` set (p_expected_counts P) - {''total''}"
  by (auto simp: jurisdictions_def)

section \<open>The invariant of a queue\<close>

text \<open>The part of validity that the transitions and the clients of a queue rely on.\<close>

definition queue_inv :: "profile \<Rightarrow> jobj \<Rightarrow> bool" where
  "queue_inv P q \<longleftrightarrow>
     queue_state q \<in> {''active'', ''paused''} \<and> dget q ''items'' = JArr (map JObj (items_of q))
     \<and> map_of (p_expected_counts P) ''total'' = Some (int (length (items_of q)))
     \<and> distinct (map item_id (items_of q)) \<and> distinct (map item_citation (items_of q))
     \<and> (\<forall>k<length (items_of q). item_ok P (p_issue P) (k + 1) (items_of q ! k))
     \<and> (\<forall>(j, n)\<in>set (p_expected_counts P). j = ''total'' \<or> n = int (count_list (map item_jurisdiction (items_of q)) j))
     \<and> map item_citation (take (length (p_priority_citations P)) (items_of q)) = p_priority_citations P"

lemma check_items_Inr:
  assumes "check_items P issue items = Inr ()"
  obtains its where "items = map JObj its" "\<forall>k<length its. item_ok P issue (k + 1) (its ! k)"
    "distinct (map item_id its)" "distinct (map item_citation its)"
    "\<forall>(j, n)\<in>set (p_expected_counts P). j = ''total'' \<or> n = int (count_list (map item_jurisdiction its) j)"
    "map item_citation (take (length (p_priority_citations P)) its) = p_priority_citations P"
proof -
  from assms obtain T where loop: "for_each (check_item P issue) (scan_start P items) (enumerate 1 items) = Inr T"
    and cnt: "py_eq (counts_json (counts T)) (counts_json (p_expected_counts P))"
    and prio: "p_priority_citations P \<noteq> [] \<Longrightarrow>
      map (\<lambda>i. dget (obj_of i) ''citation'') (take (length (p_priority_citations P)) items) = map JStr (p_priority_citations P)"
    by (auto simp: check_items_def)
  obtain its where its: "items = map JObj its" "\<forall>k<length its. item_ok P issue (1 + k) (its ! k)"
    "seen_ids T = seen_ids (scan_start P items) @ map item_id its" "distinct (seen_ids T)"
    "seen_citations T = seen_citations (scan_start P items) @ map item_citation its" "distinct (seen_citations T)"
    "counts T = foldl bump (counts (scan_start P items)) (map item_jurisdiction its)"
    using check_items_loop[OF loop] by (auto simp: scan_start_def)
  let ?c0 = "counts (scan_start P items)"
  have tot: "''total'' \<notin> set (jurisdictions P)" by (simp add: set_jurisdictions)
  have dist: "distinct (map fst ?c0)"
    using tot by (simp add: scan_start_def comp_def) (simp add: jurisdictions_def)
  have js: "set (map item_jurisdiction its) \<subseteq> set (jurisdictions P)"
    using its(2) by (auto simp: item_ok_def in_strs_def item_jurisdiction_def in_set_conv_nth)
  then have sub: "set (map item_jurisdiction its) \<subseteq> keys ?c0"
    by (auto simp: scan_start_def keys_def image_image)
  have "n = int (count_list (map item_jurisdiction its) j)"
    if "(j, n) \<in> set (p_expected_counts P)" "j \<noteq> ''total''" for j n
  proof -
    have "(j, n) \<in> set (counts T)" using py_eq_counts[OF cnt] that by simp
    then have "map_of (counts T) j = Some n" using its(7) distinct_bump[OF dist] by simp
    moreover have "j \<in> set (jurisdictions P)"
      using that image_eqI[of j fst "(j, n)"] by (simp add: set_jurisdictions)
    then have "map_of ?c0 j = Some 0"
      using that(2) by (auto simp: scan_start_def map_of_map_restrict)
    ultimately show ?thesis
      using foldl_bump_get[OF sub, of j] its(7) by simp
  qed
  moreover have "map item_citation (take (length (p_priority_citations P)) its) = p_priority_citations P"
  proof (cases "p_priority_citations P = []")
    case False
    have "map item_citation (take m its) = map str_of (map (\<lambda>i. dget (obj_of i) ''citation'') (take m items))" for m
      by (simp add: its(1) take_map comp_def item_citation_def)
    then have "map item_citation (take (length (p_priority_citations P)) its) = map str_of (map JStr (p_priority_citations P))"
      by (simp only: prio[OF False])
    then show ?thesis by (simp add: comp_def)
  qed simp
  moreover have "distinct (map item_id its)" "distinct (map item_citation its)"
    using its(3-6) by (auto simp: scan_start_def)
  ultimately show ?thesis
    using that[OF its(1)] its(2) by auto
qed

text \<open>Validation as a list of facts.\<close>

lemma validate_queue_Inr:
  "validate_queue E q = Inr u \<longleftrightarrow>
    dget q ''schema'' = JStr queue_schema \<and> is_str (dget q ''queue_id'') \<and> queue_id_re (str_of (dget q ''queue_id''))
    \<and> (\<exists>P. profile_of E (str_of (dget q ''queue_id'')) = Inr P
        \<and> is_int (dget q ''issue'') \<and> int_of (dget q ''issue'') > 0 \<and> int_of (dget q ''issue'') = p_issue P
        \<and> (py_eq (dget q ''supersedes'') (p_supersedes P) \<or> p_supersedes P = JNull \<and> ''supersedes'' \<notin> keys q)
        \<and> (py_eq (dget q ''inventory'') (p_inventory P) \<or> p_inventory P = JNull \<and> ''inventory'' \<notin> keys q)
        \<and> check_state q = Inr () \<and> check_evidence_state q = Inr () \<and> check_release (dget q ''release'') = Inr ()
        \<and> check_dispatch (dget q ''dispatch'') = Inr ()
        \<and> py_eq (dget q ''expected_counts'') (counts_json (p_expected_counts P))
        \<and> is_arr (dget q ''items'')
        \<and> map_of (p_expected_counts P) ''total'' = Some (int (length (arr_of (dget q ''items''))))
        \<and> check_items P (p_issue P) (arr_of (dget q ''items'')) = Inr ())"
  by (auto simp: validate_queue_def Let_def bind_r_Inr_iff)

lemma validate_queue_dispatch:
  assumes "validate_queue E q = Inr u"
  shows "check_dispatch (dget q ''dispatch'') = Inr ()" "check_release (dget q ''release'') = Inr ()"
  using assms unfolding validate_queue_Inr by - (elim conjE exE, assumption)+

lemma validate_queue_inv:
  assumes "validate_queue E q = Inr u"
  obtains P where "profile_of E (str_of (dget q ''queue_id'')) = Inr P" "queue_inv P q"
proof -
  from assms obtain P where P: "profile_of E (str_of (dget q ''queue_id'')) = Inr P"
    and st: "check_state q = Inr ()" and arr: "is_arr (dget q ''items'')"
    and tot: "map_of (p_expected_counts P) ''total'' = Some (int (length (arr_of (dget q ''items''))))"
    and items: "check_items P (p_issue P) (arr_of (dget q ''items'')) = Inr ()"
    unfolding validate_queue_Inr by blast
  obtain its where its: "arr_of (dget q ''items'') = map JObj its"
    "\<forall>k<length its. item_ok P (p_issue P) (k + 1) (its ! k)"
    "distinct (map item_id its)" "distinct (map item_citation its)"
    "\<forall>(j, n)\<in>set (p_expected_counts P). j = ''total'' \<or> n = int (count_list (map item_jurisdiction its) j)"
    "map item_citation (take (length (p_priority_citations P)) its) = p_priority_citations P"
    using items by (rule check_items_Inr)
  have eq: "items_of q = its" by (simp add: items_of_def its(1) comp_def)
  have "queue_state q \<in> {''active'', ''paused''}"
    using st by (auto simp: check_state_def Let_def in_strs_def queue_state_def)
  then have "queue_inv P q"
    unfolding queue_inv_def eq using its tot arr by (auto simp: is_arr_iff)
  with P that show ?thesis by blast
qed

section \<open>Selection\<close>

lemma map_of_by_id:
  assumes "distinct (map item_id items)"
  shows "by_id items x = Some i \<longleftrightarrow> i \<in> set items \<and> item_id i = x"
proof -
  let ?m = "map (\<lambda>i. (item_id i, i)) items"
  have "distinct (map fst (rev ?m))" using assms by (simp add: rev_map[symmetric] comp_def)
  then have "by_id items x = Some i \<longleftrightarrow> (x, i) \<in> set (rev ?m)"
    unfolding by_id_def by (rule map_of_eq_Some_iff)
  then show ?thesis by auto
qed

lemma by_id_None: "by_id items x = None \<longleftrightarrow> x \<notin> item_id ` set items"
  by (auto simp: by_id_def map_of_eq_None_iff image_image)

lemma pick_Inr:
  assumes "pick q requested limit = Inr chosen" "distinct requested" "distinct (map item_id (items_of q))"
    and "\<forall>x\<in>set requested. by_id (items_of q) x \<noteq> None" "1 \<le> limit"
  shows "int (length chosen) \<le> limit" "distinct (map item_id chosen)" "set chosen \<subseteq> set (items_of q)"
    "chosen \<noteq> [] \<longrightarrow> queue_state q = ''active''"
    "requested \<noteq> [] \<longrightarrow> map item_id chosen = requested"
    "requested = [] \<and> queue_state q = ''active'' \<longrightarrow> chosen = take (nat limit) (filter selectable (items_of q))"
proof -
  let ?get = "\<lambda>x. the (by_id (items_of q) x)"
  have get: "?get x \<in> set (items_of q) \<and> item_id (?get x) = x" if "x \<in> set requested" for x
  proof -
    from assms(4) that have "by_id (items_of q) x \<noteq> None" by blast
    then obtain i where "by_id (items_of q) x = Some i" by (cases "by_id (items_of q) x") simp_all
    then show ?thesis using map_of_by_id[OF assms(3), of x i] by simp
  qed
  then have ids: "map item_id (map ?get requested) = requested" by (simp add: map_idI)
  consider (asked) "requested \<noteq> []" "queue_state q = ''active''" "int (length requested) \<le> limit" "chosen = map ?get requested"
    | (leading) "requested = []" "queue_state q = ''active''" "chosen = take (nat limit) (filter selectable (items_of q))"
    | (idle) "requested = []" "queue_state q \<noteq> ''active''" "chosen = []"
    using assms(1) by (auto simp: pick_def split: if_splits)
  note cases = this
  have f: "distinct (map item_id (filter selectable (items_of q)))" using assms(3) by (rule distinct_map_filter)
  show "int (length chosen) \<le> limit" using cases assms(5) by cases auto
  show "distinct (map item_id chosen)"
    using cases by cases (use assms(2) ids f in \<open>auto simp: take_map[symmetric]\<close>)
  show "set chosen \<subseteq> set (items_of q)"
    using cases by cases (use get in \<open>auto dest: in_set_takeD\<close>)
  show "chosen \<noteq> [] \<longrightarrow> queue_state q = ''active''" using cases by cases auto
  show "requested \<noteq> [] \<longrightarrow> map item_id chosen = requested" using cases by cases (use ids in auto)
  show "requested = [] \<and> queue_state q = ''active'' \<longrightarrow> chosen = take (nat limit) (filter selectable (items_of q))"
    using cases by cases auto
qed

section \<open>Pausing and disposing\<close>

lemma items_of_update [simp]: "k \<noteq> ''items'' \<Longrightarrow> items_of (AList.update k v q) = items_of q"
  "k \<noteq> ''items'' \<Longrightarrow> items_of (AList.delete k q) = items_of q"
  by (simp_all add: items_of_def)

lemma paused_reads:
  "dget (paused q r d) k =
     (if k = ''suspension'' then suspension_of d else if k = ''activation'' then JNull
      else if k = ''pause_reason'' then JStr (strip r) else if k = ''state'' then JStr ''paused'' else dget q k)"
  "k \<notin> {''suspension'', ''activation'', ''pause_reason'', ''state''} \<Longrightarrow> k \<in> keys (paused q r d) \<longleftrightarrow> k \<in> keys q"
  by (auto simp: paused_def)

lemma items_of_paused [simp]: "items_of (paused q r d) = items_of q"
  by (simp add: items_of_def paused_reads)

lemma paused_valid:
  assumes "validate_queue E q = Inr ()" "strip r \<noteq> []" "digest_re d"
  shows "validate_queue E (paused q r d) = Inr ()"
proof -
  have "check_state (paused q r d) = Inr ()"
    using assms(2) by (simp add: check_state_def Let_def paused_reads in_strs_def)
  moreover have "check_evidence_state (paused q r d) = Inr ()"
    using assms(3) by (simp add: check_evidence_state_def paused_reads check_suspension_def suspension_of_def)
  ultimately show ?thesis
    using assms(1) unfolding validate_queue_Inr by (elim conjE exE, intro conjI exI) (simp_all add: paused_reads)
qed

lemma items_of_map_item [simp]:
  "items_of (map_item iid f q) = map (\<lambda>i. if item_id i = iid then f i else i) (items_of q)"
  by (simp add: items_of_def map_item_def comp_def)

lemma dget_map_item: "k \<noteq> ''items'' \<Longrightarrow> dget (map_item iid f q) k = dget q k"
  by (simp add: map_item_def)

lemma dispose_reads:
  assumes "status \<in> {''blocked'', ''no-executable-rule'', ''retryable''}"
  shows "item_status (dispose_item status url note i) = status"
    "item_attempt (dispose_item status url note i) = (if status = ''retryable'' then item_attempt i + 1 else item_attempt i)"
    "k \<notin> {''status'', ''evidence'', ''attempt''} \<Longrightarrow> dget (dispose_item status url note i) k = dget i k"
  using assms by (auto simp: dispose_item_def Let_def item_reads)

lemma unique_match:
  assumes "length (filter P xs) = 1"
  obtains k where "k < length xs" "P (xs ! k)" "\<And>j. j < length xs \<Longrightarrow> P (xs ! j) \<Longrightarrow> j = k"
proof -
  from assms have "card {i. i < length xs \<and> P (xs ! i)} = 1" by (simp add: length_filter_conv_card)
  then obtain k where "{i. i < length xs \<and> P (xs ! i)} = {k}" by (rule card_1_singletonE)
  then show ?thesis using that by blast
qed

lemma map_unique:
  assumes "n < length xs" "P (xs ! n)" "\<And>j. j < length xs \<Longrightarrow> P (xs ! j) \<Longrightarrow> j = n"
  shows "map (\<lambda>x. if P x then f x else x) xs = xs[n := f (xs ! n)]"
proof (rule nth_equalityI)
  fix j assume j: "j < length (map (\<lambda>x. if P x then f x else x) xs)"
  show "map (\<lambda>x. if P x then f x else x) xs ! j = xs[n := f (xs ! n)] ! j"
  proof (cases "j = n")
    case True
    then show ?thesis using assms(1,2) by simp
  next
    case False
    then have "\<not> P (xs ! j)" using assms(3)[of j] j by (metis length_map)
    then show ?thesis using False j by simp
  qed
qed simp

lemma select_items_Inr:
  assumes "select_items E q ids limit = Inr sel"
  obtains chosen where "validate_queue E q = Inr ()" "sel = selection_payload E q chosen"
    "set chosen \<subseteq> set (items_of q)" "list_all selectable chosen" "chosen = [] \<or> queue_state q = ''active''"
    "int (length chosen) \<le> limit" "limit \<le> 4" "distinct (map item_id chosen)"
    "requested_ids ids \<noteq> [] \<longrightarrow> map item_id chosen = requested_ids ids"
    "requested_ids ids = [] \<and> queue_state q = ''active'' \<longrightarrow> chosen = take (nat limit) (filter selectable (items_of q))"
proof -
  from assms obtain chosen where v: "validate_queue E q = Inr ()"
    and lim: "1 \<le> limit" "limit \<le> 4" and req: "distinct (requested_ids ids)"
      "\<forall>x\<in>set (requested_ids ids). by_id (items_of q) x \<noteq> None"
    and chosen: "pick q (requested_ids ids) limit = Inr chosen" "filter (\<lambda>i. \<not> selectable i) chosen = []"
      "sel = selection_payload E q chosen"
    by (auto simp: select_items_def Let_def max_batch_size_def filter_empty_conv)
  obtain P where "queue_inv P q" using v by (rule validate_queue_inv)
  then have d: "distinct (map item_id (items_of q))" by (simp add: queue_inv_def)
  have "list_all selectable chosen" using chosen(2) by (simp add: list_all_iff filter_empty_conv)
  then show ?thesis
    using that[OF v chosen(3)] pick_Inr[OF chosen(1) req(1) d req(2) lim(1)] lim by blast
qed

section \<open>Properties\<close>

text \<open>C7. A valid queue keeps its inventory: the items are objects with pairwise different ids and
  citations, numbered from one, as many as the profile fixes in total and for every jurisdiction,
  each with a well-formed id of its jurisdiction, a positive attempt, an allowed status and the
  evidence that status requires; the priority citations come first.\<close>

theorem valid_queue_inventory:
  assumes "validate_queue E q = Inr ()"
  shows "\<exists>P. profile_of E (str_of (dget q ''queue_id'')) = Inr P \<and> queue_inv P q"
  using validate_queue_inv[OF assms] by blast

text \<open>C8. A selection is bounded and safe: it has at most \<open>limit\<close> items and \<open>limit\<close> is at most four,
  the items are pairwise different items of the queue with a selectable status, and none is selected
  from a queue that is not active. An explicit request is answered exactly, in the order asked; without
  one the leading selectable items are taken.\<close>

theorem select_items_sound:
  assumes "select_items E q ids limit = Inr sel"
  shows "\<exists>chosen. sel = selection_payload E q chosen
    \<and> int (length chosen) \<le> limit \<and> limit \<le> 4 \<and> distinct (map item_id chosen)
    \<and> set chosen \<subseteq> set (items_of q) \<and> list_all selectable chosen
    \<and> (chosen = [] \<or> queue_state q = ''active'')
    \<and> (requested_ids ids \<noteq> [] \<longrightarrow> map item_id chosen = requested_ids ids)
    \<and> (requested_ids ids = [] \<and> queue_state q = ''active'' \<longrightarrow> chosen = take (nat limit) (filter selectable (items_of q)))"
  using assms by (rule select_items_Inr) blast

text \<open>Selection makes progress: on a valid active queue, an empty request with a limit from one to
  four succeeds and returns the first \<open>limit\<close> selectable items, at least one whenever one is left.\<close>

theorem select_items_progress:
  assumes "validate_queue E q = Inr ()" "queue_state q = ''active''" "1 \<le> limit" "limit \<le> 4"
  shows "select_items E q [] limit
      = Inr (selection_payload E q (take (nat limit) (filter selectable (items_of q))))
    \<and> (take (nat limit) (filter selectable (items_of q)) = [] \<longleftrightarrow> list_all (\<lambda>i. \<not> selectable i) (items_of q))"
proof -
  have "requested_ids [] = []" by (simp add: requested_ids_def strip_def)
  moreover have "filter (\<lambda>i. \<not> selectable i) (take (nat limit) (filter selectable (items_of q))) = []"
    by (auto simp: filter_empty_conv dest: in_set_takeD)
  moreover have "take (nat limit) (filter selectable (items_of q)) = [] \<longleftrightarrow> list_all (\<lambda>i. \<not> selectable i) (items_of q)"
    using assms(3) by (auto simp: list_all_iff filter_empty_conv)
  ultimately show ?thesis
    using assms by (simp add: select_items_def Let_def pick_def max_batch_size_def)
qed

text \<open>An active queue can always be paused: for a valid active queue, a reason that is not blank
  and a digest, \<open>pause_queue\<close> succeeds (the final validation cannot fail), keeps every item and every
  other member, and the paused queue still names the digest of the active queue that authorised the
  runs.\<close>

theorem pause_queue_total:
  assumes "validate_queue E q = Inr ()" "queue_state q = ''active''" "strip reason \<noteq> []" "digest_re digest"
  shows "\<exists>q'. pause_queue E q reason digest = Inr q' \<and> validate_queue E q' = Inr ()
    \<and> queue_state q' = ''paused'' \<and> items_of q' = items_of q \<and> dispatch_queue_sha256 E q' = Inr digest
    \<and> (\<forall>k. k \<in> {''state'', ''pause_reason'', ''activation'', ''suspension''} \<or> dget q' k = dget q k)"
proof (intro exI[of _ "paused q reason digest"] conjI allI)
  note v = paused_valid[OF assms(1,3,4)]
  show "pause_queue E q reason digest = Inr (paused q reason digest)"
    using assms v by (simp add: pause_queue_def Let_def discard_def require_digest_def)
  show "dispatch_queue_sha256 E (paused q reason digest) = Inr digest"
    using assms(4) by (simp add: dispatch_queue_sha256_def paused_reads suspension_of_def)
qed (use paused_valid[OF assms(1,3,4)] in \<open>auto simp: paused_reads queue_state_def\<close>)

text \<open>A disposition touches one item and keeps the queue valid: exactly one item has the id, it gets
  the new status (and one more attempt exactly when it is retried) and keeps its id, citation,
  jurisdiction, sequence, label and kind; every other item and every other member of the queue is
  unchanged.\<close>

theorem record_disposition_frame:
  assumes "record_disposition E q iid status url note = Inr q'"
  shows "validate_queue E q' = Inr () \<and> length (items_of q') = length (items_of q)
    \<and> (\<forall>k. k = ''items'' \<or> dget q' k = dget q k)
    \<and> (\<exists>n<length (items_of q). item_id (items_of q ! n) = iid
        \<and> items_of q' = (items_of q)[n := dispose_item status url note (items_of q ! n)]
        \<and> item_status (items_of q' ! n) = status
        \<and> item_attempt (items_of q' ! n)
            = (if status = ''retryable'' then item_attempt (items_of q ! n) + 1 else item_attempt (items_of q ! n))
        \<and> (\<forall>k. k \<in> {''status'', ''evidence'', ''attempt''} \<or> dget (items_of q' ! n) k = dget (items_of q ! n) k))"
proof -
  let ?f = "dispose_item status url note"
  from assms have st: "status \<in> {''blocked'', ''no-executable-rule'', ''retryable''}"
    and one: "length (filter (\<lambda>i. item_id i = iid) (items_of q)) = 1"
    and q': "q' = map_item iid ?f q" and v: "validate_queue E q' = Inr ()"
    by (auto simp: record_disposition_def Let_def)
  obtain n where n: "n < length (items_of q)" "item_id (items_of q ! n) = iid"
    and uniq: "\<And>j. j < length (items_of q) \<Longrightarrow> item_id (items_of q ! j) = iid \<Longrightarrow> j = n"
    using one by (rule unique_match) blast
  have upd: "items_of q' = (items_of q)[n := ?f (items_of q ! n)]"
    unfolding q' items_of_map_item using n uniq by (rule map_unique)
  have "\<forall>k. k = ''items'' \<or> dget q' k = dget q k"
    unfolding q' using dget_map_item by blast
  moreover have "items_of q' ! n = ?f (items_of q ! n)" "length (items_of q') = length (items_of q)"
    using n(1) by (simp_all add: upd)
  moreover have "\<forall>k. k \<in> {''status'', ''evidence'', ''attempt''} \<or> dget (?f i) k = dget i k" for i
    using dispose_reads(3)[OF st] by blast
  ultimately show ?thesis
    using v n upd dispose_reads(1,2)[OF st] by (intro conjI exI[of _ n]) simp_all
qed

text \<open>The inputs the dispatcher passes to a targeted run for one entry of a selection.\<close>

definition inputs_for :: "queue_env \<Rightarrow> queue_file \<Rightarrow> jobj \<Rightarrow> jobj \<Rightarrow> dispatch_inputs" where
  "inputs_for E f sel entry =
    (let d = obj_of (dget sel ''dispatch'') in
     \<lparr>di_queue_id = str_of (dget sel ''queue_id''), di_item_id = item_id entry, di_manifest_sha256 = queue_file_sha256 E f,
      di_generation = str_of (dget entry ''generation_sha256''), di_citation = item_citation entry,
      di_country = str_of (dget d ''country''), di_rulespec_ref = str_of (dget d ''rulespec_ref''),
      di_pr_base_branch = str_of (dget d ''pr_base_branch''), di_corpus_ref = str_of (dget d ''corpus_ref''),
      di_rules_engine_ref = str_of (dget d ''rules_engine_ref''), di_open_pr = True\<rparr>)"

lemma selection_items:
  "items_of (selection_payload E q chosen)
     = map (\<lambda>i. AList.update ''generation_sha256'' (JStr (item_generation_sha256 E q i)) i) chosen"
  by (simp add: items_of_def selection_payload_def comp_def)

lemma selection_reads:
  "dget (selection_payload E q chosen) ''dispatch'' = dget q ''dispatch''"
  "dget (selection_payload E q chosen) ''queue_id'' = dget q ''queue_id''"
  by (simp_all add: selection_payload_def)

lemma filter_id_unique:
  assumes "distinct (map item_id items)" "i \<in> set items"
  shows "filter (\<lambda>j. item_id j = item_id i) items = [i]"
proof (rule distinct_set_singleton)
  show "distinct (filter (\<lambda>j. item_id j = item_id i) items)" using assms(1) by (simp add: distinct_map)
  show "set (filter (\<lambda>j. item_id j = item_id i) items) = {i}"
    using assms by (auto simp: distinct_map inj_on_def)
qed

lemma dispatch_matches:
  assumes "check_dispatch v = Inr ()"
  shows "dget (obj_of v) ''country'' = JStr ''us''" "dget (obj_of v) ''open_pr'' = JBool True"
    "dget (obj_of v) ''pr_base_branch'' = JStr ''hard-cut/canonical-layout-us''"
    "\<exists>s. dget (obj_of v) ''rulespec_ref'' = JStr s" "\<exists>s. dget (obj_of v) ''corpus_ref'' = JStr s"
    "\<exists>s. dget (obj_of v) ''rules_engine_ref'' = JStr s"
  using assms by (auto simp: check_dispatch_def Let_def is_true_def)

text \<open>C12. What the queue selects it also accepts: for every entry of a selection, the targeted run that is
  dispatched with the entry's inputs passes the binding check against the same manifest.\<close>

theorem selected_items_dispatch:
  assumes "select_items E q ids limit = Inr sel" "entry \<in> set (items_of sel)" "parsed f = JObj q"
  shows "validate_tracked_dispatch E f (inputs_for E f sel entry) = Inr ()"
proof -
  obtain chosen where v: "validate_queue E q = Inr ()" and sel: "sel = selection_payload E q chosen"
    and sub: "set chosen \<subseteq> set (items_of q)" "list_all selectable chosen" "chosen = [] \<or> queue_state q = ''active''"
    using assms(1) by (rule select_items_Inr)
  from assms(2) obtain i where i: "i \<in> set chosen"
    and e: "entry = AList.update ''generation_sha256'' (JStr (item_generation_sha256 E q i)) i"
    by (auto simp: sel selection_items)
  have act: "queue_state q = ''active''" "selectable i" "i \<in> set (items_of q)"
    using sub i by (auto simp: list_all_iff)
  obtain P where "queue_inv P q" using v by (rule validate_queue_inv)
  then have m: "filter (\<lambda>j. item_id j = item_id i) (items_of q) = [i]"
    using filter_id_unique[OF _ act(3)] by (simp add: queue_inv_def)
  have qid: "dget q ''queue_id'' = JStr (str_of (dget q ''queue_id''))"
    using v unfolding validate_queue_Inr by (auto simp: is_str_iff)
  obtain a b c where refs: "dget (obj_of (dget q ''dispatch'')) ''rulespec_ref'' = JStr a"
    "dget (obj_of (dget q ''dispatch'')) ''corpus_ref'' = JStr b" "dget (obj_of (dget q ''dispatch'')) ''rules_engine_ref'' = JStr c"
    using dispatch_matches(4-6)[OF validate_queue_dispatch(1)[OF v]] by blast
  have entry: "item_id entry = item_id i" "item_citation entry = item_citation i"
    "dget entry ''generation_sha256'' = JStr (item_generation_sha256 E q i)"
    by (simp_all add: e item_reads)
  show ?thesis
    by (simp add: validate_tracked_dispatch_def load_json_def assms(3) v inputs_for_def Let_def entry m act sel
        selection_reads qid[symmetric] expected_dispatch_def dispatch_matches(1-3)[OF validate_queue_dispatch(1)[OF v]] refs)
qed

text \<open>A generation digest identifies one attempt on one item: without a SHA-256 collision, items of
  valid queues with the same generation digest have the same id, citation and attempt, and their queues
  the same id, dispatch bindings and release (up to the order of keys).\<close>

theorem generation_digest_binds:
  assumes "item_generation_sha256 E q i = item_generation_sha256 E r j"
    and "sha E (dumps (JObj (generation q i))) = sha E (dumps (JObj (generation r j)))
      \<Longrightarrow> dumps (JObj (generation q i)) = dumps (JObj (generation r j))"
    and "wf_json (JObj (generation q i))" "wf_json (JObj (generation r j))"
    and "distinct_keys (JObj (generation q i))" "distinct_keys (JObj (generation r j))"
  shows "jeqv (dget i ''id'') (dget j ''id'') \<and> item_id i = item_id j \<and> item_citation i = item_citation j
    \<and> item_attempt i = item_attempt j \<and> jeqv (dget q ''queue_id'') (dget r ''queue_id'')
    \<and> jeqv (dget q ''dispatch'') (dget r ''dispatch'') \<and> jeqv (dget q ''release'') (dget r ''release'')"
proof -
  have "dumps (JObj (generation q i)) = dumps (JObj (generation r j))"
    using assms(1,2) by (simp add: item_generation_sha256_def)
  then have "sort_keys (JObj (generation q i)) = sort_keys (JObj (generation r j))"
    using canon.enc_norm[OF assms(3,4)] by simp
  then have "jeqv (JObj (generation q i)) (JObj (generation r j))"
    using assms(5,6) by (simp only: jeqv_def)
  note get = this[THEN jeqv_get]
  have eqs: "jeqv (dget i ''id'') (dget j ''id'')" "jeqv (dget i ''citation'') (dget j ''citation'')"
    "jeqv (dget i ''attempt'') (dget j ''attempt'')" "jeqv (dget q ''queue_id'') (dget r ''queue_id'')"
    "jeqv (dget q ''dispatch'') (dget r ''dispatch'')" "jeqv (dget q ''release'') (dget r ''release'')"
    using get[of "''item_id''"] get[of "''citation''"] get[of "''attempt''"] get[of "''queue_id''"]
      get[of "''dispatch''"] get[of "''release''"] by (simp_all add: generation_def)
  show ?thesis
    using eqs jeqv_str_of[OF eqs(1)] jeqv_str_of[OF eqs(2)] jeqv_int_of[OF eqs(3)] by (simp add: item_reads)
qed

end
