(* ===== verification/Queue_Evidence.thy ===== *)
theory Queue_Evidence
  imports Queue_Facts
begin

text \<open>
  The evidence checks of the queue (\<open>scripts/prepare_signed_queue.py\<close>): workflow run and job history,
  check runs, the activation of a finalised queue, the authorisation of its merge, and the
  transitions a pull request may make on a paused queue.

  JSON documents that the GitHub API returns are arguments, as in the code. The properties state
  what acceptance of each document establishes; the last section shows that along accepted
  transitions terminal items are never rewritten, no item is completed, and attempts grow one by one.
\<close>

section \<open>Access\<close>

text \<open>\<open>v[k]\<close>.\<close>

definition sub :: "json \<Rightarrow> string \<Rightarrow> (queue_error, json) result" where
  "sub v k = (case v of JObj d \<Rightarrow> (case map_of d k of Some x \<Rightarrow> Inr x | None \<Rightarrow> Inl (OtherError ''KeyError''))
     | _ \<Rightarrow> Inl (OtherError ''TypeError''))"

section \<open>Histories\<close>

definition flatten_pull_requests :: "json \<Rightarrow> (queue_error, jobj list) result" where
  "flatten_pull_requests v =
    (case v of JArr pages \<Rightarrow>
       map_r (\<lambda>x. case x of JObj d \<Rightarrow> Inr d | _ \<Rightarrow> invalid ''pull request history contains a non-object'')
         (concat (map (\<lambda>page. case page of JArr vs \<Rightarrow> vs | _ \<Rightarrow> [page]) pages))
     | _ \<Rightarrow> invalid ''pull request history must be a JSON array'')"

text \<open>The pages of a history, each an object with a list of objects under \<open>field\<close>.\<close>

definition flatten_page :: "string \<Rightarrow> string \<Rightarrow> string \<Rightarrow> string \<Rightarrow> jobj list \<Rightarrow> json \<Rightarrow> (queue_error, jobj list) result" where
  "flatten_page field no_page no_list no_obj acc page =
    (case page of JObj d \<Rightarrow>
       (case dget d field of JArr xs \<Rightarrow>
          bind_r (map_r (\<lambda>x. case x of JObj e \<Rightarrow> Inr e | _ \<Rightarrow> invalid no_obj) xs) (\<lambda>ys. Inr (acc @ ys))
        | _ \<Rightarrow> invalid no_list)
     | _ \<Rightarrow> invalid no_page)"

definition flatten_workflow_runs :: "json \<Rightarrow> (queue_error, jobj list) result" where
  "flatten_workflow_runs v =
    (case v of JArr pages \<Rightarrow>
       for_each (flatten_page ''workflow_runs'' ''workflow run history page must be an object''
         ''workflow run history page has no workflow_runs'' ''workflow run history contains a non-object'') [] pages
     | _ \<Rightarrow> invalid ''workflow run history must be a JSON array'')"

definition flatten_workflow_jobs :: "json \<Rightarrow> (queue_error, jobj list) result" where
  "flatten_workflow_jobs v =
     for_each (flatten_page ''jobs'' ''workflow job history page must be an object''
       ''workflow job history page has no jobs'' ''workflow job history contains a non-object'') []
       (case v of JArr pages \<Rightarrow> pages | _ \<Rightarrow> [v])"

definition flatten_check_runs :: "json \<Rightarrow> (queue_error, jobj list) result" where
  "flatten_check_runs v =
    (case v of JArr pages \<Rightarrow>
       for_each (flatten_page ''check_runs'' ''RuleSpec check run evidence page is malformed''
         ''RuleSpec check run evidence page is malformed'' ''RuleSpec check run evidence contains a non-object'') [] pages
     | _ \<Rightarrow> invalid ''RuleSpec check run evidence must be a JSON array'')"

section \<open>The protected job ran once\<close>

text \<open>The jobs of the given name whose attempt is an integer, with their attempt.\<close>

definition job_attempts :: "string \<Rightarrow> jobj list \<Rightarrow> (int \<times> jobj) list" where
  "job_attempts expected_name jobs =
     map (\<lambda>j. (int_of (dget j ''run_attempt''), j))
       (filter (\<lambda>j. dget j ''name'' = JStr expected_name \<and> is_int (dget j ''run_attempt'')) jobs)"

definition succeeded :: "jobj \<Rightarrow> bool" where
  "succeeded j \<longleftrightarrow> dget j ''status'' = JStr ''completed'' \<and> dget j ''conclusion'' = JStr ''success''"

definition verify_attempt_one_job :: "jobj \<Rightarrow> json \<Rightarrow> string \<Rightarrow> string \<Rightarrow> bool \<Rightarrow> (queue_error, unit) result" where
  "verify_attempt_one_job run jobs_payload expected_name label require_success =
    (let ra = dget run ''run_attempt''; status = dget run ''status''; conclusion = dget run ''conclusion'' in
     bind_r (checks
       [invalid_if (\<not> is_int ra \<or> int_of ra < 1) (label @ '' run attempt is malformed''),
        (if require_success
         then invalid_if (\<not> succeeded run) (label @ '' run has not completed successfully'')
         else if \<not> hashable status then Inl (OtherError ''TypeError'')
         else invalid_if (\<not> in_strs status [''in_progress'', ''completed'']
             \<or> status = JStr ''completed'' \<and> conclusion \<noteq> JStr ''success'')
           (label @ '' run is not successful or in progress''))]) (\<lambda>_.
     bind_r (flatten_workflow_jobs jobs_payload) (\<lambda>jobs.
       let by_attempt = job_attempts expected_name jobs in
       if set (map fst by_attempt) \<noteq> set [1..int_of ra] \<or> \<not> distinct (map fst by_attempt)
       then invalid (label @ '' job history is incomplete'')
       else case map_of by_attempt 1 of
         None \<Rightarrow> Inl (OtherError ''KeyError'')
       | Some first \<Rightarrow> checks
          [invalid_if (\<not> succeeded first \<and> \<not> (\<not> require_success \<and> int_of ra = 1
               \<and> dget first ''status'' = JStr ''in_progress'' \<and> dget first ''conclusion'' = JNull))
             (label @ '' attempt 1 was not successful or in progress''),
           invalid_if (list_ex (\<lambda>(a, j). a > 1 \<and> (dget j ''status'' \<noteq> JStr ''completed'' \<or> dget j ''conclusion'' \<noteq> JStr ''skipped'')) by_attempt)
             (label @ '' later attempt executed the protected job'')])))"

definition acceptable_check :: "jobj \<Rightarrow> bool" where
  "acceptable_check c \<longleftrightarrow> dget c ''status'' = JStr ''completed''
     \<and> in_strs (dget c ''conclusion'') [''neutral'', ''skipped'', ''success'']"

text \<open>A completed check whose conclusion is a list or an object raises \<open>TypeError\<close>.\<close>

definition validate_green_check_runs :: "json \<Rightarrow> (queue_error, unit) result" where
  "validate_green_check_runs v =
    bind_r (flatten_check_runs v) (\<lambda>checks_list.
      checks
       [invalid_if (checks_list = []) ''RuleSpec tip has no check run evidence'',
        fail_if (list_ex (\<lambda>c. dget c ''status'' = JStr ''completed'' \<and> \<not> hashable (dget c ''conclusion'')) checks_list)
          (OtherError ''TypeError''),
        invalid_if (list_ex (\<lambda>c. \<not> acceptable_check c) checks_list)
          (''RuleSpec tip does not have green check runs: '' @ join '', '' (map (\<lambda>c.
             if truthy (dget c ''name'') then py_str (dget c ''name'') else ''unknown'')
             (filter (\<lambda>c. \<not> acceptable_check c) checks_list)))])"

section \<open>Activation\<close>

definition mismatched :: "jobj \<Rightarrow> jobj \<Rightarrow> string list" where
  "mismatched expected actual = map fst (filter (\<lambda>(f, v). \<not> py_eq (dget actual f) v) expected)"

definition finalizer_run_expected :: "jobj \<Rightarrow> jobj" where
  "finalizer_run_expected a =
    [(''event'', JStr ''workflow_dispatch''), (''head_branch'', JStr ''main''),
     (''head_sha'', dget a ''finalizer_head_sha''), (''html_url'', dget a ''finalizer_run_url''),
     (''path'', JStr ''.github/workflows/finalize-signed-snap-queue.yml'')]"

definition verify_activation_evidence ::
  "queue_env \<Rightarrow> queue_file \<Rightarrow> queue_file \<Rightarrow> string \<Rightarrow> queue_file \<Rightarrow> json \<Rightarrow> json \<Rightarrow> json \<Rightarrow> json \<Rightarrow> json \<Rightarrow> bool
    \<Rightarrow> (queue_error, unit) result" where
  "verify_activation_evidence E qf pf base_sha ff check_runs pull_requests workflow_runs finalizer_run finalizer_jobs require_success =
    bind_r (load_json qf) (\<lambda>q. bind_r (load_json pf) (\<lambda>previous. bind_r (load_json ff) (\<lambda>finalized.
      let a = obj_of (dget q ''activation''); bad = mismatched (finalizer_run_expected a) (obj_of finalizer_run) in
      checks
       [validate_queue E q, validate_queue E previous,
        invalid_if (queue_state q \<noteq> ''active'' \<or> \<not> py_eq (JObj q) (JObj finalized) \<or> raw_bytes qf \<noteq> raw_bytes ff)
          ''active queue differs from the finalizer artifact'',
        invalid_if (queue_state previous \<noteq> ''paused'') ''activation base queue must be paused'',
        discard (require_sha (JStr base_sha) ''expected_base_sha''),
        invalid_if (dget a ''finalizer_head_sha'' \<noteq> JStr base_sha)
          ''activation finalizer head does not match the pull request base'',
        invalid_if (dget a ''previous_queue_object_sha256'' \<noteq> JStr (json_sha256 E (JObj previous))) ''activation base queue digest does not match'',
        invalid_if (dget a ''check_runs_sha256'' \<noteq> JStr (json_sha256 E check_runs)) ''activation check run evidence digest does not match'',
        invalid_if (dget a ''pull_requests_sha256'' \<noteq> JStr (json_sha256 E pull_requests)) ''activation pull request evidence digest does not match'',
        invalid_if (dget a ''workflow_runs_sha256'' \<noteq> JStr (json_sha256 E workflow_runs)) ''activation workflow run evidence digest does not match'',
        validate_green_check_runs check_runs,
        invalid_if (\<not> is_obj finalizer_run) ''finalizer run evidence must be an object'',
        invalid_if (bad \<noteq> []) (''activation finalizer run identity does not match: '' @ join '', '' bad),
        verify_attempt_one_job (obj_of finalizer_run) finalizer_jobs ''Finalize protected SNAP queue tranche''
          ''activation finalizer'' require_success])))"

text \<open>\<open>_queue_profile(queue["queue_id"])\<close> on a queue that has not been validated.\<close>

definition profile_of_queue :: "queue_env \<Rightarrow> jobj \<Rightarrow> (queue_error, profile) result" where
  "profile_of_queue E q = bind_r (sub (JObj q) ''queue_id'') (\<lambda>v.
     case v of JStr s \<Rightarrow> profile_of E s | _ \<Rightarrow> invalid (''unsupported protected SNAP queue: '' @ py_str v))"

definition activation_changed_files :: "profile \<Rightarrow> json" where
  "activation_changed_files P = JArr (map JStr [p_activation_path P, ''pyproject.toml'', ''src/axiom_encode/__init__.py'', ''uv.lock''])"

definition repository :: string where
  "repository = ''TheAxiomFoundation/axiom-encode''"

definition head_repo_name :: "jobj \<Rightarrow> json" where
  "head_repo_name pr = dget (obj_of (dget (obj_of (dget pr ''head'')) ''repo'')) ''full_name''"

definition activation_pr_ok :: "jobj \<Rightarrow> string \<Rightarrow> string \<Rightarrow> bool" where
  "activation_pr_ok pr base_sha head_sha \<longleftrightarrow> dget pr ''state'' = JStr ''open''
     \<and> dget (obj_of (dget pr ''base'')) ''ref'' = JStr ''main'' \<and> dget (obj_of (dget pr ''base'')) ''sha'' = JStr base_sha
     \<and> dget (obj_of (dget pr ''head'')) ''sha'' = JStr head_sha \<and> head_repo_name pr = JStr repository"

definition verify_activation_commit ::
  "queue_env \<Rightarrow> queue_file \<Rightarrow> json \<Rightarrow> json \<Rightarrow> string \<Rightarrow> string \<Rightarrow> string \<Rightarrow> json \<Rightarrow> (queue_error, unit) result" where
  "verify_activation_commit E qf provenance pull_request base_sha head_sha tree_sha changed_files =
    bind_r (checks [discard (require_sha (JStr base_sha) ''current_base_sha''),
      discard (require_sha (JStr head_sha) ''current_head_sha''), discard (require_sha (JStr tree_sha) ''current_tree_sha'')]) (\<lambda>_.
    bind_r (load_json qf) (\<lambda>q.
    bind_r (profile_of_queue E q) (\<lambda>P.
      let p = obj_of provenance; files = activation_changed_files P in
      checks
       [invalid_if (\<not> is_obj provenance) ''activation commit provenance must be an object'',
        invalid_if (keys p \<noteq> {''base_sha'', ''changed_files'', ''head_sha'', ''queue_path'', ''queue_sha256'', ''repository'', ''schema'', ''tree_sha''}
           \<or> dget p ''schema'' \<noteq> JStr ''axiom-encode/snap-queue-activation-commit/v1''
           \<or> dget p ''repository'' \<noteq> JStr repository \<or> dget p ''queue_path'' \<noteq> JStr (p_activation_path P)
           \<or> dget p ''queue_sha256'' \<noteq> JStr (queue_file_sha256 E qf) \<or> dget p ''base_sha'' \<noteq> JStr base_sha
           \<or> dget p ''head_sha'' \<noteq> JStr head_sha \<or> dget p ''tree_sha'' \<noteq> JStr tree_sha
           \<or> \<not> py_eq (dget p ''changed_files'') files \<or> \<not> py_eq changed_files files)
           ''activation commit or changed-file inventory does not match'',
        invalid_if (\<not> is_obj pull_request) ''activation pull request must be an object'',
        invalid_if (\<not> activation_pr_ok (obj_of pull_request) base_sha head_sha) ''activation pull request identity does not match''])))"

definition positive_int :: "json \<Rightarrow> bool" where
  "positive_int v \<longleftrightarrow> is_int v \<and> int_of v > 0"

definition merged_pr_ok :: "jobj \<Rightarrow> json \<Rightarrow> jobj \<Rightarrow> bool" where
  "merged_pr_ok pr number auth \<longleftrightarrow> py_eq (dget pr ''number'') number \<and> dget pr ''state'' = JStr ''closed''
     \<and> dget pr ''merged_at'' \<noteq> JNull \<and> py_eq (dget pr ''merge_commit_sha'') (dget auth ''merge_commit'')
     \<and> dget (obj_of (dget pr ''base'')) ''ref'' = JStr ''main''
     \<and> is_obj (dget pr ''head'') \<and> py_eq (dget (obj_of (dget pr ''head'')) ''sha'') (dget auth ''activation_pr_head_sha'')
     \<and> head_repo_name pr = JStr repository
     \<and> dget (obj_of (dget pr ''merged_by'')) ''login'' = JStr ''github-actions[bot]''"

definition verify_merge_authorization ::
  "queue_env \<Rightarrow> queue_file \<Rightarrow> json \<Rightarrow> json \<Rightarrow> json \<Rightarrow> json \<Rightarrow> string \<Rightarrow> string \<Rightarrow> (queue_error, unit) result" where
  "verify_merge_authorization E qf authorization merge_run merge_jobs pull_request head_sha change_sha =
    bind_r (load_json qf) (\<lambda>q. bind_r (validate_queue E q) (\<lambda>_. bind_r (profile_of_queue E q) (\<lambda>P.
      let au = obj_of authorization; run_id = dget au ''merge_workflow_run_id''; number = dget au ''activation_pr_number'';
          url = run_url_prefix @ int_repr (int_of run_id) in
      checks
       [invalid_if (queue_state q \<noteq> ''active'') ''merge authorization is only valid for an active queue'',
        discard (require_sha (JStr head_sha) ''current_head_sha''), discard (require_sha (JStr change_sha) ''queue_change_sha''),
        invalid_if (\<not> is_obj authorization) ''merge authorization must be an object'',
        invalid_if (keys au \<noteq> {''activation_pr_head_sha'', ''activation_pr_number'', ''merge_commit'', ''merge_workflow_run_id'',
             ''merge_workflow_run_attempt'', ''merge_workflow_run_url'', ''queue_path'', ''queue_sha256'', ''repository'', ''schema''}
           \<or> dget au ''schema'' \<noteq> JStr ''axiom-encode/snap-queue-merge-authorization/v1''
           \<or> dget au ''repository'' \<noteq> JStr repository \<or> dget au ''queue_path'' \<noteq> JStr (p_activation_path P)
           \<or> dget au ''queue_sha256'' \<noteq> JStr (queue_file_sha256 E qf) \<or> \<not> py_eq (dget au ''merge_workflow_run_attempt'') (JInt 1))
           ''merge authorization does not match the active queue'',
        discard (require_sha (dget au ''activation_pr_head_sha'') ''activation_pr_head_sha''),
        discard (require_sha (dget au ''merge_commit'') ''merge_commit''),
        invalid_if (\<not> positive_int run_id \<or> \<not> positive_int number) ''merge authorization identifiers are malformed'',
        invalid_if (dget au ''merge_workflow_run_url'' \<noteq> JStr url) ''merge authorization workflow URL is malformed'',
        invalid_if (\<not> is_obj merge_run) ''merge workflow run evidence must be an object'',
        invalid_if (mismatched [(''event'', JStr ''workflow_dispatch''), (''head_branch'', JStr ''main''), (''html_url'', JStr url),
             (''path'', JStr ''.github/workflows/merge-snap-queue-activation.yml'')] (obj_of merge_run) \<noteq> [])
           ''merge workflow run identity or conclusion does not match'',
        verify_attempt_one_job (obj_of merge_run) merge_jobs ''Merge reviewed SNAP queue activation'' ''activation merge'' True,
        invalid_if (\<not> is_obj pull_request) ''activation pull request evidence must be an object'',
        invalid_if (\<not> merged_pr_ok (obj_of pull_request) number au) ''activation pull request was not merged by the trusted workflow'',
        invalid_if (JStr change_sha \<noteq> dget au ''merge_commit'') ''active queue was changed outside its authorized merge commit''])))"

section \<open>Transitions of a paused queue\<close>

definition source_pins :: "string list" where
  "source_pins = [''corpus_ref'', ''rules_engine_ref'', ''rulespec_ref'']"

definition check_same_fields :: "jobj \<Rightarrow> jobj \<Rightarrow> (queue_error, unit) result" where
  "check_same_fields q previous =
     for_each (\<lambda>_ f. bind_r (sub (JObj q) f) (\<lambda>x. bind_r (sub (JObj previous) f) (\<lambda>y.
       invalid_if (\<not> py_eq x y) (''paused queue transition changed trusted field '' @ f)))) ()
       [''description'', ''expected_counts'', ''issue'', ''queue_id'', ''schema'']"

text \<open>Replacing the pinned sources of a queue no item of which has been tried. The code iterates over
  a set; a field missing in the earlier queue raises \<open>KeyError\<close> if it is met before a changed one.\<close>

definition check_repin :: "jobj \<Rightarrow> jobj \<Rightarrow> (queue_error, unit) result" where
  "check_repin q previous =
    (let d = obj_of (dget q ''dispatch''); pd = obj_of (dget previous ''dispatch'') in
     checks
      [invalid_if (queue_state previous \<noteq> ''paused'') ''paused queue toolchain repin requires a paused base'',
       for_each (\<lambda>_ f. bind_r (sub (JObj pd) f) (\<lambda>y. invalid_if (\<not> py_eq (dget d f) y) ''paused queue toolchain repin changed dispatch policy''))
         () (filter (\<lambda>f. f \<notin> set source_pins) (map fst d)),
       invalid_if (list_ex (\<lambda>f. py_eq (dget d f) (dget pd f)) source_pins) ''paused queue toolchain repin must replace every source pin'',
       invalid_if (py_eq (dget q ''release'') (dget previous ''release'')) ''paused queue toolchain repin must replace the signed release'',
       invalid_if (dget q ''suspension'' \<noteq> JNull \<or> dget previous ''suspension'' \<noteq> JNull) ''suspended queue cannot use a pristine toolchain repin'',
       invalid_if (\<not> py_eq (dget q ''items'') (dget previous ''items'')
           \<or> \<not> list_all (\<lambda>i. item_status i = ''pending'' \<and> item_attempt i = 1) (items_of q))
         ''paused queue toolchain repin requires pristine items''])"

definition immutable_fields :: "string list" where
  "immutable_fields = [''citation'', ''id'', ''jurisdiction'', ''label'', ''sequence'', ''source_kind'']"

definition check_item_transition :: "jobj \<Rightarrow> jobj \<Rightarrow> (queue_error, unit) result" where
  "check_item_transition current prior =
    (let iid = item_id current; changed = (\<not> py_eq (JObj current) (JObj prior)) in
     checks
      [invalid_if (list_ex (\<lambda>f. \<not> py_eq (dget current f) (dget prior f)) immutable_fields) (''paused queue transition rewrote item '' @ iid),
       invalid_if (item_status current = ''completed'' \<and> item_status prior \<noteq> ''completed'') (''paused queue transition cannot complete item '' @ iid),
       invalid_if (item_status prior \<in> set terminal_statuses \<and> changed) (''paused queue transition rewrote terminal item '' @ iid),
       invalid_if (item_attempt current < item_attempt prior) (''paused queue transition decreased attempt for item '' @ iid),
       invalid_if (item_attempt current > item_attempt prior + 1) (''paused queue transition skipped an attempt for item '' @ iid),
       invalid_if (item_attempt current = item_attempt prior + 1 \<and> item_status current \<noteq> ''retryable'')
         (''paused queue transition changed attempt without retrying '' @ iid),
       invalid_if (item_status current = ''retryable'' \<and> changed \<and> item_attempt current \<noteq> item_attempt prior + 1)
         (''paused queue transition retried '' @ iid @ '' without a new attempt'')])"

definition verify_paused_transition :: "queue_env \<Rightarrow> queue_file \<Rightarrow> queue_file \<Rightarrow> (queue_error, unit) result" where
  "verify_paused_transition E qf pf =
    bind_r (load_json qf) (\<lambda>q. bind_r (load_json pf) (\<lambda>previous.
      let repin = (\<not> py_eq (dget q ''dispatch'') (dget previous ''dispatch'') \<or> \<not> py_eq (dget q ''release'') (dget previous ''release'')) in
      checks
       [validate_queue E q, validate_queue E previous,
        invalid_if (queue_state q \<noteq> ''paused'') ''paused transition verification requires a paused queue'',
        check_same_fields q previous,
        (if repin then check_repin q previous else Inr ()),
        invalid_if (queue_state previous = ''paused'' \<and> \<not> py_eq (dget q ''suspension'') (dget previous ''suspension''))
          ''paused queue transition changed suspension evidence'',
        invalid_if (set (map item_id (items_of previous)) \<noteq> set (map item_id (items_of q))) ''paused queue transition changed the item inventory'',
        for_each (\<lambda>_ current. case by_id (items_of previous) (item_id current) of
            Some prior \<Rightarrow> check_item_transition current prior | None \<Rightarrow> Inl (OtherError ''KeyError'')) () (items_of q),
        (if queue_state previous = ''active'' then
           bind_r (pause_queue E previous (str_of (dget q ''pause_reason'')) (queue_file_sha256 E pf)) (\<lambda>expected.
             invalid_if (\<not> py_eq (JObj q) (JObj expected)) ''active queue pause transition changed queue items or trust'')
         else Inr ())]))"

section \<open>What acceptance establishes\<close>

lemma flatten_page_Inr:
  "flatten_page f a b c acc page = Inr acc' \<longleftrightarrow>
     (\<exists>d ys. page = JObj d \<and> dget d f = JArr (map JObj ys) \<and> acc' = acc @ ys)"
proof -
  have objs: "map_r (\<lambda>x. case x of JObj e \<Rightarrow> Inr e | _ \<Rightarrow> invalid c) xs = Inr ys \<longleftrightarrow> xs = map JObj ys" for xs ys
  proof -
    have "(case x of JObj e \<Rightarrow> Inr e | _ \<Rightarrow> invalid c) = Inr y \<longleftrightarrow> x = JObj y" for x y by (cases x) auto
    then show ?thesis by (auto simp: map_r_Inr_iff list_all2_conv_all_nth list_eq_iff_nth_eq)
  qed
  show ?thesis
    by (auto simp: flatten_page_def bind_r_Inr_iff objs split: json.splits)
qed

lemma verify_attempt_one_job_Inr:
  assumes "verify_attempt_one_job run jobs name label True = Inr u"
  obtains js first where "flatten_workflow_jobs jobs = Inr js" "succeeded run"
    "set (map fst (job_attempts name js)) = {1..int_of (dget run ''run_attempt'')}"
    "distinct (map fst (job_attempts name js))"
    "map_of (job_attempts name js) 1 = Some first" "succeeded first"
    "\<forall>(a, j)\<in>set (job_attempts name js). a > 1 \<longrightarrow> dget j ''status'' = JStr ''completed'' \<and> dget j ''conclusion'' = JStr ''skipped''"
  using assms
  by (auto simp: verify_attempt_one_job_def Let_def split: option.splits if_splits simp: list_ex_iff) blast

lemma validate_green_check_runs_Inr:
  assumes "validate_green_check_runs v = Inr u"
  obtains cs where "flatten_check_runs v = Inr cs" "cs \<noteq> []" "list_all acceptable_check cs"
  using assms by (auto simp: validate_green_check_runs_def list_ex_iff list_all_iff)

section \<open>Accepted transitions only move forward\<close>

definition item_le :: "jobj \<Rightarrow> jobj \<Rightarrow> bool" where
  "item_le a b \<longleftrightarrow> item_attempt a \<le> item_attempt b
     \<and> (item_status a \<in> set terminal_statuses \<longrightarrow> py_eq (JObj b) (JObj a))
     \<and> (item_status b = ''completed'' \<longrightarrow> item_status a = ''completed'')
     \<and> (\<forall>f\<in>set immutable_fields. py_eq (dget b f) (dget a f))"

definition file_items :: "queue_file \<Rightarrow> jobj list" where
  "file_items f = items_of (obj_of (parsed f))"

definition queue_le :: "queue_file \<Rightarrow> queue_file \<Rightarrow> bool" where
  "queue_le p q \<longleftrightarrow> (\<forall>x. rel_option item_le (by_id (file_items p) x) (by_id (file_items q) x))"

lemma item_le_refl [simp]: "item_le a a"
  by (simp add: item_le_def)

lemma item_le_trans:
  assumes "item_le a b" "item_le b c"
  shows "item_le a c"
proof -
  have "py_eq (JObj c) (JObj a)" if "item_status a \<in> set terminal_statuses"
  proof -
    have ba: "py_eq (JObj b) (JObj a)" using assms(1) that unfolding item_le_def by blast
    then have "item_status b = item_status a" unfolding item_status_def by (intro py_eq_str_of py_eq_dget)
    then have "py_eq (JObj c) (JObj b)" using assms(2) that unfolding item_le_def by simp
    with ba show ?thesis by (rule py_eq_trans[rotated])
  qed
  moreover have "\<forall>f\<in>set immutable_fields. py_eq (dget c f) (dget a f)"
    using assms unfolding item_le_def by (blast intro: py_eq_trans)
  ultimately show ?thesis using assms unfolding item_le_def by simp
qed

lemma check_item_transition_le: "check_item_transition current prior = Inr () \<Longrightarrow> item_le prior current"
  by (auto simp: check_item_transition_def Let_def item_le_def list_ex_iff)

lemma verify_paused_transition_Inr:
  assumes "verify_paused_transition E qf pf = Inr u"
  obtains q p where "parsed qf = JObj q" "parsed pf = JObj p" "validate_queue E q = Inr ()" "validate_queue E p = Inr ()"
    "queue_state q = ''paused''" "set (map item_id (items_of p)) = set (map item_id (items_of q))"
    "\<forall>i\<in>set (items_of q). \<exists>j. by_id (items_of p) (item_id i) = Some j \<and> check_item_transition i j = Inr ()"
proof -
  obtain q p where qp: "parsed qf = JObj q" "parsed pf = JObj p"
    using assms by (auto simp: verify_paused_transition_def load_json_def split: json.splits)
  have loop: "for_each (\<lambda>_ i. case by_id (items_of p) (item_id i) of Some j \<Rightarrow> check_item_transition i j
        | None \<Rightarrow> Inl (OtherError ''KeyError'')) () (items_of q) = Inr ()"
    and rest: "validate_queue E q = Inr ()" "validate_queue E p = Inr ()" "queue_state q = ''paused''"
      "set (map item_id (items_of p)) = set (map item_id (items_of q))"
    using assms by (simp_all add: verify_paused_transition_def load_json_def qp Let_def)
  have "\<forall>i\<in>set (items_of q). \<exists>j. by_id (items_of p) (item_id i) = Some j \<and> check_item_transition i j = Inr ()"
    using loop unfolding for_each_unit by (auto split: option.splits)
  with that qp rest show ?thesis by blast
qed

lemma verify_paused_transition_le:
  assumes "verify_paused_transition E qf pf = Inr ()"
  shows "queue_le pf qf"
proof -
  obtain q p where qp: "parsed qf = JObj q" "parsed pf = JObj p" and v: "validate_queue E q = Inr ()"
    and ids: "set (map item_id (items_of p)) = set (map item_id (items_of q))"
    and step: "\<forall>i\<in>set (items_of q). \<exists>j. by_id (items_of p) (item_id i) = Some j \<and> check_item_transition i j = Inr ()"
    using assms by (rule verify_paused_transition_Inr)
  obtain P where "queue_inv P q" using v by (rule validate_queue_inv)
  then have d: "distinct (map item_id (items_of q))" by (simp add: queue_inv_def)
  have "rel_option item_le (by_id (items_of p) x) (by_id (items_of q) x)" for x
  proof (cases "by_id (items_of q) x")
    case None
    then have "by_id (items_of p) x = None" using ids by (simp add: by_id_None)
    with None show ?thesis by simp
  next
    case (Some i)
    then have i: "i \<in> set (items_of q)" "item_id i = x" using map_of_by_id[OF d] by simp_all
    from step i(1) obtain j where "by_id (items_of p) (item_id i) = Some j" "check_item_transition i j = Inr ()" by blast
    with Some i(2) show ?thesis by (simp add: check_item_transition_le)
  qed
  then show ?thesis by (simp add: queue_le_def file_items_def qp)
qed

interpretation paused_prs: respected_preorder "\<lambda>pf qf. verify_paused_transition E qf pf = Inr ()" queue_le
proof unfold_locales
  show "queue_le s s" for s by (simp add: queue_le_def option.rel_refl)
  show "queue_le s u" if "queue_le s t" "queue_le t u" for s t u
    unfolding queue_le_def
  proof
    fix x
    have "rel_option item_le (by_id (file_items s) x) (by_id (file_items t) x)"
      "rel_option item_le (by_id (file_items t) x) (by_id (file_items u) x)"
      using that by (simp_all add: queue_le_def)
    then show "rel_option item_le (by_id (file_items s) x) (by_id (file_items u) x)"
      by (cases "by_id (file_items s) x"; cases "by_id (file_items t) x"; cases "by_id (file_items u) x")
        (auto intro: item_le_trans)
  qed
qed (rule verify_paused_transition_le)

section \<open>Properties\<close>

text \<open>C9. Along any sequence of accepted transitions of a queue, items neither appear nor disappear, keep
  their identifying fields, never lower their attempt, are never completed, and once terminal stay
  exactly as they are.\<close>

theorem accepted_transitions_forward:
  assumes "(\<lambda>pf qf. verify_paused_transition E qf pf = Inr ())\<^sup>*\<^sup>* first final"
  shows "(by_id (file_items first) x = None \<longleftrightarrow> by_id (file_items final) x = None)
    \<and> (\<forall>a b. by_id (file_items first) x = Some a \<and> by_id (file_items final) x = Some b \<longrightarrow>
        item_attempt a \<le> item_attempt b
        \<and> (item_status a \<in> set terminal_statuses \<longrightarrow> py_eq (JObj b) (JObj a))
        \<and> (item_status b = ''completed'' \<longrightarrow> item_status a = ''completed'')
        \<and> (\<forall>f\<in>set immutable_fields. py_eq (dget b f) (dget a f)))"
proof -
  have "queue_le first final" using assms by (rule paused_prs.run_le)
  then have rel: "rel_option item_le (by_id (file_items first) x) (by_id (file_items final) x)"
    by (simp add: queue_le_def)
  then show ?thesis
    by (cases "by_id (file_items first) x"; cases "by_id (file_items final) x") (simp_all add: item_le_def)
qed

lemma item_transition_refl [simp]: "check_item_transition i i = Inr ()"
  by (simp add: check_item_transition_def Let_def list_ex_iff)

lemma pause_queue_Inr:
  "pause_queue E q reason digest = Inr q' \<longleftrightarrow> validate_queue E q = Inr () \<and> queue_state q = ''active''
     \<and> strip reason \<noteq> [] \<and> digest_re digest \<and> q' = paused q reason digest"
  using paused_valid[of E q reason digest]
  by (auto simp: pause_queue_def bind_r_Inr_iff Let_def)

lemma paused_strip: "paused q (strip r) d = paused q r d"
  by (simp add: paused_def)

lemma valid_members:
  assumes "validate_queue E q = Inr u"
  shows "\<exists>d. dget q ''expected_counts'' = JObj d" "\<exists>i. dget q ''issue'' = JInt i" "\<exists>s. dget q ''queue_id'' = JStr s"
    "dget q ''schema'' = JStr queue_schema"
proof -
  from assms obtain P :: profile where f: "py_eq (dget q ''expected_counts'') (JObj (map (map_prod id JInt) (p_expected_counts P)))"
    "is_int (dget q ''issue'')" "is_str (dget q ''queue_id'')" "dget q ''schema'' = JStr queue_schema"
    unfolding validate_queue_Inr counts_json_def by (elim conjE exE) (rule that)
  from f(1) show "\<exists>d. dget q ''expected_counts'' = JObj d" by (rule py_eq_JObjE) blast
  from f(2-4) show "\<exists>i. dget q ''issue'' = JInt i" "\<exists>s. dget q ''queue_id'' = JStr s"
    "dget q ''schema'' = JStr queue_schema" by (simp_all add: is_int_iff is_str_iff)
qed

text \<open>Pausing and its review agree: the queue \<open>pause_queue\<close> makes from a valid active manifest that
  has a description is accepted by \<open>verify_paused_transition\<close> against that manifest.\<close>

theorem pause_is_accepted:
  assumes "parsed pf = JObj q" "''description'' \<in> keys q"
    and "pause_queue E q reason (queue_file_sha256 E pf) = Inr q'" "parsed qf = JObj q'"
  shows "verify_paused_transition E qf pf = Inr ()"
proof -
  let ?d = "queue_file_sha256 E pf"
  from assms(3) have v: "validate_queue E q = Inr ()" "queue_state q = ''active''" "strip reason \<noteq> []" "digest_re ?d"
    and q': "q' = paused q reason ?d" by (simp_all add: pause_queue_Inr)
  have again: "pause_queue E q (strip reason) ?d = Inr q'"
    using v by (simp add: pause_queue_Inr q' paused_strip)
  obtain P where "queue_inv P q" using v(1) by (rule validate_queue_inv)
  then have "distinct (map item_id (items_of q))" by (simp add: queue_inv_def)
  then have self: "by_id (items_of q) (item_id i) = Some i" if "i \<in> set (items_of q)" for i
    using that by (simp add: map_of_by_id)
  have loop: "for_each (\<lambda>_ i. case by_id (items_of q) (item_id i) of Some j \<Rightarrow> check_item_transition i j
      | None \<Rightarrow> Inl (OtherError ''KeyError'')) () (items_of q) = Inr ()"
    unfolding for_each_unit by (simp add: self)
  have "dget q ''expected_counts'' \<noteq> JNull" "dget q ''issue'' \<noteq> JNull" "dget q ''queue_id'' \<noteq> JNull" "dget q ''schema'' \<noteq> JNull"
    using valid_members[OF v(1)] by auto
  then have in_keys: "f \<in> keys q" if "f \<in> {''description'', ''expected_counts'', ''issue'', ''queue_id'', ''schema''}" for f
    using that assms(2) by (auto intro: dget_not_null_key)
  have same: "check_same_fields q' q = Inr ()"
    unfolding check_same_fields_def for_each_unit
  proof
    fix f assume f: "f \<in> set [''description'', ''expected_counts'', ''issue'', ''queue_id'', ''schema'']"
    then obtain x where x: "map_of q f = Some x" using in_keys[of f] by (auto simp: keys_dom)
    moreover have "map_of q' f = map_of q f" using f by (auto simp: q' paused_def)
    ultimately show "bind_r (sub (JObj q') f) (\<lambda>x. bind_r (sub (JObj q) f) (\<lambda>y.
        invalid_if (\<not> py_eq x y) (''paused queue transition changed trusted field '' @ f))) = Inr ()"
      by (simp add: sub_def)
  qed
  have "validate_queue E q' = Inr ()" unfolding q' using v(1,3,4) by (rule paused_valid)
  then show ?thesis
    using v same loop again
    by (simp add: verify_paused_transition_def load_json_def assms(1,4) Let_def)
      (simp add: q' paused_reads queue_state_def)
qed

text \<open>A run whose success is required is accepted only if the protected job ran exactly once, in the
  first attempt of the run, and succeeded there: there is one job of the name per attempt, and those of
  later attempts were skipped.\<close>

theorem protected_job_ran_once:
  assumes "verify_attempt_one_job run jobs name label True = Inr ()"
  shows "\<exists>js first. flatten_workflow_jobs jobs = Inr js \<and> succeeded run \<and> succeeded first
     \<and> filter (\<lambda>p. \<not> (dget (snd p) ''status'' = JStr ''completed'' \<and> dget (snd p) ''conclusion'' = JStr ''skipped''))
         (job_attempts name js) = [(1, first)]
     \<and> int (length (job_attempts name js)) = int_of (dget run ''run_attempt'')"
proof -
  let ?skipped = "\<lambda>j. dget j ''status'' = JStr ''completed'' \<and> dget j ''conclusion'' = JStr ''skipped''"
  obtain js first where js: "flatten_workflow_jobs jobs = Inr js" "succeeded run"
    and att: "set (map fst (job_attempts name js)) = {1..int_of (dget run ''run_attempt'')}"
      "distinct (map fst (job_attempts name js))"
    and first: "map_of (job_attempts name js) 1 = Some first" "succeeded first"
    and later: "\<forall>(a, j)\<in>set (job_attempts name js). a > 1 \<longrightarrow> ?skipped j"
    using assms by (rule verify_attempt_one_job_Inr)
  let ?ja = "job_attempts name js"
  have one: "(1, first) \<in> set ?ja" using first(1) by (rule map_of_SomeD)
  have uniq: "p = (1, first)" if "p \<in> set ?ja" "\<not> ?skipped (snd p)" for p
  proof -
    have "fst p \<in> set (map fst ?ja)" using that(1) by force
    then have "fst p \<ge> 1" using att(1) by simp
    moreover have "\<not> fst p > 1" using later that by (auto simp: split_def)
    ultimately have "fst p = 1" by simp
    then have "map_of ?ja 1 = Some (snd p)" using that(1) att(2) by (metis map_of_eq_Some_iff prod.collapse)
    with first(1) \<open>fst p = 1\<close> show ?thesis by (simp add: prod_eq_iff)
  qed
  have fst_ns: "\<not> ?skipped first" using first(2) by (auto simp: succeeded_def)
  have "distinct (filter (\<lambda>p. \<not> ?skipped (snd p)) ?ja)"
    using att(2) by (simp add: distinct_map)
  moreover have "set (filter (\<lambda>p. \<not> ?skipped (snd p)) ?ja) = {(1, first)}"
  proof (rule equalityI; rule subsetI)
    show "p \<in> {(1, first)}" if "p \<in> set (filter (\<lambda>p. \<not> ?skipped (snd p)) ?ja)" for p
      using uniq[of p] that by simp
    show "p \<in> set (filter (\<lambda>p. \<not> ?skipped (snd p)) ?ja)" if "p \<in> {(1, first)}" for p
      using that one fst_ns by simp
  qed
  ultimately have "filter (\<lambda>p. \<not> ?skipped (snd p)) ?ja = [(1, first)]"
    by (rule distinct_set_singleton)
  moreover have "int (length ?ja) = int_of (dget run ''run_attempt'')"
  proof -
    have "1 \<in> {1..int_of (dget run ''run_attempt'')}" using att(1) one by force
    moreover have "length ?ja = card (set (map fst ?ja))" using att(2) by (metis distinct_card length_map)
    ultimately show ?thesis using att(1) by simp
  qed
  ultimately show ?thesis using js first(2) by blast
qed

end
