(* ===== verification/Queue_Finalize.thy ===== *)
theory Queue_Finalize
  imports Queue_Evidence
begin

text \<open>
  Reconciliation of the queue with the durable history of its items, and the finalisation of a tranche
  (\<open>scripts/prepare_signed_queue.py\<close>).

  \<open>reconcile_candidates\<close> decides for every selected item, from the pull requests and workflow runs the
  GitHub API reports, whether it may be dispatched. \<open>finalize_and_repin\<close> turns a paused queue into an
  active one on a new base: it re-verifies every completed item, completes the items whose pull request
  was merged by a trusted run, and refuses while anything is open, active or undecided. The Git checkout
  it inspects is the record \<open>checkout\<close>: each field is the answer of one Git command or file read.
\<close>

section \<open>Reconciliation\<close>

definition sort_desc :: "string \<Rightarrow> jobj list \<Rightarrow> jobj list" where
  "sort_desc k xs = rev (sort_key (\<lambda>d. str_or_empty (dget d k)) (rev xs))"

definition tick :: "string \<Rightarrow> string" where
  "tick s = ''`'' @ s @ ''`''"

definition pr_identity_markers :: "string \<Rightarrow> string \<Rightarrow> json \<Rightarrow> json \<Rightarrow> json \<Rightarrow> string \<Rightarrow> string list" where
  "pr_identity_markers queue_id iid citation ref branch gen =
    [''Queue item: '' @ tick (queue_id @ ''/'' @ iid), ''Citation: '' @ tick (py_str citation),
     ''Base commit: '' @ tick (py_str ref), ''Base branch: '' @ tick (py_str branch),
     ''Queue generation SHA-256: '' @ tick gen]"

definition run_marker :: "string \<Rightarrow> string \<Rightarrow> string \<Rightarrow> string" where
  "run_marker queue_id iid gen = ''['' @ queue_id @ '':'' @ iid @ '':'' @ gen @ '']''"

definition pr_body :: "jobj \<Rightarrow> string" where
  "pr_body pr = str_or_empty (dget pr ''body'')"

definition rulespec_pr :: "json \<Rightarrow> jobj \<Rightarrow> bool" where
  "rulespec_pr branch pr \<longleftrightarrow> is_obj (dget pr ''base'') \<and> py_eq (dget (obj_of (dget pr ''base'')) ''ref'') branch
     \<and> head_repo_name pr = JStr ''TheAxiomFoundation/rulespec-us''"

definition pr_matches :: "string list \<Rightarrow> json \<Rightarrow> jobj \<Rightarrow> bool" where
  "pr_matches markers branch pr \<longleftrightarrow> list_all (\<lambda>m. sublist m (pr_body pr)) markers \<and> rulespec_pr branch pr"

text \<open>The first line of the body of the form \<open>Axiom Encode run: URL\<close>.\<close>

definition target_run_marker :: "string \<Rightarrow> json" where
  "target_run_marker body =
    (case find (\<lambda>l. numbered (''Axiom Encode run: '' @ run_url_prefix) l) (split_on CHR 0x0A body) of
       Some l \<Rightarrow> JStr (drop (length ''Axiom Encode run: '') l) | None \<Rightarrow> JNull)"

definition titled :: "string \<Rightarrow> jobj \<Rightarrow> bool" where
  "titled marker run \<longleftrightarrow> sublist marker (str_or_empty (dget run ''display_title''))"

definition trusted_target_run :: "string \<Rightarrow> jobj \<Rightarrow> bool" where
  "trusted_target_run marker run \<longleftrightarrow> succeeded run \<and> dget run ''event'' = JStr ''workflow_dispatch''
     \<and> dget run ''head_branch'' = JStr ''main''
     \<and> is_int (dget run ''run_attempt'') \<and> int_of (dget run ''run_attempt'') \<ge> 1
     \<and> dget run ''path'' = JStr ''.github/workflows/targeted-signed-reencode.yml''
     \<and> dget (obj_of (dget run ''actor'')) ''login'' = JStr ''github-actions[bot]'' \<and> titled marker run"

definition target_run :: "jobj list \<Rightarrow> string \<Rightarrow> jobj \<Rightarrow> jobj option" where
  "target_run runs marker pr =
    (case find (\<lambda>run. py_eq (dget run ''html_url'') (target_run_marker (pr_body pr))) runs of
       Some run \<Rightarrow> if trusted_target_run marker run then Some run else None | None \<Rightarrow> None)"

definition decision :: "jobj \<Rightarrow> bool \<Rightarrow> string \<Rightarrow> json \<Rightarrow> jobj" where
  "decision item dispatchable reason url =
     AList.update ''history_url'' url (AList.update ''reason'' (JStr reason)
       (AList.update ''dispatchable'' (JBool dispatchable) item))"

definition decide_from_run :: "jobj \<Rightarrow> jobj \<Rightarrow> jobj" where
  "decide_from_run item run =
    (let url = dget run ''html_url''; conclusion = dget run ''conclusion'' in
     if dget run ''status'' \<noteq> JStr ''completed'' \<or> conclusion = JNull then decision item False ''active-workflow-run'' url
     else if conclusion = JStr ''success'' then decision item False ''successful-run-without-durable-pr'' url
     else decision item False (''failed-workflow-run:'' @ py_str conclusion) url)"

definition merged :: "jobj \<Rightarrow> bool" where
  "merged pr \<longleftrightarrow> dget pr ''merged_at'' \<noteq> JNull"

definition trusted_merges :: "jobj list \<Rightarrow> string \<Rightarrow> jobj list \<Rightarrow> (jobj \<times> jobj) list" where
  "trusted_merges runs marker prs =
     List.map_filter (\<lambda>pr. map_option (Pair pr) (target_run runs marker pr)) (filter merged prs)"

text \<open>The cases in the order of the code: a trusted merge, another merge, an open pull request, any
  pull request, any run, none of them.\<close>

definition decide :: "jobj \<Rightarrow> jobj list \<Rightarrow> jobj list \<Rightarrow> string \<Rightarrow> jobj" where
  "decide item matching runs marker =
    (case trusted_merges runs marker matching of
       (pr, run) # _ \<Rightarrow> AList.update ''target_run_url'' (dget run ''html_url'')
         (decision item False ''merged-rulespec-pr'' (dget pr ''html_url''))
     | [] \<Rightarrow> (case filter merged matching of
         pr # _ \<Rightarrow> decision item False ''untrusted-merged-rulespec-pr'' (dget pr ''html_url'')
       | [] \<Rightarrow> (case filter (\<lambda>pr. dget pr ''state'' = JStr ''open'') matching of
           pr # _ \<Rightarrow> decision item False ''open-rulespec-pr'' (dget pr ''html_url'')
         | [] \<Rightarrow> (case matching of
             pr # _ \<Rightarrow> decision item False ''closed-unmerged-rulespec-pr'' (dget pr ''html_url'')
           | [] \<Rightarrow> (case sort_desc ''created_at'' (filter (titled marker) runs) of
               run # _ \<Rightarrow> decide_from_run item run
             | [] \<Rightarrow> decision item True ''new'' JNull)))))"

definition reconcile_item :: "string \<Rightarrow> jobj \<Rightarrow> jobj list \<Rightarrow> jobj list \<Rightarrow> json \<Rightarrow> (queue_error, jobj) result" where
  "reconcile_item queue_id selection prs runs raw =
    (case raw of JObj item \<Rightarrow>
       let iid = item_id item in
       bind_r (invalid_if (\<not> is_str (dget item ''id'') \<or> \<not> item_id_re iid) ''selection item id is malformed'') (\<lambda>_.
       bind_r (require_digest (dget item ''generation_sha256'') (iid @ '' generation_sha256'')) (\<lambda>gen.
       bind_r (sub raw ''citation'') (\<lambda>citation.
       bind_r (sub (JObj selection) ''dispatch'') (\<lambda>dispatch.
       bind_r (sub dispatch ''rulespec_ref'') (\<lambda>ref.
       bind_r (sub dispatch ''pr_base_branch'') (\<lambda>branch.
         Inr (decide item
           (sort_desc ''updated_at'' (filter (pr_matches (pr_identity_markers queue_id iid citation ref branch gen) branch) prs))
           runs (run_marker queue_id iid gen))))))))
     | _ \<Rightarrow> invalid ''selection item must be an object'')"

definition reconcile_candidates :: "jobj \<Rightarrow> json \<Rightarrow> json \<Rightarrow> (queue_error, jobj) result" where
  "reconcile_candidates selection pull_requests workflow_runs =
    (let qid = dget selection ''queue_id''; items = dget selection ''items'' in
     bind_r (checks
       [invalid_if (\<not> is_str qid \<or> \<not> queue_id_re (str_of qid)) ''selection queue_id is malformed'',
        invalid_if (\<not> is_arr items) ''selection items must be a list'']) (\<lambda>_.
     bind_r (flatten_pull_requests pull_requests) (\<lambda>prs.
     bind_r (flatten_workflow_runs workflow_runs) (\<lambda>runs.
     bind_r (map_r (reconcile_item (str_of qid) selection prs runs) (arr_of items)) (\<lambda>decisions.
       Inr (filter (\<lambda>kv. fst kv \<noteq> ''items'') selection @ [(''items'', JArr (map JObj decisions))]))))))"

section \<open>Finalisation\<close>

definition selectable_selection :: "queue_env \<Rightarrow> jobj \<Rightarrow> jobj" where
  "selectable_selection E q = selection_payload E q (filter selectable (items_of q))"

definition finalization_target_plan :: "queue_env \<Rightarrow> jobj \<Rightarrow> json \<Rightarrow> json \<Rightarrow> (queue_error, jobj) result" where
  "finalization_target_plan E q pull_requests workflow_runs =
    bind_r (validate_queue E q) (\<lambda>_.
    bind_r (invalid_if (queue_state q \<noteq> ''paused'') ''target evidence planning requires a paused queue'') (\<lambda>_.
    bind_r (reconcile_candidates (selectable_selection E q) pull_requests workflow_runs) (\<lambda>reconciled.
      Inr [(''queue_id'', dget q ''queue_id''),
        (''items'', JArr (map (\<lambda>d. JObj [(''id'', dget d ''id''), (''pull_request_url'', dget d ''history_url''),
             (''target_run_url'', dget d ''target_run_url'')])
           (filter (\<lambda>d. dget d ''reason'' = JStr ''merged-rulespec-pr'') (items_of reconciled)))),
        (''schema'', JStr ''axiom-encode/finalization-target-plan/v1'')])))"

record checkout =
  head_commit :: "string option"
  status_porcelain :: "string option"
  remote_tip :: "string \<Rightarrow> string option"
  is_ancestor :: "string \<Rightarrow> string \<Rightarrow> bool"
  file_bytes :: "string \<Rightarrow> string option"
  toolchain :: "json option"

definition file_has_digest :: "queue_env \<Rightarrow> checkout \<Rightarrow> string \<Rightarrow> string \<Rightarrow> bool" where
  "file_has_digest E G rel digest \<longleftrightarrow> (case file_bytes G rel of Some b \<Rightarrow> sha E b = digest | None \<Rightarrow> False)"

definition expected_metadata :: "jobj \<Rightarrow> jobj \<Rightarrow> jobj \<Rightarrow> jobj \<Rightarrow> string \<Rightarrow> jobj" where
  "expected_metadata q item dec run manifest_sha =
    (let dispatch = obj_of (dget q ''dispatch'') in
     [(''citation'', dget item ''citation''), (''encoder_commit'', dget run ''head_sha''),
      (''pr_base_branch'', dget dispatch ''pr_base_branch''), (''queue_id'', dget q ''queue_id''),
      (''queue_item_generation_sha256'', dget dec ''generation_sha256''), (''queue_item_id'', dget item ''id''),
      (''queue_manifest_sha256'', JStr manifest_sha), (''rulespec_base'', dget dispatch ''rulespec_ref''),
      (''schema'', JStr ''axiom-encode/targeted-reencode-artifact/v1''), (''workflow_run_attempt'', JInt 1),
      (''workflow_run_id'', JStr (int_repr (int_of (dget run ''id''))))])"

definition verify_target_evidence ::
  "queue_env \<Rightarrow> checkout \<Rightarrow> jobj \<Rightarrow> jobj \<Rightarrow> jobj \<Rightarrow> jobj \<Rightarrow> json \<Rightarrow> (queue_error, jobj) result" where
  "verify_target_evidence E G q item dec pull_request evidence =
    (let iid = item_id item; ev = obj_of evidence; run = obj_of (dget ev ''run''); metadata = obj_of (dget ev ''metadata'');
         artifact_pr = obj_of (dget ev ''pull_request''); inventory = obj_of (dget ev ''apply_manifests'');
         pr_head = dget pull_request ''head''; artifact_head = dget artifact_pr ''head'';
         matches = filter (\<lambda>v. is_obj v \<and> py_eq (dget (obj_of v) ''citation'') (dget item ''citation'')) (arr_of (dget inventory ''items''));
         applied = obj_of (hd matches); rel = dget applied ''path''
     in bind_r (checks
       [invalid_if (\<not> is_obj evidence \<or> keys ev \<noteq> {''apply_manifests'', ''jobs'', ''metadata'', ''pull_request'', ''run''})
          (iid @ '' target evidence is malformed''),
        invalid_if (\<not> list_all (\<lambda>k. is_obj (dget ev k)) [''run'', ''metadata'', ''pull_request'', ''apply_manifests''])
          (iid @ '' target evidence contains a non-object''),
        invalid_if (\<not> succeeded run \<or> dget run ''event'' \<noteq> JStr ''workflow_dispatch'' \<or> dget run ''head_branch'' \<noteq> JStr ''main''
            \<or> \<not> py_eq (dget run ''html_url'') (dget dec ''target_run_url'')
            \<or> dget run ''path'' \<noteq> JStr ''.github/workflows/targeted-signed-reencode.yml''
            \<or> dget (obj_of (dget run ''actor'')) ''login'' \<noteq> JStr ''github-actions[bot]'')
          (iid @ '' target run is not trusted and successful''),
        verify_attempt_one_job run (dget ev ''jobs'') ''Queue protected signed RuleSpec re-encode'' (iid @ '' target'') True,
        invalid_if (\<not> positive_int (dget run ''id'')) (iid @ '' target run id is malformed'')]) (\<lambda>_.
     bind_r (dispatch_queue_sha256 E q) (\<lambda>manifest_sha.
     let bad = mismatched (expected_metadata q item dec run manifest_sha) metadata in
     bind_r (checks
       [invalid_if (bad \<noteq> []) (iid @ '' target artifact metadata does not match: '' @ join '', '' bad),
        invalid_if (\<not> py_eq (dget artifact_pr ''number'') (dget pull_request ''number'')
            \<or> \<not> py_eq (dget artifact_pr ''html_url'') (dget pull_request ''html_url'')
            \<or> \<not> is_obj pr_head \<or> \<not> is_obj artifact_head
            \<or> \<not> py_eq (dget (obj_of artifact_head) ''sha'') (dget (obj_of pr_head) ''sha''))
          (iid @ '' target artifact PR identity does not match''),
        invalid_if (dget inventory ''schema'' \<noteq> JStr ''axiom-encode/applied-manifest-inventory/v1'' \<or> \<not> is_arr (dget inventory ''items''))
          (iid @ '' applied manifest inventory is malformed''),
        invalid_if (length matches \<noteq> 1) (iid @ '' target artifact lacks one applied manifest'')]) (\<lambda>_.
     bind_r (require_digest (dget applied ''sha256'') (iid @ '' applied manifest sha256'')) (\<lambda>digest.
     bind_r (checks
       [invalid_if (\<not> manifest_path_ok rel) (iid @ '' applied manifest path is unsafe''),
        invalid_if (\<not> file_has_digest E G (str_of rel) digest) (iid @ '' merged RuleSpec tree lacks the signed applied manifest'')]) (\<lambda>_.
     bind_r (require_sha (dget (obj_of pr_head) ''sha'') (iid @ '' RuleSpec PR head'')) (\<lambda>pr_sha.
     bind_r (require_sha (dget run ''head_sha'') (iid @ '' target run head'')) (\<lambda>run_sha.
       Inr [(''applied_manifest_path'', rel), (''applied_manifest_sha256'', JStr digest),
            (''artifact_metadata_sha256'', JStr (json_sha256 E (JObj metadata))), (''rulespec_pr_head_sha'', JStr pr_sha),
            (''target_run_head_sha'', JStr run_sha), (''target_run_attempt'', JInt 1),
            (''target_run_url'', dget dec ''target_run_url'')]))))))))"

definition dispatch_ref :: "jobj \<Rightarrow> string" where
  "dispatch_ref q = str_of (dget (obj_of (dget q ''dispatch'')) ''rulespec_ref'')"

text \<open>The checks before the history is read: inputs, allowlist and the checkout.\<close>

record finalize_inputs =
  fi_check_runs :: json
  fi_pull_requests :: json
  fi_workflow_runs :: json
  fi_target_evidence :: json
  fi_new_ref :: string
  fi_head_sha :: string
  fi_run_url :: string
  fi_run_attempt :: int
  fi_reviewed :: "(string \<times> string) list"

definition check_finalize_inputs :: "queue_env \<Rightarrow> checkout \<Rightarrow> finalize_inputs \<Rightarrow> jobj \<Rightarrow> (queue_error, unit) result" where
  "check_finalize_inputs E G I q =
    (let dispatch = obj_of (dget q ''dispatch''); new = fi_new_ref I;
         branch = str_of (dget dispatch ''pr_base_branch''); release = obj_of (dget q ''release'') in
     checks
      [validate_queue E q,
       invalid_if (queue_state q \<noteq> ''paused'') ''finalize-repin requires a paused queue'',
       discard (require_sha (JStr new) ''new_rulespec_ref''), discard (require_sha (JStr (fi_head_sha I)) ''finalizer_head_sha''),
       invalid_if (\<not> finalizer_run_re (fi_run_url I)) ''finalizer_run_url is malformed'',
       invalid_if (fi_run_attempt I \<noteq> 1) ''finalizer_run_attempt must be 1'',
       validate_green_check_runs (fi_check_runs I),
       invalid_if (new = dispatch_ref q) ''new_rulespec_ref must advance the queue base'',
       invalid_if ((str_of (dget dispatch ''country''), new) \<notin> set (fi_reviewed I))
         ''new_rulespec_ref is not independently reviewed and allowlisted'',
       invalid_if (head_commit G = None \<or> status_porcelain G = None \<or> remote_tip G branch = None)
         ''finalize-repin requires an exact RuleSpec branch checkout'',
       invalid_if (head_commit G \<noteq> Some new \<or> remote_tip G branch \<noteq> Some new)
         ''new_rulespec_ref is not the exact checked-out remote branch tip'',
       invalid_if (status_porcelain G \<noteq> Some []) ''finalize-repin RuleSpec checkout is not clean'',
       invalid_if (\<not> is_ancestor G (dispatch_ref q) new) ''new RuleSpec base does not contain the prior queue base'',
       bind_r (load_release_pin (toolchain G)) (\<lambda>pin.
         invalid_if (JStr (fst pin) \<noteq> dget release ''name'' \<or> JStr (snd pin) \<noteq> dget release ''content_sha256'')
           ''new RuleSpec base changed the queue corpus release pin'')])"

definition url_or_unknown :: "jobj \<Rightarrow> string" where
  "url_or_unknown d = (if truthy (dget d ''html_url'') then py_str (dget d ''html_url'') else ''unknown'')"

definition trusted_queue_prs :: "jobj \<Rightarrow> jobj list \<Rightarrow> jobj list" where
  "trusted_queue_prs q prs =
    filter (\<lambda>pr. sublist (''Queue item: `'' @ str_of (dget q ''queue_id'') @ ''/'') (pr_body pr)
      \<and> rulespec_pr (dget (obj_of (dget q ''dispatch'')) ''pr_base_branch'') pr) prs"

definition active_runs :: "jobj \<Rightarrow> jobj list \<Rightarrow> jobj list" where
  "active_runs q runs =
    filter (\<lambda>run. titled (''['' @ str_of (dget q ''queue_id'') @ '':'') run
      \<and> (dget run ''status'' \<noteq> JStr ''completed'' \<or> dget run ''conclusion'' = JNull)) runs"

definition prs_by_url :: "jobj list \<Rightarrow> json \<Rightarrow> (queue_error, jobj option) result" where
  "prs_by_url prs v =
    (if \<not> hashable v then Inl (OtherError ''TypeError'')
     else Inr (case v of JStr u \<Rightarrow> map_of (rev (map (\<lambda>pr. (str_of (dget pr ''html_url''), pr))
         (filter (\<lambda>pr. is_str (dget pr ''html_url'')) prs))) u | _ \<Rightarrow> None))"

definition completed_pr_ok :: "jobj \<Rightarrow> jobj \<Rightarrow> jobj \<Rightarrow> bool" where
  "completed_pr_ok q item pr \<longleftrightarrow>
    (let ev = obj_of (dget item ''evidence'') in
     dget pr ''state'' = JStr ''closed'' \<and> merged pr \<and> py_eq (dget pr ''merge_commit_sha'') (dget ev ''merge_commit'')
     \<and> is_obj (dget pr ''head'') \<and> py_eq (dget (obj_of (dget pr ''head'')) ''sha'') (dget ev ''rulespec_pr_head_sha'')
     \<and> list_all (\<lambda>m. sublist m (pr_body pr))
        [''Queue item: '' @ tick (str_of (dget q ''queue_id'') @ ''/'' @ item_id item), ''Citation: '' @ tick (item_citation item),
         ''Queue generation SHA-256: '' @ tick (str_of (dget ev ''generation_sha256'')),
         ''Axiom Encode run: '' @ str_of (dget ev ''target_run_url'')])"

definition check_completed_item :: "queue_env \<Rightarrow> checkout \<Rightarrow> jobj \<Rightarrow> string \<Rightarrow> jobj list \<Rightarrow> jobj \<Rightarrow> (queue_error, unit) result" where
  "check_completed_item E G q new prs item =
    (if item_status item \<noteq> ''completed'' then Inr () else
     let ev = obj_of (dget item ''evidence'') in
     bind_r (prs_by_url prs (dget ev ''url'')) (\<lambda>pr.
       checks
        [invalid_if (case pr of None \<Rightarrow> True | Some p \<Rightarrow> \<not> completed_pr_ok q item p)
           (''completed queue item '' @ item_id item @ '' lacks a verified merged RuleSpec PR''),
         invalid_if (\<not> is_ancestor G (str_of (dget ev ''merge_commit'')) new) (''new RuleSpec base omits completed queue item '' @ item_id item),
         invalid_if (\<not> file_has_digest E G (str_of (dget ev ''applied_manifest_path'')) (str_of (dget ev ''applied_manifest_sha256'')))
           (''completed queue item '' @ item_id item @ '' lacks its applied manifest'')]))"

definition complete_item :: "jobj \<Rightarrow> jobj \<Rightarrow> jobj" where
  "complete_item evidence item = AList.update ''evidence'' (JObj evidence) (AList.update ''status'' (JStr ''completed'') item)"

text \<open>One iteration over the reconciled decisions; the state is the updated queue.\<close>

definition complete_decision ::
  "queue_env \<Rightarrow> checkout \<Rightarrow> finalize_inputs \<Rightarrow> jobj \<Rightarrow> jobj list \<Rightarrow> jobj \<Rightarrow> jobj \<Rightarrow> (queue_error, jobj) result" where
  "complete_decision E G I q prs updated dec =
    (if dget dec ''reason'' \<noteq> JStr ''merged-rulespec-pr'' then Inr updated else
     let iid = item_id dec; url = dget dec ''history_url'' in
     bind_r (prs_by_url prs url) (\<lambda>pr.
     bind_r (require_sha (case pr of Some p \<Rightarrow> dget p ''merge_commit_sha'' | None \<Rightarrow> JNull) (iid @ '' merged PR commit'')) (\<lambda>commit.
     bind_r (invalid_if (\<not> is_ancestor G commit (fi_new_ref I)) (''new RuleSpec base omits merged queue item '' @ iid)) (\<lambda>_.
       case by_id (items_of updated) iid of None \<Rightarrow> Inl (OtherError ''KeyError'')
       | Some item \<Rightarrow>
         bind_r (verify_target_evidence E G q item dec (the pr) (dget (obj_of (fi_target_evidence I)) iid)) (\<lambda>authenticated.
           Inr (map_item iid (complete_item (authenticated
             @ [(''generation_sha256'', dget dec ''generation_sha256''), (''merge_commit'', JStr commit),
                (''type'', JStr ''merged-rulespec-pr''), (''url'', url)])) updated))))))"

definition activation_of :: "queue_env \<Rightarrow> finalize_inputs \<Rightarrow> jobj \<Rightarrow> json" where
  "activation_of E I q =
    JObj [(''check_runs_sha256'', JStr (json_sha256 E (fi_check_runs I))), (''finalizer_head_sha'', JStr (fi_head_sha I)),
      (''finalizer_run_attempt'', JInt (fi_run_attempt I)), (''finalizer_run_url'', JStr (fi_run_url I)),
      (''previous_queue_object_sha256'', JStr (json_sha256 E (JObj q))),
      (''pull_requests_sha256'', JStr (json_sha256 E (fi_pull_requests I))), (''rulespec_ref'', JStr (fi_new_ref I)),
      (''schema'', JStr ''axiom-encode/signed-encoding-queue-activation/v1''),
      (''workflow_runs_sha256'', JStr (json_sha256 E (fi_workflow_runs I)))]"

definition activated :: "queue_env \<Rightarrow> finalize_inputs \<Rightarrow> jobj \<Rightarrow> jobj \<Rightarrow> jobj" where
  "activated E I q updated =
     AList.update ''activation'' (activation_of E I q)
       (AList.delete ''suspension'' (AList.delete ''pause_reason''
         (AList.update ''state'' (JStr ''active'')
           (AList.update ''dispatch'' (JObj (AList.update ''rulespec_ref'' (JStr (fi_new_ref I)) (obj_of (dget updated ''dispatch'')))) updated))))"

definition unresolved :: "jobj \<Rightarrow> jobj list" where
  "unresolved reconciled = filter (\<lambda>d. \<not> in_strs (dget d ''reason'') [''merged-rulespec-pr'', ''new'']) (items_of reconciled)"

definition finalize_and_repin :: "queue_env \<Rightarrow> checkout \<Rightarrow> finalize_inputs \<Rightarrow> jobj \<Rightarrow> (queue_error, jobj) result" where
  "finalize_and_repin E G I q =
    bind_r (check_finalize_inputs E G I q) (\<lambda>_.
    bind_r (flatten_pull_requests (fi_pull_requests I)) (\<lambda>prs.
    bind_r (flatten_workflow_runs (fi_workflow_runs I)) (\<lambda>runs.
    let trusted = trusted_queue_prs q prs; open_prs = filter (\<lambda>pr. dget pr ''state'' = JStr ''open'') trusted; busy = active_runs q runs in
    bind_r (checks
      [invalid_if (open_prs \<noteq> []) (''cannot repin while queue pull requests are open: '' @ join '', '' (map url_or_unknown open_prs)),
       invalid_if (busy \<noteq> []) (''cannot repin while queue workflow runs are active: '' @ join '', '' (map url_or_unknown busy)),
       for_each (\<lambda>_. check_completed_item E G q (fi_new_ref I) trusted) () (items_of q)]) (\<lambda>_.
    bind_r (reconcile_candidates (selectable_selection E q) (fi_pull_requests I) (fi_workflow_runs I)) (\<lambda>reconciled.
    bind_r (checks
      [invalid_if (unresolved reconciled \<noteq> []) (''queue dispositions are required before repinning: ''
         @ join '', '' (map (\<lambda>d. item_id d @ ''='' @ str_of (dget d ''reason'')) (unresolved reconciled))),
       invalid_if (\<not> is_obj (fi_target_evidence I)) ''target evidence must be an object'']) (\<lambda>_.
    bind_r (for_each (complete_decision E G I q trusted) q (items_of reconciled)) (\<lambda>updated.
      let result = activated E I q updated in
      bind_r (validate_queue E result) (\<lambda>_. Inr result))))))))"

section \<open>Facts about decisions\<close>

lemma set_sort_desc [simp]: "set (sort_desc k xs) = set xs"
  by (simp add: sort_desc_def)

lemma sort_desc_Nil [simp]: "sort_desc k xs = [] \<longleftrightarrow> xs = []"
  by (metis set_sort_desc set_empty)

lemma decision_reads:
  "dget (decision item b r u) ''dispatchable'' = JBool b" "dget (decision item b r u) ''reason'' = JStr r"
  "k \<notin> {''dispatchable'', ''reason'', ''history_url''} \<Longrightarrow> dget (decision item b r u) k = dget item k"
  by (auto simp: decision_def)

lemma trusted_merges_Nil [simp]: "trusted_merges runs marker [] = []"
  by (simp add: trusted_merges_def List.map_filter_simps)

lemma decide_dispatchable:
  "dget (decide item matching runs marker) ''dispatchable''
     = JBool (matching = [] \<and> filter (titled marker) runs = [])"
  by (auto simp: decide_def decide_from_run_def decision_reads Let_def split: list.splits)
    (metis sort_desc_Nil list.discI)+

lemma decide_frame:
  "k \<notin> {''dispatchable'', ''reason'', ''history_url'', ''target_run_url''} \<Longrightarrow> dget (decide item matching runs marker) k = dget item k"
  by (auto simp: decide_def decide_from_run_def decision_reads Let_def split: list.splits)

text \<open>The pull requests that identify themselves as work on the item.\<close>

definition item_prs :: "jobj \<Rightarrow> jobj \<Rightarrow> jobj list \<Rightarrow> jobj list" where
  "item_prs selection item prs =
    (let dispatch = obj_of (dget selection ''dispatch''); branch = dget dispatch ''pr_base_branch'' in
     filter (pr_matches (pr_identity_markers (str_of (dget selection ''queue_id'')) (item_id item) (dget item ''citation'')
       (dget dispatch ''rulespec_ref'') branch (str_of (dget item ''generation_sha256''))) branch) prs)"

definition item_runs :: "jobj \<Rightarrow> jobj \<Rightarrow> jobj list \<Rightarrow> jobj list" where
  "item_runs selection item runs =
    filter (titled (run_marker (str_of (dget selection ''queue_id'')) (item_id item) (str_of (dget item ''generation_sha256'')))) runs"

lemma sub_Inr: "sub v k = Inr x \<longleftrightarrow> (\<exists>d. v = JObj d \<and> map_of d k = Some x)"
  by (auto simp: sub_def split: json.splits option.splits)

lemma sub_dget: "sub (JObj d) k = Inr x \<Longrightarrow> dget d k = x"
  by (auto simp: sub_Inr dget_def)

lemma reconcile_item_Inr:
  assumes "reconcile_item (str_of (dget selection ''queue_id'')) selection prs runs raw = Inr d"
  obtains item where "raw = JObj item" "item_id d = item_id item"
    "dget d ''dispatchable'' = JBool (item_prs selection item prs = [] \<and> item_runs selection item runs = [])"
    "\<forall>k. k \<in> {''dispatchable'', ''reason'', ''history_url'', ''target_run_url''} \<or> dget d k = dget item k"
proof -
  let ?qid = "str_of (dget selection ''queue_id'')"
  obtain item where raw: "raw = JObj item" using assms by (cases raw) (auto simp: reconcile_item_def)
  from assms obtain gen cit disp ref branch where
    g: "dget item ''generation_sha256'' = JStr gen" and c: "sub (JObj item) ''citation'' = Inr cit"
    and d: "sub (JObj selection) ''dispatch'' = Inr disp" "sub disp ''rulespec_ref'' = Inr ref" "sub disp ''pr_base_branch'' = Inr branch"
    and dec: "d = decide item (sort_desc ''updated_at'' (filter (pr_matches
        (pr_identity_markers ?qid (item_id item) cit ref branch gen) branch) prs)) runs (run_marker ?qid (item_id item) gen)"
    by (auto simp: reconcile_item_def raw Let_def)
  obtain e where e: "disp = JObj e" using d(2) by (auto simp: sub_Inr)
  have prs: "filter (pr_matches (pr_identity_markers ?qid (item_id item) cit ref branch gen) branch) prs = item_prs selection item prs"
    using sub_dget[OF c] sub_dget[OF d(1)] d(2,3) by (simp add: item_prs_def Let_def e g sub_dget)
  have "dget d ''dispatchable'' = JBool (item_prs selection item prs = [] \<and> item_runs selection item runs = [])"
    by (simp add: dec decide_dispatchable prs item_runs_def g)
  moreover have fr: "\<forall>k. k \<in> {''dispatchable'', ''reason'', ''history_url'', ''target_run_url''} \<or> dget d k = dget item k"
    unfolding dec using decide_frame by blast
  moreover have "item_id d = item_id item" by (simp add: item_id_def dec decide_frame)
  ultimately show ?thesis using that raw by blast
qed

lemma reconcile_candidates_Inr:
  assumes "reconcile_candidates selection pull_requests workflow_runs = Inr out"
  obtains ps rs ds where "flatten_pull_requests pull_requests = Inr ps" "flatten_workflow_runs workflow_runs = Inr rs"
    "items_of out = ds"
    "list_all2 (\<lambda>raw d. reconcile_item (str_of (dget selection ''queue_id'')) selection ps rs raw = Inr d)
       (arr_of (dget selection ''items'')) ds"
proof -
  from assms obtain ps rs ds where f: "flatten_pull_requests pull_requests = Inr ps" "flatten_workflow_runs workflow_runs = Inr rs"
    and ds: "map_r (reconcile_item (str_of (dget selection ''queue_id'')) selection ps rs) (arr_of (dget selection ''items'')) = Inr ds"
    and out: "out = filter (\<lambda>kv. fst kv \<noteq> ''items'') selection @ [(''items'', JArr (map JObj ds))]"
    by (auto simp: reconcile_candidates_def Let_def)
  have "map_of (filter (\<lambda>kv. fst kv \<noteq> ''items'') selection) ''items'' = None"
    by (auto simp: map_of_eq_None_iff)
  then have "dget out ''items'' = JArr (map JObj ds)" by (simp add: out dget_def map_add_def)
  then have "items_of out = ds" by (simp add: items_of_def comp_def)
  with that f ds show ?thesis by (simp add: map_r_Inr_iff)
qed

section \<open>Facts about finalisation\<close>

lemma verify_target_evidence_Inr:
  assumes "verify_target_evidence E G q item dec pr ev = Inr auth"
  obtains rel digest rest where "auth = (''applied_manifest_path'', rel) # (''applied_manifest_sha256'', JStr digest) # rest"
    "keys rest = {''artifact_metadata_sha256'', ''rulespec_pr_head_sha'', ''target_run_head_sha'', ''target_run_attempt'', ''target_run_url''}"
    "file_has_digest E G (str_of rel) digest"
  using assms unfolding verify_target_evidence_def Let_def
proof (elim bind_r_InrE, goal_cases)
  case (1 u1 manifest_sha u2 digest u3 pr_sha run_sha)
  show ?case
    by (rule 1(1)[OF 1(9)[unfolded sum.inject, symmetric]]) (use 1(6) in simp_all)
qed

text \<open>An item contained in the new base: its merge commit is an ancestor and its applied manifest has
  the recorded digest.\<close>

definition contained :: "queue_env \<Rightarrow> checkout \<Rightarrow> string \<Rightarrow> jobj \<Rightarrow> bool" where
  "contained E G new item \<longleftrightarrow>
    (let ev = obj_of (dget item ''evidence'') in
     is_ancestor G (str_of (dget ev ''merge_commit'')) new
     \<and> file_has_digest E G (str_of (dget ev ''applied_manifest_path'')) (str_of (dget ev ''applied_manifest_sha256'')))"

definition completes :: "queue_env \<Rightarrow> checkout \<Rightarrow> string \<Rightarrow> jobj \<Rightarrow> jobj \<Rightarrow> bool" where
  "completes E G new a b \<longleftrightarrow> selectable a \<and> item_status b = ''completed'' \<and> contained E G new b
     \<and> (\<forall>k. k \<in> {''status'', ''evidence''} \<or> dget b k = dget a k)"

lemma complete_item_completes:
  assumes "verify_target_evidence E G q item dec pr ev = Inr auth" "is_ancestor G commit new"
    and "selectable a" "\<forall>k. k \<in> {''status'', ''evidence''} \<or> dget b k = dget a k"
  shows "completes E G new a (complete_item (auth @ [(''generation_sha256'', g), (''merge_commit'', JStr commit),
     (''type'', t), (''url'', u)]) b)"
proof -
  let ?ev = "auth @ [(''generation_sha256'', g), (''merge_commit'', JStr commit), (''type'', t), (''url'', u)]"
  obtain rel digest rest where auth: "auth = (''applied_manifest_path'', rel) # (''applied_manifest_sha256'', JStr digest) # rest"
    "keys rest = {''artifact_metadata_sha256'', ''rulespec_pr_head_sha'', ''target_run_head_sha'', ''target_run_attempt'', ''target_run_url''}"
    and f: "file_has_digest E G (str_of rel) digest"
    using assms(1) by (rule verify_target_evidence_Inr)
  have "''merge_commit'' \<notin> keys rest" using auth(2) by simp
  then have "map_of rest ''merge_commit'' = None" by (simp add: keys_dom domIff)
  then have "dget ?ev ''merge_commit'' = JStr commit"
    by (simp add: dget_def map_add_def auth(1))
  moreover have "dget ?ev ''applied_manifest_path'' = rel" "dget ?ev ''applied_manifest_sha256'' = JStr digest"
    by (simp_all add: auth(1))
  ultimately have "contained E G new (complete_item ?ev b)"
    using assms(2) f by (simp add: contained_def complete_item_def Let_def del: append_Cons append.simps)
  moreover have "k \<in> {''status'', ''evidence''} \<or> dget (complete_item ?ev b) k = dget a k" for k
    using assms(4) by (cases "k \<in> {''status'', ''evidence''}") (auto simp: complete_item_def)
  ultimately show ?thesis
    using assms(3) by (simp add: completes_def complete_item_def item_status_def)
qed

text \<open>Every decision is about a selectable item of the queue.\<close>

lemma decision_ids:
  assumes "reconcile_candidates (selectable_selection E q) prs runs = Inr out" "d \<in> set (items_of out)"
  shows "\<exists>i\<in>set (items_of q). selectable i \<and> item_id i = item_id d"
proof -
  let ?sel = "selectable_selection E q"
  obtain ps rs ds where "items_of out = ds"
    and l: "list_all2 (\<lambda>raw d. reconcile_item (str_of (dget ?sel ''queue_id'')) ?sel ps rs raw = Inr d) (arr_of (dget ?sel ''items'')) ds"
    using assms(1) by (rule reconcile_candidates_Inr)
  with assms(2) have d: "d \<in> set ds" by simp
  then obtain n where n: "n < length ds" "ds ! n = d" by (auto simp: in_set_conv_nth)
  have raw: "reconcile_item (str_of (dget ?sel ''queue_id'')) ?sel ps rs (arr_of (dget ?sel ''items'') ! n) = Inr d"
    and len: "n < length (arr_of (dget ?sel ''items''))"
    using l n by (auto simp: list_all2_conv_all_nth)
  then obtain item where item: "arr_of (dget ?sel ''items'') ! n = JObj item" "item_id d = item_id item"
    by (auto elim: reconcile_item_Inr)
  have "arr_of (dget ?sel ''items'') = map (\<lambda>i. JObj (AList.update ''generation_sha256'' (JStr (item_generation_sha256 E q i)) i))
      (filter selectable (items_of q))"
    by (simp add: selectable_selection_def selection_payload_def)
  with item(1) len have "filter selectable (items_of q) ! n \<in> set (filter selectable (items_of q))"
    "item_id item = item_id (filter selectable (items_of q) ! n)"
    by (auto simp: item_id_def simp del: set_filter)
  then show ?thesis using item(2) by auto
qed

text \<open>How the items of the updated queue relate to those of the paused one.\<close>

definition advanced :: "queue_env \<Rightarrow> checkout \<Rightarrow> string \<Rightarrow> jobj \<Rightarrow> jobj \<Rightarrow> bool" where
  "advanced E G new a b \<longleftrightarrow> b = a \<or> completes E G new a b"

lemma advanced_id: "advanced E G new a b \<Longrightarrow> item_id b = item_id a"
  by (auto simp: advanced_def completes_def item_id_def dest!: spec[of _ "''id''"])

lemma complete_decision_step:
  assumes "complete_decision E G I q prs updated dec = Inr updated'"
    and "list_all2 (advanced E G (fi_new_ref I)) (items_of q) (items_of updated)"
    and "distinct (map item_id (items_of q))" "\<exists>i\<in>set (items_of q). selectable i \<and> item_id i = item_id dec"
  shows "list_all2 (advanced E G (fi_new_ref I)) (items_of q) (items_of updated')
    \<and> (\<forall>k. k = ''items'' \<or> dget updated' k = dget updated k)"
proof (cases "dget dec ''reason'' = JStr ''merged-rulespec-pr''")
  case False
  then show ?thesis using assms(1,2) by (simp add: complete_decision_def)
next
  case True
  with assms(1) obtain p commit item auth where anc: "is_ancestor G commit (fi_new_ref I)"
    and auth: "verify_target_evidence E G q item dec p (dget (obj_of (fi_target_evidence I)) (item_id dec)) = Inr auth"
    and upd: "updated' = map_item (item_id dec) (complete_item (auth
             @ [(''generation_sha256'', dget dec ''generation_sha256''), (''merge_commit'', JStr commit),
                (''type'', JStr ''merged-rulespec-pr''), (''url'', dget dec ''history_url'')])) updated"
    by (auto simp: complete_decision_def Let_def split: option.splits)
  let ?c = "complete_item (auth @ [(''generation_sha256'', dget dec ''generation_sha256''), (''merge_commit'', JStr commit),
                (''type'', JStr ''merged-rulespec-pr''), (''url'', dget dec ''history_url'')])"
  have step: "advanced E G (fi_new_ref I) a (if item_id b = item_id dec then ?c b else b)"
    if "a \<in> set (items_of q)" "advanced E G (fi_new_ref I) a b" for a b
  proof (cases "item_id b = item_id dec")
    case same: True
    from assms(4) obtain i where i: "i \<in> set (items_of q)" "selectable i" "item_id i = item_id dec" by blast
    have "item_id a = item_id dec" using same advanced_id[OF that(2)] by simp
    then have eq: "a = i" using i(1,3) that(1) assms(3) by (simp add: distinct_map inj_on_def)
    have frame: "\<forall>k. k \<in> {''status'', ''evidence''} \<or> dget b k = dget a k"
      using that(2) unfolding advanced_def completes_def by (elim disjE conjE) simp_all
    have "completes E G (fi_new_ref I) a (?c b)"
      by (rule complete_item_completes[OF auth anc _ frame]) (simp add: eq i(2))
    then show ?thesis by (simp add: advanced_def same)
  qed (use that in simp)
  have "list_all2 (advanced E G (fi_new_ref I)) (items_of q) (items_of updated')"
    using assms(2) step unfolding upd items_of_map_item by (auto simp: list_all2_conv_all_nth)
  moreover have "\<forall>k. k = ''items'' \<or> dget updated' k = dget updated k"
    unfolding upd using dget_map_item by blast
  ultimately show ?thesis by blast
qed

lemma complete_decisions:
  assumes "for_each (complete_decision E G I q prs) q decs = Inr updated"
    and "distinct (map item_id (items_of q))" "\<forall>d\<in>set decs. \<exists>i\<in>set (items_of q). selectable i \<and> item_id i = item_id d"
  shows "list_all2 (advanced E G (fi_new_ref I)) (items_of q) (items_of updated)
    \<and> (\<forall>k. k = ''items'' \<or> dget updated k = dget q k)"
  using assms(1)
proof (rule for_each_rule)
  show "list_all2 (advanced E G (fi_new_ref I)) (items_of q) (items_of q) \<and> (\<forall>k. k = ''items'' \<or> dget q k = dget q k)"
    by (simp add: list_all2_same advanced_def)
next
  fix ys y zs s s'
  assume y: "decs = ys @ y # zs" and inv: "list_all2 (advanced E G (fi_new_ref I)) (items_of q) (items_of s)
      \<and> (\<forall>k. k = ''items'' \<or> dget s k = dget q k)"
    and st: "complete_decision E G I q prs s y = Inr s'"
  have "\<exists>i\<in>set (items_of q). selectable i \<and> item_id i = item_id y" using assms(3) y by simp
  from complete_decision_step[OF st _ assms(2) this] inv
  show "list_all2 (advanced E G (fi_new_ref I)) (items_of q) (items_of s') \<and> (\<forall>k. k = ''items'' \<or> dget s' k = dget q k)"
    by metis
qed

lemma activated_reads:
  "items_of (activated E I q u) = items_of u" "queue_state (activated E I q u) = ''active''"
  "dispatch_ref (activated E I q u) = fi_new_ref I" "dget (activated E I q u) ''activation'' = activation_of E I q"
  by (simp_all add: activated_def queue_state_def dispatch_ref_def)

lemma check_completed_item_Inr:
  "check_completed_item E G q new prs item = Inr () \<Longrightarrow> item_status item = ''completed'' \<Longrightarrow> contained E G new item"
  by (auto simp: check_completed_item_def contained_def Let_def)

lemma finalize_and_repin_Inr:
  assumes "finalize_and_repin E G I q = Inr q'"
  obtains prs reconciled updated where "check_finalize_inputs E G I q = Inr ()"
    "\<forall>i\<in>set (items_of q). check_completed_item E G q (fi_new_ref I) (trusted_queue_prs q prs) i = Inr ()"
    "reconcile_candidates (selectable_selection E q) (fi_pull_requests I) (fi_workflow_runs I) = Inr reconciled"
    "unresolved reconciled = []"
    "for_each (complete_decision E G I q (trusted_queue_prs q prs)) q (items_of reconciled) = Inr updated"
    "q' = activated E I q updated" "validate_queue E q' = Inr ()"
  using assms unfolding finalize_and_repin_def Let_def
proof (elim bind_r_InrE, goal_cases)
  case (1 u1 prs runs u2 reconciled u3 updated u4)
  show ?case
    by (rule 1(1)[of prs reconciled updated]) (use 1(2-) in \<open>simp_all add: for_each_unit\<close>)
qed

section \<open>Properties\<close>

text \<open>C10. Reconciliation never dispatches work twice: an item is dispatchable exactly when no pull request
  identifies itself as work on this generation of the item and no workflow run carries its marker; every
  item of the selection gets exactly one decision, in order, with its own data unchanged.\<close>

theorem reconcile_dispatchable_iff_new:
  assumes "reconcile_candidates selection pull_requests workflow_runs = Inr out"
  shows "\<exists>ps rs. flatten_pull_requests pull_requests = Inr ps \<and> flatten_workflow_runs workflow_runs = Inr rs
    \<and> list_all2 (\<lambda>raw d. \<exists>item. raw = JObj item
        \<and> dget d ''dispatchable'' = JBool (item_prs selection item ps = [] \<and> item_runs selection item rs = [])
        \<and> (\<forall>k. k \<in> {''dispatchable'', ''reason'', ''history_url'', ''target_run_url''} \<or> dget d k = dget item k))
      (arr_of (dget selection ''items'')) (items_of out)"
proof -
  obtain ps rs ds where f: "flatten_pull_requests pull_requests = Inr ps" "flatten_workflow_runs workflow_runs = Inr rs"
    and ds: "items_of out = ds" and l: "list_all2 (\<lambda>raw d. reconcile_item (str_of (dget selection ''queue_id'')) selection ps rs raw = Inr d)
       (arr_of (dget selection ''items'')) ds"
    using assms by (rule reconcile_candidates_Inr)
  have "list_all2 (\<lambda>raw d. \<exists>item. raw = JObj item
        \<and> dget d ''dispatchable'' = JBool (item_prs selection item ps = [] \<and> item_runs selection item rs = [])
        \<and> (\<forall>k. k \<in> {''dispatchable'', ''reason'', ''history_url'', ''target_run_url''} \<or> dget d k = dget item k))
      (arr_of (dget selection ''items'')) ds"
    using l by (rule list_all2_mono) (erule reconcile_item_Inr, blast)
  with f ds show ?thesis by blast
qed


end
