(* ===== verification/Queue_Examples.thy ===== *)
theory Queue_Examples
  imports Queue_Finalize
begin

text \<open>
  Concrete queues on which the hypotheses of the queue properties hold: a profile with one item in each
  of two jurisdictions, the same queue in its active and its paused state, and the evidence of one
  finalisation. The digest function of the environment is a constant, which the properties allow.
\<close>

section \<open>Environment\<close>

definition zeros :: string where "zeros = replicate 64 CHR ''0''"

definition commit_a :: string where "commit_a = replicate 40 CHR ''a''"

definition commit_b :: string where "commit_b = replicate 40 CHR ''b''"

definition toy_profile :: profile where
  "toy_profile = \<lparr>p_activation_path = ''data/toy.json'',
     p_expected_counts = [(''total'', 2), (''us-or'', 1), (''us-ut'', 1)], p_issue = 7, p_inventory = JNull,
     p_item_width = 4, p_priority_citations = [''us-ut/a''], p_supersedes = JNull\<rparr>"

definition toy_env :: queue_env where
  "toy_env = \<lparr>profile_of = (\<lambda>s. if s = ''toy'' then Inr toy_profile else invalid ''unsupported protected SNAP queue''),
     sha = (\<lambda>_. zeros)\<rparr>"

section \<open>Queues\<close>

definition toy_item_ut :: jobj where
  "toy_item_ut = [(''attempt'', JInt 1), (''citation'', JStr ''us-ut/a''), (''id'', JStr ''ut-0001''),
     (''jurisdiction'', JStr ''us-ut''), (''label'', JStr ''A''), (''sequence'', JInt 1),
     (''source_kind'', JStr ''page''), (''status'', JStr ''pending'')]"

definition toy_item_or :: jobj where
  "toy_item_or = [(''attempt'', JInt 2), (''citation'', JStr ''us-or/b''), (''id'', JStr ''or-0001''),
     (''jurisdiction'', JStr ''us-or''), (''label'', JStr ''B''), (''sequence'', JInt 2),
     (''source_kind'', JStr ''page''), (''status'', JStr ''retryable'')]"

definition toy_dispatch :: jobj where
  "toy_dispatch = [(''corpus_ref'', JStr commit_a), (''country'', JStr ''us''), (''max_batch_size'', JInt 4),
     (''open_pr'', JBool True), (''pr_base_branch'', JStr ''hard-cut/canonical-layout-us''),
     (''rules_engine_ref'', JStr commit_a), (''rulespec_ref'', JStr commit_a)]"

definition toy_release_binding :: jobj where
  "toy_release_binding = [(''content_sha256'', JStr zeros), (''manifest_sha256'', JStr zeros), (''name'', JStr ''r1'')]"

definition toy_activation :: jobj where
  "toy_activation = [(''check_runs_sha256'', JStr zeros), (''finalizer_head_sha'', JStr commit_a),
     (''finalizer_run_attempt'', JInt 1), (''finalizer_run_url'', JStr (run_url_prefix @ ''9'')),
     (''previous_queue_object_sha256'', JStr zeros), (''pull_requests_sha256'', JStr zeros),
     (''rulespec_ref'', JStr commit_a), (''schema'', JStr ''axiom-encode/signed-encoding-queue-activation/v1''),
     (''workflow_runs_sha256'', JStr zeros)]"

definition toy_queue_of :: "jobj list \<Rightarrow> jobj" where
  "toy_queue_of its = [(''description'', JStr ''toy''), (''dispatch'', JObj toy_dispatch),
     (''expected_counts'', counts_json [(''total'', 2), (''us-or'', 1), (''us-ut'', 1)]), (''issue'', JInt 7),
     (''items'', JArr (map JObj its)), (''queue_id'', JStr ''toy''), (''release'', JObj toy_release_binding),
     (''schema'', JStr queue_schema)]"

definition toy_active :: jobj where
  "toy_active = toy_queue_of [toy_item_ut, toy_item_or] @ [(''state'', JStr ''active''), (''activation'', JObj toy_activation)]"

definition toy_paused :: jobj where
  "toy_paused = toy_queue_of [toy_item_ut, toy_item_or] @ [(''state'', JStr ''paused''), (''pause_reason'', JStr ''tranche''),
     (''suspension'', suspension_of zeros)]"

lemma toy_sha_env [simp]: "sha toy_env x = zeros"
  by (simp add: toy_env_def)

lemma toy_active_valid: "validate_queue toy_env toy_active = Inr ()"
  by code_simp

lemma toy_paused_valid: "validate_queue toy_env toy_paused = Inr ()"
  by code_simp

lemma toy_items: "items_of toy_active = [toy_item_ut, toy_item_or]" "items_of toy_paused = [toy_item_ut, toy_item_or]"
  by (simp_all add: items_of_def toy_active_def toy_paused_def toy_queue_of_def)

lemma toy_states: "queue_state toy_active = ''active''" "queue_state toy_paused = ''paused''"
  by (simp_all add: queue_state_def toy_active_def toy_paused_def toy_queue_of_def)

lemma toy_selectable: "selectable toy_item_ut" "selectable toy_item_or"
  by (simp_all add: selectable_def item_status_def toy_item_ut_def toy_item_or_def selectable_statuses_def)

lemma toy_ids: "item_id toy_item_ut = ''ut-0001''" "item_id toy_item_or = ''or-0001''"
  by (simp_all add: item_id_def toy_item_ut_def toy_item_or_def)

definition toy_file :: "jobj \<Rightarrow> queue_file" where
  "toy_file q = \<lparr>raw_bytes = [], parsed = JObj q\<rparr>"

section \<open>Witnesses for selection, pausing and disposing\<close>

lemma toy_selection_explicit:
  "select_items toy_env toy_active '' or-0001 ,'' 2 = Inr (selection_payload toy_env toy_active [toy_item_or])"
proof -
  have "requested_ids '' or-0001 ,'' = [''or-0001'']" by code_simp
  moreover have "by_id (items_of toy_active) ''or-0001'' = Some toy_item_or"
    by (simp add: toy_items by_id_def toy_ids)
  ultimately show ?thesis
    by (simp add: select_items_def Let_def toy_active_valid pick_def toy_states toy_selectable max_batch_size_def)
qed

theorem valid_queue_inventory_witness: "queue_inv toy_profile toy_active"
  using valid_queue_inventory[OF toy_active_valid]
  by (simp add: toy_env_def toy_active_def toy_queue_of_def)

theorem select_items_sound_witness:
  "select_items toy_env toy_active '' or-0001 ,'' 2 = Inr (selection_payload toy_env toy_active [toy_item_or])
   \<and> (\<exists>chosen. selection_payload toy_env toy_active [toy_item_or] = selection_payload toy_env toy_active chosen
        \<and> list_all selectable chosen \<and> int (length chosen) \<le> 2)"
  using select_items_sound[OF toy_selection_explicit] toy_selection_explicit by blast

theorem select_items_progress_witness:
  "select_items toy_env toy_active [] 1 = Inr (selection_payload toy_env toy_active [toy_item_ut])"
  using select_items_progress[OF toy_active_valid toy_states(1), of 1] by (simp add: toy_items toy_selectable)

theorem pause_queue_total_witness:
  "\<exists>q'. pause_queue toy_env toy_active ''done'' zeros = Inr q' \<and> queue_state q' = ''paused''"
proof -
  have "strip ''done'' \<noteq> []" "digest_re zeros" by code_simp+
  from pause_queue_total[OF toy_active_valid toy_states(1) this] show ?thesis by blast
qed

definition toy_retried :: jobj where
  "toy_retried = map_item ''ut-0001'' (dispose_item ''retryable'' None None) toy_paused"

lemma toy_retried_ok: "record_disposition toy_env toy_paused ''ut-0001'' ''retryable'' None None = Inr toy_retried"
  by code_simp

theorem record_disposition_frame_witness:
  "validate_queue toy_env toy_retried = Inr () \<and> length (items_of toy_retried) = 2"
  using record_disposition_frame[OF toy_retried_ok] by (simp add: toy_items)

theorem selected_items_dispatch_witness:
  "\<exists>entry. entry \<in> set (items_of (selection_payload toy_env toy_active [toy_item_or]))
     \<and> validate_tracked_dispatch toy_env (toy_file toy_active)
         (inputs_for toy_env (toy_file toy_active) (selection_payload toy_env toy_active [toy_item_or]) entry) = Inr ()"
  using selected_items_dispatch[OF toy_selection_explicit, of _ "toy_file toy_active"]
  by (simp add: selection_items toy_file_def)

theorem generation_digest_binds_witness:
  "jeqv (dget toy_active ''dispatch'') (dget toy_paused ''dispatch'')"
proof -
  have g: "generation toy_paused toy_item_or = generation toy_active toy_item_or"
    by (simp add: generation_def toy_active_def toy_paused_def toy_queue_of_def)
  have wf: "wf_json (JObj (generation toy_active toy_item_or))" "distinct_keys (JObj (generation toy_active toy_item_or))"
    by code_simp+
  show ?thesis
    using generation_digest_binds[of toy_env toy_active toy_item_or toy_paused toy_item_or] wf
    by (simp add: g item_generation_sha256_def)
qed

section \<open>Witnesses for the evidence checks\<close>

lemma toy_transition_ok: "verify_paused_transition toy_env (toy_file toy_retried) (toy_file toy_paused) = Inr ()"
  by code_simp

theorem accepted_transitions_forward_witness:
  "by_id (file_items (toy_file toy_retried)) ''xx-0001'' = None"
proof -
  have run: "(\<lambda>pf qf. verify_paused_transition toy_env qf pf = Inr ())\<^sup>*\<^sup>* (toy_file toy_paused) (toy_file toy_retried)"
    using toy_transition_ok by (rule r_into_rtranclp)
  have "by_id (file_items (toy_file toy_paused)) ''xx-0001'' = None"
    by (simp add: by_id_None file_items_def toy_file_def toy_items toy_ids)
  with accepted_transitions_forward[OF run, of "''xx-0001''"] show ?thesis by blast
qed

theorem pause_is_accepted_witness:
  "verify_paused_transition toy_env (toy_file (paused toy_active ''done'' zeros)) (toy_file toy_active) = Inr ()"
proof (rule pause_is_accepted)
  show "parsed (toy_file toy_active) = JObj toy_active" "parsed (toy_file (paused toy_active ''done'' zeros)) = JObj (paused toy_active ''done'' zeros)"
    by (simp_all add: toy_file_def)
  show "''description'' \<in> keys toy_active" by (simp add: toy_active_def toy_queue_of_def)
  have "strip ''done'' \<noteq> []" "digest_re zeros" by code_simp+
  then show "pause_queue toy_env toy_active ''done'' (queue_file_sha256 toy_env (toy_file toy_active))
      = Inr (paused toy_active ''done'' zeros)"
    by (simp add: pause_queue_Inr toy_active_valid toy_states queue_file_sha256_def)
qed

definition toy_run :: jobj where
  "toy_run = [(''run_attempt'', JInt 2), (''status'', JStr ''completed''), (''conclusion'', JStr ''success'')]"

definition toy_jobs :: json where
  "toy_jobs = JArr [JObj [(''jobs'', JArr [
      JObj [(''name'', JStr ''encode''), (''run_attempt'', JInt 2), (''status'', JStr ''completed''), (''conclusion'', JStr ''skipped'')],
      JObj [(''name'', JStr ''encode''), (''run_attempt'', JInt 1), (''status'', JStr ''completed''), (''conclusion'', JStr ''success'')]])]]"

lemma toy_jobs_ok: "verify_attempt_one_job toy_run toy_jobs ''encode'' ''target'' True = Inr ()"
  by code_simp

theorem protected_job_ran_once_witness:
  "\<exists>js. flatten_workflow_jobs toy_jobs = Inr js \<and> int (length (job_attempts ''encode'' js)) = 2"
  using protected_job_ran_once[OF toy_jobs_ok] by (simp add: toy_run_def) blast

section \<open>Witnesses for reconciliation and finalisation\<close>

definition toy_pr :: jobj where
  "toy_pr = [(''body'', JStr (join [CHR 0x0A] [''Queue item: `toy/ut-0001`'', ''Citation: `us-ut/a`'',
       ''Base commit: `'' @ commit_a @ ''`'', ''Base branch: `hard-cut/canonical-layout-us`'',
       ''Queue generation SHA-256: `'' @ zeros @ ''`'', ''Axiom Encode run: '' @ run_url_prefix @ ''5''])),
     (''base'', JObj [(''ref'', JStr ''hard-cut/canonical-layout-us'')]),
     (''head'', JObj [(''sha'', JStr commit_b), (''repo'', JObj [(''full_name'', JStr ''TheAxiomFoundation/rulespec-us'')])]),
     (''html_url'', JStr ''https://github.com/TheAxiomFoundation/rulespec-us/pull/3''), (''number'', JInt 3),
     (''merged_at'', JStr ''t''), (''merge_commit_sha'', JStr commit_b), (''state'', JStr ''closed'')]"

definition toy_target_run :: jobj where
  "toy_target_run = [(''html_url'', JStr (run_url_prefix @ ''5'')), (''id'', JInt 5), (''status'', JStr ''completed''),
     (''conclusion'', JStr ''success''), (''event'', JStr ''workflow_dispatch''), (''head_branch'', JStr ''main''),
     (''head_sha'', JStr commit_a), (''run_attempt'', JInt 1), (''path'', JStr ''.github/workflows/targeted-signed-reencode.yml''),
     (''actor'', JObj [(''login'', JStr ''github-actions[bot]'')]), (''display_title'', JStr (''[toy:ut-0001:'' @ zeros @ '']''))]"

definition toy_selection :: jobj where
  "toy_selection = [(''dispatch'', JObj toy_dispatch), (''issue'', JInt 7),
     (''items'', JArr [JObj (toy_item_ut @ [(''generation_sha256'', JStr zeros)]), JObj (toy_item_or @ [(''generation_sha256'', JStr zeros)])]),
     (''queue_id'', JStr ''toy''), (''schema'', JStr queue_schema), (''state'', JStr ''paused''), (''pause_reason'', JStr ''tranche'')]"

definition toy_prs :: json where "toy_prs = JArr [JObj toy_pr]"

definition toy_runs :: json where "toy_runs = JArr [JObj [(''workflow_runs'', JArr [JObj toy_target_run])]]"

definition toy_target_evidence :: json where
  "toy_target_evidence = JObj [(''ut-0001'', JObj [
     (''apply_manifests'', JObj [(''schema'', JStr ''axiom-encode/applied-manifest-inventory/v1''),
        (''items'', JArr [JObj [(''citation'', JStr ''us-ut/a''), (''path'', JStr ''.axiom/encoding-manifests/m.json''), (''sha256'', JStr zeros)]])]),
     (''jobs'', JObj [(''jobs'', JArr [JObj [(''name'', JStr ''Queue protected signed RuleSpec re-encode''), (''run_attempt'', JInt 1),
        (''status'', JStr ''completed''), (''conclusion'', JStr ''success'')]])]),
     (''metadata'', JObj [(''citation'', JStr ''us-ut/a''), (''encoder_commit'', JStr commit_a),
        (''pr_base_branch'', JStr ''hard-cut/canonical-layout-us''), (''queue_id'', JStr ''toy''),
        (''queue_item_generation_sha256'', JStr zeros), (''queue_item_id'', JStr ''ut-0001''), (''queue_manifest_sha256'', JStr zeros),
        (''rulespec_base'', JStr commit_a), (''schema'', JStr ''axiom-encode/targeted-reencode-artifact/v1''),
        (''workflow_run_attempt'', JInt 1), (''workflow_run_id'', JStr ''5'')]),
     (''pull_request'', JObj [(''number'', JInt 3), (''html_url'', JStr ''https://github.com/TheAxiomFoundation/rulespec-us/pull/3''),
        (''head'', JObj [(''sha'', JStr commit_b)])]),
     (''run'', JObj toy_target_run)])]"

definition toy_checkout :: checkout where
  "toy_checkout = \<lparr>head_commit = Some commit_b, status_porcelain = Some [], remote_tip = (\<lambda>_. Some commit_b),
     is_ancestor = (\<lambda>_ _. True), file_bytes = (\<lambda>p. if p = ''.axiom/encoding-manifests/m.json'' then Some [] else None),
     toolchain = Some (JObj [(''toolchain'', JObj [(''axiom_corpus_release'', JStr ''r1''),
       (''axiom_corpus_release_content_sha256'', JStr zeros)])])\<rparr>"

definition toy_inputs :: finalize_inputs where
  "toy_inputs = \<lparr>fi_check_runs = JArr [JObj [(''check_runs'', JArr [JObj [(''status'', JStr ''completed''), (''conclusion'', JStr ''success'')]])]],
     fi_pull_requests = toy_prs, fi_workflow_runs = toy_runs, fi_target_evidence = toy_target_evidence, fi_new_ref = commit_b,
     fi_head_sha = commit_a, fi_run_url = run_url_prefix @ ''9'', fi_run_attempt = 1, fi_reviewed = [(''us'', commit_b)]\<rparr>"

definition toy_decisions :: "jobj list" where
  "toy_decisions =
    [toy_item_ut @ [(''generation_sha256'', JStr zeros), (''dispatchable'', JBool False), (''reason'', JStr ''merged-rulespec-pr''),
       (''history_url'', JStr ''https://github.com/TheAxiomFoundation/rulespec-us/pull/3''), (''target_run_url'', JStr (run_url_prefix @ ''5''))],
     toy_item_or @ [(''generation_sha256'', JStr zeros), (''dispatchable'', JBool True), (''reason'', JStr ''new''), (''history_url'', JNull)]]"

definition toy_reconciled :: jobj where
  "toy_reconciled = filter (\<lambda>kv. fst kv \<noteq> ''items'') toy_selection @ [(''items'', JArr (map JObj toy_decisions))]"

lemma toy_reconcile_ok: "reconcile_candidates toy_selection toy_prs toy_runs = Inr toy_reconciled"
  by code_simp

theorem reconcile_dispatchable_iff_new_witness:
  "map (\<lambda>d. dget d ''dispatchable'') toy_decisions = [JBool False, JBool True] \<and>
   (\<exists>ps. flatten_pull_requests toy_prs = Inr ps
      \<and> list_all2 (\<lambda>raw d. \<exists>item rs. raw = JObj item
          \<and> dget d ''dispatchable'' = JBool (item_prs toy_selection item ps = [] \<and> item_runs toy_selection item rs = []))
        (arr_of (dget toy_selection ''items'')) (items_of toy_reconciled))"
proof -
  have "map (\<lambda>d. dget d ''dispatchable'') toy_decisions = [JBool False, JBool True]" by code_simp
  with reconcile_dispatchable_iff_new[OF toy_reconcile_ok] show ?thesis by (blast intro: list_all2_mono)
qed

lemma toy_selectable_selection: "selectable_selection toy_env toy_paused = toy_selection"
  by (simp add: selectable_selection_def selection_payload_def toy_items toy_selectable item_generation_sha256_def)
    (simp add: toy_paused_def toy_queue_of_def toy_selection_def toy_item_ut_def toy_item_or_def)

lemma toy_inputs_ok: "check_finalize_inputs toy_env toy_checkout toy_inputs toy_paused = Inr ()"
  by code_simp

lemma toy_histories_ok: "flatten_pull_requests toy_prs = Inr [toy_pr]" "flatten_workflow_runs toy_runs = Inr [toy_target_run]"
  "trusted_queue_prs toy_paused [toy_pr] = [toy_pr]" "active_runs toy_paused [toy_target_run] = []" "unresolved toy_reconciled = []"
  by code_simp+

definition toy_merge_evidence :: jobj where
  "toy_merge_evidence = [(''applied_manifest_path'', JStr ''.axiom/encoding-manifests/m.json''), (''applied_manifest_sha256'', JStr zeros),
     (''artifact_metadata_sha256'', JStr zeros), (''rulespec_pr_head_sha'', JStr commit_b), (''target_run_head_sha'', JStr commit_a),
     (''target_run_attempt'', JInt 1), (''target_run_url'', JStr (run_url_prefix @ ''5'')), (''generation_sha256'', JStr zeros),
     (''merge_commit'', JStr commit_b), (''type'', JStr ''merged-rulespec-pr''),
     (''url'', JStr ''https://github.com/TheAxiomFoundation/rulespec-us/pull/3'')]"

definition toy_completed :: jobj where
  "toy_completed = map_item ''ut-0001'' (complete_item toy_merge_evidence) toy_paused"

lemma toy_complete_ok:
  "complete_decision toy_env toy_checkout toy_inputs toy_paused [toy_pr] toy_paused (hd toy_decisions) = Inr toy_completed"
  by code_simp

lemma toy_complete_loop:
  "for_each (complete_decision toy_env toy_checkout toy_inputs toy_paused [toy_pr]) toy_paused toy_decisions = Inr toy_completed"
proof -
  obtain d where d: "toy_decisions = [hd toy_decisions, d]" "dget d ''reason'' = JStr ''new''"
    by (simp add: toy_decisions_def toy_item_or_def)
  have "complete_decision toy_env toy_checkout toy_inputs toy_paused [toy_pr] toy_completed d = Inr toy_completed"
    by (simp add: complete_decision_def d(2))
  then show ?thesis by (subst d(1)) (simp add: toy_complete_ok)
qed

definition toy_new_activation :: jobj where
  "toy_new_activation = [(''check_runs_sha256'', JStr zeros), (''finalizer_head_sha'', JStr commit_a),
     (''finalizer_run_attempt'', JInt 1), (''finalizer_run_url'', JStr (run_url_prefix @ ''9'')),
     (''previous_queue_object_sha256'', JStr zeros), (''pull_requests_sha256'', JStr zeros),
     (''rulespec_ref'', JStr commit_b), (''schema'', JStr ''axiom-encode/signed-encoding-queue-activation/v1''),
     (''workflow_runs_sha256'', JStr zeros)]"

definition toy_final :: jobj where
  "toy_final = AList.update ''activation'' (JObj toy_new_activation)
     (AList.delete ''suspension'' (AList.delete ''pause_reason''
         (AList.update ''state'' (JStr ''active'')
           (AList.update ''dispatch'' (JObj (AList.update ''rulespec_ref'' (JStr commit_b) (obj_of (dget toy_completed ''dispatch'')))) toy_completed))))"

lemma toy_final_valid: "validate_queue toy_env toy_final = Inr ()"
  by code_simp

lemma toy_activated: "activated toy_env toy_inputs toy_paused toy_completed = toy_final"
  by (simp add: activated_def activation_of_def json_sha256_def toy_final_def toy_new_activation_def toy_inputs_def)

lemma toy_reconciled_items: "items_of toy_reconciled = toy_decisions"
  by code_simp

lemma toy_not_completed: "item_status toy_item_ut \<noteq> ''completed''" "item_status toy_item_or \<noteq> ''completed''"
  by (simp_all add: item_status_def toy_item_ut_def toy_item_or_def)

lemma toy_finalize_ok: "finalize_and_repin toy_env toy_checkout toy_inputs toy_paused = Inr toy_final"
proof -
  have f: "fi_pull_requests toy_inputs = toy_prs" "fi_workflow_runs toy_inputs = toy_runs" "is_obj (fi_target_evidence toy_inputs)"
    by (simp_all add: toy_inputs_def toy_target_evidence_def)
  have "dget toy_pr ''state'' = JStr ''closed''" by (simp add: toy_pr_def)
  moreover have "for_each (\<lambda>_. check_completed_item toy_env toy_checkout toy_paused (fi_new_ref toy_inputs) [toy_pr]) () (items_of toy_paused) = Inr ()"
    by (simp add: toy_items check_completed_item_def toy_not_completed)
  ultimately show ?thesis
    by (simp add: finalize_and_repin_def Let_def toy_inputs_ok f toy_histories_ok toy_selectable_selection toy_reconcile_ok
        toy_reconciled_items toy_complete_loop toy_activated toy_final_valid)
qed


end
