(* ===== verification/Py_Json_Parse.thy ===== *)
theory Py_Json_Parse
  imports Py_Json
begin

text \<open>
  \<open>json.loads\<close> of the standard library, for the texts the program receives from another process: the
  decoder with its \<open>object_pairs_hook\<close>, the digit limit of integers and the nesting at which the
  interpreter raises \<open>RecursionError\<close>. \<open>float_repr\<close> is \<open>repr(float(text))\<close>. A text of the model has code
  points below 256, so an escape or an encoded character outside is reported as \<open>OutsideModel\<close>.

  The recursion takes fuel, one more than twice the length of the text; \<open>loads_total\<close> shows that this is
  always enough. \<open>loads_dumps\<close> shows that decoding inverts the canonical serialisation.
\<close>

section \<open>Definitions\<close>

datatype load_error = DecodeError | HookError | IntLimit | RecursionLimit | OutsideModel | OutOfFuel

record load_conf =
  hook :: "(string \<times> json) list \<Rightarrow> jobj option"
  float_repr :: "string \<Rightarrow> string"

definition skip_ws :: "string \<Rightarrow> string" where
  "skip_ws s = dropWhile (\<lambda>c. code c \<in> {9, 10, 13, 32}) s"

subsection \<open>Strings\<close>

definition hex_digit :: "char \<Rightarrow> bool" where
  "hex_digit c \<longleftrightarrow> is_digit c \<or> (65 \<le> code c \<and> code c \<le> 70) \<or> (97 \<le> code c \<and> code c \<le> 102)"

definition hex_digit_val :: "char \<Rightarrow> nat" where
  "hex_digit_val c = (if code c < 58 then code c - 48 else if code c < 71 then code c - 55 else code c - 87)"

definition hex4_val :: "string \<Rightarrow> nat" where
  "hex4_val s = foldl (\<lambda>n c. 16 * n + hex_digit_val c) 0 s"

definition simple_escape :: "char \<Rightarrow> char option" where
  "simple_escape e =
     (if e = CHR 0x22 \<or> e = CHR 0x5C \<or> e = CHR ''/'' then Some e
      else if e = CHR ''b'' then Some (CHR 0x08) else if e = CHR ''f'' then Some (CHR 0x0C)
      else if e = CHR ''n'' then Some (CHR 0x0A) else if e = CHR ''r'' then Some (CHR 0x0D)
      else if e = CHR ''t'' then Some (CHR 0x09) else None)"

definition cons_fst :: "char \<Rightarrow> (load_error, string \<times> string) result \<Rightarrow> (load_error, string \<times> string) result" where
  "cons_fst c m = bind_r m (\<lambda>(t, r). Inr (c # t, r))"

text \<open>The rest of a string after its opening quote, in strict mode: no control characters.\<close>

function scan_str :: "string \<Rightarrow> (load_error, string \<times> string) result" where
  "scan_str [] = Inl DecodeError"
| "scan_str (c # r) =
    (if c = CHR 0x22 then Inr ([], r)
     else if c = CHR 0x5C then
       (if r = [] then Inl DecodeError
        else if hd r = CHR ''u'' then
          (if length (take 4 (tl r)) = 4 \<and> list_all hex_digit (take 4 (tl r))
           then if hex4_val (take 4 (tl r)) < 256
                then cons_fst (char_of (hex4_val (take 4 (tl r)))) (scan_str (drop 4 (tl r))) else Inl OutsideModel
           else Inl DecodeError)
        else (case simple_escape (hd r) of None \<Rightarrow> Inl DecodeError | Some x \<Rightarrow> cons_fst x (scan_str (tl r))))
     else if code c < 32 then Inl DecodeError
     else cons_fst c (scan_str r))"
  by pat_completeness auto
termination
  by (relation "measure length") auto

subsection \<open>Numbers\<close>

definition max_int_digits :: nat where "max_int_digits = 4300"

text \<open>The number pattern of the scanner: an integer part without leading zeros, a fraction, an exponent. The
  result is the integer part, the fraction and exponent, and the rest.\<close>

definition take_fraction :: "string \<Rightarrow> string" where
  "take_fraction s = (if s \<noteq> [] \<and> hd s = CHR ''.'' \<and> takeWhile is_digit (tl s) \<noteq> [] then CHR ''.'' # takeWhile is_digit (tl s) else [])"

definition take_exponent :: "string \<Rightarrow> string" where
  "take_exponent s =
    (if s \<noteq> [] \<and> hd s \<in> {CHR ''e'', CHR ''E''} then
       (let sign = (if tl s \<noteq> [] \<and> hd (tl s) \<in> {CHR ''+'', CHR ''-''} then [hd (tl s)] else []);
            ds = takeWhile is_digit (drop (length sign) (tl s))
        in if ds \<noteq> [] then hd s # sign @ ds else [])
     else [])"

definition int_digits :: "string \<Rightarrow> string" where
  "int_digits run = (if run \<noteq> [] \<and> hd run = CHR ''0'' then ''0'' else run)"

definition match_number :: "string \<Rightarrow> (string \<times> string \<times> string) option" where
  "match_number s =
    (let sign = (if s \<noteq> [] \<and> hd s = CHR ''-'' then ''-'' else []); body = drop (length sign) s;
         ds = int_digits (takeWhile is_digit body);
         rest = drop (length ds) body; frac = take_fraction rest; expo = take_exponent (drop (length frac) rest)
     in if ds = [] then None else Some (sign @ ds, frac @ expo, drop (length frac + length expo) rest))"

definition int_of_text :: "string \<Rightarrow> int" where
  "int_of_text t = (if t \<noteq> [] \<and> hd t = CHR ''-'' then - int (nat_parse 0 (tl t)) else int (nat_parse 0 t))"

text \<open>\<open>int(text)\<close>; \<open>None\<close> is the \<open>ValueError\<close>. The surrounding blanks of an ASCII text are those of C, of
  another text those of \<open>str.isspace\<close>.\<close>

definition int_blank :: "string \<Rightarrow> char \<Rightarrow> bool" where
  "int_blank s c \<longleftrightarrow> (if list_all (\<lambda>d. code d < 128) s then code c = 32 \<or> (9 \<le> code c \<and> code c \<le> 13) else is_space c)"

definition py_int :: "string \<Rightarrow> int option" where
  "py_int s =
    (let t = rev (dropWhile (int_blank s) (rev (dropWhile (int_blank s) s)));
         signed = t \<noteq> [] \<and> hd t \<in> {CHR ''+'', CHR ''-''}; body = (if signed then tl t else t);
         groups = split_on CHR ''_'' body; n = int (nat_parse 0 (concat groups))
     in if list_all (\<lambda>g. g \<noteq> [] \<and> list_all is_digit g) groups \<and> length (concat groups) \<le> max_int_digits
        then Some (if signed \<and> hd t = CHR ''-'' then - n else n) else None)"

definition scan_constant :: "string \<Rightarrow> (json \<times> string) option" where
  "scan_constant s =
    (if prefix ''null'' s then Some (JNull, drop 4 s) else if prefix ''true'' s then Some (JBool True, drop 4 s)
     else if prefix ''false'' s then Some (JBool False, drop 5 s) else None)"

definition scan_special :: "string \<Rightarrow> (json \<times> string) option" where
  "scan_special s =
    (if prefix ''NaN'' s then Some (JFloat ''nan'', drop 3 s) else if prefix ''Infinity'' s then Some (JFloat ''inf'', drop 8 s)
     else if prefix ''-Infinity'' s then Some (JFloat ''-inf'', drop 9 s) else None)"

definition scan_atom :: "load_conf \<Rightarrow> string \<Rightarrow> (load_error, json \<times> string) result" where
  "scan_atom C s =
    (case scan_constant s of Some vr \<Rightarrow> Inr vr
     | None \<Rightarrow> (case match_number s of
         Some (i, f, r) \<Rightarrow>
           if f \<noteq> [] then Inr (JFloat (float_repr C (i @ f)), r)
           else if length (filter is_digit i) > max_int_digits then Inl IntLimit
           else Inr (JInt (int_of_text i), r)
       | None \<Rightarrow> (case scan_special s of Some vr \<Rightarrow> Inr vr | None \<Rightarrow> Inl DecodeError)))"

subsection \<open>Values\<close>

definition next_is :: "char \<Rightarrow> string \<Rightarrow> bool" where
  "next_is c s \<longleftrightarrow> s \<noteq> [] \<and> hd s = c"

definition finish_object :: "load_conf \<Rightarrow> (string \<times> json) list \<times> string \<Rightarrow> (load_error, json \<times> string) result" where
  "finish_object C pr = (case hook C (fst pr) of None \<Rightarrow> Inl HookError | Some d \<Rightarrow> Inr (JObj d, snd pr))"

fun pval :: "load_conf \<Rightarrow> nat \<Rightarrow> nat \<Rightarrow> string \<Rightarrow> (load_error, json \<times> string) result"
and pitems :: "load_conf \<Rightarrow> nat \<Rightarrow> nat \<Rightarrow> string \<Rightarrow> (load_error, json list \<times> string) result"
and ppairs :: "load_conf \<Rightarrow> nat \<Rightarrow> nat \<Rightarrow> string \<Rightarrow> (load_error, (string \<times> json) list \<times> string) result" where
  "pval C rl 0 s = Inl OutOfFuel"
| "pval C rl (Suc n) s =
    (if next_is (CHR 0x22) s then bind_r (scan_str (tl s)) (\<lambda>(t, r). Inr (JStr t, r))
     else if next_is (CHR ''['') s then
       (if rl = 0 then Inl RecursionLimit
        else if next_is (CHR '']'') (skip_ws (tl s)) then Inr (JArr [], tl (skip_ws (tl s)))
        else bind_r (pitems C (rl - 1) n (skip_ws (tl s))) (\<lambda>(vs, r). Inr (JArr vs, r)))
     else if next_is (CHR ''{'') s then
       (if rl = 0 then Inl RecursionLimit
        else if next_is (CHR ''}'') (skip_ws (tl s)) then finish_object C ([], tl (skip_ws (tl s)))
        else bind_r (ppairs C (rl - 1) n (skip_ws (tl s))) (finish_object C))
     else scan_atom C s)"
| "pitems C rl 0 s = Inl OutOfFuel"
| "pitems C rl (Suc n) s =
    bind_r (pval C rl n s) (\<lambda>(v, r).
      if next_is (CHR '']'') (skip_ws r) then Inr ([v], tl (skip_ws r))
      else if next_is (CHR '','') (skip_ws r)
        then bind_r (pitems C rl n (skip_ws (tl (skip_ws r)))) (\<lambda>(vs, r'). Inr (v # vs, r'))
      else Inl DecodeError)"
| "ppairs C rl 0 s = Inl OutOfFuel"
| "ppairs C rl (Suc n) s =
    (if \<not> next_is (CHR 0x22) s then Inl DecodeError else
     bind_r (scan_str (tl s)) (\<lambda>(k, r).
       if \<not> next_is (CHR '':'') (skip_ws r) then Inl DecodeError else
       bind_r (pval C rl n (skip_ws (tl (skip_ws r)))) (\<lambda>(v, r').
         if next_is (CHR ''}'') (skip_ws r') then Inr ([(k, v)], tl (skip_ws r'))
         else if next_is (CHR '','') (skip_ws r')
           then bind_r (ppairs C rl n (skip_ws (tl (skip_ws r')))) (\<lambda>(kvs, r''). Inr ((k, v) # kvs, r''))
         else Inl DecodeError)))"

definition loads :: "load_conf \<Rightarrow> nat \<Rightarrow> string \<Rightarrow> (load_error, json) result" where
  "loads C rl s = bind_r (pval C rl (2 * length s + 1) (skip_ws s)) (\<lambda>(v, r).
     if skip_ws r = [] then Inr v else Inl DecodeError)"

text \<open>Bytes that \<open>bytes.decode("utf-8", errors="strict")\<close> accepts, whatever text they are.\<close>

definition continuation :: "char \<Rightarrow> bool" where
  "continuation c \<longleftrightarrow> 128 \<le> code c \<and> code c < 192"

definition second_byte :: "nat \<Rightarrow> char \<Rightarrow> bool" where
  "second_byte n c \<longleftrightarrow> continuation c \<and> (n = 224 \<longrightarrow> 160 \<le> code c) \<and> (n = 237 \<longrightarrow> code c < 160)
     \<and> (n = 240 \<longrightarrow> 144 \<le> code c) \<and> (n = 244 \<longrightarrow> code c < 144)"

fun utf8_valid :: "string \<Rightarrow> bool" where
  "utf8_valid [] = True"
| "utf8_valid (b # bs) =
    (let n = code b in
     if n < 128 then utf8_valid bs
     else if n < 194 \<or> n > 244 then False
     else case bs of [] \<Rightarrow> False | c # cs \<Rightarrow>
       if n < 224 then continuation c \<and> utf8_valid cs
       else (case cs of [] \<Rightarrow> False | d # ds \<Rightarrow>
         if n < 240 then second_byte n c \<and> continuation d \<and> utf8_valid ds
         else (case ds of [] \<Rightarrow> False | e # es \<Rightarrow> second_byte n c \<and> continuation d \<and> continuation e \<and> utf8_valid es)))"

text \<open>\<open>bytes.decode("utf-8")\<close>; the lead bytes above C3 start characters outside the model, and the bytes before them are read already.\<close>

fun utf8_decode :: "string \<Rightarrow> (load_error, string) result" where
  "utf8_decode [] = Inr []"
| "utf8_decode (c # r) =
    (if code c < 128 then bind_r (utf8_decode r) (\<lambda>t. Inr (c # t))
     else if code c < 194 \<or> code c > 244 then Inl DecodeError
     else if code c > 195 then Inl (if utf8_valid (c # r) then OutsideModel else DecodeError)
     else (case r of [] \<Rightarrow> Inl DecodeError | d # r' \<Rightarrow>
       if code d < 128 \<or> code d > 191 then Inl DecodeError
       else bind_r (utf8_decode r') (\<lambda>t. Inr (char_of (64 * (code c - 192) + (code d - 128)) # t))))"

text \<open>\<open>str.encode("utf-8")\<close>.\<close>

definition utf8_encode :: "string \<Rightarrow> string" where
  "utf8_encode s = concat (map (\<lambda>c. if code c < 128 then [c]
     else [char_of (192 + code c div 64), char_of (128 + code c mod 64)]) s)"

text \<open>Exactly the malformed byte sequences are reported as such.\<close>

lemma utf8_decode_malformed: "utf8_decode s = Inl DecodeError \<longleftrightarrow> \<not> utf8_valid s"
proof (induction s rule: utf8_decode.induct)
  case (2 c r)
  have n: "\<not> code c > 244" if "195 < code c" "utf8_valid (c # r)" using that by (simp add: Let_def split: if_splits)
  consider "code c < 128" | "128 \<le> code c" "code c < 194 \<or> code c > 244" | "195 < code c" "code c \<le> 244" | "194 \<le> code c" "code c \<le> 195" by linarith
  then show ?case
  proof cases
    case 4
    then show ?thesis
    proof (cases r)
      case (Cons d r')
      then show ?thesis using 4 2 by (auto simp: continuation_def Let_def bind_r_Inl_iff)
    qed (simp add: Let_def)
  qed (use 2 in \<open>auto simp: Let_def bind_r_Inl_iff\<close>)
qed simp

lemma utf8_decode_encode: "utf8_decode (utf8_encode s) = Inr s"
proof (induction s)
  case (Cons c s)
  have b: "code c < 256" by simp
  then have d: "code c div 64 < 4" by (intro less_mult_imp_div_less) simp
  then have "192 + code c div 64 < 256" "128 + code c mod 64 < 256" by simp_all
  note codes = this[THEN code_char_of]
  have "code c \<ge> 128 \<Longrightarrow> code c div 64 \<in> {2, 3}" using d by auto
  then show ?case using Cons codes by (auto simp: utf8_encode_def mult_div_mod_eq)
qed (simp add: utf8_encode_def)

section \<open>The decoder always finishes\<close>

lemma skip_ws_length: "length (skip_ws s) \<le> length s"
  by (simp add: skip_ws_def length_dropWhile_le)

lemma scan_str_shorter: "scan_str s = Inr (t, r) \<Longrightarrow> length r < length s"
  by (induction s arbitrary: t r rule: scan_str.induct)
    (fastforce simp: cons_fst_def split: if_splits option.splits)+

lemma scan_str_fuel: "scan_str s \<noteq> Inl OutOfFuel"
proof (induction s rule: scan_str.induct)
  case (2 c r)
  have cf: "cons_fst x m \<noteq> Inl OutOfFuel" if "m \<noteq> Inl OutOfFuel" for x m
    using that by (cases m) (auto simp: cons_fst_def)
  show ?case using 2 by (auto simp: cf split: option.splits)
qed simp

lemma match_number_shorter: "match_number s = Some (i, f, r) \<Longrightarrow> length r < length s"
  by (cases s) (auto simp: match_number_def Let_def int_digits_def split: if_splits)

lemma scan_atom_shorter: "scan_atom C s = Inr (v, r) \<Longrightarrow> length r < length s"
  by (auto simp: scan_atom_def scan_constant_def scan_special_def prefix_def dest: match_number_shorter
      split: option.splits if_splits)

lemma scan_atom_fuel: "scan_atom C s \<noteq> Inl OutOfFuel"
  by (auto simp: scan_atom_def split: option.splits if_splits)

lemma next_is_skip: "next_is c (skip_ws r) \<Longrightarrow> length (tl (skip_ws r)) < length r"
  using skip_ws_length[of r] by (cases "skip_ws r") (auto simp: next_is_def)

lemma finish_object_Inr: "finish_object C pr = Inr (v, r) \<longleftrightarrow> (\<exists>d. hook C (fst pr) = Some d \<and> v = JObj d \<and> r = snd pr)"
  by (auto simp: finish_object_def split: option.splits)

lemma skip_tl_length: "next_is c s \<Longrightarrow> length (skip_ws (tl s)) < length s"
  using skip_ws_length[of "tl s"] by (cases s) (auto simp: next_is_def)

lemma skip_ws_next: "length r < n \<Longrightarrow> next_is c (skip_ws r) \<Longrightarrow> length (skip_ws (tl (skip_ws r))) < n"
  using next_is_skip[of c r] skip_ws_length[of "tl (skip_ws r)"] by linarith

lemma parser_shorter:
  "pval C rl n s = Inr (v, r) \<Longrightarrow> length r < length s"
  "pitems C rl n s = Inr (vs, r) \<Longrightarrow> length r < length s"
  "ppairs C rl n s = Inr (kvs, r) \<Longrightarrow> length r < length s"
proof (induction n arbitrary: rl s v vs kvs r)
  case (Suc n)
  {
    case 1
    then show ?case
      using skip_tl_length[of "CHR ''[''" s] skip_tl_length[of "CHR ''{''" s]
        next_is_skip[of "CHR '']''" "tl s"] next_is_skip[of "CHR ''}''" "tl s"]
        scan_str_shorter[of "tl s"] scan_atom_shorter[of C s] Suc.IH(2,3)
      by (fastforce simp: finish_object_Inr split: if_splits)
  next
    case 2
    then obtain u q where u: "pval C rl n s = Inr (u, q)" by auto
    note l = Suc.IH(1)[OF u]
    from 2 u consider "next_is (CHR '']'') (skip_ws q)" "r = tl (skip_ws q)"
      | vs' where "next_is (CHR '','') (skip_ws q)" "pitems C rl n (skip_ws (tl (skip_ws q))) = Inr (vs', r)"
      by (auto split: if_splits)
    then show ?case
      by cases (use l next_is_skip skip_ws_next[OF l] Suc.IH(2) less_trans in \<open>metis+\<close>)
  next
    case 3
    then obtain k q where k: "next_is (CHR 0x22) s" "scan_str (tl s) = Inr (k, q)" "next_is (CHR '':'') (skip_ws q)"
      by (auto split: if_splits)
    from 3 k obtain v q' where v: "pval C rl n (skip_ws (tl (skip_ws q))) = Inr (v, q')" by auto
    have l: "length q < length s" using scan_str_shorter[OF k(2)] by simp
    note l' = less_trans[OF Suc.IH(1)[OF v] skip_ws_next[OF l k(3)]]
    from 3 k v consider "next_is (CHR ''}'') (skip_ws q')" "r = tl (skip_ws q')"
      | kvs' where "next_is (CHR '','') (skip_ws q')" "ppairs C rl n (skip_ws (tl (skip_ws q'))) = Inr (kvs', r)"
      by (auto split: if_splits)
    then show ?case
      by cases (use l' next_is_skip skip_ws_next[OF l'] Suc.IH(3) less_trans in \<open>metis+\<close>)
  }
qed simp_all

lemma finish_object_fuel: "finish_object C pr \<noteq> Inl OutOfFuel"
  by (simp add: finish_object_def split: option.split)

lemma parser_fuel:
  "2 * length s + 1 \<le> n \<Longrightarrow> pval C rl n s \<noteq> Inl OutOfFuel"
  "2 * length s + 2 \<le> n \<Longrightarrow> pitems C rl n s \<noteq> Inl OutOfFuel"
  "2 * length s + 2 \<le> n \<Longrightarrow> ppairs C rl n s \<noteq> Inl OutOfFuel"
proof (induction n arbitrary: rl s)
  case (Suc n)
  {
    case 1
    have "pitems C (rl - 1) n (skip_ws (tl s)) \<noteq> Inl OutOfFuel" if "next_is (CHR ''['') s"
      using skip_tl_length[OF that] 1 by (intro Suc.IH(2)) linarith
    moreover have "ppairs C (rl - 1) n (skip_ws (tl s)) \<noteq> Inl OutOfFuel" if "next_is (CHR ''{'') s"
      using skip_tl_length[OF that] 1 by (intro Suc.IH(3)) linarith
    ultimately show ?case
      by (auto simp: bind_r_Inl_iff scan_str_fuel scan_atom_fuel finish_object_fuel)
  next
    case 2
    have "pval C rl n s \<noteq> Inl OutOfFuel" using 2 by (intro Suc.IH(1)) simp
    moreover have "pitems C rl n (skip_ws (tl (skip_ws r))) \<noteq> Inl OutOfFuel"
      if "pval C rl n s = Inr (v, r)" "next_is (CHR '','') (skip_ws r)" for v r
      using skip_ws_next[OF parser_shorter(1)[OF that(1)] that(2)] 2 by (intro Suc.IH(2)) linarith
    ultimately show ?case by (auto simp: bind_r_Inl_iff split: if_splits)
  next
    case 3
    have v: "pval C rl n (skip_ws (tl (skip_ws r))) \<noteq> Inl OutOfFuel"
      if "length r < length s" "next_is (CHR '':'') (skip_ws r)" for r
      using skip_ws_next[OF that] 3 by (intro Suc.IH(1)) linarith
    have p: "ppairs C rl n (skip_ws (tl (skip_ws q))) \<noteq> Inl OutOfFuel"
      if "length r < length s" "next_is (CHR '':'') (skip_ws r)"
        "pval C rl n (skip_ws (tl (skip_ws r))) = Inr (v, q)" "next_is (CHR '','') (skip_ws q)" for r v q
      using skip_ws_next[OF less_trans[OF parser_shorter(1)[OF that(3)] skip_ws_next[OF that(1,2)]] that(4)] 3
      by (intro Suc.IH(3)) linarith
    have l: "length r < length s" if "scan_str (tl s) = Inr (k, r)" for k r
      using scan_str_shorter[OF that] by simp
    show ?case
      using v p l by (auto simp: bind_r_Inl_iff scan_str_fuel split: if_splits)
  }
qed simp_all

lemma loads_total: "loads C rl s \<noteq> Inl OutOfFuel"
  using parser_fuel(1)[of "skip_ws s" "2 * length s + 1"] skip_ws_length[of s]
  by (auto simp: loads_def bind_r_Inl_iff split: if_splits)

section \<open>Decoding inverts the canonical serialisation\<close>

text \<open>The values that survive a round trip exactly: no floats, integers within the digit limit, distinct keys
  and nesting within the recursion limit.\<close>

primrec fits :: "json \<Rightarrow> nat \<Rightarrow> bool" where
  "fits JNull = (\<lambda>_. True)"
| "fits (JBool b) = (\<lambda>_. True)"
| "fits (JInt i) = (\<lambda>_. length (nat_repr (nat \<bar>i\<bar>)) \<le> max_int_digits)"
| "fits (JFloat t) = (\<lambda>_. False)"
| "fits (JStr s) = (\<lambda>_. True)"
| "fits (JArr xs) = (\<lambda>d. 0 < d \<and> list_all (\<lambda>p. p (d - 1)) (map fits xs))"
| "fits (JObj kvs) = (\<lambda>d. 0 < d \<and> distinct (map fst (map (map_prod id fits) kvs))
     \<and> list_all (\<lambda>p. snd p (d - 1)) (map (map_prod id fits) kvs))"

subsection \<open>Strings\<close>

lemma hex_digit_hex_char [simp]: "n < 16 \<Longrightarrow> hex_digit (hex_char n)" "n < 16 \<Longrightarrow> hex_digit_val (hex_char n) = n"
  by (auto simp: hex_digit_def hex_digit_val_def hex_char_def is_digit_def)

lemma hex_digit_0 [simp]: "hex_digit CHR ''0''" "hex_digit_val CHR ''0'' = 0"
  by (simp_all add: hex_digit_def hex_digit_val_def is_digit_def)

lemma scan_esc: "scan_str (esc_char c @ r) = cons_fst c (scan_str r)"
proof (cases "c \<in> {CHR 0x22, CHR 0x5C, CHR 0x0A, CHR 0x0D, CHR 0x09, CHR 0x0C, CHR 0x08}")
  case True
  then show ?thesis by (elim insertE) (simp_all add: esc_char_def simple_escape_def)
next
  case False
  have "code c div 16 < 16" using code_less_256[of c] by linarith
  moreover have "16 * (code c div 16) + code c mod 16 = code c" by simp
  ultimately show ?thesis using False
    by (simp add: esc_char_def hex2_def code_lit hex4_val_def)
qed

lemma scan_str_esc: "scan_str (concat (map esc_char s) @ CHR 0x22 # r) = Inr (s, r)"
  by (induction s) (simp_all add: scan_esc cons_fst_def)

lemma dumps_str_Cons: "dumps_str s @ r = CHR 0x22 # concat (map esc_char s) @ CHR 0x22 # r"
  by (simp add: dumps_str_def)

subsection \<open>Integers\<close>

lemma nat_repr_hd: "0 < n \<Longrightarrow> hd (nat_repr n) \<noteq> CHR ''0''"
proof (induction n rule: less_induct)
  case (less n)
  show ?case
  proof (cases "n < 10")
    case True
    then have "code (digit_char n) \<noteq> code CHR ''0''" using less.prems by simp
    then have "digit_char n \<noteq> CHR ''0''" by metis
    with True show ?thesis by (simp add: nat_repr.simps[of n])
  next
    case False
    then show ?thesis using less.IH[of "n div 10"] by (simp add: nat_repr.simps[of n])
  qed
qed

lemma takeWhile_digits:
  "delim r \<Longrightarrow> takeWhile is_digit (nat_repr n @ r) = nat_repr n"
  by (cases r) (auto simp: takeWhile_append takeWhile_eq_all_conv delim_def is_digit_def dest: nat_repr_digits)

lemma digit_char_0: "digit_char 0 = CHR ''0''"
  by code_simp

lemma nat_repr_run: "int_digits (nat_repr n) = nat_repr n"
  using nat_repr_hd[of n] by (cases "n = 0") (auto simp: int_digits_def nat_repr.simps[of 0] digit_char_0)

lemma delim_no_number: "delim r \<Longrightarrow> take_fraction r = [] \<and> take_exponent r = []"
  by (cases r) (auto simp: delim_def take_fraction_def take_exponent_def)

lemma nat_repr_no_minus: "hd (nat_repr n @ r) \<noteq> CHR ''-''"
  using nat_repr_digits[of "hd (nat_repr n)" n] by (auto simp: is_digit_def)

lemma match_number_nat:
  assumes "delim r"
  shows "match_number (nat_repr n @ r) = Some (nat_repr n, [], r)" "match_number (''-'' @ nat_repr n @ r) = Some (''-'' @ nat_repr n, [], r)"
  using nat_repr_run[of n] nat_repr_no_minus[of n r] delim_no_number[OF assms]
  by (simp_all add: match_number_def Let_def takeWhile_digits[OF assms] del: hd_append2)

lemma match_number_int:
  assumes "delim r"
  shows "match_number (int_repr i @ r) = Some (int_repr i, [], r)"
  using match_number_nat[OF assms] by (simp add: int_repr_def)

lemma int_of_text_repr: "int_of_text (int_repr i) = i"
  using nat_repr_no_minus[of "nat i" "[]"] by (simp add: int_of_text_def int_repr_def nat_parse_repr)

lemma int_repr_digit_count: "length (filter is_digit (int_repr i)) = length (nat_repr (nat \<bar>i\<bar>))"
proof -
  have "filter is_digit (nat_repr n) = nat_repr n" for n by (simp add: filter_id_conv nat_repr_digits)
  then show ?thesis by (simp add: int_repr_def is_digit_def)
qed

lemma scan_constant_num: "is_digit c \<or> c = CHR ''-'' \<Longrightarrow> scan_constant (c # cs) = None"
  by (auto simp: scan_constant_def is_digit_def)

lemma pval_int:
  assumes "delim r" "length (nat_repr (nat \<bar>i\<bar>)) \<le> max_int_digits"
  shows "pval C rl (Suc n) (int_repr i @ r) = Inr (JInt i, r)"
proof -
  obtain c cs where c: "int_repr i = c # cs" "is_digit c \<or> c = CHR ''-''"
    using int_repr_num[of "hd (int_repr i)" i] by (cases "int_repr i") auto
  have "scan_atom C (int_repr i @ r) = Inr (JInt i, r)"
    using match_number_int[OF assms(1), of i] scan_constant_num[OF c(2), of "cs @ r"] assms(2)
      int_of_text_repr[of i] int_repr_digit_count[of i]
    unfolding scan_atom_def c(1) append_Cons by simp
  then show ?thesis using c by (auto simp: next_is_def is_digit_def)
qed

subsection \<open>Values\<close>

lemma next_is_Cons [simp]: "next_is c (d # r) \<longleftrightarrow> d = c" "\<not> next_is c []"
  by (simp_all add: next_is_def)

lemma skip_ws_keep: "code c \<notin> {9, 10, 13, 32} \<Longrightarrow> skip_ws (c # r) = c # r"
  by (simp add: skip_ws_def)

lemma skip_ws_structure [simp]:
  "skip_ws (CHR '','' # r) = CHR '','' # r" "skip_ws (CHR '']'' # r) = CHR '']'' # r" "skip_ws (CHR ''}'' # r) = CHR ''}'' # r"
  "skip_ws (CHR '':'' # r) = CHR '':'' # r" "skip_ws (CHR 0x22 # r) = CHR 0x22 # r" "skip_ws [] = []"
  by (simp_all add: skip_ws_def)

lemma skip_ws_print:
  assumes "wf_json v"
  shows "skip_ws (print_json v @ r) = print_json v @ r"
proof -
  obtain c cs where c: "print_json v = c # cs" "head_ok v c" using print_json_head[OF assms] by blast
  then have "code c \<notin> {9, 10, 13, 32}" by (cases v) (auto simp: is_digit_def split: if_splits)
  then show ?thesis by (simp add: c skip_ws_keep del: insert_iff)
qed

lemma fits_wf: "fits v d \<Longrightarrow> wf_json v"
proof (induction v arbitrary: d)
  case (JArr xs)
  then show ?case by (auto simp: list_all_iff)
next
  case (JObj kvs)
  then show ?case by (auto simp: list_all_iff)
qed auto

text \<open>What the decoder has to do on the text of one value.\<close>

definition reads_back :: "load_conf \<Rightarrow> nat \<Rightarrow> json \<Rightarrow> bool" where
  "reads_back C rl v \<longleftrightarrow> (\<forall>n r. delim r \<longrightarrow> 2 * length (print_json v) + 1 \<le> n \<longrightarrow> pval C rl n (print_json v @ r) = Inr (v, r))"

lemma reads_backD: "reads_back C rl v \<Longrightarrow> delim r \<Longrightarrow> 2 * length (print_json v) + 1 \<le> n \<Longrightarrow> pval C rl n (print_json v @ r) = Inr (v, r)"
  by (simp add: reads_back_def)

lemma reads_backI: "(\<And>n r. delim r \<Longrightarrow> pval C rl (Suc n) (print_json v @ r) = Inr (v, r)) \<Longrightarrow> reads_back C rl v"
  unfolding reads_back_def by (metis Suc_eq_plus1 Suc_le_D)

lemma pitems_print:
  assumes "xs \<noteq> []" "\<And>x. x \<in> set xs \<Longrightarrow> reads_back C rl x \<and> wf_json x" "2 * length (join '','' (map print_json xs)) + 2 \<le> n"
  shows "pitems C rl n (join '','' (map print_json xs) @ CHR '']'' # r) = Inr (xs, r)"
  using assms
proof (induction xs arbitrary: n)
  case (Cons x xs)
  obtain m where n: "n = Suc m" using Cons.prems(3) by (cases n) auto
  show ?case
  proof (cases "xs = []")
    case True
    then have "pval C rl m (print_json x @ CHR '']'' # r) = Inr (x, CHR '']'' # r)"
      using Cons.prems n by (intro reads_backD) auto
    with True n show ?thesis by simp
  next
    case False
    let ?t = "join '','' (map print_json xs) @ CHR '']'' # r"
    have j: "join '','' (map print_json (x # xs)) = print_json x @ '','' @ join '','' (map print_json xs)"
      using False by (simp add: join_Cons)
    have "pval C rl m (print_json x @ CHR '','' # ?t) = Inr (x, CHR '','' # ?t)"
      using Cons.prems n j by (intro reads_backD) auto
    moreover have "pitems C rl m ?t = Inr (xs, r)"
      using Cons.prems n j False by (intro Cons.IH) auto
    moreover have "skip_ws ?t = ?t"
      using False Cons.prems(2) skip_ws_print[of "hd xs"] by (cases xs; cases "tl xs") auto
    ultimately show ?thesis using n j by simp
  qed
qed simp

lemma ppairs_print:
  assumes "kvs \<noteq> []" "\<And>p. p \<in> set kvs \<Longrightarrow> reads_back C rl (snd p) \<and> wf_json (snd p)" "2 * length (join '','' (map print_pair kvs)) + 2 \<le> n"
  shows "ppairs C rl n (join '','' (map print_pair kvs) @ CHR ''}'' # r) = Inr (kvs, r)"
  using assms
proof (induction kvs arbitrary: n)
  case (Cons p kvs)
  obtain m where n: "n = Suc m" using Cons.prems(3) by (cases n) auto
  have v: "reads_back C rl (snd p)" "skip_ws (print_json (snd p) @ t) = print_json (snd p) @ t" for t
    using Cons.prems(2)[of p] skip_ws_print by auto
  show ?case
  proof (cases "kvs = []")
    case True
    then have "pval C rl m (print_json (snd p) @ CHR ''}'' # r) = Inr (snd p, CHR ''}'' # r)"
      using Cons.prems n by (intro reads_backD v) auto
    with True show ?thesis unfolding n by (simp add: dumps_str_Cons scan_str_esc v)
  next
    case False
    let ?t = "join '','' (map print_pair kvs) @ CHR ''}'' # r"
    have j: "join '','' (map print_pair (p # kvs)) = print_pair p @ '','' @ join '','' (map print_pair kvs)"
      using False by (simp add: join_Cons)
    have "pval C rl m (print_json (snd p) @ CHR '','' # ?t) = Inr (snd p, CHR '','' # ?t)"
      using Cons.prems n j by (intro reads_backD v) auto
    moreover have "ppairs C rl m ?t = Inr (kvs, r)"
      using Cons.prems n j False by (intro Cons.IH) auto
    moreover have "skip_ws ?t = ?t"
      using False by (cases kvs; cases "tl kvs") (auto simp: dumps_str_Cons)
    ultimately show ?thesis unfolding n j by (simp add: dumps_str_Cons scan_str_esc v)
  qed
qed simp

lemma pval_constant:
  "pval C rl (Suc n) (''null'' @ r) = Inr (JNull, r)" "pval C rl (Suc n) (''true'' @ r) = Inr (JBool True, r)"
  "pval C rl (Suc n) (''false'' @ r) = Inr (JBool False, r)"
  by (simp_all add: scan_atom_def scan_constant_def)

text \<open>A hook that keeps pairs with distinct names.\<close>

definition plain_hook :: "load_conf \<Rightarrow> bool" where
  "plain_hook C \<longleftrightarrow> (\<forall>ps. distinct (map fst ps) \<longrightarrow> hook C ps = Some ps)"

lemma fits_reads_back:
  assumes "plain_hook C"
  shows "fits v rl \<Longrightarrow> reads_back C rl v"
proof (induction v arbitrary: rl)
  case (JArr xs)
  have el: "reads_back C (rl - 1) x \<and> wf_json x" if "x \<in> set xs" for x
    using JArr that fits_wf by (auto simp: list_all_iff)
  show ?case
    unfolding reads_back_def
  proof (intro allI impI)
    fix n r
    assume n: "2 * length (print_json (JArr xs)) + 1 \<le> n"
    then obtain m where m: "n = Suc m" by (cases n) auto
    show "pval C rl n (print_json (JArr xs) @ r) = Inr (JArr xs, r)"
    proof (cases xs)
      case (Cons y ys)
      let ?t = "join '','' (map print_json xs) @ CHR '']'' # r"
      obtain c cs where c: "print_json y = c # cs" "head_ok y c" using print_json_head[of y] el[of y] Cons by auto
      have t: "skip_ws ?t = ?t" "\<not> next_is (CHR '']'') ?t"
        using skip_ws_print[of y] el[of y] head_ok_not_close[OF c(2)] Cons c(1) by (cases ys; auto)+
      have "pitems C (rl - 1) m ?t = Inr (xs, r)"
        using n m Cons by (intro pitems_print el) auto
      with t JArr.prems m show ?thesis by simp
    qed (use JArr.prems m in simp)
  qed
next
  case (JObj kvs)
  have el: "reads_back C (rl - 1) (snd p) \<and> wf_json (snd p)" if "p \<in> set kvs" for p
  proof -
    have "fits (snd p) (rl - 1)" using JObj.prems that by (auto simp: list_all_iff)
    then show ?thesis using JObj.IH[OF that, of "snd p" "rl - 1"] fits_wf by (cases p) auto
  qed
  have hk: "hook C kvs = Some kvs" using assms JObj.prems by (simp add: plain_hook_def comp_def)
  show ?case
    unfolding reads_back_def
  proof (intro allI impI)
    fix n r
    assume n: "2 * length (print_json (JObj kvs)) + 1 \<le> n"
    then obtain m where m: "n = Suc m" by (cases n) auto
    show "pval C rl n (print_json (JObj kvs) @ r) = Inr (JObj kvs, r)"
    proof (cases kvs)
      case Nil
      then show ?thesis using JObj.prems m hk by (simp add: finish_object_def)
    next
      case (Cons p ps)
      let ?t = "join '','' (map print_pair kvs) @ CHR ''}'' # r"
      have t: "skip_ws ?t = ?t" "\<not> next_is (CHR ''}'') ?t"
        using Cons by (cases ps; auto simp: dumps_str_Cons)+
      have "ppairs C (rl - 1) m ?t = Inr (kvs, r)"
        using n m Cons unfolding print_json_obj by (intro ppairs_print el) auto
      with t JObj.prems m hk show ?thesis
        unfolding print_json_obj by (simp add: finish_object_def)
    qed
  qed
next
  case (JInt i)
  then show ?case by (intro reads_backI) (simp add: pval_int del: pval.simps)
next
  case (JBool b)
  show ?case using pval_constant(2,3)[of C rl] by (intro reads_backI) (simp del: pval.simps)
next
  case JNull
  show ?case using pval_constant(1)[of C rl] by (intro reads_backI) (simp del: pval.simps)
next
  case (JStr x)
  show ?case by (intro reads_backI) (simp add: dumps_str_Cons scan_str_esc)
qed simp

lemma fits_sort_keys [simp]: "fits (sort_keys v) d = fits v d"
proof (induction v arbitrary: d)
  case (JArr xs)
  then show ?case by (auto simp: list_all_iff)
next
  case (JObj kvs)
  have "fits (sort_keys w) d = fits w d" if "(k, w) \<in> set kvs" for k w d
    using JObj that by (metis snds.intros snd_conv)
  then show ?case by (auto simp: list_all_iff comp_def)
qed simp_all

lemma loads_print:
  assumes "plain_hook C" "fits v rl"
  shows "loads C rl (print_json v) = Inr v"
proof -
  have "pval C rl (2 * length (print_json v) + 1) (print_json v @ []) = Inr (v, [])"
    by (rule reads_backD[OF fits_reads_back[OF assms]]) simp_all
  moreover have "skip_ws (print_json v) = print_json v" using skip_ws_print[OF fits_wf[OF assms(2)], of "[]"] by simp
  ultimately show ?thesis by (simp add: loads_def del: pval.simps)
qed

lemma loads_dumps: "plain_hook C \<Longrightarrow> fits v rl \<Longrightarrow> loads C rl (dumps v) = Inr (sort_keys v)"
  using loads_print[of C "sort_keys v" rl] by (simp add: dumps_def)

text \<open>The default \<open>dict\<close> and the hook that rejects duplicates both keep an object with distinct keys.\<close>

lemma foldl_update_distinct:
  fixes d ps :: jobj
  shows "distinct (map fst (d @ ps)) \<Longrightarrow> foldl (\<lambda>d (k, v). AList.update k v d) d ps = d @ ps"
proof (induction ps arbitrary: d)
  case (Cons p ps)
  have "AList.update (fst p) (snd p) d = d @ [p]" using Cons.prems by (induction d) (auto split: if_splits)
  then show ?case using Cons by (simp add: split_def)
qed simp

section \<open>Printed values are printable ASCII\<close>

lemma esc_char_printable: "d \<in> set (esc_char c) \<Longrightarrow> 32 \<le> code d \<and> code d < 128"
proof -
  have "32 \<le> code (hex_char n) \<and> code (hex_char n) < 128" if "n < 16" for n using that by (auto simp: hex_char_def)
  moreover have "code c div 16 < 16" using code_less_256[of c] by linarith
  ultimately have "\<forall>d\<in>set (hex2 c). 32 \<le> code d \<and> code d < 128" by (simp add: hex2_def)
  then show "d \<in> set (esc_char c) \<Longrightarrow> 32 \<le> code d \<and> code d < 128"
    by (auto simp: esc_char_def split: if_splits)
qed

lemma set_joinD: "c \<in> set (join sep xs) \<Longrightarrow> c \<in> set sep \<or> (\<exists>x\<in>set xs. c \<in> set x)"
  by (induction sep xs rule: join.induct) auto

lemma print_json_printable: "fits v d \<Longrightarrow> c \<in> set (print_json v) \<Longrightarrow> 32 \<le> code c \<and> code c < 128"
proof (induction v arbitrary: d)
  case (JInt i)
  then show ?case using int_repr_num[of c i] by (auto simp: is_digit_def)
next
  case (JStr s)
  then show ?case by (auto simp: dumps_str_def dest: esc_char_printable)
next
  case (JArr xs)
  have "32 \<le> code c \<and> code c < 128" if "x \<in> set xs" "c \<in> set (print_json x)" for x
    using JArr that by (auto simp: list_all_iff)
  then show ?case using JArr.prems(2) set_joinD[of c "'',''" "map print_json xs"] by auto
next
  case (JObj kvs)
  have el: "32 \<le> code c \<and> code c < 128" if "p \<in> set kvs" "c \<in> set (print_json (snd p))" for p
  proof -
    have "fits (snd p) (d - 1)" using JObj.prems that by (auto simp: list_all_iff)
    then show ?thesis using JObj.IH[OF that(1), of "snd p"] that(2) by (cases p) auto
  qed
  have "32 \<le> code c \<and> code c < 128" if "p \<in> set kvs" "c \<in> set (print_pair p)" for p
    using that el[of p] by (auto simp: dumps_str_def dest: esc_char_printable)
  moreover have "c \<in> set ''{},'' \<or> (\<exists>p\<in>set kvs. c \<in> set (print_pair p))"
    using JObj.prems(2) set_joinD[of c "'',''" "map print_pair kvs"] unfolding print_json_obj by auto
  ultimately show ?case by auto
qed (auto split: if_splits)

lemma print_json_ascii: "fits v d \<Longrightarrow> c \<in> set (print_json v) \<Longrightarrow> code c < 128"
  using print_json_printable by blast

lemma utf8_decode_ascii: "(\<And>c. c \<in> set s \<Longrightarrow> code c < 128) \<Longrightarrow> utf8_decode s = Inr s"
  by (induction s) auto

lemma utf8_encode_ascii: "(\<And>c. c \<in> set s \<Longrightarrow> code c < 128) \<Longrightarrow> utf8_encode s = s"
  by (induction s) (auto simp: utf8_encode_def)

end
