(* ===== verification/Py_Regex.thy ===== *)
theory Py_Regex
  imports Py_Prelude
begin

text \<open>
  \<open>re.sub\<close> for a pattern that matches no empty text. A matcher stands for the compiled pattern: it sees the
  previous character and the rest of the text and answers the replacement and what follows the match. The
  guard on the length only serves termination: a match takes at least one character.
\<close>

type_synonym matcher = "char option \<Rightarrow> string \<Rightarrow> (string \<times> string) option"

function sub_with :: "matcher \<Rightarrow> char option \<Rightarrow> string \<Rightarrow> string" where
  "sub_with m prev [] = []"
| "sub_with m prev (c # cs) =
    (case m prev (c # cs) of
       Some (r, rest) \<Rightarrow>
         if length rest \<le> length cs
         then r @ sub_with m (Some ((c # cs) ! (length cs - length rest))) rest
         else c # sub_with m (Some c) cs
     | None \<Rightarrow> c # sub_with m (Some c) cs)"
  by pat_completeness auto
termination
  by (relation "measure (\<lambda>(m, prev, s). length s)") auto

end
