(* ===== verification/Py_Path.thy ===== *)
theory Py_Path
  imports Py_Prelude
begin

text \<open>
  \<open>PurePosixPath\<close>: a path is the list \<open>Path.parts\<close>, whose first element is the root of an absolute path. The
  operations are those the sources use; \<open>None\<close> and \<open>[]\<close> stand for the exceptions on an empty name, which the
  callers exclude.
\<close>

type_synonym ppath = "string list"

definition path_root :: "string \<Rightarrow> ppath" where
  "path_root s = (if prefix ''//'' s \<and> \<not> prefix ''///'' s then [''//''] else if prefix ''/'' s then [''/''] else [])"

definition path_of :: "string \<Rightarrow> ppath" where
  "path_of s = path_root s @ posix_parts s"

text \<open>\<open>p / s\<close>: an absolute operand replaces the path.\<close>

definition path_join :: "ppath \<Rightarrow> string \<Rightarrow> ppath" where
  "path_join p s = (if path_root s \<noteq> [] then path_root s @ posix_parts s else p @ posix_parts s)"

definition is_root :: "string \<Rightarrow> bool" where
  "is_root r \<longleftrightarrow> r = ''/'' \<or> r = ''//''"

definition path_absolute :: "ppath \<Rightarrow> bool" where
  "path_absolute p \<longleftrightarrow> p \<noteq> [] \<and> is_root (hd p)"

definition path_str :: "ppath \<Rightarrow> string" where
  "path_str p = (case p of [] \<Rightarrow> ''.''
     | r # rest \<Rightarrow> if is_root r then r @ join ''/'' rest else join ''/'' p)"

definition relative_to :: "ppath \<Rightarrow> ppath \<Rightarrow> ppath option" where
  "relative_to p base = (if prefix base p then Some (drop (length base) p) else None)"

text \<open>The name, its stem and its suffix; the root is not a name.\<close>

definition path_name :: "ppath \<Rightarrow> string" where
  "path_name p = (if p = [] \<or> is_root (last p) then [] else last p)"

definition path_stem :: "string \<Rightarrow> string" where
  "path_stem n = take (length n - length (path_suffix n)) n"

definition with_name :: "ppath \<Rightarrow> string \<Rightarrow> ppath" where
  "with_name p n = butlast p @ [n]"

definition with_suffix :: "ppath \<Rightarrow> string \<Rightarrow> ppath" where
  "with_suffix p suf = with_name p (path_stem (path_name p) @ suf)"

text \<open>A safe relative path: its segments can be joined to a directory without leaving it.\<close>

definition safe_segment :: "string \<Rightarrow> bool" where
  "safe_segment s \<longleftrightarrow> s \<noteq> [] \<and> s \<noteq> ''.'' \<and> s \<noteq> ''..'' \<and> CHR ''/'' \<notin> set s"

definition contained :: "ppath \<Rightarrow> bool" where
  "contained p \<longleftrightarrow> p \<noteq> [] \<and> list_all safe_segment p"

lemma posix_parts_segments: "s \<in> set (posix_parts t) \<Longrightarrow> s \<noteq> [] \<and> s \<noteq> ''.'' \<and> CHR ''/'' \<notin> set s"
  by (auto simp: posix_parts_def dest: split_on_parts)

lemma posix_parts_join:
  assumes "contained p"
  shows "posix_parts (join ''/'' p) = p"
proof -
  have "filter (\<lambda>x. x \<noteq> [] \<and> x \<noteq> ''.'') p = p"
    using assms by (auto simp: contained_def safe_segment_def list_all_iff intro!: filter_True)
  moreover have "split_on CHR ''/'' (join ''/'' p) = p"
    using assms by (intro split_on_join) (auto simp: contained_def safe_segment_def list_all_iff)
  ultimately show ?thesis by (simp add: posix_parts_def)
qed

lemma safe_not_root: "safe_segment s \<Longrightarrow> \<not> is_root s"
  by (auto simp: safe_segment_def is_root_def)

lemma contained_relative: "contained p \<Longrightarrow> \<not> path_absolute p"
  by (cases p) (auto simp: contained_def path_absolute_def safe_not_root)

lemma path_str_contained: "contained p \<Longrightarrow> path_str p = join ''/'' p"
  by (cases p) (auto simp: contained_def path_str_def safe_not_root)

lemma contained_no_root: "contained p \<Longrightarrow> path_root (join ''/'' p) = []"
proof -
  assume c: "contained p"
  then obtain s r where p: "p = s # r" and s: "s \<noteq> []" "hd s \<noteq> CHR ''/''"
    by (cases p) (auto simp: contained_def safe_segment_def, metis list.set_sel(1))
  then have "\<not> prefix ''/'' (join ''/'' p)" by (cases r; cases s) auto
  then show ?thesis by (auto simp: path_root_def prefix_def)
qed

lemma path_of_str: "contained p \<Longrightarrow> path_of (path_str p) = p"
  by (simp add: path_of_def path_str_contained contained_no_root posix_parts_join)

lemma path_str_inj: "contained p \<Longrightarrow> contained q \<Longrightarrow> path_str p = path_str q \<Longrightarrow> p = q"
  by (metis path_of_str)

end
