(* ===== verification/Queue_Build.thy ===== *)
theory Queue_Build
  imports Queue_Finalize Corpus_Release Py_Json_Parse Py_Regex Py_Path
begin

text \<open>
  The builders of the protected queues (\<open>build_snap_queue\<close> and \<open>build_all_state_snap_queue\<close> of
  \<open>scripts/prepare_signed_queue.py\<close>): they read a clean corpus checkout, bind it to a signed corpus release
  and to the toolchain pin of RuleSpec, collect the source units, number them and return a validated queue.

  Files are read from the record \<open>build_world\<close>: the state of the two Git checkouts, the bytes at a path, the
  names in a directory, the printer of floats and the nesting limit of \<open>json.loads\<close>, and the YAML parser. A path is the list
  \<open>Path.parts\<close>, whose first element is the root for an absolute path. The module constants \<open>EXPECTED_COUNTS\<close>,
  \<open>PRIORITY_CITATIONS\<close>, \<open>ALL_STATE_EXPECTED_COUNTS\<close>, the issue numbers and the number 51 of jurisdictions,
  which the builders share with \<open>_queue_profile\<close>, are read from the profile of the environment;
  \<open>program_constants\<close> below evaluates them for the program.
\<close>

section \<open>Paths and text files\<close>

record build_world =
  corpus :: checkout
  rulespec :: checkout
  read_bytes :: "ppath \<Rightarrow> string option"
  names_in :: "ppath \<Rightarrow> string list"
  float_repr_of :: "string \<Rightarrow> string"
  nesting_limit :: nat
  yaml_safe_load :: "string \<Rightarrow> json option"

record build_args =
  corpus_root :: ppath
  b_corpus_ref :: string
  b_rulespec_ref :: string
  b_rules_engine_ref :: string
  b_release_name :: string
  b_release_content_sha256 :: string
  release_object_path :: ppath
  release_public_key_path :: ppath
  b_state :: string
  b_pause_reason :: "string option"

abbreviation os_error :: queue_error where "os_error \<equiv> OtherError ''OSError''"

abbreviation outside_model :: queue_error where "outside_model \<equiv> OtherError ''text outside the model''"

definition file_content :: "build_world \<Rightarrow> ppath \<Rightarrow> (queue_error, string) result" where
  "file_content W p = (case read_bytes W p of None \<Rightarrow> Inl os_error | Some b \<Rightarrow> Inr b)"

definition read_text :: "build_world \<Rightarrow> ppath \<Rightarrow> (queue_error, string) result" where
  "read_text W p = bind_r (file_content W p) (\<lambda>b. case utf8_decode b of
       Inl DecodeError \<Rightarrow> Inl (OtherError ''UnicodeDecodeError'') | Inl _ \<Rightarrow> Inl outside_model
     | Inr t \<Rightarrow> Inr (universal_newlines t))"

text \<open>\<open>json.loads\<close> with the default \<open>dict\<close>: a repeated key keeps its first position and its last value.\<close>

definition dict_conf :: "build_world \<Rightarrow> load_conf" where
  "dict_conf W = \<lparr>hook = (\<lambda>ps. Some (foldl (\<lambda>d (k, v). AList.update k v d) [] ps)), float_repr = float_repr_of W\<rparr>"

definition load_failure :: "load_error \<Rightarrow> queue_error" where
  "load_failure e = (case e of DecodeError \<Rightarrow> OtherError ''JSONDecodeError''
     | IntLimit \<Rightarrow> ValueError ''Exceeds the limit (4300 digits) for integer string conversion''
     | RecursionLimit \<Rightarrow> OtherError ''RecursionError'' | _ \<Rightarrow> outside_model)"

definition load_json_at :: "build_world \<Rightarrow> ppath \<Rightarrow> (queue_error, jobj) result" where
  "load_json_at W p = bind_r (read_text W p) (\<lambda>t. case loads (dict_conf W) (nesting_limit W) t of
       Inl e \<Rightarrow> Inl (load_failure e) | Inr (JObj d) \<Rightarrow> Inr d
     | Inr _ \<Rightarrow> invalid ''queue manifest must be a JSON object'')"

section \<open>Corpus records\<close>

text \<open>The lines a text stream yields; their newline is a blank for \<open>json.loads\<close> and is left off.\<close>

definition text_lines :: "string \<Rightarrow> string list" where
  "text_lines t = (let ls = split_on CHR 0x0A t in if last ls = [] then butlast ls else ls)"

definition load_row :: "build_world \<Rightarrow> ppath \<Rightarrow> nat \<times> string \<Rightarrow> (queue_error, jobj) result" where
  "load_row W p = (\<lambda>(n, line).
    let at = path_str p @ '':'' @ nat_repr n in
    case loads (dict_conf W) (nesting_limit W) line of
      Inl DecodeError \<Rightarrow> invalid (''malformed corpus JSONL at '' @ at)
    | Inl e \<Rightarrow> Inl (load_failure e)
    | Inr (JObj d) \<Rightarrow> Inr d
    | Inr _ \<Rightarrow> invalid (''corpus JSONL row is not an object at '' @ at))"

text \<open>The files are read one after the other; a file that is not UTF-8 is reported before its rows are.\<close>

definition load_jsonl :: "build_world \<Rightarrow> ppath list \<Rightarrow> (queue_error, jobj list) result" where
  "load_jsonl W paths = bind_r (map_r (\<lambda>p. bind_r (read_text W p) (\<lambda>t.
     map_r (load_row W p) (enumerate 1 (text_lines t)))) paths) (\<lambda>rows. Inr (concat rows))"

definition to_upper :: "char \<Rightarrow> char" where
  "to_upper c = (if is_lower c then char_of (code c - 32) else c)"

definition has_snap_marker :: "jobj \<Rightarrow> bool" where
  "has_snap_marker r =
    (let txt = join '' '' (map (\<lambda>f. if truthy (dget r f) then py_str (dget r f) else []) [''body'', ''heading'', ''citation_label''])
     in list_ex (prefix ''SNAP'') (suffixes (map to_upper txt)))"

definition record_label :: "jobj \<Rightarrow> (queue_error, string) result" where
  "record_label r =
    (case filter (\<lambda>v. is_str v \<and> strip (str_of v) \<noteq> []) (map (dget r) [''heading'', ''citation_label'', ''citation_path'']) of
       [] \<Rightarrow> invalid ''corpus record has no usable label'' | v # _ \<Rightarrow> Inr (strip (str_of v)))"

definition citation_path :: "jobj \<Rightarrow> string" where
  "citation_path r = str_of (dget r ''citation_path'')"

definition of_kind :: "jobj list \<Rightarrow> string \<Rightarrow> jobj list" where
  "of_kind records k = filter (\<lambda>r. dget r ''kind'' = JStr k) records"

definition leaf_records :: "jobj list \<Rightarrow> jobj list" where
  "leaf_records records = filter (\<lambda>r. \<not> list_ex (\<lambda>other. other \<noteq> citation_path r \<and> prefix (citation_path r @ ''/'') other)
     (map citation_path records)) records"

text \<open>\<open>isinstance(x, int)\<close> holds of a boolean, which compares as 0 or 1.\<close>

definition ordinal_key :: "jobj \<Rightarrow> int" where
  "ordinal_key r = (case dget r ''ordinal'' of JInt i \<Rightarrow> i | JBool b \<Rightarrow> (if b then 1 else 0) | _ \<Rightarrow> 2 ^ 63 - 1)"

definition selected_records :: "jobj list \<Rightarrow> jobj list" where
  "selected_records records =
    (let documents = of_kind records ''document'';
         preferred = filter (\<lambda>rs. rs \<noteq> []) (map (of_kind records) [''page'', ''section'', ''rule'', ''sheet''])
     in if length documents > 1 then documents
        else if preferred \<noteq> [] then hd preferred
        else if documents \<noteq> [] then documents
        else leaf_records records)"

definition logical_source_units :: "jobj list \<Rightarrow> (queue_error, jobj list) result" where
  "logical_source_units records =
    (let documents = of_kind records ''document''; selected = selected_records records;
         order = sort_key (\<lambda>r. (ordinal_key r, citation_path r))
     in if list_ex (\<lambda>r. \<not> is_str (dget r ''kind'') \<or> \<not> is_str (dget r ''citation_path'')) records
        then invalid ''SNAP scope record lacks kind or citation_path''
        else if list_ex (\<lambda>r. list_ex is_space (citation_path r)) selected
        then if documents = [] then invalid ''logical source-unit citations contain whitespace and have no document fallback''
             else Inr (order documents)
        else Inr (order selected))"

section \<open>Provenance of the corpus\<close>

definition provisions_dir :: "build_args \<Rightarrow> ppath" where
  "provisions_dir A = path_join (corpus_root A) ''data/corpus/provisions''"

definition release_manifest_path :: "build_args \<Rightarrow> ppath" where
  "release_manifest_path A = path_join (path_join (corpus_root A) ''manifests/releases'') (b_release_name A @ ''.json'')"

type_synonym scope_key = "json \<times> json \<times> json"

definition scope_key_of :: "jobj \<Rightarrow> (queue_error, scope_key) result" where
  "scope_key_of d =
    (let j = dget d ''jurisdiction''; c = dget d ''document_class''; v = dget d ''version'' in
     if hashable j \<and> hashable c \<and> hashable v then Inr (j, c, v) else Inl (OtherError ''TypeError''))"

definition available_scopes :: "json list \<Rightarrow> (queue_error, scope_key list) result" where
  "available_scopes raws = map_r (\<lambda>s. scope_key_of (obj_of s)) (filter is_obj raws)"

definition required_scope :: "build_args \<Rightarrow> ppath \<Rightarrow> (queue_error, string \<times> string \<times> string) result" where
  "required_scope A p =
    (case relative_to p (provisions_dir A) of
       None \<Rightarrow> invalid ''queue source is outside canonical provisions''
     | Some rel \<Rightarrow>
         if length rel \<noteq> 3 \<or> path_suffix (last rel) \<noteq> ''.jsonl''
         then invalid (''queue source path is malformed: '' @ path_str rel)
         else Inr (rel ! 0, rel ! 1, path_stem (rel ! 2)))"

definition scope_listed :: "scope_key list \<Rightarrow> string \<times> string \<times> string \<Rightarrow> bool" where
  "scope_listed available = (\<lambda>(j, c, v). (JStr j, JStr c, JStr v) \<in> set available)"

definition verify_corpus_provenance ::
  "queue_env \<Rightarrow> build_world \<Rightarrow> build_args \<Rightarrow> ppath list \<Rightarrow> (queue_error, string) result" where
  "verify_corpus_provenance E W A sources =
    bind_r (checks
      [invalid_if (\<not> queue_release_name_re (b_release_name A)) ''release_name is malformed'',
       invalid_if (head_commit (corpus W) = None \<or> status_porcelain (corpus W) = None) ''corpus_root must be a readable Git checkout'',
       invalid_if (head_commit (corpus W) \<noteq> Some (b_corpus_ref A))
         (''corpus checkout HEAD '' @ the (head_commit (corpus W)) @ '' does not match '' @ b_corpus_ref A),
       invalid_if (status_porcelain (corpus W) \<noteq> Some []) ''corpus checkout is not clean'']) (\<lambda>_.
    bind_r (load_json_at W (release_manifest_path A)) (\<lambda>release.
    bind_r (checks
      [invalid_if (dget release ''name'' \<noteq> JStr (b_release_name A)) ''corpus release manifest name does not match release_name'',
       invalid_if (\<not> is_arr (dget release ''scopes'')) ''corpus release manifest scopes are missing'']) (\<lambda>_.
    bind_r (map_r (required_scope A) sources) (\<lambda>required.
    bind_r (available_scopes (arr_of (dget release ''scopes''))) (\<lambda>available.
      let missing = filter (\<lambda>s. \<not> scope_listed available s) required in
      if missing \<noteq> []
      then invalid (''corpus release manifest is missing SNAP manual scopes: ''
        @ join '', '' (map (\<lambda>(j, c, v). join ''/'' [j, c, v]) (sort (remdups missing))))
      else bind_r (file_content W (release_manifest_path A)) (\<lambda>b. Inr (sha E b)))))))"

section \<open>Binding to the signed release\<close>

text \<open>\<open>str.splitlines\<close>, stripped and without the blank lines: between the two characters of a line ending lies
  an empty line, which is dropped.\<close>

definition nonblank_lines :: "string \<Rightarrow> string list" where
  "nonblank_lines t = filter (\<lambda>l. l \<noteq> []) (map strip
     (split_on CHR 0x0A (map (\<lambda>c. if line_break c then CHR 0x0A else c) t)))"

text \<open>The two reads whose \<open>OSError\<close> is caught.\<close>

definition release_inputs :: "build_world \<Rightarrow> build_args \<Rightarrow> (queue_error, jobj \<times> string list) result" where
  "release_inputs W A =
    (case bind_r (load_json_at W (release_object_path A)) (\<lambda>release_object.
       bind_r (read_text W (release_public_key_path A)) (\<lambda>t. Inr (release_object, nonblank_lines t))) of
       Inl e \<Rightarrow> if e = os_error then invalid ''signed release verification inputs are unavailable'' else Inl e
     | Inr r \<Rightarrow> Inr r)"

definition git_of :: "jobj \<Rightarrow> json" where
  "git_of release_object = (case dget release_object ''content'' of JObj content \<Rightarrow> dget content ''git'' | _ \<Rightarrow> JNull)"

definition artifact_at :: "release_artifact list \<Rightarrow> string \<rightharpoonup> release_artifact" where
  "artifact_at arts = map_of (rev (map (\<lambda>a. (path a, a)) arts))"

definition check_source :: "queue_env \<Rightarrow> build_world \<Rightarrow> build_args \<Rightarrow> release_artifact list \<Rightarrow> ppath \<Rightarrow> (queue_error, unit) result" where
  "check_source E W A arts p =
    (case relative_to p (corpus_root A) of
       None \<Rightarrow> invalid (path_str p @ '' is not in the subpath of '' @ path_str (corpus_root A))
     | Some rel \<Rightarrow>
         (case artifact_at arts (path_str rel) of
            None \<Rightarrow> invalid (''signed release omits queue source artifact: '' @ path_str rel)
          | Some a \<Rightarrow> bind_r (file_content W p) (\<lambda>b.
              invalid_if (sha E b \<noteq> sha256_hex a) (''queue source digest differs from signed release: '' @ path_str rel))))"

definition verify_signed_release_binding ::
  "queue_env \<Rightarrow> crypto \<Rightarrow> build_world \<Rightarrow> build_args \<Rightarrow> ppath list \<Rightarrow> (queue_error, unit) result" where
  "verify_signed_release_binding E C W A sources =
    bind_r (checks
      [invalid_if (head_commit (rulespec W) = None \<or> status_porcelain (rulespec W) = None) ''rulespec_root must be a readable Git checkout'',
       invalid_if (head_commit (rulespec W) \<noteq> Some (b_rulespec_ref A))
         (''RuleSpec checkout HEAD '' @ the (head_commit (rulespec W)) @ '' does not match '' @ b_rulespec_ref A),
       invalid_if (status_porcelain (rulespec W) \<noteq> Some []) ''RuleSpec checkout is not clean'']) (\<lambda>_.
    bind_r (load_release_pin (toolchain (rulespec W))) (\<lambda>pin.
    bind_r (invalid_if (pin \<noteq> (b_release_name A, b_release_content_sha256 A)) ''RuleSpec toolchain release pin does not match the queue'') (\<lambda>_.
    bind_r (release_inputs W A) (\<lambda>(release_object, public_keys).
    if public_keys = [] then invalid ''release public key file is empty'' else
    (case verify_release_object C release_object (Ring (map JStr public_keys)) of
       Inl (CorpusReleaseObjectError msg) \<Rightarrow> invalid (''signed release object is invalid: '' @ msg)
     | Inr verified \<Rightarrow>
         checks ([invalid_if (name verified \<noteq> b_release_name A \<or> content_sha256 verified \<noteq> b_release_content_sha256 A)
             ''signed release identity does not match the queue'',
           invalid_if (\<not> is_obj (git_of release_object) \<or> dget (obj_of (git_of release_object)) ''commit'' \<noteq> JStr (b_corpus_ref A))
             ''signed release Git provenance does not match corpus_ref'']
          @ map (check_source E W A (artifacts verified)) sources))))))"

section \<open>The parts both queues share\<close>

definition check_refs :: "build_args \<Rightarrow> (queue_error, unit) result" where
  "check_refs A = checks
    [discard (require_sha (JStr (b_corpus_ref A)) ''corpus_ref''),
     discard (require_sha (JStr (b_rulespec_ref A)) ''rulespec_ref''),
     discard (require_sha (JStr (b_rules_engine_ref A)) ''rules_engine_ref''),
     discard (require_digest (JStr (b_release_content_sha256 A)) ''release_content_sha256'')]"

definition queue_item :: "string \<Rightarrow> string \<Rightarrow> string \<Rightarrow> string \<Rightarrow> nat \<Rightarrow> json \<Rightarrow> jobj" where
  "queue_item citation iid jur label seq source_kind =
    [(''attempt'', JInt 1), (''citation'', JStr citation), (''id'', JStr iid), (''jurisdiction'', JStr jur),
     (''label'', JStr label), (''sequence'', JInt (int seq)), (''source_kind'', source_kind), (''status'', JStr ''pending'')]"

definition release_binding :: "build_args \<Rightarrow> string \<Rightarrow> json" where
  "release_binding A manifest_sha256 = JObj [(''content_sha256'', JStr (b_release_content_sha256 A)),
     (''manifest_sha256'', JStr manifest_sha256), (''name'', JStr (b_release_name A))]"

definition dispatch_binding :: "build_args \<Rightarrow> json" where
  "dispatch_binding A = JObj [(''corpus_ref'', JStr (b_corpus_ref A)), (''country'', JStr ''us''),
     (''max_batch_size'', JInt (int max_batch_size)), (''open_pr'', JBool True),
     (''pr_base_branch'', JStr ''hard-cut/canonical-layout-us''),
     (''rules_engine_ref'', JStr (b_rules_engine_ref A)), (''rulespec_ref'', JStr (b_rulespec_ref A))]"

definition with_pause_reason :: "build_args \<Rightarrow> jobj \<Rightarrow> jobj" where
  "with_pause_reason A q = (case b_pause_reason A of None \<Rightarrow> q | Some r \<Rightarrow> AList.update ''pause_reason'' (JStr r) q)"

text \<open>A dictionary of counters, and its increment.\<close>

definition count_up :: "(string \<times> nat) list \<Rightarrow> string \<Rightarrow> (string \<times> nat) list" where
  "count_up cs j = AList.update j (the (map_of cs j) + 1) cs"

definition counts_of :: "jobj list \<Rightarrow> (string \<times> nat) list \<Rightarrow> (string \<times> int) list" where
  "counts_of its counters = (''total'', int (length its)) # map (map_prod id int) counters"

section \<open>The Oregon and Utah queue\<close>

definition snap_queue_id :: string where
  "snap_queue_id = ''us-snap-or-ut-2026-07''"

text \<open>\<open>BLOCK_SUFFIX_PATTERN.sub("", citation)\<close>; the end anchor also holds before a final newline.\<close>

definition block_suffix :: matcher where
  "block_suffix prev s =
    (let ds = takeWhile is_digit (drop 7 s); rest = drop (7 + length ds) s in
     if prefix ''/block-'' s \<and> ds \<noteq> [] \<and> rest \<in> {[], [CHR 0x0A]} then Some ([], rest) else None)"

definition topic_of :: "string \<Rightarrow> string" where
  "topic_of citation = sub_with block_suffix None citation"

definition jsonl_in :: "build_world \<Rightarrow> ppath \<Rightarrow> ppath list" where
  "jsonl_in W dir = map (\<lambda>n. dir @ [n]) (sort (filter (suffix ''.jsonl'') (names_in W dir)))"

definition or_paths :: "build_world \<Rightarrow> build_args \<Rightarrow> ppath list" where
  "or_paths W A = jsonl_in W (path_join (provisions_dir A) ''us-or/manual'')"

definition ut_paths :: "build_world \<Rightarrow> build_args \<Rightarrow> ppath list" where
  "ut_paths W A = jsonl_in W (path_join (provisions_dir A) ''us-ut/manual'')"

type_synonym candidates = "(string \<times> (string \<times> string)) list"

definition or_candidate :: "candidates \<Rightarrow> jobj \<Rightarrow> (queue_error, candidates) result" where
  "or_candidate cands r =
    (let doc = dget r ''kind'' = JStr ''document'' in
     if \<not> is_str (dget r ''citation_path'') then invalid ''Oregon corpus record has no citation_path''
     else if doc \<or> has_snap_marker r
     then bind_r (record_label r) (\<lambda>l. Inr (AList.update (citation_path r) (if doc then ''document'' else ''page'', l) cands))
     else Inr cands)"

definition ut_candidate :: "candidates \<Rightarrow> jobj \<Rightarrow> (queue_error, candidates) result" where
  "ut_candidate cands r =
    (if \<not> is_str (dget r ''citation_path'') then invalid ''Utah corpus record has no citation_path''
     else if \<not> has_snap_marker r then Inr cands
     else let topic = topic_of (citation_path r) in
       bind_r (record_label r) (\<lambda>l. Inr (if topic \<in> keys cands then cands else AList.update topic (''topic'', l) cands)))"

definition snap_candidates :: "profile \<Rightarrow> jobj list \<Rightarrow> jobj list \<Rightarrow> (queue_error, candidates) result" where
  "snap_candidates P or_records ut_records =
    bind_r (for_each or_candidate [] or_records) (\<lambda>c1.
    bind_r (for_each ut_candidate c1 ut_records) (\<lambda>c2.
      let exact_block = hd (p_priority_citations P) in
      case find (\<lambda>r. dget r ''citation_path'' = JStr exact_block) ut_records of
        None \<Rightarrow> invalid (''priority corpus block is unavailable: '' @ exact_block)
      | Some r \<Rightarrow> bind_r (record_label r) (\<lambda>l. Inr (AList.update exact_block (''block'', l) c2))))"

definition ordered_citations :: "profile \<Rightarrow> candidates \<Rightarrow> (queue_error, string list) result" where
  "ordered_citations P cands =
    (let priority = p_priority_citations P; missing = filter (\<lambda>c. c \<notin> keys cands) priority in
     if missing \<noteq> [] then invalid (''priority citations are unavailable: '' @ join '', '' missing)
     else Inr (priority @ sort (filter (\<lambda>c. c \<notin> set priority) (remdups (map fst cands)))))"

definition number_item ::
  "candidates \<Rightarrow> (string \<times> nat) list \<times> jobj list \<Rightarrow> nat \<times> string \<Rightarrow> (queue_error, (string \<times> nat) list \<times> jobj list) result" where
  "number_item cands = (\<lambda>(counters, its) (seq, citation).
    let jur = takeWhile (\<lambda>c. c \<noteq> CHR ''/'') citation in
    if jur \<notin> keys counters then invalid (''unexpected queue jurisdiction: '' @ jur)
    else let counters' = count_up counters jur; (source_kind, label) = the (map_of cands citation);
             iid = (if jur = ''us-or'' then ''or'' else ''ut'') @ ''-'' @ zero_padded 4 (the (map_of counters' jur))
      in Inr (counters', its @ [queue_item citation iid jur label seq (JStr source_kind)]))"

definition snap_payload :: "profile \<Rightarrow> build_args \<Rightarrow> string \<Rightarrow> jobj list \<Rightarrow> jobj" where
  "snap_payload P A manifest_sha256 its = with_pause_reason A
    [(''schema'', JStr queue_schema), (''queue_id'', JStr snap_queue_id), (''state'', JStr (b_state A)),
     (''description'', JStr (''Conservative Oregon and Utah SNAP manual source-unit inventory. '' @
        ''Each item requires an explicit encoder disposition.'')),
     (''issue'', JInt (p_issue P)), (''release'', release_binding A manifest_sha256), (''dispatch'', dispatch_binding A),
     (''expected_counts'', counts_json (p_expected_counts P)), (''items'', JArr (map JObj its))]"

definition build_snap_queue :: "queue_env \<Rightarrow> crypto \<Rightarrow> build_world \<Rightarrow> build_args \<Rightarrow> (queue_error, jobj) result" where
  "build_snap_queue E C W A =
    bind_r (profile_of E snap_queue_id) (\<lambda>P.
    bind_r (check_refs A) (\<lambda>_.
    let sources = or_paths W A @ ut_paths W A in
    bind_r (verify_corpus_provenance E W A sources) (\<lambda>manifest_sha256.
    bind_r (verify_signed_release_binding E C W A sources) (\<lambda>_.
    bind_r (load_jsonl W (or_paths W A)) (\<lambda>or_records.
    bind_r (load_jsonl W (ut_paths W A)) (\<lambda>ut_records.
    if or_records = [] \<or> ut_records = [] then invalid ''Oregon and Utah manual corpus records are required'' else
    bind_r (snap_candidates P or_records ut_records) (\<lambda>cands.
    bind_r (ordered_citations P cands) (\<lambda>citations.
    bind_r (for_each (number_item cands) ([(''us-or'', 0), (''us-ut'', 0)], []) (enumerate 1 citations)) (\<lambda>(counters, its).
    if \<not> py_eq (counts_json (counts_of its counters)) (counts_json (p_expected_counts P))
    then invalid ''SNAP queue inventory drifted'' else
    let payload = snap_payload P A manifest_sha256 its in
    bind_r (validate_queue E payload) (\<lambda>_. Inr payload))))))))))"

section \<open>The all-state queue\<close>

definition inventory_path :: "build_args \<Rightarrow> ppath" where
  "inventory_path A = path_join (corpus_root A) ''manifests/state-snap-manual-agent-queue.yaml''"

definition inventory_size :: "profile \<Rightarrow> nat" where
  "inventory_size P = nat (int_of (dget (obj_of (p_inventory P)) ''jurisdictions''))"

definition load_inventory :: "build_world \<Rightarrow> build_args \<Rightarrow> (queue_error, json) result" where
  "load_inventory W A =
    (case read_text W (inventory_path A) of
       Inl e \<Rightarrow> if e = os_error then invalid ''state SNAP source inventory is unavailable'' else Inl e
     | Inr t \<Rightarrow> (case yaml_safe_load W t of None \<Rightarrow> invalid ''state SNAP source inventory is unavailable'' | Some v \<Rightarrow> Inr v))"

definition scope_alias :: "scope_key \<Rightarrow> scope_key" where
  "scope_alias k =
    (if k = (JStr ''us-ma'', JStr ''regulation'', JStr ''2026-07-17-ma-dta-snap-regulations'')
     then (JStr ''us-ma'', JStr ''regulation'', JStr ''2026-07-24-ma-dta-regulations-snap-current-union'') else k)"

definition same_scope :: "scope_key \<Rightarrow> scope_key \<Rightarrow> bool" where
  "same_scope = (\<lambda>(a, b, c) (a', b', c'). py_eq a a' \<and> py_eq b b' \<and> py_eq c c')"

definition scope_path :: "build_args \<Rightarrow> scope_key \<Rightarrow> ppath" where
  "scope_path A = (\<lambda>(j, c, v). path_join (path_join (path_join (provisions_dir A) (py_str j)) (py_str c)) (py_str v @ ''.jsonl''))"

definition add_scope ::
  "build_args \<Rightarrow> scope_key list \<Rightarrow> string \<Rightarrow> jobj \<Rightarrow> (string \<times> ppath) list \<Rightarrow> string \<Rightarrow> (queue_error, (string \<times> ppath) list) result" where
  "add_scope A available jur entry state_sources field =
    (case dget entry field of
       JNull \<Rightarrow> Inr state_sources
     | JObj scope \<Rightarrow> bind_r (scope_key_of scope) (\<lambda>k.
         let resolved = scope_alias k in
         if \<not> list_ex (same_scope resolved) available
         then invalid (''state SNAP scope is absent from signed release: ''
           @ (case k of (j, c, v) \<Rightarrow> join ''/'' (map py_str [j, c, v])))
         else Inr (state_sources @ [(jur, scope_path A resolved)]))
     | _ \<Rightarrow> invalid (jur @ '' '' @ field @ '' is malformed''))"

definition state_code_re :: "string \<Rightarrow> bool" where
  "state_code_re s \<longleftrightarrow> prefix ''us-'' s \<and> length s = 5 \<and> list_all is_lower (drop 3 s)"

definition add_state ::
  "build_args \<Rightarrow> scope_key list \<Rightarrow> string list \<times> (string \<times> ppath) list \<Rightarrow> json \<Rightarrow> (queue_error, string list \<times> (string \<times> ppath) list) result" where
  "add_state A available = (\<lambda>(seen, state_sources) raw.
    (case raw of JObj entry \<Rightarrow>
       let j = dget entry ''jurisdiction'' in
       if \<not> is_str j \<or> \<not> state_code_re (str_of j) \<or> str_of j \<in> set seen
       then invalid ''state SNAP source inventory jurisdiction is invalid''
       else if dget entry ''queue_status'' \<noteq> JStr ''published_current''
       then invalid (''state SNAP source is not published_current: '' @ str_of j)
       else bind_r (for_each (add_scope A available (str_of j) entry) state_sources [''target_scope'', ''supporting_scope''])
         (\<lambda>sources. Inr (seen @ [str_of j], sources))
     | _ \<Rightarrow> invalid ''state SNAP source inventory entry is malformed''))"

definition state_inventory ::
  "profile \<Rightarrow> build_world \<Rightarrow> build_args \<Rightarrow> (queue_error, string list \<times> (string \<times> ppath) list) result" where
  "state_inventory P W A =
    bind_r (load_inventory W A) (\<lambda>inventory.
    if \<not> is_obj inventory \<or> dget (obj_of inventory) ''program'' \<noteq> JStr ''SNAP''
    then invalid ''state SNAP source inventory has the wrong program'' else
    let states = dget (obj_of inventory) ''states'' in
    if \<not> is_arr states \<or> length (arr_of states) \<noteq> inventory_size P
    then invalid ''state SNAP source inventory must contain 51 jurisdictions'' else
    bind_r (load_json_at W (release_manifest_path A)) (\<lambda>release.
    if \<not> is_arr (dget release ''scopes'') then invalid ''corpus release manifest scopes are missing'' else
    bind_r (available_scopes (arr_of (dget release ''scopes''))) (\<lambda>available.
    bind_r (for_each (add_state A available) ([], []) (arr_of states)) (\<lambda>(seen, sources).
    if length seen \<noteq> inventory_size P then invalid ''state SNAP source inventory has duplicate jurisdictions''
    else Inr (seen, sources)))))"

text \<open>The units of one source, appended to the units of the sources before it.\<close>

definition add_unit :: "string \<Rightarrow> (string \<times> jobj) list \<Rightarrow> jobj \<Rightarrow> (queue_error, (string \<times> jobj) list) result" where
  "add_unit jur cands r =
    (if citation_path r \<in> set (map (citation_path \<circ> snd) cands)
     then invalid (''duplicate all-state SNAP citation: '' @ citation_path r)
     else Inr (cands @ [(jur, r)]))"

definition add_source :: "build_world \<Rightarrow> (string \<times> jobj) list \<Rightarrow> string \<times> ppath \<Rightarrow> (queue_error, (string \<times> jobj) list) result" where
  "add_source W cands = (\<lambda>(jur, p).
    bind_r (load_jsonl W [p]) (\<lambda>records.
    bind_r (logical_source_units records) (\<lambda>units. for_each (add_unit jur) cands units)))"

definition number_unit ::
  "(string \<times> nat) list \<times> jobj list \<Rightarrow> nat \<times> string \<times> jobj \<Rightarrow> (queue_error, (string \<times> nat) list \<times> jobj list) result" where
  "number_unit = (\<lambda>(counters, its) (seq, jur, r).
    let counters' = count_up counters jur;
        iid = drop 3 jur @ ''-'' @ zero_padded 5 (the (map_of counters' jur))
    in bind_r (record_label r) (\<lambda>label.
         Inr (counters', its @ [queue_item (citation_path r) iid jur label seq (dget r ''kind'')])))"

definition all_state_payload :: "queue_env \<Rightarrow> profile \<Rightarrow> build_args \<Rightarrow> string \<Rightarrow> string \<Rightarrow> jobj list \<Rightarrow> jobj" where
  "all_state_payload E P A inventory_bytes manifest_sha256 its = with_pause_reason A
    [(''schema'', JStr queue_schema), (''queue_id'', JStr all_state_queue_id), (''state'', JStr (b_state A)),
     (''description'', JStr (''All-state SNAP logical source-unit inventory for the 50 states and '' @
        ''District of Columbia. Every item requires an encoder disposition.'')),
     (''issue'', JInt (p_issue P)), (''supersedes'', JArr [JStr snap_queue_id]),
     (''inventory'', JObj [(''jurisdictions'', JInt (int (inventory_size P))),
        (''path'', JStr ''manifests/state-snap-manual-agent-queue.yaml''), (''sha256'', JStr (sha E inventory_bytes))]),
     (''release'', release_binding A manifest_sha256), (''dispatch'', dispatch_binding A),
     (''expected_counts'', counts_json (p_expected_counts P)), (''items'', JArr (map JObj its))]"

definition build_all_state_snap_queue ::
  "queue_env \<Rightarrow> crypto \<Rightarrow> build_world \<Rightarrow> build_args \<Rightarrow> (queue_error, jobj) result" where
  "build_all_state_snap_queue E C W A =
    bind_r (profile_of E all_state_queue_id) (\<lambda>P.
    bind_r (check_refs A) (\<lambda>_.
    bind_r (state_inventory P W A) (\<lambda>(seen, state_sources).
    bind_r (verify_corpus_provenance E W A (map snd state_sources)) (\<lambda>manifest_sha256.
    bind_r (verify_signed_release_binding E C W A (map snd state_sources)) (\<lambda>_.
    bind_r (for_each (add_source W) [] state_sources) (\<lambda>cands.
    let units = sort_key (\<lambda>(j, r). (j, citation_path r)) cands in
    bind_r (for_each number_unit (map (\<lambda>j. (j, 0)) (sort seen), []) (enumerate 1 units)) (\<lambda>(counters, its).
    if \<not> py_eq (counts_json (counts_of its counters)) (counts_json (p_expected_counts P))
    then invalid ''all-state SNAP inventory drifted'' else
    bind_r (file_content W (inventory_path A)) (\<lambda>inventory_bytes.
    let payload = all_state_payload E P A inventory_bytes manifest_sha256 its in
    bind_r (validate_queue E payload) (\<lambda>_. Inr payload)))))))))"

text \<open>The constants of the program.\<close>

lemma program_constants:
  "profile_of (program_env h) snap_queue_id = Inr P \<Longrightarrow>
     p_expected_counts P = expected_counts \<and> p_priority_citations P = priority_citations \<and> p_issue P = 1257"
  "profile_of (program_env h) all_state_queue_id = Inr P \<Longrightarrow>
     p_expected_counts P = all_state_expected_counts \<and> p_issue P = 1287 \<and> inventory_size P = 51"
  by (auto simp: program_env_def queue_profile_def snap_queue_id_def all_state_queue_id_def inventory_size_def dget_def)

end
