(* ===== verification/Queue_Build_Facts.thy ===== *)
theory Queue_Build_Facts
  imports Queue_Build
begin

text \<open>
  What a successful build of a queue establishes: the queue is valid and paused, every file it was read from is
  an artifact of the verified corpus release, with the digest the release signs, and the items are exactly
  the source units of those files, in order and numbered consecutively within their jurisdiction.
\<close>

section \<open>Canonical files are read back\<close>

lemma plain_dict_conf: "plain_hook (dict_conf W)"
  using foldl_update_distinct[of "[]"] by (auto simp: plain_hook_def dict_conf_def)

lemma universal_newlines_id: "CHR 0x0D \<notin> set s \<Longrightarrow> universal_newlines s = s"
  by (induction s rule: universal_newlines.induct) auto

lemma dumps_printable: "fits v n \<Longrightarrow> c \<in> set (dumps v) \<Longrightarrow> 32 \<le> code c \<and> code c < 128"
  using print_json_printable[of "sort_keys v" n c] by (simp add: dumps_def)

lemma read_text_plain:
  assumes "read_bytes W p = Some b" "\<And>c. c \<in> set b \<Longrightarrow> code c < 128 \<and> code c \<noteq> 13"
  shows "read_text W p = Inr b"
proof -
  have "CHR 0x0D \<notin> set b" using assms(2)[of "CHR 0x0D"] by auto
  moreover have "utf8_decode b = Inr b" using assms(2) by (intro utf8_decode_ascii) auto
  ultimately show ?thesis by (simp add: read_text_def file_content_def assms(1) universal_newlines_id)
qed

lemma load_json_at_dumps:
  assumes "read_bytes W p = Some (dumps (JObj d))" "fits (JObj d) (nesting_limit W)"
  shows "load_json_at W p = Inr (obj_of (sort_keys (JObj d)))"
proof -
  have "read_text W p = Inr (dumps (JObj d))"
    using dumps_printable[OF assms(2)] by (intro read_text_plain assms(1)) fastforce
  then show ?thesis using loads_dumps[OF plain_dict_conf assms(2)] by (simp add: load_json_at_def)
qed

definition row_text :: "jobj \<Rightarrow> string" where
  "row_text r = dumps (JObj r) @ [CHR 0x0A]"

lemma text_lines_rows:
  assumes "\<And>l. l \<in> set ls \<Longrightarrow> CHR 0x0A \<notin> set l"
  shows "text_lines (concat (map (\<lambda>l. l @ [CHR 0x0A]) ls)) = ls"
proof -
  have "split_on CHR 0x0A (concat (map (\<lambda>l. l @ [CHR 0x0A]) ls)) = ls @ [[]]"
    using assms by (induction ls) (auto simp: split_on_append_sep)
  then show ?thesis by (simp add: text_lines_def)
qed

lemma map_r_enumerate:
  "(\<And>k x. x \<in> set xs \<Longrightarrow> f (k, h x) = Inr (g x)) \<Longrightarrow> map_r f (enumerate n (map h xs)) = Inr (map g xs)"
  by (induction xs arbitrary: n) auto

text \<open>A corpus file of canonical rows gives back its rows, with their keys in order.\<close>

lemma load_jsonl_rows:
  assumes "read_bytes W p = Some (concat (map row_text rs))" "\<And>r. r \<in> set rs \<Longrightarrow> fits (JObj r) (nesting_limit W)"
  shows "load_jsonl W [p] = Inr (map (\<lambda>r. obj_of (sort_keys (JObj r))) rs)"
proof -
  let ?ls = "map (\<lambda>r. dumps (JObj r)) rs"
  have pr: "32 \<le> code c \<and> code c < 128" if "r \<in> set rs" "c \<in> set (dumps (JObj r))" for r c
    using dumps_printable[OF assms(2)] that by blast
  have b: "concat (map row_text rs) = concat (map (\<lambda>l. l @ [CHR 0x0A]) ?ls)" by (simp add: row_text_def[abs_def] comp_def)
  have "code c < 128 \<and> code c \<noteq> 13" if "c \<in> set (concat (map row_text rs))" for c
  proof -
    from that obtain r where "r \<in> set rs" "c \<in> set (row_text r)" by auto
    then show ?thesis using pr[of r c] by (auto simp: row_text_def)
  qed
  from read_text_plain[OF assms(1) this] have t: "read_text W p = Inr (concat (map row_text rs))" .
  have "CHR 0x0A \<notin> set l" if "l \<in> set ?ls" for l
    using that pr[of _ "CHR 0x0A"] by auto
  then have l: "text_lines (concat (map row_text rs)) = ?ls" unfolding b by (rule text_lines_rows)
  have "load_row W p (k, dumps (JObj r)) = Inr (obj_of (sort_keys (JObj r)))" if "r \<in> set rs" for k r
    using loads_dumps[OF plain_dict_conf assms(2)[OF that]] by (simp add: load_row_def)
  from map_r_enumerate[where f = "load_row W p" and h = "\<lambda>r. dumps (JObj r)", OF this] show ?thesis by (simp add: load_jsonl_def t l)
qed

section \<open>Numbering\<close>

definition item_place :: "jobj \<Rightarrow> string \<times> string" where
  "item_place i = (item_jurisdiction i, item_citation i)"

definition fresh_item :: "jobj \<Rightarrow> bool" where
  "fresh_item i \<longleftrightarrow> item_status i = ''pending'' \<and> item_attempt i = 1"

text \<open>The number of an item: how many items of its jurisdiction there are up to it.\<close>

definition numbered_ids :: "(string \<Rightarrow> string) \<Rightarrow> nat \<Rightarrow> jobj list \<Rightarrow> bool" where
  "numbered_ids code_of w its \<longleftrightarrow> (\<forall>k<length its. item_id (its ! k) = code_of (item_jurisdiction (its ! k)) @ ''-''
     @ zero_padded w (count_list (map item_jurisdiction (take (Suc k) its)) (item_jurisdiction (its ! k))))"

lemma numbered_ids_snoc:
  assumes "numbered_ids code_of w its"
    and "item_id i = code_of (item_jurisdiction i) @ ''-''
      @ zero_padded w (count_list (map item_jurisdiction its) (item_jurisdiction i) + 1)"
  shows "numbered_ids code_of w (its @ [i])"
  unfolding numbered_ids_def
proof (intro allI impI)
  fix k assume "k < length (its @ [i])"
  then consider "k < length its" | "k = length its" by fastforce
  then show "item_id ((its @ [i]) ! k) = code_of (item_jurisdiction ((its @ [i]) ! k)) @ ''-''
     @ zero_padded w (count_list (map item_jurisdiction (take (Suc k) (its @ [i]))) (item_jurisdiction ((its @ [i]) ! k)))"
    using assms by cases (simp_all add: numbered_ids_def nth_append)
qed

lemma queue_item_reads [simp]:
  "item_citation (queue_item c iid j l n sk) = c" "item_id (queue_item c iid j l n sk) = iid"
  "item_jurisdiction (queue_item c iid j l n sk) = j" "fresh_item (queue_item c iid j l n sk)"
  by (simp_all add: queue_item_def item_reads item_jurisdiction_def fresh_item_def)

lemma count_up_get: "map_of cs j \<noteq> None \<Longrightarrow>
   map_of (count_up cs j) k = (if k = j then map_option Suc (map_of cs j) else map_of cs k)"
  by (auto simp: count_up_def)

lemma keys_count_up: "j \<in> keys cs \<Longrightarrow> keys (count_up cs j) = keys cs"
  by (auto simp: count_up_def)

text \<open>The contract of the two loops that turn source units into items: each step counts the unit in its
  jurisdiction and appends one item for it.\<close>

locale item_numbering =
  fixes step :: "(string \<times> nat) list \<times> jobj list \<Rightarrow> nat \<times> 'x \<Rightarrow> (queue_error, (string \<times> nat) list \<times> jobj list) result"
    and place :: "'x \<Rightarrow> string \<times> string"
    and code_of :: "string \<Rightarrow> string"
    and width :: nat
  assumes step_appends: "step (cs, its) (n, x) = Inr r \<Longrightarrow> place x = (j, c) \<Longrightarrow> \<exists>label sk.
      r = (count_up cs j, its @ [queue_item c (code_of j @ ''-'' @ zero_padded width (the (map_of (count_up cs j) j))) j label n sk])"
begin

lemma numbering:
  assumes "for_each step (cs, []) (enumerate n xs) = Inr (cs', its)"
    and "fst ` place ` set xs \<subseteq> keys cs" "\<And>j. j \<in> keys cs \<Longrightarrow> map_of cs j = Some 0"
  shows "map item_place its = map place xs \<and> list_all fresh_item its \<and> numbered_ids code_of width its"
proof -
  define P where "P ys s \<longleftrightarrow> map item_place (snd s) = map (place \<circ> snd) ys \<and> list_all fresh_item (snd s)
    \<and> numbered_ids code_of width (snd s) \<and> keys (fst s) = keys cs
    \<and> (\<forall>j\<in>keys cs. map_of (fst s) j = Some (count_list (map item_jurisdiction (snd s)) j))"
    for ys :: "(nat \<times> 'x) list" and s :: "(string \<times> nat) list \<times> jobj list"
  have "P (enumerate n xs) (cs', its)"
  proof (rule for_each_rule[OF assms(1)])
    show "P [] (cs, [])" using assms(3) by (simp add: P_def numbered_ids_def)
  next
    fix ys y zs s s'
    assume split: "enumerate n xs = ys @ y # zs" and inv: "P ys s" and st: "step s y = Inr s'"
    obtain m x where y: "y = (m, x)" by (cases y) auto
    obtain j c where jc: "place x = (j, c)" by (cases "place x") auto
    have "y \<in> set (enumerate n xs)" by (simp add: split)
    then have "x \<in> snd ` set (enumerate n xs)" unfolding y by force
    then have "x \<in> set xs" by (simp flip: set_map)
    then have j: "j \<in> keys cs" using assms(2) jc by force
    obtain label sk where s': "s' = (count_up (fst s) j, snd s @ [queue_item c (code_of j @ ''-''
        @ zero_padded width (the (map_of (count_up (fst s) j) j))) j label m sk])"
      using step_appends[OF _ jc, of "fst s" "snd s" m s'] st y by auto
    have get: "map_of (fst s) j = Some (count_list (map item_jurisdiction (snd s)) j)" using inv j by (simp add: P_def)
    show "P (ys @ [y]) s'"
      using inv j get numbered_ids_snoc[of code_of width "snd s"]
      by (auto simp: P_def s' y jc item_place_def keys_count_up count_up_get)
  qed
  then show ?thesis by (simp add: P_def flip: map_map)
qed

end

text \<open>Both builders number their items this way.\<close>

definition citation_place :: "string \<Rightarrow> string \<times> string" where
  "citation_place c = (takeWhile (\<lambda>x. x \<noteq> CHR ''/'') c, c)"

definition unit_place :: "string \<times> jobj \<Rightarrow> string \<times> string" where
  "unit_place = (\<lambda>(j, r). (j, citation_path r))"

definition snap_code :: "string \<Rightarrow> string" where
  "snap_code j = (if j = ''us-or'' then ''or'' else ''ut'')"

lemma number_item_Inr:
  assumes "number_item cands (cs, its) (n, x) = Inr r" "citation_place x = (j, c)"
  shows "j \<in> keys cs \<and> (\<exists>label sk. r = (count_up cs j, its @ [queue_item c (snap_code j @ ''-''
     @ zero_padded 4 (the (map_of (count_up cs j) j))) j label n sk]))"
  using assms by (auto simp: number_item_def citation_place_def snap_code_def Let_def split: prod.splits if_splits)

interpretation snap: item_numbering "number_item cands" citation_place snap_code 4 for cands
  by unfold_locales (use number_item_Inr in blast)

interpretation all_state: item_numbering number_unit unit_place "drop 3" 5
  by unfold_locales (auto simp: number_unit_def unit_place_def Let_def)

text \<open>A citation that was numbered has one of the counted jurisdictions.\<close>

lemma number_items_keys:
  assumes "for_each (number_item cands) (cs, its) (enumerate n xs) = Inr r"
  shows "fst ` citation_place ` set xs \<subseteq> keys cs"
  using assms
proof (induction xs arbitrary: n cs its)
  case (Cons x xs)
  then obtain s where s: "number_item cands (cs, its) (n, x) = Inr s" "for_each (number_item cands) s (enumerate (Suc n) xs) = Inr r"
    by (auto split: sum.splits)
  obtain j c where jc: "citation_place x = (j, c)" by (cases "citation_place x") auto
  from number_item_Inr[OF s(1) jc] obtain its' where "s = (count_up cs j, its')" "j \<in> keys cs" by auto
  with Cons.IH[of "count_up cs j" its' "Suc n"] s(2) jc show ?case by (auto simp: keys_count_up)
qed simp

section \<open>Binding to the release\<close>

text \<open>The queue names the verified release, the release was made from the commit the queue dispatches, both
  checkouts are clean at the commits of the queue, and every source is an artifact of the release.\<close>

definition release_bound ::
  "queue_env \<Rightarrow> crypto \<Rightarrow> build_world \<Rightarrow> build_args \<Rightarrow> ppath list \<Rightarrow> jobj \<Rightarrow> bool" where
  "release_bound E C W A sources q \<longleftrightarrow>
    (\<exists>release_object ks v. load_json_at W (release_object_path A) = Inr release_object
      \<and> verify_release_object C release_object (Ring ks) = Inr v
      \<and> dget (obj_of (dget q ''release'')) ''name'' = JStr (name v)
      \<and> dget (obj_of (dget q ''release'')) ''content_sha256'' = JStr (content_sha256 v)
      \<and> dget (obj_of (git_of release_object)) ''commit'' = dget (obj_of (dget q ''dispatch'')) ''corpus_ref''
      \<and> head_commit (corpus W) = Some (str_of (dget (obj_of (dget q ''dispatch'')) ''corpus_ref''))
      \<and> head_commit (rulespec W) = Some (str_of (dget (obj_of (dget q ''dispatch'')) ''rulespec_ref''))
      \<and> status_porcelain (corpus W) = Some [] \<and> status_porcelain (rulespec W) = Some []
      \<and> (\<forall>p\<in>set sources. \<exists>rel a bytes. p = corpus_root A @ rel \<and> a \<in> set (artifacts v) \<and> path a = path_str rel
            \<and> read_bytes W p = Some bytes \<and> sha E bytes = sha256_hex a))"

lemma check_source_Inr:
  assumes "check_source E W A arts p = Inr ()"
  shows "\<exists>rel a bytes. p = corpus_root A @ rel \<and> a \<in> set arts \<and> path a = path_str rel
    \<and> read_bytes W p = Some bytes \<and> sha E bytes = sha256_hex a"
proof -
  from assms obtain rel a b where r: "relative_to p (corpus_root A) = Some rel" "artifact_at arts (path_str rel) = Some a"
      "file_content W p = Inr b" "sha E b = sha256_hex a"
    by (auto simp: check_source_def split: option.splits)
  from r(1) have "p = corpus_root A @ rel" by (auto simp: relative_to_def prefix_def split: if_splits)
  moreover have "(path_str rel, a) \<in> set (rev (map (\<lambda>a. (path a, a)) arts))"
    by (rule map_of_SomeD[OF r(2)[unfolded artifact_at_def]])
  then have "a \<in> set arts \<and> path a = path_str rel" by auto
  moreover from r(3) have "read_bytes W p = Some b" by (simp add: file_content_def split: option.splits)
  ultimately show ?thesis using r(4) by blast
qed

lemma binding_Inr:
  assumes "verify_signed_release_binding E C W A sources = Inr ()" "verify_corpus_provenance E W A sources = Inr m"
    and q: "dget q ''release'' = release_binding A m" "dget q ''dispatch'' = dispatch_binding A"
  shows "release_bound E C W A sources q"
proof -
  have c: "head_commit (corpus W) = Some (b_corpus_ref A)" "status_porcelain (corpus W) = Some []"
    using assms(2) by (auto simp: verify_corpus_provenance_def)
  from assms(1) have r: "head_commit (rulespec W) = Some (b_rulespec_ref A)" "status_porcelain (rulespec W) = Some []"
    by (auto simp: verify_signed_release_binding_def)
  from assms(1) obtain ro pks v where v: "release_inputs W A = Inr (ro, pks)"
      "verify_release_object C ro (Ring (map JStr pks)) = Inr v" "name v = b_release_name A"
      "content_sha256 v = b_release_content_sha256 A" "dget (obj_of (git_of ro)) ''commit'' = JStr (b_corpus_ref A)"
      "\<forall>p\<in>set sources. check_source E W A (artifacts v) p = Inr ()"
    by (auto simp: verify_signed_release_binding_def checks_Inr_iff split: sum.splits release_error.splits if_splits)
  have "load_json_at W (release_object_path A) = Inr ro"
    using v(1) by (auto simp: release_inputs_def split: sum.splits if_splits)
  then show ?thesis
    unfolding release_bound_def q using v c r check_source_Inr
    by (intro exI[of _ ro] exI[of _ "map JStr pks"] exI[of _ v]) (simp add: release_binding_def dispatch_binding_def)
qed

text \<open>Only a paused queue can be built: an active one needs the evidence of a finalisation.\<close>

lemma valid_without_activation:
  assumes "validate_queue E q = Inr ()" "dget q ''activation'' = JNull"
  shows "queue_state q = ''paused''"
proof -
  have "check_state q = Inr ()" "check_evidence_state q = Inr ()"
    using assms(1) by (auto simp: validate_queue_def Let_def)
  with assms(2) show ?thesis
    by (auto simp: check_state_def check_evidence_state_def check_activation_def in_strs_def is_str_iff queue_state_def Let_def
        split: if_splits)
qed

section \<open>The Oregon and Utah queue\<close>

text \<open>The records that make a unit of the queue.\<close>

definition or_unit :: "jobj \<Rightarrow> bool" where
  "or_unit r \<longleftrightarrow> dget r ''kind'' = JStr ''document'' \<or> has_snap_marker r"

lemma or_candidates_keys:
  "for_each or_candidate cs rs = Inr cs' \<Longrightarrow> keys cs' = keys cs \<union> citation_path ` {r \<in> set rs. or_unit r}"
proof (induction rs arbitrary: cs)
  case (Cons r rs)
  then obtain c1 where c1: "or_candidate cs r = Inr c1" "for_each or_candidate c1 rs = Inr cs'"
    by (auto split: sum.splits)
  have "keys c1 = keys cs \<union> (if or_unit r then {citation_path r} else {})"
    using c1(1) by (auto simp: or_candidate_def or_unit_def Let_def split: if_splits)
  with Cons.IH[OF c1(2)] show ?case by auto
qed simp

lemma ut_candidates_keys:
  "for_each ut_candidate cs rs = Inr cs'
     \<Longrightarrow> keys cs' = keys cs \<union> (topic_of \<circ> citation_path) ` {r \<in> set rs. has_snap_marker r}"
proof (induction rs arbitrary: cs)
  case (Cons r rs)
  then obtain c1 where c1: "ut_candidate cs r = Inr c1" "for_each ut_candidate c1 rs = Inr cs'"
    by (auto split: sum.splits)
  have "keys c1 = keys cs \<union> (if has_snap_marker r then {topic_of (citation_path r)} else {})"
    using c1(1) by (auto simp: ut_candidate_def Let_def split: if_splits)
  with Cons.IH[OF c1(2)] show ?case by auto
qed simp

lemma snap_candidates_keys:
  assumes "snap_candidates P ors uts = Inr cands"
  shows "keys cands = citation_path ` {r \<in> set ors. or_unit r}
    \<union> (topic_of \<circ> citation_path) ` {r \<in> set uts. has_snap_marker r} \<union> {hd (p_priority_citations P)}"
proof -
  from assms obtain c1 c2 t where "for_each or_candidate [] ors = Inr c1" "for_each ut_candidate c1 uts = Inr c2"
      "cands = AList.update (hd (p_priority_citations P)) t c2"
    by (auto simp: snap_candidates_def Let_def split: option.splits)
  then show ?thesis
    using or_candidates_keys[of "[]" ors c1] ut_candidates_keys[of c1 uts c2] by (simp add: keys_def[of "[]"])
qed

lemma ordered_citations_Inr:
  assumes "ordered_citations P cands = Inr cites"
  shows "set cites = keys cands" "take (length (p_priority_citations P)) cites = p_priority_citations P"
    "sorted_wrt (<) (drop (length (p_priority_citations P)) cites)"
proof -
  from assms have c: "cites = p_priority_citations P @ sort (filter (\<lambda>c. c \<notin> set (p_priority_citations P)) (remdups (map fst cands)))"
      and sub: "set (p_priority_citations P) \<subseteq> keys cands"
    by (auto simp: ordered_citations_def Let_def filter_empty_conv split: if_splits)
  show "set cites = keys cands" using sub by (auto simp: c keys_def)
  show "take (length (p_priority_citations P)) cites = p_priority_citations P" by (simp add: c)
  show "sorted_wrt (<) (drop (length (p_priority_citations P)) cites)" by (simp add: c strict_sorted_iff)
qed

lemma payload_reads:
  "items_of (snap_payload P A m its) = its" "dget (snap_payload P A m its) ''activation'' = JNull"
  "dget (snap_payload P A m its) ''release'' = release_binding A m" "dget (snap_payload P A m its) ''dispatch'' = dispatch_binding A"
  "items_of (all_state_payload E P A b m its) = its" "dget (all_state_payload E P A b m its) ''activation'' = JNull"
  "dget (all_state_payload E P A b m its) ''release'' = release_binding A m"
  "dget (all_state_payload E P A b m its) ''dispatch'' = dispatch_binding A"
  by (cases "b_pause_reason A"; simp add: snap_payload_def all_state_payload_def with_pause_reason_def items_of_def comp_def)+

lemma build_snap_queue_Inr:
  assumes "build_snap_queue E C W A = Inr q"
  obtains P m ors uts cands cites counters its where "profile_of E snap_queue_id = Inr P"
    "verify_corpus_provenance E W A (or_paths W A @ ut_paths W A) = Inr m"
    "verify_signed_release_binding E C W A (or_paths W A @ ut_paths W A) = Inr ()"
    "load_jsonl W (or_paths W A) = Inr ors" "load_jsonl W (ut_paths W A) = Inr uts"
    "snap_candidates P ors uts = Inr cands" "ordered_citations P cands = Inr cites"
    "for_each (number_item cands) ([(''us-or'', 0), (''us-ut'', 0)], []) (enumerate 1 cites) = Inr (counters, its)"
    "q = snap_payload P A m its" "validate_queue E q = Inr ()"
  using assms by (auto simp: build_snap_queue_def Let_def)

lemma distinct_citations: "validate_queue E q = Inr () \<Longrightarrow> distinct (map item_citation (items_of q))"
  using validate_queue_inv[of E q] by (auto simp: queue_inv_def)

lemma place_citations: "map item_place its = map citation_place cites \<Longrightarrow> map item_citation its = cites"
  by (drule arg_cong[where f = "map snd"]) (simp add: item_place_def citation_place_def comp_def)

text \<open>C4. A queue that \<open>build_snap_queue\<close> returns is authentic: it is valid and paused (whatever state the caller asks
  for, so no build starts the dispatch of work), it names a corpus release whose signature was verified with
  a key of the given file, the release was made from the very commit that the corpus checkout is at and that the
  queue will dispatch, both checkouts are clean, and every corpus file the items were read from is an artifact
  of the release, with the bytes that the release signs.\<close>

theorem built_snap_queue_authentic:
  assumes "build_snap_queue E C W A = Inr q"
  shows "validate_queue E q = Inr () \<and> queue_state q = ''paused''
    \<and> release_bound E C W A (or_paths W A @ ut_paths W A) q"
  using assms
proof (rule build_snap_queue_Inr)
  fix P m its
  assume v: "verify_corpus_provenance E W A (or_paths W A @ ut_paths W A) = Inr m"
    "verify_signed_release_binding E C W A (or_paths W A @ ut_paths W A) = Inr ()"
    and q: "q = snap_payload P A m its" "validate_queue E q = Inr ()"
  show ?thesis
    using q(2) valid_without_activation[OF q(2)] binding_Inr[OF v(2,1), of q] by (simp add: q(1) payload_reads)
qed

text \<open>C5. The queue that \<open>build_snap_queue\<close> returns has exactly the source units of the corpus files: the citations of the Oregon
  records that are documents or mention SNAP, the topics of the Utah records that mention SNAP, and the
  one block of the first priority citation. No citation occurs twice, the priority citations come first, the rest is in strictly
  increasing order, every item waits for its first attempt, and the number in an item's id counts the
  items of its jurisdiction.\<close>

theorem built_snap_queue_inventory:
  assumes "build_snap_queue E C W A = Inr q"
  shows "\<exists>P or_records ut_records. profile_of E snap_queue_id = Inr P
    \<and> load_jsonl W (or_paths W A) = Inr or_records \<and> load_jsonl W (ut_paths W A) = Inr ut_records
    \<and> set (map item_citation (items_of q)) = citation_path ` {r \<in> set or_records. or_unit r}
        \<union> (topic_of \<circ> citation_path) ` {r \<in> set ut_records. has_snap_marker r} \<union> {hd (p_priority_citations P)}
    \<and> distinct (map item_citation (items_of q))
    \<and> take (length (p_priority_citations P)) (map item_citation (items_of q)) = p_priority_citations P
    \<and> sorted_wrt (<) (drop (length (p_priority_citations P)) (map item_citation (items_of q)))
    \<and> list_all fresh_item (items_of q) \<and> numbered_ids snap_code 4 (items_of q)"
  using assms
proof (rule build_snap_queue_Inr)
  fix P m ors uts cands cites counters its
  assume P: "profile_of E snap_queue_id = Inr P" and r: "load_jsonl W (or_paths W A) = Inr ors" "load_jsonl W (ut_paths W A) = Inr uts"
    and c: "snap_candidates P ors uts = Inr cands" "ordered_citations P cands = Inr cites"
    and loop: "for_each (number_item cands) ([(''us-or'', 0), (''us-ut'', 0)], []) (enumerate 1 cites) = Inr (counters, its)"
    and q: "q = snap_payload P A m its" "validate_queue E q = Inr ()"
  have n: "map item_place its = map citation_place cites \<and> list_all fresh_item its \<and> numbered_ids snap_code 4 its"
    using loop number_items_keys[OF loop] by (rule snap.numbering) (auto simp: keys_def)
  then have cites: "map item_citation (items_of q) = cites" by (simp add: q(1) payload_reads place_citations)
  show ?thesis
    using P r n distinct_citations[OF q(2)] ordered_citations_Inr[OF c(2)] snap_candidates_keys[OF c(1)]
    unfolding cites by (simp add: q(1) payload_reads)
qed

section \<open>The all-state queue\<close>

lemma add_scope_sources:
  "add_scope A av j entry srcs f = Inr srcs' \<Longrightarrow> fst ` set srcs' \<subseteq> insert j (fst ` set srcs)"
  by (fastforce simp: add_scope_def Let_def split: json.splits)

lemma add_state_Inr:
  assumes "add_state A av (seen, srcs) raw = Inr (seen', srcs')" "fst ` set srcs \<subseteq> set seen"
  shows "fst ` set srcs' \<subseteq> set seen'"
proof -
  from assms(1) obtain entry j where e: "seen' = seen @ [j]"
      "for_each (add_scope A av j entry) srcs [''target_scope'', ''supporting_scope''] = Inr srcs'"
    by (cases raw) (auto simp: add_state_def Let_def simp del: for_each.simps split: if_splits)
  then obtain s1 where "add_scope A av j entry srcs ''target_scope'' = Inr s1" and "add_scope A av j entry s1 ''supporting_scope'' = Inr srcs'"
    by (auto split: sum.splits)
  from this[THEN add_scope_sources] have "fst ` set srcs' \<subseteq> insert j (insert j (fst ` set srcs))" by blast
  then show ?thesis using assms(2) e(1) by auto
qed

lemma state_inventory_sources:
  assumes "state_inventory P W A = Inr (seen, srcs)"
  shows "fst ` set srcs \<subseteq> set seen"
proof -
  from assms obtain av states where loop: "for_each (add_state A av) ([], []) states = Inr (seen, srcs)"
    by (auto simp: state_inventory_def Let_def)
  show ?thesis
    using for_each_rule[OF loop, of "\<lambda>_ s. fst ` set (snd s) \<subseteq> set (fst s)"] add_state_Inr by force
qed

text \<open>The units of the sources, tagged with the jurisdiction of the source.\<close>

definition units_of :: "build_world \<Rightarrow> (string \<times> ppath) list \<Rightarrow> (string \<times> jobj) set" where
  "units_of W sources = {(j, r). \<exists>p recs us. (j, p) \<in> set sources \<and> load_jsonl W [p] = Inr recs
     \<and> logical_source_units recs = Inr us \<and> r \<in> set us}"

lemma add_units:
  "for_each (add_unit j) cands us = Inr cands' \<Longrightarrow> set cands' = set cands \<union> Pair j ` set us
     \<and> (distinct (map (citation_path \<circ> snd) cands) \<longrightarrow> distinct (map (citation_path \<circ> snd) cands'))"
proof (induction us arbitrary: cands)
  case (Cons u us)
  then obtain c1 where c1: "add_unit j cands u = Inr c1" "for_each (add_unit j) c1 us = Inr cands'"
    by (auto split: sum.splits)
  have "c1 = cands @ [(j, u)]" "citation_path u \<notin> set (map (citation_path \<circ> snd) cands)"
    using c1(1) by (auto simp: add_unit_def split: if_splits)
  with Cons.IH[OF c1(2)] show ?case by auto
qed simp

lemma add_sources:
  "for_each (add_source W) cands srcs = Inr cands' \<Longrightarrow> set cands' = set cands \<union> units_of W srcs
     \<and> (distinct (map (citation_path \<circ> snd) cands) \<longrightarrow> distinct (map (citation_path \<circ> snd) cands'))"
proof (induction srcs arbitrary: cands)
  case Nil
  then show ?case by (simp add: units_of_def)
next
  case (Cons s srcs)
  obtain j p where s: "s = (j, p)" by (cases s) auto
  from Cons.prems obtain c1 where c1: "add_source W cands s = Inr c1" "for_each (add_source W) c1 srcs = Inr cands'"
    by (auto split: sum.splits)
  then obtain recs us where u: "load_jsonl W [p] = Inr recs" "logical_source_units recs = Inr us" "for_each (add_unit j) cands us = Inr c1"
    by (auto simp: add_source_def s)
  have "units_of W (s # srcs) = Pair j ` set us \<union> units_of W srcs"
    using u(1,2) by (auto simp: units_of_def s)
  then show ?case using Cons.IH[OF c1(2)] add_units[OF u(3)] unfolding comp_def by auto
qed

lemma build_all_state_Inr:
  assumes "build_all_state_snap_queue E C W A = Inr q"
  obtains P seen srcs m cands counters its b where "profile_of E all_state_queue_id = Inr P" "state_inventory P W A = Inr (seen, srcs)"
    "verify_corpus_provenance E W A (map snd srcs) = Inr m" "verify_signed_release_binding E C W A (map snd srcs) = Inr ()"
    "for_each (add_source W) [] srcs = Inr cands"
    "for_each number_unit (map (\<lambda>j. (j, 0)) (sort seen), []) (enumerate 1 (sort_key unit_place cands)) = Inr (counters, its)"
    "q = all_state_payload E P A b m its" "validate_queue E q = Inr ()"
  using assms by (auto simp: build_all_state_snap_queue_def unit_place_def Let_def)

text \<open>C6. The queue that \<open>build_all_state_snap_queue\<close> returns is valid and paused, bound to the verified release like the one above,
  and its items are exactly the logical source units of the files that the state inventory names, each under the
  jurisdiction that names the file, in strictly increasing order of jurisdiction and citation; each waits
  for its first attempt and its id counts the items of its jurisdiction.\<close>

theorem built_all_state_queue_inventory:
  assumes "build_all_state_snap_queue E C W A = Inr q"
  shows "validate_queue E q = Inr () \<and> queue_state q = ''paused''
    \<and> (\<exists>P seen sources units. profile_of E all_state_queue_id = Inr P \<and> state_inventory P W A = Inr (seen, sources)
        \<and> release_bound E C W A (map snd sources) q
        \<and> set units = units_of W sources \<and> sorted_wrt (<) (map unit_place units)
        \<and> map item_place (items_of q) = map unit_place units)
    \<and> list_all fresh_item (items_of q) \<and> numbered_ids (drop 3) 5 (items_of q)"
  using assms
proof (rule build_all_state_Inr)
  fix P seen srcs m cands counters its b
  let ?units = "sort_key unit_place cands"
  assume P: "profile_of E all_state_queue_id = Inr P" "state_inventory P W A = Inr (seen, srcs)"
    and v: "verify_corpus_provenance E W A (map snd srcs) = Inr m" "verify_signed_release_binding E C W A (map snd srcs) = Inr ()"
    and c: "for_each (add_source W) [] srcs = Inr cands"
    and loop: "for_each number_unit (map (\<lambda>j. (j, 0)) (sort seen), []) (enumerate 1 ?units) = Inr (counters, its)"
    and q: "q = all_state_payload E P A b m its" "validate_queue E q = Inr ()"
  from add_sources[OF c] have u: "set cands = units_of W srcs" "distinct (map (citation_path \<circ> snd) cands)" by auto
  have "fst ` units_of W srcs \<subseteq> set seen"
    using state_inventory_sources[OF P(2)] by (fastforce simp: units_of_def)
  then have "fst ` unit_place ` set ?units \<subseteq> keys (map (\<lambda>j. (j, 0::nat)) (sort seen))"
    using u(1) by (fastforce simp: unit_place_def keys_def)
  from all_state.numbering[OF loop this]
  have n: "map item_place its = map unit_place ?units \<and> list_all fresh_item its \<and> numbered_ids (drop 3) 5 its"
    by (auto simp: keys_def map_of_eq_Some_iff map_of_map_restrict)
  have "distinct (map unit_place cands)"
    using u(2) distinct_map[of snd "map unit_place cands"] by (auto simp: unit_place_def comp_def split_def)
  then have "sorted_wrt (<) (map unit_place ?units)" by (simp add: strict_sorted_iff)
  moreover have "set ?units = units_of W srcs" using u(1) by simp
  ultimately show ?thesis
    using P q(2) n valid_without_activation[OF q(2)] binding_Inr[OF v(2,1), of q] unfolding q(1) payload_reads by blast
qed

end
