(* ===== verification/Queue_Build_Examples.thy ===== *)
theory Queue_Build_Examples
  imports Queue_Build_Facts Queue_Examples Release_Examples
begin

text \<open>
  A corpus checkout with one Oregon and one Utah file, a release object of these two scopes and its key file, on
  which both builders return a queue. The profiles are those of the program with smaller counts and one
  priority citation; digests are constant and one key verifies, as in \<open>Release_Examples\<close>.
\<close>

section \<open>The corpus files\<close>

definition or_record :: jobj where
  "or_record = [(''citation_path'', JStr ''us-or/manual/odhs''), (''heading'', JStr ''Open'' ), (''kind'', JStr ''document''), (''ordinal'', JInt 1)]"

definition ut_record :: jobj where
  "ut_record = [(''body'', JStr ''limits''), (''citation_path'', JStr ''us-ut/manual/t/block-1''), (''heading'', JStr ''Limits''), (''kind'', JStr ''block'')]"

definition manifest_scope :: "string \<Rightarrow> string \<Rightarrow> json" where
  "manifest_scope j v = JObj [(''document_class'', JStr ''manual''), (''jurisdiction'', JStr j), (''version'', JStr v)]"

definition built_manifest :: jobj where
  "built_manifest = [(''name'', JStr ''r-1''), (''scopes'', JArr [manifest_scope ''us-or'' ''a'', manifest_scope ''us-ut'' ''b''])]"

section \<open>The release\<close>

text \<open>The members of every object are written in order, so that the file gives the object back as it is.\<close>

definition built_artifact :: "string \<Rightarrow> string \<Rightarrow> jobj \<Rightarrow> json" where
  "built_artifact cls p rows = JObj ([(''artifact_class'', JStr cls), (''bytes'', JInt 9), (''path'', JStr (''data/corpus/'' @ cls @ p)),
    (''r2_bucket'', JStr ''b''), (''r2_key'', JStr (r2_key zero_digest))] @ rows @ [(''sha256'', JStr zero_digest)])"

definition built_raw_artifacts :: "json list" where
  "built_raw_artifacts =
     [built_artifact ''coverage'' ''/us-or/manual/a.json'' [], built_artifact ''coverage'' ''/us-ut/manual/b.json'' [],
      built_artifact ''inventory'' ''/us-or/manual/a.json'' [], built_artifact ''inventory'' ''/us-ut/manual/b.json'' [],
      built_artifact ''provisions'' ''/us-or/manual/a.jsonl'' [(''rows'', JInt 1)],
      built_artifact ''provisions'' ''/us-ut/manual/b.jsonl'' [(''rows'', JInt 1)],
      built_artifact ''sources'' ''/us-or/manual/a/x'' [], built_artifact ''sources'' ''/us-ut/manual/b/x'' []]"

definition built_raw_scope :: "string \<Rightarrow> string \<Rightarrow> json" where
  "built_raw_scope j v = JObj [(''document_class'', JStr ''manual''), (''jurisdiction'', JStr j),
     (''navigation_projection_sha256'', JStr zero_digest), (''navigation_rows'', JInt 1),
     (''provision_projection_sha256'', JStr zero_digest), (''provision_rows'', JInt 1), (''version'', JStr v)]"

definition built_evidence :: "string \<Rightarrow> string \<Rightarrow> json" where
  "built_evidence j v = JObj [(''actual'', JInt 1), (''actual_navigation'', JInt 1),
     (''actual_navigation_projection_sha256'', JStr zero_digest), (''actual_provision_projection_sha256'', JStr zero_digest),
     (''document_class'', JStr ''manual''), (''expected'', JInt 1), (''expected_navigation'', JInt 1),
     (''expected_navigation_projection_sha256'', JStr zero_digest), (''expected_provision_projection_sha256'', JStr zero_digest),
     (''jurisdiction'', JStr j), (''version'', JStr v)]"

definition built_validation :: json where
  "built_validation = JObj
     [(''deep_validation'', JObj [(''error_count'', JInt 0), (''scope_count'', JInt 2), (''warning_count'', JInt 0)]),
      (''passed'', JBool True),
      (''r2_readback'', JObj [(''artifact_bytes'', JInt 72), (''artifact_count'', JInt 8), (''bucket'', JStr ''b''),
         (''verified_keys'', JArr (replicate 8 (JStr (r2_key zero_digest))))]),
      (''supabase_projection_evidence'', JArr [built_evidence ''us-or'' ''a'', built_evidence ''us-ut'' ''b''])]"

definition built_content :: jobj where
  "built_content = [(''artifacts'', JArr built_raw_artifacts), (''corpus_base'', JStr ''data/corpus''), (''created_at'', JStr ''now''),
     (''git'', JObj [(''commit'', JStr commit_a), (''committed_at'', JStr ''now'')]),
     (''r2'', JObj [(''addressing'', JStr ''sha256''), (''bucket'', JStr ''b'')]), (''release'', JStr ''r-1''),
     (''scopes'', JArr [built_raw_scope ''us-or'' ''a'', built_raw_scope ''us-ut'' ''b'']),
     (''selector_sha256'', JStr zero_digest), (''validation'', built_validation)]"

definition built_release :: jobj where
  "built_release = [(''content'', JObj built_content), (''content_sha256'', JStr zero_digest), (''release'', JStr ''r-1''),
    (''schema_version'', JStr ''axiom-corpus/release-object/v2''), (''signature'', toy_signature)]"

section \<open>The checkouts\<close>

definition built_state :: "string \<Rightarrow> string \<Rightarrow> json" where
  "built_state j v = JObj [(''jurisdiction'', JStr j), (''queue_status'', JStr ''published_current''), (''target_scope'', manifest_scope j v)]"

definition built_inventory :: json where
  "built_inventory = JObj [(''program'', JStr ''SNAP''), (''states'', JArr [built_state ''us-ut'' ''b'', built_state ''us-or'' ''a''])]"

definition built_world :: build_world where
  "built_world = \<lparr>corpus = toy_checkout\<lparr>head_commit := Some commit_a\<rparr>,
     rulespec = toy_checkout\<lparr>toolchain := Some (JObj [(''toolchain'', JObj [(''axiom_corpus_release'', JStr ''r-1''),
       (''axiom_corpus_release_content_sha256'', JStr zeros)])])\<rparr>,
     read_bytes = map_of
       [([''c'', ''data'', ''corpus'', ''provisions'', ''us-or'', ''manual'', ''a.jsonl''], concat (map row_text [or_record])),
        ([''c'', ''data'', ''corpus'', ''provisions'', ''us-ut'', ''manual'', ''b.jsonl''], concat (map row_text [ut_record])),
        ([''c'', ''manifests'', ''releases'', ''r-1.json''], dumps (JObj built_manifest)),
        ([''o''], dumps (JObj built_release)), ([''k''], toy_key @ [CHR 0x0A]),
        ([''c'', ''manifests'', ''state-snap-manual-agent-queue.yaml''], [])],
     names_in = (\<lambda>d. if d = [''c'', ''data'', ''corpus'', ''provisions'', ''us-or'', ''manual''] then [''note.txt'', ''a.jsonl'']
       else if d = [''c'', ''data'', ''corpus'', ''provisions'', ''us-ut'', ''manual''] then [''b.jsonl''] else []),
     float_repr_of = id, nesting_limit = 10, yaml_safe_load = (\<lambda>_. Some built_inventory)\<rparr>"

definition built_args :: build_args where
  "built_args = \<lparr>corpus_root = [''c''], b_corpus_ref = commit_a, b_rulespec_ref = commit_b, b_rules_engine_ref = commit_b,
     b_release_name = ''r-1'', b_release_content_sha256 = zeros, release_object_path = [''o''],
     release_public_key_path = [''k''], b_state = ''paused'', b_pause_reason = Some ''awaiting review''\<rparr>"

definition built_profile :: profile where
  "built_profile = \<lparr>p_activation_path = ''data/toy.json'',
     p_expected_counts = [(''total'', 2), (''us-or'', 1), (''us-ut'', 1)], p_issue = 1257, p_inventory = JNull,
     p_item_width = 4, p_priority_citations = [''us-ut/manual/t/block-1''], p_supersedes = JNull\<rparr>"

definition built_all_profile :: profile where
  "built_all_profile = \<lparr>p_activation_path = ''data/toy.json'',
     p_expected_counts = [(''total'', 2), (''us-or'', 1), (''us-ut'', 1)], p_issue = 1287,
     p_inventory = JObj [(''jurisdictions'', JInt 2), (''path'', JStr ''manifests/state-snap-manual-agent-queue.yaml''), (''sha256'', JStr zeros)],
     p_item_width = 5, p_priority_citations = [], p_supersedes = JArr [JStr snap_queue_id]\<rparr>"

definition built_env :: queue_env where
  "built_env = \<lparr>profile_of = (\<lambda>s. if s = snap_queue_id then Inr built_profile
       else if s = all_state_queue_id then Inr built_all_profile else invalid ''unsupported protected SNAP queue''),
     sha = (\<lambda>_. zeros)\<rparr>"

section \<open>What is read\<close>


lemma one_digit: "fits (JInt 0) d" "fits (JInt 1) d" "fits (JInt 2) d" "fits (JInt 8) d" "fits (JInt 9) d" "fits (JInt 72) d"
  by (simp_all add: nat_repr.simps max_int_digits_def)

lemma built_parts_fit:
  "3 < d \<Longrightarrow> fits (built_artifact c p []) d" "3 < d \<Longrightarrow> fits (built_artifact c p [(''rows'', JInt 1)]) d"
  "3 < d \<Longrightarrow> fits (built_raw_scope j v) d" "3 < d \<Longrightarrow> fits (built_evidence j v) d"
  by (simp_all add: built_artifact_def built_raw_scope_def built_evidence_def one_digit del: fits.simps(3))

lemma built_parts_sorted:
  "sort_keys (built_artifact c p []) = built_artifact c p []"
  "sort_keys (built_artifact c p [(''rows'', JInt 1)]) = built_artifact c p [(''rows'', JInt 1)]"
  "sort_keys (built_raw_scope j v) = built_raw_scope j v" "sort_keys (built_evidence j v) = built_evidence j v"
  by (simp_all add: built_artifact_def built_raw_scope_def built_evidence_def)

lemma built_validation_ok: "fits built_validation 8" "sort_keys built_validation = built_validation"
  by (simp_all add: built_validation_def one_digit built_parts_fit built_parts_sorted list_all_iff del: fits.simps(3))

lemma built_content_ok: "fits (JObj built_content) 9" "sort_keys (JObj built_content) = JObj built_content"
  unfolding built_content_def by (simp_all add: built_validation_ok built_raw_artifacts_def built_parts_fit built_parts_sorted)

lemma built_fits: "fits (JObj or_record) 10" "fits (JObj ut_record) 10" "fits (JObj built_manifest) 10" "fits (JObj built_release) 10"
  using built_content_ok(1)
  by (simp_all add: or_record_def ut_record_def built_manifest_def manifest_scope_def built_release_def toy_signature_def one_digit del: fits.simps(3))

lemma built_sorted: "sort_keys (JObj or_record) = JObj or_record" "sort_keys (JObj ut_record) = JObj ut_record"
  "sort_keys (JObj built_manifest) = JObj built_manifest" "sort_keys (JObj built_release) = JObj built_release"
  using built_content_ok by (simp_all add: or_record_def ut_record_def built_manifest_def manifest_scope_def built_release_def toy_signature_def)

lemma built_dirs:
  "path_join (provisions_dir built_args) ''us-or/manual'' = [''c'', ''data'', ''corpus'', ''provisions'', ''us-or'', ''manual'']"
  "path_join (provisions_dir built_args) ''us-ut/manual'' = [''c'', ''data'', ''corpus'', ''provisions'', ''us-ut'', ''manual'']"
  "release_manifest_path built_args = [''c'', ''manifests'', ''releases'', ''r-1.json'']"
  "filter (suffix ''.jsonl'') [''note.txt'', ''a.jsonl''] = [''a.jsonl'']" "filter (suffix ''.jsonl'') [''b.jsonl''] = [''b.jsonl'']"
  by code_simp+

lemma built_sources: "or_paths built_world built_args = [[''c'', ''data'', ''corpus'', ''provisions'', ''us-or'', ''manual'', ''a.jsonl'']]"
  "ut_paths built_world built_args = [[''c'', ''data'', ''corpus'', ''provisions'', ''us-ut'', ''manual'', ''b.jsonl'']]"
  by (simp_all add: or_paths_def ut_paths_def jsonl_in_def built_dirs built_dirs(4,5)[simplified] built_world_def)

lemma built_nesting: "nesting_limit built_world = 10"
  by (simp add: built_world_def)

lemma built_rows: "load_jsonl built_world (or_paths built_world built_args) = Inr [or_record]"
  "load_jsonl built_world (ut_paths built_world built_args) = Inr [ut_record]"
  unfolding built_sources
   apply (subst load_jsonl_rows[of _ _ "[or_record]"])
  apply (simp add: built_world_def)
  using built_fits built_sorted built_nesting apply (simp_all del: fits.simps sort_keys.simps)
  apply (subst load_jsonl_rows[of _ _ "[ut_record]"])
  apply (simp_all add: built_world_def del: fits.simps sort_keys.simps)
  done

lemma built_json: "load_json_at built_world (release_manifest_path built_args) = Inr built_manifest"
  "load_json_at built_world (release_object_path built_args) = Inr built_release"
proof -
  have "read_bytes built_world (release_manifest_path built_args) = Some (dumps (JObj built_manifest))"
    "read_bytes built_world (release_object_path built_args) = Some (dumps (JObj built_release))"
    unfolding built_dirs by (simp_all add: built_world_def built_args_def)
  from this[THEN load_json_at_dumps] built_fits(3,4)
  show "load_json_at built_world (release_manifest_path built_args) = Inr built_manifest"
    "load_json_at built_world (release_object_path built_args) = Inr built_release"
    unfolding built_nesting built_sorted by simp_all
qed

section \<open>What is verified\<close>

lemma built_key: "read_text built_world (release_public_key_path built_args) = Inr (toy_key @ [CHR 0x0A])"
proof -
  have "list_all (\<lambda>c. code c < 128 \<and> code c \<noteq> 13) (toy_key @ [CHR 0x0A])" by code_simp
  then have "code c < 128 \<and> code c \<noteq> 13" if "c \<in> set (toy_key @ [CHR 0x0A])" for c using that unfolding list_all_iff by blast
  then show ?thesis by (intro read_text_plain) (simp add: built_world_def built_args_def)
qed

lemma built_inputs: "release_inputs built_world built_args = Inr (built_release, [toy_key])"
proof -
  have "nonblank_lines (toy_key @ [CHR 0x0A]) = [toy_key]" by code_simp
  then show ?thesis by (simp add: release_inputs_def built_json built_key)
qed

definition built_scopes :: "release_scope list" where
  "built_scopes = map (\<lambda>(j, v). \<lparr>jurisdiction = j, document_class = ''manual'', version = v, provision_rows = 1,
     provision_projection_sha256 = zero_digest, navigation_projection_sha256 = zero_digest\<rparr>) [(''us-or'', ''a''), (''us-ut'', ''b'')]"

definition built_artifacts :: "release_artifact list" where
  "built_artifacts = map (\<lambda>(c, p, r). \<lparr>artifact_class = c, path = ''data/corpus/'' @ c @ p, sha256_hex = zero_digest, byte_count = 9, row_count = r\<rparr>)
     [(''coverage'', ''/us-or/manual/a.json'', None), (''coverage'', ''/us-ut/manual/b.json'', None),
      (''inventory'', ''/us-or/manual/a.json'', None), (''inventory'', ''/us-ut/manual/b.json'', None),
      (''provisions'', ''/us-or/manual/a.jsonl'', Some 1), (''provisions'', ''/us-ut/manual/b.jsonl'', Some 1),
      (''sources'', ''/us-or/manual/a/x'', None), (''sources'', ''/us-ut/manual/b/x'', None)]"

definition built_verified :: verified_release where
  "built_verified = \<lparr>name = ''r-1'', content_sha256 = zero_digest, selector_sha256 = zero_digest,
     scopes = built_scopes, artifacts = built_artifacts\<rparr>"

lemma built_checks:
  "validate_scopes [built_raw_scope ''us-or'' ''a'', built_raw_scope ''us-ut'' ''b''] = Inr built_scopes"
  "validate_artifacts built_raw_artifacts ''b'' = Inr built_artifacts"
  "validate_scope_artifact_membership built_scopes built_artifacts = Inr ()"
  "validate_validation_attestation built_validation built_scopes built_artifacts ''b'' None = Inr ()"
  by code_simp+

lemma built_reads:
  "dget built_content ''scopes'' = JArr [built_raw_scope ''us-or'' ''a'', built_raw_scope ''us-ut'' ''b'']"
  "dget built_content ''artifacts'' = JArr built_raw_artifacts" "dget built_content ''selector_sha256'' = JStr zero_digest"
  "dget built_content ''validation'' = built_validation" "dget (obj_of (dget built_content ''r2'')) ''bucket'' = JStr ''b''"
  "dget built_content ''release'' = JStr ''r-1''" "dget built_content ''corpus_base'' = JStr ''data/corpus''"
  "dget built_release ''schema_version'' = JStr release_object_schema_v2"
  "dget built_release ''release'' = JStr ''r-1''" "dget built_release ''content_sha256'' = JStr zero_digest"
  "dget built_release ''content'' = JObj built_content" "dget built_release ''signature'' = toy_signature"
  "dget (obj_of (git_of built_release)) ''commit'' = JStr commit_a" "is_obj (git_of built_release)"
  by (simp_all add: built_content_def built_release_def release_object_schema_v2_def git_of_def dget_def)

lemma built_frame:
  "keys built_content = set (content_fields release_object_schema_v2)"
  "keys built_release = {''schema_version'', ''release'', ''content_sha256'', ''content'', ''signature''}"
  by code_simp+

lemma built_frame_ok:
  "git_ok (dget built_content ''git'')" "r2_ok (dget built_content ''r2'')" "nonempty_str (dget built_content ''created_at'')"
  by code_simp+

lemma built_release_verifies: "verify_release_object toy_crypto built_release (Ring [JStr toy_key]) = Inr built_verified"
proof -
  have ne: "built_raw_artifacts \<noteq> []" "release_object_schema_v2 \<noteq> release_object_schema_version"
    by (simp_all add: built_raw_artifacts_def release_object_schema_v2_def release_object_schema_version_def)
  have "validate_release_content toy_crypto ''r-1'' None zero_digest built_content = Inr built_verified"
    by (simp add: validate_release_content_def built_reads built_checks ne is_sha_def zero_digest_ok built_verified_def)
  then have "validate_unsigned_release_object toy_crypto built_release = Inr built_verified"
    by (simp add: validate_unsigned_release_object_def Let_def built_reads built_frame built_frame_ok toy_frame_ok ne in_strs_def)
  moreover have "ed25519_verify toy_crypto (replicate 32 CHR ''K'') s m" for s m
    by (simp add: toy_crypto_def)
  ultimately show ?thesis
    by (simp add: verify_release_object_def built_reads toy_signature_ok release_public_keyring_def toy_key_ok)
qed

section \<open>The Oregon and Utah queue\<close>

lemma built_env_reads [simp]: "sha built_env x = zeros" "profile_of built_env snap_queue_id = Inr built_profile"
  "profile_of built_env all_state_queue_id = Inr built_all_profile"
  by (simp_all add: built_env_def all_state_queue_id_def snap_queue_id_def)

lemma built_checkouts:
  "head_commit (corpus built_world) = Some commit_a" "status_porcelain (corpus built_world) = Some []"
  "head_commit (rulespec built_world) = Some commit_b" "status_porcelain (rulespec built_world) = Some []"
  "load_release_pin (toolchain (rulespec built_world)) = Inr (''r-1'', zeros)"
proof -
  have "load_release_pin (Some (JObj [(''toolchain'', JObj [(''axiom_corpus_release'', JStr ''r-1''),
       (''axiom_corpus_release_content_sha256'', JStr zeros)])])) = Inr (''r-1'', zeros)" by code_simp
  then show "load_release_pin (toolchain (rulespec built_world)) = Inr (''r-1'', zeros)" by (simp add: built_world_def)
qed (simp_all add: built_world_def toy_checkout_def)

lemma built_arg_reads:
  "b_corpus_ref built_args = commit_a" "b_rulespec_ref built_args = commit_b" "b_release_name built_args = ''r-1''"
  "b_release_content_sha256 built_args = zeros" "corpus_root built_args = [''c'']" "check_refs built_args = Inr ()"
  "queue_release_name_re ''r-1''"
proof -
  show "check_refs built_args = Inr ()" by code_simp
  show "queue_release_name_re ''r-1''" by code_simp
qed (simp_all add: built_args_def)

definition built_or_path :: ppath where
  "built_or_path = [''c'', ''data'', ''corpus'', ''provisions'', ''us-or'', ''manual'', ''a.jsonl'']"

definition built_ut_path :: ppath where
  "built_ut_path = [''c'', ''data'', ''corpus'', ''provisions'', ''us-ut'', ''manual'', ''b.jsonl'']"

lemma built_required:
  "required_scope built_args built_or_path = Inr (''us-or'', ''manual'', ''a'')"
  "required_scope built_args built_ut_path = Inr (''us-ut'', ''manual'', ''b'')"
  "available_scopes [manifest_scope ''us-or'' ''a'', manifest_scope ''us-ut'' ''b'']
    = Inr [(JStr ''us-or'', JStr ''manual'', JStr ''a''), (JStr ''us-ut'', JStr ''manual'', JStr ''b'')]"
  by code_simp+

lemma built_files: "\<exists>b. read_bytes built_world built_or_path = Some b" "\<exists>b. read_bytes built_world built_ut_path = Some b"
  "\<exists>b. read_bytes built_world (release_manifest_path built_args) = Some b"
  "read_bytes built_world (inventory_path built_args) = Some []"
proof -
  have "inventory_path built_args = [''c'', ''manifests'', ''state-snap-manual-agent-queue.yaml'']" by code_simp
  then show "read_bytes built_world (inventory_path built_args) = Some []" by (simp add: built_world_def)
qed (simp_all add: built_world_def built_or_path_def built_ut_path_def built_dirs)

lemma built_provenance:
  assumes "set sources \<subseteq> {built_or_path, built_ut_path}"
  shows "verify_corpus_provenance built_env built_world built_args sources = Inr zeros"
proof -
  obtain b where b: "file_content built_world (release_manifest_path built_args) = Inr b"
    using built_files(3) by (auto simp: file_content_def)
  have m: "dget built_manifest ''name'' = JStr ''r-1''"
    "dget built_manifest ''scopes'' = JArr [manifest_scope ''us-or'' ''a'', manifest_scope ''us-ut'' ''b'']"
    by (simp_all add: built_manifest_def)
  obtain req where req: "map_r (required_scope built_args) sources = Inr req"
      "set req \<subseteq> {(''us-or'', ''manual'', ''a''), (''us-ut'', ''manual'', ''b'')}"
  proof -
    let ?g = "\<lambda>p. if p = built_or_path then (''us-or'', ''manual'', ''a'') else (''us-ut'', ''manual'', ''b'')"
    have "map_r (required_scope built_args) sources = Inr (map ?g sources)"
      using assms built_required by (intro map_r_pure) auto
    then show ?thesis using that[of "map ?g sources"] by auto
  qed
  have "filter (\<lambda>s. \<not> scope_listed [(JStr ''us-or'', JStr ''manual'', JStr ''a''), (JStr ''us-ut'', JStr ''manual'', JStr ''b'')] s) req = []"
    using req(2) by (auto simp: filter_empty_conv scope_listed_def)
  then show ?thesis
    by (simp add: verify_corpus_provenance_def Let_def built_checkouts built_arg_reads built_json m req(1) built_required b)
qed

lemma built_artifact_at:
  "artifact_at built_artifacts ''data/corpus/provisions/us-or/manual/a.jsonl'' = Some (built_artifacts ! 4)"
  "artifact_at built_artifacts ''data/corpus/provisions/us-ut/manual/b.jsonl'' = Some (built_artifacts ! 5)"
  "sha256_hex (built_artifacts ! 4) = zeros" "sha256_hex (built_artifacts ! 5) = zeros"
  by code_simp+

lemma built_relative:
  "map_option path_str (relative_to built_or_path [''c'']) = Some ''data/corpus/provisions/us-or/manual/a.jsonl''"
  "map_option path_str (relative_to built_ut_path [''c'']) = Some ''data/corpus/provisions/us-ut/manual/b.jsonl''"
  by code_simp+

lemma built_source_ok:
  assumes "p \<in> {built_or_path, built_ut_path}"
  shows "check_source built_env built_world built_args built_artifacts p = Inr ()"
  using assms built_relative built_files(1,2)
  by (auto simp: check_source_def built_arg_reads built_artifact_at file_content_def)

lemma built_binding:
  assumes "set sources \<subseteq> {built_or_path, built_ut_path}"
  shows "verify_signed_release_binding built_env toy_crypto built_world built_args sources = Inr ()"
proof -
  have "name built_verified = ''r-1''" "content_sha256 built_verified = zeros" "artifacts built_verified = built_artifacts"
    by (simp_all add: built_verified_def zeros_def zero_digest_def)
  then show ?thesis
    using assms built_source_ok
    by (auto simp: verify_signed_release_binding_def built_checkouts built_arg_reads built_inputs built_release_verifies
        built_reads checks_Inr_iff)
qed

definition built_items :: "jobj list" where
  "built_items = [queue_item ''us-ut/manual/t/block-1'' ''ut-0001'' ''us-ut'' ''Limits'' 1 (JStr ''block''),
     queue_item ''us-or/manual/odhs'' ''or-0001'' ''us-or'' ''Open'' 2 (JStr ''document'')]"

definition built_queue :: jobj where
  "built_queue = snap_payload built_profile built_args zeros built_items"

lemma built_snap_steps:
  "snap_candidates built_profile [or_record] [ut_record]
    = Inr [(''us-or/manual/odhs'', ''document'', ''Open''), (''us-ut/manual/t/block-1'', ''block'', ''Limits'')]"
  "ordered_citations built_profile [(''us-or/manual/odhs'', ''document'', ''Open''), (''us-ut/manual/t/block-1'', ''block'', ''Limits'')]
    = Inr [''us-ut/manual/t/block-1'', ''us-or/manual/odhs'']"
  "for_each (number_item [(''us-or/manual/odhs'', ''document'', ''Open''), (''us-ut/manual/t/block-1'', ''block'', ''Limits'')])
      ([(''us-or'', 0), (''us-ut'', 0)], []) (enumerate 1 [''us-ut/manual/t/block-1'', ''us-or/manual/odhs''])
    = Inr ([(''us-or'', 1), (''us-ut'', 1)], built_items)"
  "py_eq (counts_json (counts_of built_items [(''us-or'', 1), (''us-ut'', 1)])) (counts_json (p_expected_counts built_profile))"
  "validate_queue built_env built_queue = Inr ()"
  by code_simp+

lemma built_snap_queue: "build_snap_queue built_env toy_crypto built_world built_args = Inr built_queue"
proof -
  have s: "set (or_paths built_world built_args @ ut_paths built_world built_args) \<subseteq> {built_or_path, built_ut_path}"
    by (simp add: built_sources built_or_path_def built_ut_path_def)
  show ?thesis
    unfolding build_snap_queue_def Let_def
    by (simp add: built_arg_reads built_provenance[OF s] built_binding[OF s] built_rows built_snap_steps(1-4)
        built_snap_steps(5)[unfolded built_queue_def] built_queue_def del: enumerate_simps One_nat_def)
qed

theorem built_snap_queue_authentic_witness:
  "build_snap_queue built_env toy_crypto built_world built_args = Inr built_queue \<and> queue_state built_queue = ''paused''"
  using built_snap_queue_authentic[OF built_snap_queue] built_snap_queue by simp

theorem built_snap_queue_inventory_witness:
  "distinct (map item_citation (items_of built_queue)) \<and> list_all fresh_item (items_of built_queue)
     \<and> map item_id (items_of built_queue) = [''ut-0001'', ''or-0001'']"
  using built_snap_queue_inventory[OF built_snap_queue]
  by (simp add: built_queue_def payload_reads built_items_def)

section \<open>The all-state queue\<close>

definition built_sources_of :: "(string \<times> ppath) list" where
  "built_sources_of = [(''us-ut'', built_ut_path), (''us-or'', built_or_path)]"

definition built_all_items :: "jobj list" where
  "built_all_items = [queue_item ''us-or/manual/odhs'' ''or-00001'' ''us-or'' ''Open'' 1 (JStr ''document''),
     queue_item ''us-ut/manual/t/block-1'' ''ut-00001'' ''us-ut'' ''Limits'' 2 (JStr ''block'')]"

definition built_all_queue :: jobj where
  "built_all_queue = all_state_payload built_env built_all_profile built_args [] zeros built_all_items"

lemma built_states_loop:
  "for_each (add_state built_args [(JStr ''us-or'', JStr ''manual'', JStr ''a''), (JStr ''us-ut'', JStr ''manual'', JStr ''b'')]) ([], [])
     [built_state ''us-ut'' ''b'', built_state ''us-or'' ''a''] = Inr ([''us-ut'', ''us-or''], built_sources_of)"
  "inventory_size built_all_profile = 2"
  by code_simp+

lemma built_state_inventory:
  "state_inventory built_all_profile built_world built_args = Inr ([''us-ut'', ''us-or''], built_sources_of)"
proof -
  have "read_text built_world (inventory_path built_args) = Inr []"
    using built_files(4) by (simp add: read_text_def file_content_def)
  then have "load_inventory built_world built_args = Inr built_inventory"
    by (simp add: load_inventory_def built_world_def)
  moreover have "dget built_manifest ''scopes'' = JArr [manifest_scope ''us-or'' ''a'', manifest_scope ''us-ut'' ''b'']"
    by (simp add: built_manifest_def)
  moreover have "is_obj built_inventory" "dget (obj_of built_inventory) ''program'' = JStr ''SNAP''"
    "dget (obj_of built_inventory) ''states'' = JArr [built_state ''us-ut'' ''b'', built_state ''us-or'' ''a'']"
    by (simp_all add: built_inventory_def)
  ultimately show ?thesis
    by (simp add: state_inventory_def built_json built_required built_states_loop del: for_each.simps)
qed

lemma built_all_steps:
  "logical_source_units [or_record] = Inr [or_record]" "logical_source_units [ut_record] = Inr [ut_record]"
  "for_each (add_unit ''us-ut'') [] [ut_record] = Inr [(''us-ut'', ut_record)]"
  "for_each (add_unit ''us-or'') [(''us-ut'', ut_record)] [or_record] = Inr [(''us-ut'', ut_record), (''us-or'', or_record)]"
  "sort_key (\<lambda>(j, r). (j, citation_path r)) [(''us-ut'', ut_record), (''us-or'', or_record)] = [(''us-or'', or_record), (''us-ut'', ut_record)]"
  "for_each number_unit (map (\<lambda>j. (j, 0)) (sort [''us-ut'', ''us-or'']), []) (enumerate 1 [(''us-or'', or_record), (''us-ut'', ut_record)])
    = Inr ([(''us-or'', 1), (''us-ut'', 1)], built_all_items)"
  "py_eq (counts_json (counts_of built_all_items [(''us-or'', 1), (''us-ut'', 1)])) (counts_json (p_expected_counts built_all_profile))"
  "validate_queue built_env built_all_queue = Inr ()"
  by code_simp+

lemma built_all_state_queue: "build_all_state_snap_queue built_env toy_crypto built_world built_args = Inr built_all_queue"
proof -
  have s: "set (map snd built_sources_of) \<subseteq> {built_or_path, built_ut_path}"
    by (simp add: built_sources_of_def)
  have "load_jsonl built_world [built_or_path] = Inr [or_record]" "load_jsonl built_world [built_ut_path] = Inr [ut_record]"
    using built_rows unfolding built_sources built_or_path_def built_ut_path_def by auto
  then have "add_source built_world [] (''us-ut'', built_ut_path) = Inr [(''us-ut'', ut_record)]"
    "add_source built_world [(''us-ut'', ut_record)] (''us-or'', built_or_path) = Inr [(''us-ut'', ut_record), (''us-or'', or_record)]"
    by (simp_all add: add_source_def built_all_steps(1-4) del: for_each.simps)
  then have u: "for_each (add_source built_world) [] built_sources_of = Inr [(''us-ut'', ut_record), (''us-or'', or_record)]"
    by (simp add: built_sources_of_def)
  have f: "file_content built_world (inventory_path built_args) = Inr []"
    using built_files(4) by (simp add: file_content_def)
  show ?thesis
    unfolding build_all_state_snap_queue_def Let_def
    by (simp add: built_arg_reads built_state_inventory built_provenance[OF s] built_binding[OF s] u f built_all_steps(5-7)
        built_all_steps(8)[unfolded built_all_queue_def] built_all_queue_def del: enumerate_simps One_nat_def sort_key_simps)
qed

theorem built_all_state_queue_inventory_witness:
  "queue_state built_all_queue = ''paused'' \<and> numbered_ids (drop 3) 5 (items_of built_all_queue)
     \<and> map item_id (items_of built_all_queue) = [''or-00001'', ''ut-00001'']"
  using built_all_state_queue_inventory[OF built_all_state_queue]
  by (simp add: built_all_queue_def payload_reads built_all_items_def)

end
