(* ===== verification/Py_Date.thy ===== *)
theory Py_Date
  imports Py_Json_Parse
begin

text \<open>
  Dates of the proleptic Gregorian calendar as \<open>datetime.date\<close> has them: a year, month and day, their ordinal, and the
  ordinal of the date an ISO 8601 text denotes.
\<close>

record date =
  year :: nat
  month :: nat
  day :: nat

definition is_leap :: "nat \<Rightarrow> bool" where
  "is_leap y \<longleftrightarrow> y mod 4 = 0 \<and> (y mod 100 \<noteq> 0 \<or> y mod 400 = 0)"

definition days_in_month :: "nat \<Rightarrow> nat \<Rightarrow> nat" where
  "days_in_month y m = (if m = 2 then (if is_leap y then 29 else 28)
     else if m \<in> {4, 6, 9, 11} then 30 else 31)"

definition valid_date :: "date \<Rightarrow> bool" where
  "valid_date d \<longleftrightarrow> 1 \<le> year d \<and> year d \<le> 9999 \<and> 1 \<le> month d \<and> month d \<le> 12
     \<and> 1 \<le> day d \<and> day d \<le> days_in_month (year d) (month d)"

definition days_before_year :: "nat \<Rightarrow> nat" where
  "days_before_year y = (y - 1) * 365 + (y - 1) div 4 - (y - 1) div 100 + (y - 1) div 400"

definition days_before_month :: "nat \<Rightarrow> nat \<Rightarrow> nat" where
  "days_before_month y m = sum_list (map (days_in_month y) [1..<m])"

definition ordinal :: "date \<Rightarrow> nat" where
  "ordinal d = days_before_year (year d) + days_before_month (year d) (month d) + day d"

definition max_ordinal :: nat where
  "max_ordinal = 3652059"

section \<open>\<open>date.fromisoformat\<close>\<close>

text \<open>The parser works on UTF-8 bytes, of which there must be 7, 8 or 10: \<open>YYYY-MM-DD\<close>, \<open>YYYYMMDD\<close>, \<open>YYYY-Www\<close>,
  \<open>YYYYWww\<close>, \<open>YYYY-Www-D\<close> and \<open>YYYYWwwD\<close>. Bytes after a complete date are not looked at.\<close>

definition digits_at :: "nat \<Rightarrow> string \<Rightarrow> nat option" where
  "digits_at n b = (if n \<le> length b \<and> list_all is_digit (take n b) then Some (nat_parse 0 (take n b)) else None)"

definition week1_monday :: "nat \<Rightarrow> int" where
  "week1_monday y = (let first = int (days_before_year y) + 1; w = (first + 6) mod 7; monday = first - w
     in if w > 3 then monday + 7 else monday)"

definition weeks_in_year :: "nat \<Rightarrow> nat" where
  "weeks_in_year y = (let w = (int (days_before_year y) + 7) mod 7 in if w = 3 \<or> (w = 2 \<and> is_leap y) then 53 else 52)"

definition week_ordinal :: "nat \<Rightarrow> nat \<Rightarrow> nat \<Rightarrow> nat option" where
  "week_ordinal y week d =
    (if y < 1 \<or> week < 1 \<or> week > weeks_in_year y \<or> d < 1 \<or> d > 7 then None
     else let n = week1_monday y + 7 * (int week - 1) + int d - 1 in
       if n < 1 \<or> n > int max_ordinal then None else Some (nat n))"

definition iso_ordinal :: "string \<Rightarrow> nat option" where
  "iso_ordinal s =
    (let b = utf8_encode s; sep = (length b > 4 \<and> b ! 4 = CHR ''-''); r = drop (if sep then 5 else 4) b in
     if length b \<notin> {7, 8, 10} then None
     else Option.bind (digits_at 4 b) (\<lambda>y.
       if r \<noteq> [] \<and> hd r = CHR ''W'' then
         Option.bind (digits_at 2 (tl r)) (\<lambda>week. let r2 = drop 3 r in
           if r2 = [] then week_ordinal y week 1
           else if sep \<and> hd r2 \<noteq> CHR ''-'' then None
           else Option.bind (digits_at 1 (if sep then tl r2 else r2)) (week_ordinal y week))
       else Option.bind (digits_at 2 r) (\<lambda>m. let r2 = drop 2 r in
         if sep \<and> \<not> (r2 \<noteq> [] \<and> hd r2 = CHR ''-'') then None
         else Option.bind (digits_at 2 (if sep then tl r2 else r2)) (\<lambda>d.
           let dt = \<lparr>year = y, month = m, day = d\<rparr> in if valid_date dt then Some (ordinal dt) else None))))"

end
