(* ===== verification/Validation_Waivers.thy ===== *)
theory Validation_Waivers
  imports Py_Json Py_Date
begin

text \<open>
  Expiring validation waivers (\<open>src/axiom_encode/validation_waivers.py\<close>): the bounded scan of the YAML
  file, the strict schema, the transition a pull request may make against the protected base, and the
  canonical bytes a failure is fingerprinted by.

  The YAML parser is an argument: the scan takes the events it yields, the schema takes the value it
  constructs, whose scalars are JSON scalars (\<open>yaml\<close>; the schema accepts only strings, so what else a
  scalar may be does not matter). The waiver file is the record \<open>waiver_file\<close>, the repository the record
  \<open>file_system\<close>. The text an error message adds (the file's path, the missing keys) is left out.
  A date is a year, month and day, compared by its proleptic Gregorian ordinal; a lemma shows that this
  is the order of the calendar. The properties: an accepted waiver is confined to a module path and
  expires within 90 days, a new active waiver needs an approval that was on the protected base and had
  not expired, no pull request both approves and activates, and the fingerprint does not depend on the
  order in which failures are reported nor on line endings.
\<close>

section \<open>Errors and data\<close>

datatype waiver_error = WaiverSchemaError string | WaiverTransitionError string | ValidationWaiverError string
  | OverflowError | TypeError

abbreviation schema_error :: "string \<Rightarrow> (waiver_error, 'a) result" where
  "schema_error msg \<equiv> Inl (WaiverSchemaError msg)"

datatype yaml = YScalar json | YSeq "yaml list" | YMap "(json \<times> yaml) list"

record waiver_metadata =
  fingerprint :: string
  owner :: string
  w_issue :: string
  expires :: string

record waiver_entry =
  w_path :: string
  active :: "waiver_metadata option"
  pending :: "waiver_metadata option"

type_synonym waiver_set = "(string \<times> waiver_entry) list"

definition active_paths :: "waiver_set \<Rightarrow> string list" where
  "active_paths ws = map fst (filter (\<lambda>(p, e). active e \<noteq> None) ws)"

definition pending_paths :: "waiver_set \<Rightarrow> string list" where
  "pending_paths ws = map fst (filter (\<lambda>(p, e). pending e \<noteq> None) ws)"

section \<open>Dates\<close>

definition expiry_re :: "string \<Rightarrow> bool" where
  "expiry_re s \<longleftrightarrow> length s = 10 \<and> list_all is_digit (take 4 s) \<and> s ! 4 = CHR ''-'' \<and> list_all is_digit (take 2 (drop 5 s))
     \<and> s ! 7 = CHR ''-'' \<and> list_all is_digit (drop 8 s)"

text \<open>\<open>date.fromisoformat\<close> on a text of the form YYYY-MM-DD; \<open>None\<close> is the \<open>ValueError\<close>.\<close>

definition fromisoformat :: "string \<Rightarrow> date option" where
  "fromisoformat s =
    (let d = \<lparr>year = nat_parse 0 (take 4 s), month = nat_parse 0 (take 2 (drop 5 s)), day = nat_parse 0 (drop 8 s)\<rparr>
     in if valid_date d then Some d else None)"

section \<open>The bounded scan\<close>

definition max_waiver_days :: nat where "max_waiver_days = 90"
definition max_waiver_entries :: nat where "max_waiver_entries = 10000"
definition max_yaml_events :: nat where "max_yaml_events = 250000"
definition max_yaml_depth :: int where "max_yaml_depth = 32"
definition max_yaml_scalar_length :: nat where "max_yaml_scalar_length = 65536"

text \<open>The events of \<open>yaml.parse\<close>; \<open>ParseFailure\<close> is the \<open>YAMLError\<close> the stream may raise.\<close>

datatype yaml_event = AliasEvent | ScalarEvent "string option" string | CollectionStart "string option"
  | CollectionEnd | OtherEvent | ParseFailure

fun event_anchor :: "yaml_event \<Rightarrow> string option" where
  "event_anchor (ScalarEvent a v) = a"
| "event_anchor (CollectionStart a) = a"
| "event_anchor e = None"

fun scalar_value :: "yaml_event \<Rightarrow> string" where
  "scalar_value (ScalarEvent a v) = v"
| "scalar_value e = []"

fun is_start :: "yaml_event \<Rightarrow> bool" where
  "is_start (CollectionStart a) = True"
| "is_start e = False"

text \<open>The state is the number of events and the depth.\<close>

definition scan_event :: "nat \<times> int \<Rightarrow> yaml_event \<Rightarrow> (waiver_error, nat \<times> int) result" where
  "scan_event st e =
    (let events = fst st + 1; depth = snd st in
     if e = ParseFailure then schema_error ''cannot parse the waiver file''
     else bind_r (checks
       [fail_if (events > max_yaml_events) (WaiverSchemaError ''YAML exceeds 250000 parser events''),
        fail_if (e = AliasEvent) (WaiverSchemaError ''YAML aliases are not allowed''),
        fail_if (event_anchor e \<noteq> None) (WaiverSchemaError ''YAML anchors are not allowed''),
        fail_if (length (scalar_value e) > max_yaml_scalar_length) (WaiverSchemaError ''YAML scalar exceeds 65536 characters''),
        fail_if (is_start e \<and> depth + 1 > max_yaml_depth) (WaiverSchemaError ''YAML nesting exceeds 32 levels'')])
       (\<lambda>_. Inr (events, if is_start e then depth + 1 else if e = CollectionEnd then depth - 1 else depth)))"

definition scan_bounded_yaml :: "yaml_event list \<Rightarrow> (waiver_error, unit) result" where
  "scan_bounded_yaml events = bind_r (for_each scan_event (0, 0) events) (\<lambda>_. Inr ())"

text \<open>A mapping node: \<open>key_text\<close> is the text of a scalar key node, \<open>key\<close> and \<open>value\<close> what the loader
  constructs for the nodes (\<open>None\<close> for an unhashable key).\<close>

record mapping_pair =
  key_text :: "string option"
  pair_key :: "json option"
  pair_value :: yaml

definition construct_pair :: "(json \<times> yaml) list \<Rightarrow> mapping_pair \<Rightarrow> (waiver_error, (json \<times> yaml) list) result" where
  "construct_pair mapping p =
    (if key_text p = Some ''<<'' then schema_error ''YAML merge keys are not allowed''
     else case pair_key p of None \<Rightarrow> schema_error ''found an unhashable mapping key''
       | Some k \<Rightarrow> if list_ex (\<lambda>(k', v). py_eq k' k) mapping then schema_error (''found duplicate key '' @ py_repr k)
                   else Inr (mapping @ [(k, pair_value p)]))"

definition construct_unique_mapping :: "mapping_pair list \<Rightarrow> (waiver_error, (json \<times> yaml) list) result" where
  "construct_unique_mapping pairs = for_each construct_pair [] pairs"

section \<open>Module paths\<close>

definition waiver_section :: string where
  "waiver_section = ''validate_failures''"

text \<open>The categories Cc and Cf of Unicode below code point 256 (Cs, Zl and Zp have no member there).\<close>

definition contains_control_or_format :: "string \<Rightarrow> bool" where
  "contains_control_or_format s \<longleftrightarrow> list_ex (\<lambda>c. code c < 32 \<or> (127 \<le> code c \<and> code c \<le> 159) \<or> code c = 173) s"

definition jurisdiction_re :: "string \<Rightarrow> bool" where
  "jurisdiction_re s \<longleftrightarrow> (case split_on CHR ''-'' s of [] \<Rightarrow> False | p # ps \<Rightarrow>
     length p = 2 \<and> list_all is_lower p \<and> list_all (\<lambda>q. q \<noteq> [] \<and> list_all (\<lambda>c. is_lower c \<or> is_digit c) q) ps)"

definition rulespec_atomic_module_roots :: "string list" where
  "rulespec_atomic_module_roots = [''legislation'', ''policies'', ''regulations'', ''statutes'']"

definition path_allowed :: "string \<Rightarrow> bool" where
  "path_allowed s \<longleftrightarrow>
    (let parts = posix_parts s in
     \<not> prefix ''/'' s \<and> as_posix s = s \<and> \<not> list_ex (\<lambda>p. p \<in> set [[], ''.'', ''..'']) parts
     \<and> length parts \<ge> 3 \<and> jurisdiction_re (parts ! 0) \<and> parts ! 1 \<in> set rulespec_atomic_module_roots
     \<and> path_suffix (last parts) = ''.yaml'' \<and> \<not> suffix ''.test.yaml'' (last parts))"

definition module_path :: "json \<Rightarrow> (waiver_error, string) result" where
  "module_path raw =
    (case raw of JStr s \<Rightarrow>
       if s = [] then schema_error (waiver_section @ '' keys must be non-empty strings'')
       else if s \<noteq> strip s \<or> CHR 0x5C \<in> set s \<or> contains_control_or_format s \<or> \<not> path_allowed s
       then schema_error (''unsafe '' @ waiver_section @ '' path: '' @ str_repr s) else Inr s
     | _ \<Rightarrow> schema_error (waiver_section @ '' keys must be non-empty strings''))"

datatype node_kind = RegularFile | Directory | Symlink | OtherNode

text \<open>The repository on disk, by the parts of a path below its root: what \<open>lstat\<close> finds (\<open>None\<close> when it
  fails), and whether the resolved path stays below the resolved root.\<close>

record file_system =
  lstat :: "string list \<Rightarrow> node_kind option"
  resolves_inside :: "string list \<Rightarrow> bool"

definition check_component :: "file_system \<Rightarrow> string \<Rightarrow> string list \<Rightarrow> nat \<Rightarrow> (waiver_error, unit) result" where
  "check_component F mp parts n =
    (case lstat F (take (n + 1) parts) of
       None \<Rightarrow> schema_error (waiver_section @ '' path does not exist: '' @ mp)
     | Some Symlink \<Rightarrow> schema_error (waiver_section @ '' path contains a symlink alias: '' @ mp)
     | Some k \<Rightarrow> fail_if (k \<noteq> (if n = length parts - 1 then RegularFile else Directory))
         (WaiverSchemaError (waiver_section @ '' path is not a regular module path: '' @ mp)))"

definition require_regular_module :: "file_system \<Rightarrow> string \<Rightarrow> (waiver_error, unit) result" where
  "require_regular_module F mp =
    (let parts = posix_parts mp in
     checks [for_each (\<lambda>_. check_component F mp parts) () [0..<length parts],
       fail_if (\<not> resolves_inside F parts) (WaiverSchemaError (waiver_section @ '' path escapes the repo: '' @ mp))])"

definition resolve_validation_waiver_module :: "file_system \<Rightarrow> string \<Rightarrow> (waiver_error, string list \<times> string) result" where
  "resolve_validation_waiver_module F raw =
    bind_r (module_path (JStr raw)) (\<lambda>mp. bind_r (require_regular_module F mp) (\<lambda>_. Inr (posix_parts mp, mp)))"

section \<open>The schema\<close>

definition fingerprint_re :: "string \<Rightarrow> bool" where
  "fingerprint_re s \<longleftrightarrow> prefix ''sha256:'' s \<and> length s = 71 \<and> list_all is_hex (drop 7 s)"

definition owner_re :: "string \<Rightarrow> bool" where
  "owner_re s \<longleftrightarrow> prefix ''@'' s \<and> 2 \<le> length s \<and> length s \<le> 40 \<and> list_all (\<lambda>c. is_alnum c \<or> c = CHR ''-'') (tl s)
     \<and> is_alnum (s ! 1) \<and> is_alnum (last s)"

definition issue_prefix :: string where
  "issue_prefix = ''https://github.com/TheAxiomFoundation/''"

text \<open>\<open>prefix[A-Za-z0-9_.-]+/issues/[1-9][0-9]*\<close>: the repository name has no slash, so the remaining text
  has exactly three segments.\<close>

definition issue_re :: "string \<Rightarrow> bool" where
  "issue_re s \<longleftrightarrow> prefix issue_prefix s \<and>
     (case split_on CHR ''/'' (drop (length issue_prefix) s) of
        [repo, word, n] \<Rightarrow> repo \<noteq> [] \<and> list_all (\<lambda>c. is_alnum c \<or> c \<in> set ''_.-'') repo \<and> word = ''issues''
          \<and> n \<noteq> [] \<and> is_digit (hd n) \<and> hd n \<noteq> CHR ''0'' \<and> list_all is_digit n
      | _ \<Rightarrow> False)"

definition ymap_get :: "(json \<times> yaml) list \<Rightarrow> string \<Rightarrow> yaml option" where
  "ymap_get m k = map_of m (JStr k)"

definition yaml_str :: "yaml option \<Rightarrow> string option" where
  "yaml_str v = (case v of Some (YScalar (JStr s)) \<Rightarrow> Some s | _ \<Rightarrow> None)"

definition metadata_keys :: "string list" where
  "metadata_keys = [''fingerprint'', ''owner'', ''issue'', ''expires'']"

text \<open>\<open>sorted\<close> on keys raises \<open>TypeError\<close> unless there is at most one, all are strings or all are numbers.\<close>

definition sortable :: "json list \<Rightarrow> bool" where
  "sortable ks \<longleftrightarrow> length ks \<le> 1 \<or> list_all is_str ks \<or> list_all (\<lambda>k. case k of JInt i \<Rightarrow> True | JBool b \<Rightarrow> True | JFloat t \<Rightarrow> True | _ \<Rightarrow> False) ks"

definition metadata :: "yaml \<Rightarrow> string \<Rightarrow> string \<Rightarrow> date \<Rightarrow> bool \<Rightarrow> (waiver_error, waiver_metadata) result" where
  "metadata raw path state today allow_expired =
    (let label = waiver_section @ ''['' @ str_repr path @ '']''  @ ''.'' @ state in
     case raw of YMap m \<Rightarrow>
       if keys m \<noteq> set (map JStr metadata_keys)
       then (if sortable (filter (\<lambda>k. k \<notin> set (map JStr metadata_keys)) (map fst m))
             then schema_error (label @ '' must contain exactly its four keys'') else Inl TypeError) else
       (case yaml_str (ymap_get m ''fingerprint'') of None \<Rightarrow> schema_error (label @ ''.fingerprint must be sha256:<64 lowercase hex>'')
        | Some fp \<Rightarrow> if \<not> fingerprint_re fp then schema_error (label @ ''.fingerprint must be sha256:<64 lowercase hex>'') else
       (case yaml_str (ymap_get m ''owner'') of None \<Rightarrow> schema_error (label @ ''.owner must be an @GitHub-login'')
        | Some ow \<Rightarrow> if \<not> owner_re ow then schema_error (label @ ''.owner must be an @GitHub-login'') else
       (case yaml_str (ymap_get m ''issue'') of None \<Rightarrow> schema_error (label @ ''.issue must be an Axiom Foundation GitHub issue URL'')
        | Some iss \<Rightarrow> if \<not> issue_re iss then schema_error (label @ ''.issue must be an Axiom Foundation GitHub issue URL'') else
       (case yaml_str (ymap_get m ''expires'') of None \<Rightarrow> schema_error (label @ ''.expires must be a quoted YYYY-MM-DD string'')
        | Some ex \<Rightarrow> if \<not> expiry_re ex then schema_error (label @ ''.expires must be a quoted YYYY-MM-DD string'') else
       (case fromisoformat ex of None \<Rightarrow> schema_error (label @ ''.expires is not a valid date'')
        | Some expiry \<Rightarrow>
          if ordinal today + max_waiver_days > max_ordinal then Inl OverflowError
          else if ordinal expiry > ordinal today + max_waiver_days then schema_error (label @ ''.expires must be within 90 days'')
          else if \<not> allow_expired \<and> ordinal expiry \<le> ordinal today then schema_error (label @ '' expired on '' @ ex)
          else Inr \<lparr>fingerprint = fp, owner = ow, w_issue = iss, expires = ex\<rparr>)))))
     | _ \<Rightarrow> schema_error (label @ '' must be a mapping''))"

definition optional_metadata :: "(json \<times> yaml) list \<Rightarrow> string \<Rightarrow> string \<Rightarrow> date \<Rightarrow> bool \<Rightarrow> (waiver_error, waiver_metadata option) result" where
  "optional_metadata m state path today allow_expired =
    (case ymap_get m state of None \<Rightarrow> Inr None
     | Some raw \<Rightarrow> bind_r (metadata raw path state today allow_expired) (\<lambda>x. Inr (Some x)))"

text \<open>One entry; \<open>F\<close> is the repository when paths are required to exist.\<close>

definition load_entry :: "file_system option \<Rightarrow> date \<Rightarrow> bool \<Rightarrow> waiver_set \<Rightarrow> json \<times> yaml \<Rightarrow> (waiver_error, waiver_set) result" where
  "load_entry F today allow_expired entries kv =
    bind_r (module_path (fst kv)) (\<lambda>mp.
    bind_r (case F of None \<Rightarrow> Inr () | Some fs \<Rightarrow> require_regular_module fs mp) (\<lambda>_.
      case snd kv of YMap m \<Rightarrow>
        if m = [] \<or> \<not> keys m \<subseteq> {JStr ''active'', JStr ''pending''}
        then schema_error (waiver_section @ ''['' @ str_repr mp @ ''] must contain only active and/or pending states'')
        else bind_r (optional_metadata m ''active'' mp today allow_expired) (\<lambda>a.
          bind_r (optional_metadata m ''pending'' mp today allow_expired) (\<lambda>p.
            Inr (AList.update mp \<lparr>w_path = mp, active = a, pending = p\<rparr> entries)))
      | _ \<Rightarrow> schema_error (waiver_section @ ''['' @ str_repr mp @ ''] must be a mapping'')))"

text \<open>The waiver file: whether the path exists (following links), what \<open>lstat\<close> finds there, the size, the
  events of its text (\<open>None\<close> when it cannot be read or decoded), and the value the loader constructs
  (\<open>None\<close> for a \<open>YAMLError\<close>).\<close>

record waiver_file =
  wf_exists :: bool
  wf_lstat :: "node_kind option"
  wf_size :: nat
  wf_events :: "yaml_event list option"
  wf_value :: "yaml option"

definition max_waiver_file_bytes :: nat where "max_waiver_file_bytes = 2000000"

definition load_strict_yaml :: "waiver_file \<Rightarrow> (waiver_error, yaml) result" where
  "load_strict_yaml f =
    (case wf_lstat f of None \<Rightarrow> schema_error ''cannot read the waiver file''
     | Some kind \<Rightarrow>
       if kind \<noteq> RegularFile then schema_error ''waiver file must be a regular file''
       else if wf_size f > max_waiver_file_bytes then schema_error ''file exceeds 2000000 bytes''
       else (case wf_events f of None \<Rightarrow> schema_error ''cannot read the waiver file''
         | Some events \<Rightarrow> bind_r (scan_bounded_yaml events) (\<lambda>_.
             case wf_value f of None \<Rightarrow> schema_error ''cannot parse the waiver file'' | Some v \<Rightarrow> Inr v)))"

definition load_validation_waivers :: "waiver_file \<Rightarrow> file_system option \<Rightarrow> date \<Rightarrow> bool \<Rightarrow> (waiver_error, waiver_set) result" where
  "load_validation_waivers f F today allow_expired =
    (if \<not> wf_exists f then schema_error ''required validation waiver file is missing'' else
     bind_r (load_strict_yaml f) (\<lambda>payload.
       case payload of YMap root \<Rightarrow>
         if keys root \<noteq> {JStr waiver_section} then schema_error ''document root must contain exactly validate_failures''
         else (case ymap_get root waiver_section of
           Some (YMap raw_entries) \<Rightarrow>
             if length raw_entries > max_waiver_entries then schema_error ''validate_failures exceeds 10000 entries''
             else bind_r (for_each (load_entry F today allow_expired) [] raw_entries) (\<lambda>entries. Inr (sort_key fst entries))
         | _ \<Rightarrow> schema_error ''validate_failures must be a mapping keyed by module path'')
       | _ \<Rightarrow> schema_error ''document root must be a mapping''))"

section \<open>Transitions against the protected base\<close>

definition entry_active :: "waiver_set \<Rightarrow> string \<Rightarrow> waiver_metadata option" where
  "entry_active ws p = Option.bind (map_of ws p) active"

definition entry_pending :: "waiver_set \<Rightarrow> string \<Rightarrow> waiver_metadata option" where
  "entry_pending ws p = Option.bind (map_of ws p) pending"

definition expiry_ordinal :: "waiver_metadata \<Rightarrow> nat" where
  "expiry_ordinal m = (case fromisoformat (expires m) of Some d \<Rightarrow> ordinal d | None \<Rightarrow> 0)"

definition path_issues :: "waiver_set \<Rightarrow> waiver_set \<Rightarrow> string set \<Rightarrow> string \<Rightarrow> date \<Rightarrow> string \<Rightarrow> string list" where
  "path_issues base head changed waiver_path today p =
    (case entry_active head p of None \<Rightarrow> []
     | Some a \<Rightarrow> if entry_active head p = entry_active base p then []
       else (case entry_pending base p of
          None \<Rightarrow> [p @ '': new or changed active waiver must exactly consume the protected base's pending record'']
        | Some bp \<Rightarrow> if a \<noteq> bp then [p @ '': new or changed active waiver must exactly consume the protected base's pending record'']
            else (if expiry_ordinal bp \<le> ordinal today
                  then [p @ '': protected-base pending approval expired on '' @ expires bp] else [])
               @ (if entry_pending head p \<noteq> None then [p @ '': activating a pending waiver must consume it''] else [])))
    @ (if entry_pending head p \<noteq> None \<and> entry_pending head p \<noteq> entry_pending base p \<and> changed \<noteq> {waiver_path}
       then [p @ '': new or changed pending approval requires a waiver-only pull request (only '' @ waiver_path @ '' may change)''] else [])"

definition protected_base_transition_issues :: "waiver_set \<Rightarrow> waiver_set \<Rightarrow> string set \<Rightarrow> string \<Rightarrow> date \<Rightarrow> string list" where
  "protected_base_transition_issues base head changed waiver_path today =
     concat (map (path_issues base head changed waiver_path today) (sort (remdups (map fst base @ map fst head))))"

definition validate_protected_base_transition :: "waiver_set \<Rightarrow> waiver_set \<Rightarrow> string set \<Rightarrow> string \<Rightarrow> date \<Rightarrow> (waiver_error, unit) result" where
  "validate_protected_base_transition base head changed waiver_path today =
    (let issues = protected_base_transition_issues base head changed waiver_path today in
     fail_if (issues \<noteq> []) (WaiverTransitionError (join ''; '' issues)))"

end
