(* ===== verification/Waiver_Facts.thy ===== *)
theory Waiver_Facts
  imports Validation_Waivers
begin

text \<open>
  The properties of \<open>Validation_Waivers\<close>: the calendar behind the ordinals, the bounds the scan and the
  schema enforce, the safety of module paths, and the protected-base discipline as an invariant of the
  sequence of accepted pull requests.
\<close>

section \<open>The calendar\<close>

lemma mod_100_4: "(y::nat) mod 100 = 0 \<Longrightarrow> y mod 4 = 0" and mod_400_100: "(y::nat) mod 400 = 0 \<Longrightarrow> y mod 100 = 0"
  by presburger+

lemma days_before_year_Suc:
  assumes "1 \<le> y"
  shows "days_before_year (Suc y) = days_before_year y + (if is_leap y then 366 else 365)"
proof -
  obtain n where y: "y = Suc n" using assms by (cases y) auto
  have le: "n div 100 \<le> n * 365 + n div 4" by linarith
  show ?thesis
    using mod_100_4[of y] mod_400_100[of y] le
    by (auto simp: days_before_year_def y is_leap_def div_Suc) (simp_all add: add_ac)
qed

lemma days_before_month_mono:
  assumes "1 \<le> m" "m < m'"
  shows "days_before_month y m + days_in_month y m \<le> days_before_month y m'"
proof -
  have "[1..<m'] = [1..<m] @ m # [Suc m..<m']"
    using upt_add_eq_append[of 1 m "m' - m"] assms by (simp add: upt_conv_Cons)
  then show ?thesis by (simp add: days_before_month_def)
qed

lemma days_in_year: "days_before_month y 13 = (if is_leap y then 366 else 365)"
  by (simp add: days_before_month_def days_in_month_def upt_conv_Cons)

definition day_of_year :: "date \<Rightarrow> nat" where
  "day_of_year d = days_before_month (year d) (month d) + day d"

lemma day_of_year_bounds:
  assumes "valid_date d"
  shows "1 \<le> day_of_year d" "day_of_year d \<le> (if is_leap (year d) then 366 else 365)"
proof -
  have "days_before_month (year d) (month d) + days_in_month (year d) (month d) \<le> days_before_month (year d) 13"
    using assms by (intro days_before_month_mono) (auto simp: valid_date_def)
  then show "day_of_year d \<le> (if is_leap (year d) then 366 else 365)"
    using assms unfolding days_in_year day_of_year_def valid_date_def by linarith
qed (use assms in \<open>auto simp: day_of_year_def valid_date_def\<close>)

lemma days_before_year_mono:
  assumes "1 \<le> y" "y < y'"
  shows "days_before_year y + (if is_leap y then 366 else 365) \<le> days_before_year y'"
  using assms(2)
proof (induction y' rule: less_induct)
  case (less z)
  then obtain x where z: "z = Suc x" "y \<le> x" by (cases z) auto
  show ?case
  proof (cases "y = x")
    case True
    then show ?thesis using z days_before_year_Suc[OF assms(1)] by simp
  next
    case False
    then have "days_before_year y + (if is_leap y then 366 else 365) \<le> days_before_year x"
      using less.IH[of x] z by simp
    also have "\<dots> \<le> days_before_year z" using z assms(1) days_before_year_Suc[of x] by simp
    finally show ?thesis .
  qed
qed

lemma ordinal_year_less:
  assumes "valid_date d" "valid_date e" "year d < year e"
  shows "ordinal d < ordinal e"
  using days_before_year_mono[of "year d" "year e"] day_of_year_bounds[OF assms(1)] day_of_year_bounds(1)[OF assms(2)] assms
  unfolding ordinal_def day_of_year_def valid_date_def by linarith

lemma ordinal_month_less:
  assumes "valid_date d" "valid_date e" "year d = year e" "month d < month e"
  shows "ordinal d < ordinal e"
  using days_before_month_mono[of "month d" "month e" "year e"] assms
  by (simp add: ordinal_def valid_date_def)

text \<open>The order of the calendar: by year, then month, then day.\<close>

definition before :: "date \<Rightarrow> date \<Rightarrow> bool" where
  "before d e \<longleftrightarrow> (year d, month d, day d) < (year e, month e, day e)"

lemma before_cases:
  "before d e \<longleftrightarrow> year d < year e \<or> year d = year e \<and> (month d < month e \<or> month d = month e \<and> day d < day e)"
  by (auto simp: before_def)

lemma before_imp_less: "valid_date d \<Longrightarrow> valid_date e \<Longrightarrow> before d e \<Longrightarrow> ordinal d < ordinal e"
  unfolding before_cases using ordinal_year_less ordinal_month_less by (auto simp: ordinal_def)

lemma before_total: "before d e \<or> before e d \<or> d = e"
  unfolding before_cases by (auto intro: date.equality)

text \<open>Comparing ordinals is comparing dates: for dates of the calendar, the proleptic Gregorian ordinal
  is smaller exactly when the date is earlier by year, month and day.\<close>

theorem ordinal_less_iff_before:
  assumes "valid_date d" "valid_date e"
  shows "ordinal d < ordinal e \<longleftrightarrow> before d e"
  using before_imp_less[OF assms] before_imp_less[OF assms(2,1)] before_total[of d e] by auto

section \<open>The bounded scan\<close>

definition yaml_depth :: "yaml_event list \<Rightarrow> int" where
  "yaml_depth es = int (length (filter is_start es)) - int (length (filter (\<lambda>e. e = CollectionEnd) es))"

definition event_ok :: "yaml_event \<Rightarrow> bool" where
  "event_ok e \<longleftrightarrow> e \<noteq> AliasEvent \<and> e \<noteq> ParseFailure \<and> event_anchor e = None \<and> length (scalar_value e) \<le> 65536"

lemma scan_event_Inr:
  "scan_event (n, d) e = Inr st' \<longleftrightarrow> event_ok e \<and> n + 1 \<le> 250000 \<and> (is_start e \<longrightarrow> d + 1 \<le> 32)
     \<and> st' = (n + 1, if is_start e then d + 1 else if e = CollectionEnd then d - 1 else d)"
  by (auto simp: scan_event_def Let_def bind_r_Inr_iff event_ok_def max_yaml_events_def max_yaml_depth_def
      max_yaml_scalar_length_def)

lemma yaml_depth_snoc: "yaml_depth (es @ [e]) = (if is_start e then yaml_depth es + 1
    else if e = CollectionEnd then yaml_depth es - 1 else yaml_depth es)"
  by (cases e) (auto simp: yaml_depth_def)

text \<open>A waiver file that passes the scan is bounded: at most 250000 parser events, no alias, no anchor,
  no scalar over 65536 characters, and at no point more than 32 open collections.\<close>

theorem scan_bounded_yaml_bounds:
  assumes "scan_bounded_yaml es = Inr ()"
  shows "length es \<le> 250000 \<and> list_all event_ok es \<and> (\<forall>ys zs. es = ys @ zs \<longrightarrow> yaml_depth ys \<le> 32)"
proof -
  from assms obtain st where "for_each scan_event (0, 0) es = Inr st" by (auto simp: scan_bounded_yaml_def)
  then have "fst st = length es \<and> snd st = yaml_depth es \<and> length es \<le> 250000 \<and> list_all event_ok es
      \<and> (\<forall>ys zs. es = ys @ zs \<longrightarrow> yaml_depth ys \<le> 32)"
  proof (rule for_each_rule)
    fix ys y zs s s'
    assume inv: "fst s = length ys \<and> snd s = yaml_depth ys \<and> length ys \<le> 250000 \<and> list_all event_ok ys
        \<and> (\<forall>us vs. ys = us @ vs \<longrightarrow> yaml_depth us \<le> 32)" and st: "scan_event s y = Inr s'"
    obtain n d where s: "s = (n, d)" by (cases s)
    have step: "event_ok y" "n + 1 \<le> 250000" "is_start y \<longrightarrow> d + 1 \<le> 32"
      "s' = (n + 1, if is_start y then d + 1 else if y = CollectionEnd then d - 1 else d)"
      using st unfolding s scan_event_Inr by blast+
    have d: "d = yaml_depth ys" "n = length ys" "yaml_depth ys \<le> 32" using inv by (auto simp: s)
    have last: "yaml_depth (ys @ [y]) \<le> 32" using step(3) d by (auto simp: yaml_depth_snoc)
    have "yaml_depth us \<le> 32" if "ys @ [y] = us @ vs" for us vs
      using that inv last by (cases vs rule: rev_cases) auto
    then show "fst s' = length (ys @ [y]) \<and> snd s' = yaml_depth (ys @ [y]) \<and> length (ys @ [y]) \<le> 250000
        \<and> list_all event_ok (ys @ [y]) \<and> (\<forall>us vs. ys @ [y] = us @ vs \<longrightarrow> yaml_depth us \<le> 32)"
      using step d inv by (auto simp: yaml_depth_snoc)
  qed (simp add: yaml_depth_def)
  then show ?thesis by blast
qed

text \<open>The loader's mappings have pairwise different keys.\<close>

lemma construct_unique_mapping_distinct:
  fixes pairs :: "mapping_pair list"
  assumes "construct_unique_mapping pairs = Inr m"
  shows "distinct (map fst m) \<and> length m = length pairs \<and> list_all (\<lambda>p. key_text p \<noteq> Some ''<<'') pairs"
  using assms unfolding construct_unique_mapping_def
proof (rule for_each_rule)
  fix ys y s s' and zs :: "mapping_pair list"
  assume "distinct (map fst s) \<and> length s = length ys \<and> list_all (\<lambda>p. key_text p \<noteq> Some ''<<'') (ys :: mapping_pair list)"
    "construct_pair s y = Inr s'"
  then show "distinct (map fst s') \<and> length s' = length (ys @ [y]) \<and> list_all (\<lambda>p. key_text p \<noteq> Some ''<<'') (ys @ [y])"
    by (force simp: construct_pair_def list_ex_iff split: option.splits)
qed simp

section \<open>Module paths\<close>

lemma posix_parts_exact:
  assumes "as_posix s = s" "posix_parts s \<noteq> []"
  shows "posix_parts s = split_on CHR ''/'' s"
proof -
  have "split_on CHR ''/'' (join ''/'' (posix_parts s)) = posix_parts s"
    using assms(2) by (intro split_on_join) (auto simp: posix_parts_def dest: split_on_parts)
  moreover have "join ''/'' (posix_parts s) = s" using assms by (simp add: as_posix_def)
  ultimately show ?thesis by simp
qed

lemma module_path_Inr: "module_path raw = Inr s \<longleftrightarrow>
    raw = JStr s \<and> s \<noteq> [] \<and> s = strip s \<and> CHR 0x5C \<notin> set s \<and> \<not> contains_control_or_format s \<and> path_allowed s"
  by (auto simp: module_path_def split: json.splits)

text \<open>A module path the schema accepts is the exact spelling of a relative path below a jurisdiction and a
  module root: its segments, split at every slash, are neither empty nor dot segments, it has no backslash
  or control character, and it names a YAML module that is not a test.\<close>

theorem module_path_safe:
  assumes "module_path raw = Inr s"
  shows "raw = JStr s \<and> list_all (\<lambda>p. p \<notin> {[], ''.'', ''..''}) (split_on CHR ''/'' s) \<and> 3 \<le> length (split_on CHR ''/'' s)
    \<and> jurisdiction_re (split_on CHR ''/'' s ! 0) \<and> split_on CHR ''/'' s ! 1 \<in> set rulespec_atomic_module_roots
    \<and> CHR 0x5C \<notin> set s \<and> \<not> contains_control_or_format s
    \<and> path_suffix (last (split_on CHR ''/'' s)) = ''.yaml'' \<and> \<not> suffix ''.test.yaml'' (last (split_on CHR ''/'' s))"
proof -
  have s: "path_allowed s" "raw = JStr s" "CHR 0x5C \<notin> set s" "\<not> contains_control_or_format s"
    using assms by (simp_all add: module_path_Inr)
  then have "posix_parts s \<noteq> []" "as_posix s = s" by (auto simp: path_allowed_def Let_def)
  then have eq: "posix_parts s = split_on CHR ''/'' s" by (intro posix_parts_exact)
  have "list_all (\<lambda>p. p \<notin> {[], ''.'', ''..''}) (split_on CHR ''/'' s)"
    using s(1) unfolding path_allowed_def Let_def eq by (auto simp: list_all_iff list_ex_iff)
  with s show ?thesis unfolding path_allowed_def Let_def eq by simp
qed

lemma check_component_Inr: "check_component F mp parts n = Inr () \<longleftrightarrow>
    lstat F (take (n + 1) parts) = Some (if n = length parts - 1 then RegularFile else Directory)"
  by (auto simp: check_component_def split: option.splits node_kind.splits)

text \<open>A resolved waiver module is a regular file reached through real directories: no component of its
  path is a symbolic link or missing, and the resolved file stays inside the repository.\<close>

theorem resolved_module_is_regular:
  assumes "resolve_validation_waiver_module F raw = Inr (parts, mp)"
  shows "mp = raw \<and> parts = split_on CHR ''/'' raw \<and> resolves_inside F parts \<and> lstat F parts = Some RegularFile
    \<and> (\<forall>n. 0 < n \<and> n < length parts \<longrightarrow> lstat F (take n parts) = Some Directory)"
proof -
  from assms have mp: "module_path (JStr raw) = Inr raw" "mp = raw" and parts: "parts = posix_parts raw"
    and reg: "require_regular_module F raw = Inr ()"
    by (auto simp: resolve_validation_waiver_module_def module_path_Inr)
  have "posix_parts raw \<noteq> []" "as_posix raw = raw"
    using mp(1) by (auto simp: module_path_Inr path_allowed_def Let_def)
  then have eq: "parts = split_on CHR ''/'' raw" "parts \<noteq> []" by (auto simp: parts intro: posix_parts_exact)
  have kinds: "lstat F (take (n + 1) parts) = Some (if n = length parts - 1 then RegularFile else Directory)" if "n < length parts" for n
    using reg that unfolding require_regular_module_def Let_def parts[symmetric] checks_Cons_Inr for_each_unit
    by (simp add: check_component_Inr)
  have "lstat F parts = Some RegularFile" using kinds[of "length parts - 1"] eq(2) by (cases parts) auto
  moreover have "lstat F (take n parts) = Some Directory" if "0 < n" "n < length parts" for n
    using kinds[of "n - 1"] that by auto
  moreover have "resolves_inside F parts" using reg by (simp add: require_regular_module_def Let_def parts)
  ultimately show ?thesis using mp(2) eq(1) by blast
qed

section \<open>The schema\<close>

definition metadata_ok :: "date \<Rightarrow> bool \<Rightarrow> waiver_metadata \<Rightarrow> bool" where
  "metadata_ok today allow_expired m \<longleftrightarrow> fingerprint_re (fingerprint m) \<and> owner_re (owner m) \<and> issue_re (w_issue m)
     \<and> (\<exists>d. fromisoformat (expires m) = Some d \<and> valid_date d \<and> ordinal d \<le> ordinal today + 90
        \<and> (allow_expired \<or> ordinal today < ordinal d))"

lemma metadata_Inr:
  assumes "metadata raw path state today allow_expired = Inr m"
  shows "metadata_ok today allow_expired m"
proof -
  obtain mp where raw: "raw = YMap mp" using assms by (cases raw) (auto simp: metadata_def Let_def)
  from assms obtain ex where "fingerprint_re (fingerprint m)" "owner_re (owner m)" "issue_re (w_issue m)"
    "expires m = ex" "\<exists>d. fromisoformat ex = Some d \<and> ordinal d \<le> ordinal today + 90 \<and> (allow_expired \<or> ordinal today < ordinal d)"
    by (auto simp: metadata_def raw Let_def max_waiver_days_def split: option.splits if_splits)
  moreover have "valid_date d" if "fromisoformat ex = Some d" for d
    using that by (auto simp: fromisoformat_def Let_def split: if_splits)
  ultimately show ?thesis by (auto simp: metadata_ok_def)
qed

lemma optional_metadata_Inr:
  "optional_metadata mp state path today allow_expired = Inr (Some m) \<Longrightarrow> metadata_ok today allow_expired m"
  by (auto simp: optional_metadata_def dest: metadata_Inr split: option.splits)

definition entry_ok :: "date \<Rightarrow> bool \<Rightarrow> string \<Rightarrow> waiver_entry \<Rightarrow> bool" where
  "entry_ok today allow_expired p e \<longleftrightarrow> module_path (JStr p) = Inr p \<and> w_path e = p \<and> (active e \<noteq> None \<or> pending e \<noteq> None)
     \<and> (\<forall>m. active e = Some m \<or> pending e = Some m \<longrightarrow> metadata_ok today allow_expired m)"

lemma ymap_get_None: "ymap_get m k = None \<longleftrightarrow> JStr k \<notin> keys m"
  by (auto simp: ymap_get_def keys_dom domIff)

lemma load_entry_Inr:
  assumes "load_entry F today allow_expired entries kv = Inr entries'"
  obtains p e where "entries' = AList.update p e entries" "entry_ok today allow_expired p e"
proof -
  from assms obtain p m a q where p: "module_path (fst kv) = Inr p" and m: "snd kv = YMap m" "m \<noteq> []"
      "keys m \<subseteq> {JStr ''active'', JStr ''pending''}"
    and a: "optional_metadata m ''active'' p today allow_expired = Inr a" "optional_metadata m ''pending'' p today allow_expired = Inr q"
    and e: "entries' = AList.update p \<lparr>w_path = p, active = a, pending = q\<rparr> entries"
    by (auto simp: load_entry_def split: yaml.splits)
  have "keys m \<noteq> {}" using m(2) by (cases m) (auto simp: keys_def)
  then have "a \<noteq> None \<or> q \<noteq> None"
    using a m(3) ymap_get_None[of m "''active''"] ymap_get_None[of m "''pending''"]
    by (auto simp: optional_metadata_def split: option.splits)
  then have "entry_ok today allow_expired p \<lparr>w_path = p, active = a, pending = q\<rparr>"
    using p a by (auto simp: entry_ok_def module_path_Inr dest: optional_metadata_Inr)
  with that e show ?thesis by blast
qed

text \<open>C15. Every waiver of a loaded file is bounded and confined, whichever of its two modes the loader runs in: the paths are
  module paths, sorted and pairwise different, each entry has an active or a pending record, and every record names a
  fingerprint, an owner and an issue and a date of the calendar at most 90 days after today. In the strict mode no record
  has expired; the mode in which the command line reads the waivers of the protected base (\<open>allow_expired\<close>) lifts that condition and no other.\<close>

theorem loaded_waivers_ok:
  assumes "load_validation_waivers f F today allow_expired = Inr ws"
  shows "sorted (map fst ws) \<and> distinct (map fst ws) \<and> list_all (\<lambda>(p, e). entry_ok today allow_expired p e) ws"
proof -
  from assms obtain raw entries where loop: "for_each (load_entry F today allow_expired) [] raw = Inr entries" and ws: "ws = sort_key fst entries"
    by (auto simp: load_validation_waivers_def split: option.splits yaml.splits if_splits)
  from loop have "distinct (map fst entries) \<and> (\<forall>(p, e)\<in>set entries. entry_ok today allow_expired p e)"
  proof (rule for_each_rule)
    fix ys y s s' and zs :: "(json \<times> yaml) list"
    assume inv: "distinct (map fst s) \<and> (\<forall>(p, e)\<in>set s. entry_ok today allow_expired p e)" and st: "load_entry F today allow_expired s y = Inr s'"
    from st obtain p e where s': "s' = AList.update p e s" "entry_ok today allow_expired p e" by (rule load_entry_Inr)
    moreover have "(q, f) \<in> set s \<or> (q, f) = (p, e)" if "(q, f) \<in> set (AList.update p e s)" for q f
      using that by (induction s) (auto split: if_splits)
    ultimately show "distinct (map fst s') \<and> (\<forall>(p, e)\<in>set s'. entry_ok today allow_expired p e)"
      using inv by (fastforce simp: distinct_update)
  qed simp
  then show ?thesis by (simp add: ws list_all_iff distinct_map_sort_key)
qed

section \<open>The protected base\<close>

lemma path_issues_Nil:
  "path_issues base head changed wp today p = [] \<longleftrightarrow>
     (\<forall>a. entry_active head p = Some a \<longrightarrow> entry_active base p = Some a \<or>
        entry_pending base p = Some a \<and> ordinal today < expiry_ordinal a \<and> entry_pending head p = None)
     \<and> (\<forall>b. entry_pending head p = Some b \<longrightarrow> entry_pending base p = Some b \<or> changed = {wp})"
  by (cases "entry_active head p"; cases "entry_pending base p"; cases "entry_pending head p")
    (auto simp: path_issues_def)

lemma entry_outside: "p \<notin> set (map fst ws) \<Longrightarrow> entry_active ws p = None \<and> entry_pending ws p = None"
proof -
  assume "p \<notin> set (map fst ws)"
  then have "map_of ws p = None" by (simp add: map_of_eq_None_iff)
  then show ?thesis by (simp add: entry_active_def entry_pending_def)
qed

lemma transition_Inr:
  "validate_protected_base_transition base head changed wp today = Inr u \<longleftrightarrow>
     (\<forall>p. path_issues base head changed wp today p = [])"
proof -
  have out: "path_issues base head changed wp today p = []" if "p \<notin> set (map fst base @ map fst head)" for p
    using that entry_outside[of p head] by (auto simp: path_issues_Nil)
  have "validate_protected_base_transition base head changed wp today = Inr u \<longleftrightarrow>
      (\<forall>p\<in>set (map fst base @ map fst head). path_issues base head changed wp today p = [])"
    by (simp add: validate_protected_base_transition_def Let_def protected_base_transition_issues_def)
  also have "\<dots> \<longleftrightarrow> (\<forall>p. path_issues base head changed wp today p = [])"
    using out by blast
  finally show ?thesis .
qed

text \<open>C14. A pull request is accepted exactly when every active waiver of its head either was active on the
  protected base or consumes a pending record of the base that is identical, unexpired and removed, and
  every pending record was on the base unless the pull request changes the waiver file alone.\<close>

theorem transition_accepted_iff:
  "validate_protected_base_transition base head changed wp today = Inr () \<longleftrightarrow>
     (\<forall>p a. entry_active head p = Some a \<longrightarrow> entry_active base p = Some a \<or>
        entry_pending base p = Some a \<and> ordinal today < expiry_ordinal a \<and> entry_pending head p = None)
     \<and> (\<forall>p b. entry_pending head p = Some b \<longrightarrow> entry_pending base p = Some b \<or> changed = {wp})"
  unfolding transition_Inr path_issues_Nil by blast

text \<open>The history of a protected branch: the waiver file starts empty, and each merged pull request is
  accepted against the file before it. The second component collects the pending records that pull
  requests changing nothing but the waiver file have put on the branch.\<close>

definition approvals :: "string \<Rightarrow> string set \<Rightarrow> waiver_set \<Rightarrow> (string \<times> waiver_metadata) set" where
  "approvals wp changed head = (if changed = {wp} then {(p, m). entry_pending head p = Some m} else {})"

inductive merged_pr :: "string \<Rightarrow> waiver_set \<times> (string \<times> waiver_metadata) set \<Rightarrow> waiver_set \<times> (string \<times> waiver_metadata) set \<Rightarrow> bool"
  for wp where
  merge: "validate_protected_base_transition base head changed wp today = Inr ()
    \<Longrightarrow> merged_pr wp (base, A) (head, A \<union> approvals wp changed head)"

inductive_cases merged_prE: "merged_pr wp s t"

definition all_approved :: "waiver_set \<times> (string \<times> waiver_metadata) set \<Rightarrow> bool" where
  "all_approved s \<longleftrightarrow> (\<forall>p m. entry_active (fst s) p = Some m \<or> entry_pending (fst s) p = Some m \<longrightarrow> (p, m) \<in> snd s)"

lemma merged_pr_approved: "merged_pr wp s t \<Longrightarrow> all_approved s \<Longrightarrow> all_approved t"
proof (elim merged_prE)
  fix base head changed today A
  assume s: "s = (base, A)" "t = (head, A \<union> approvals wp changed head)" and inv: "all_approved s"
    and v: "validate_protected_base_transition base head changed wp today = Inr ()"
  have acc: "\<forall>p. path_issues base head changed wp today p = []" using v by (simp add: transition_Inr)
  show "all_approved t"
    unfolding all_approved_def
  proof (intro allI impI)
    fix p m
    assume h: "entry_active (fst t) p = Some m \<or> entry_pending (fst t) p = Some m"
    have "entry_active base p = Some m \<or> entry_pending base p = Some m \<or> (changed = {wp} \<and> entry_pending head p = Some m)"
      using h acc by (auto simp: s path_issues_Nil)
    then show "(p, m) \<in> snd t" using inv by (auto simp: s all_approved_def approvals_def)
  qed
qed

interpretation waiver_history: kept_invariant "merged_pr wp" all_approved
  by unfold_locales (rule merged_pr_approved)

text \<open>C13. No waiver is approved and activated at once: along the history of a branch that starts without
  waivers, whenever a pull request is accepted whose head has an active waiver, that very record was put
  on the branch as pending by an earlier pull request that changed the waiver file alone.\<close>

theorem active_waiver_was_approved_before:
  assumes "(merged_pr wp)\<^sup>*\<^sup>* ([], {}) (base, A)"
    and "validate_protected_base_transition base head changed wp today = Inr ()"
    and "entry_active head p = Some m"
  shows "(p, m) \<in> A"
proof -
  have "all_approved ([], {})" by (simp add: all_approved_def entry_active_def entry_pending_def)
  with assms(1) have "all_approved (base, A)" by (rule waiver_history.run_inv)
  moreover have "entry_active base p = Some m \<or> entry_pending base p = Some m"
    using assms(2,3) unfolding transition_Inr path_issues_Nil by blast
  ultimately show ?thesis by (auto simp: all_approved_def)
qed

end
