(* ===== verification/Failure_Fingerprint.thy ===== *)
theory Failure_Fingerprint
  imports Validation_Waivers Py_Regex
begin

text \<open>
  The canonical bytes of a validation failure (\<open>canonicalize_outcome\<close> and \<open>fingerprint_outcome\<close> of
  \<open>src/axiom_encode/validation_waivers.py\<close>): text normalisation, the canonical validator and companion
  outcomes, and their serialisation. The patterns are matchers of \<open>Py_Regex\<close>. The property is that the bytes do not
  depend on the order in which issues, validators and companion failures are reported.
\<close>

section \<open>Patterns\<close>

definition word_char :: "char \<Rightarrow> bool" where
  "word_char c \<longleftrightarrow> is_alnum c \<or> c \<in> set ''_.-''"

text \<open>\<open>\x1b\[[0-?]*[ -/]*[@-~]\<close>: the three character classes are disjoint, so taking each run greedily is
  what the pattern matches.\<close>

definition ansi_match :: matcher where
  "ansi_match prev t =
    (case t of a # b # r \<Rightarrow>
       if a = CHR 0x1B \<and> b = CHR 0x5B then
         (case dropWhile (\<lambda>c. 32 \<le> code c \<and> code c \<le> 47) (dropWhile (\<lambda>c. 48 \<le> code c \<and> code c \<le> 63) r) of
            f # rest \<Rightarrow> if 64 \<le> code f \<and> code f \<le> 126 then Some ([], rest) else None
          | [] \<Rightarrow> None)
       else None
     | _ \<Rightarrow> None)"

text \<open>\<open>(?<![A-Za-z0-9_.-])raw(?=$|[^A-Za-z0-9_.-])\<close>.\<close>

definition path_match :: "string \<Rightarrow> string \<Rightarrow> matcher" where
  "path_match raw replacement prev t =
    (let rest = drop (length raw) t in
     if (case prev of None \<Rightarrow> True | Some c \<Rightarrow> \<not> word_char c) \<and> prefix raw t \<and> (rest = [] \<or> \<not> word_char (hd rest))
     then Some (replacement, rest) else None)"

definition is_sep :: "string \<Rightarrow> bool" where
  "is_sep t \<longleftrightarrow> t \<noteq> [] \<and> (hd t = CHR ''/'' \<or> hd t = CHR 0x5C)"

definition alias_temp_match :: matcher where
  "alias_temp_match prev t =
    (let r1 = drop 12 t; r2 = drop 1 r1; r3 = drop 27 r2; r4 = drop 1 r3 in
     if prefix ''<system-tmp>'' t \<and> is_sep r1 \<and> prefix ''axiom-rulespec-repo-aliases'' r2 \<and> is_sep r3
        \<and> length (take 16 r4) = 16 \<and> list_all is_hex (take 16 r4)
     then Some (''<rulespec-alias>'', drop 16 r4) else None)"

definition random_temp_match :: matcher where
  "random_temp_match prev t =
    (let r1 = drop 12 t; r2 = drop 1 r1;
         r3 = (if prefix ''tmp'' r2 then Some (drop 3 r2) else if prefix ''.tmp'' r2 then Some (drop 4 r2) else None) in
     if prefix ''<system-tmp>'' t \<and> is_sep r1 then
       (case r3 of Some r \<Rightarrow> if r \<noteq> [] \<and> word_char (hd r) then Some (''<tmp>'', dropWhile word_char r) else None | None \<Rightarrow> None)
     else None)"

section \<open>Normalisation\<close>

fun unify_newlines :: "string \<Rightarrow> string" where
  "unify_newlines [] = []"
| "unify_newlines (c # cs) =
    (if c = CHR 0x0D then CHR 0x0A # unify_newlines (if cs \<noteq> [] \<and> hd cs = CHR 0x0A then tl cs else cs)
     else c # unify_newlines cs)"

definition apply_replacement :: "string \<Rightarrow> string \<times> string \<Rightarrow> string" where
  "apply_replacement text rr =
    (let raw = fst rr; slash_raw = map (\<lambda>c. if c = CHR 0x5C then CHR ''/'' else c) raw in
     if raw = [] then text else
     let text' = sub_with (path_match raw (snd rr)) None text in
     if slash_raw \<noteq> raw then sub_with (path_match slash_raw (snd rr)) None text' else text')"

definition normalize_text :: "json \<Rightarrow> (string \<times> string) list \<Rightarrow> string" where
  "normalize_text v replacements =
    (let text = sub_with ansi_match None (unify_newlines (py_str v));
         text = foldl apply_replacement text (sort_key (\<lambda>rr. (- int (length (fst rr)), fst rr)) replacements)
     in sub_with random_temp_match None (sub_with alias_temp_match None text))"

definition normalized_optional_text :: "json \<Rightarrow> (string \<times> string) list \<Rightarrow> json" where
  "normalized_optional_text v replacements = (if v = JNull then JNull else JStr (normalize_text v replacements))"

section \<open>Canonical outcomes\<close>

definition get_default :: "jobj \<Rightarrow> string \<Rightarrow> json \<Rightarrow> json" where
  "get_default d k dflt = (case map_of d k of Some v \<Rightarrow> v | None \<Rightarrow> dflt)"

definition canonical_issues :: "json \<Rightarrow> (string \<times> string) list \<Rightarrow> json" where
  "canonical_issues v replacements =
    (case v of JArr xs \<Rightarrow> JArr (map JStr (sort (map (\<lambda>x. normalize_text x replacements) xs))) | _ \<Rightarrow> JArr [])"

definition canonical_validators :: "(string \<times> json) list \<Rightarrow> (string \<times> string) list \<Rightarrow> jobj" where
  "canonical_validators vs replacements =
    map (\<lambda>(n, r). (n, JObj [(''error'', normalized_optional_text (dget (obj_of r) ''error'') replacements),
        (''issues'', canonical_issues (get_default (obj_of r) ''issues'' (JArr [])) replacements)]))
      (filter (\<lambda>(n, r). is_obj r \<and> \<not> is_true (dget (obj_of r) ''passed'')) (sort_key fst vs))"

definition canonical_validate :: "json \<Rightarrow> (string \<times> string) list \<Rightarrow> json" where
  "canonical_validate outcome replacements =
    (let raw = obj_of outcome in
     JObj [(''passed'', JBool (truthy (dget raw ''passed''))),
       (''validators'', JObj (canonical_validators (obj_of (dget raw ''validators'')) replacements))])"

text \<open>\<open>json.dumps(v, sort_keys=True, separators=(",", ":"), ensure_ascii=False)\<close>.\<close>

definition esc_char_raw :: "char \<Rightarrow> string" where
  "esc_char_raw c = (if code c \<ge> 127 then [c] else esc_char c)"

definition dumps_str_raw :: "string \<Rightarrow> string" where
  "dumps_str_raw s = CHR 0x22 # concat (map esc_char_raw s) @ [CHR 0x22]"

primrec print_raw :: "json \<Rightarrow> string" where
  "print_raw JNull = ''null''"
| "print_raw (JBool b) = (if b then ''true'' else ''false'')"
| "print_raw (JInt i) = int_repr i"
| "print_raw (JFloat t) = t"
| "print_raw (JStr s) = dumps_str_raw s"
| "print_raw (JArr xs) = ''['' @ join '','' (map print_raw xs) @ '']''"
| "print_raw (JObj d) =
     ''{'' @ join '','' (map (\<lambda>(k, r). dumps_str_raw k @ '':'' @ r) (map (map_prod id print_raw) d)) @ ''}''"

definition dumps_raw :: "json \<Rightarrow> string" where
  "dumps_raw v = print_raw (sort_keys v)"

definition canonical_failure :: "(string \<times> string) list \<Rightarrow> jobj \<Rightarrow> json" where
  "canonical_failure replacements f =
     JObj [(''case'', normalized_optional_text (dget f ''case'') replacements),
       (''file'', normalized_optional_text (dget f ''file'') replacements),
       (''message'', JStr (normalize_text (get_default f ''message'' (JStr ''companion test failed'')) replacements))]"

definition canonical_failures :: "json \<Rightarrow> (string \<times> string) list \<Rightarrow> json list" where
  "canonical_failures v replacements =
     sort_key dumps_raw (map (\<lambda>f. canonical_failure replacements (obj_of f)) (filter is_obj (arr_of v)))"

definition canonical_companion :: "json \<Rightarrow> (string \<times> string) list \<Rightarrow> (waiver_error, json) result" where
  "canonical_companion outcome replacements =
    (let raw = obj_of outcome; cases = get_default raw ''cases'' (JInt 0) in
     if \<not> is_int cases \<or> int_of cases < 0 then Inl (ValidationWaiverError ''companion cases must be a non-negative integer'')
     else Inr (JObj [(''present'', JBool (truthy (dget raw ''present''))), (''passed'', JBool (truthy (dget raw ''passed''))),
       (''path'', normalized_optional_text (dget raw ''path'') replacements), (''cases'', cases),
       (''failures'', JArr (canonical_failures (dget raw ''failures'') replacements))]))"

definition utf8 :: "string \<Rightarrow> string" where
  "utf8 s = concat (map (\<lambda>c. if code c < 128 then [c] else [char_of (192 + code c div 64), char_of (128 + code c mod 64)]) s)"

definition canonicalize_outcome :: "json \<Rightarrow> json \<Rightarrow> (string \<times> string) list \<Rightarrow> (waiver_error, string) result" where
  "canonicalize_outcome validate companion replacements =
    bind_r (canonical_companion companion replacements) (\<lambda>c.
      Inr (utf8 (dumps_raw (JObj [(''schema'', JStr ''rulespec-validation-failure/v1''),
        (''validate'', canonical_validate validate replacements), (''companion'', c)]) @ [CHR 0x0A])))"

definition fingerprint_outcome :: "(string \<Rightarrow> string) \<Rightarrow> json \<Rightarrow> json \<Rightarrow> (string \<times> string) list \<Rightarrow> (waiver_error, string) result" where
  "fingerprint_outcome sha256 validate companion replacements =
    bind_r (canonicalize_outcome validate companion replacements) (\<lambda>b. Inr (''sha256:'' @ sha256 b))"

section \<open>The order of reports does not matter\<close>

text \<open>Two results of a validator that report the same issues, and two outcomes that report the same
  failures, up to order.\<close>

definition same_result :: "json \<Rightarrow> json \<Rightarrow> bool" where
  "same_result r s \<longleftrightarrow> r = s \<or> (\<exists>d e xs ys. r = JObj d \<and> s = JObj e \<and> dget d ''passed'' = dget e ''passed''
     \<and> dget d ''error'' = dget e ''error'' \<and> map_of d ''issues'' = Some (JArr xs) \<and> map_of e ''issues'' = Some (JArr ys)
     \<and> mset xs = mset ys)"

definition same_validate :: "jobj \<Rightarrow> jobj \<Rightarrow> bool" where
  "same_validate d e \<longleftrightarrow> dget d ''passed'' = dget e ''passed''
     \<and> list_all2 (\<lambda>(n, r) (n', s). n = n' \<and> same_result r s)
        (sort_key fst (obj_of (dget d ''validators''))) (sort_key fst (obj_of (dget e ''validators'')))"

definition same_companion :: "jobj \<Rightarrow> jobj \<Rightarrow> bool" where
  "same_companion d e \<longleftrightarrow> list_all (\<lambda>k. map_of d k = map_of e k) [''present'', ''passed'', ''path'', ''cases'']
     \<and> mset (arr_of (dget d ''failures'')) = mset (arr_of (dget e ''failures''))"

lemma sort_mset_eq: "mset xs = mset ys \<Longrightarrow> sort (map f xs) = sort (map f ys)"
  by (metis mset_map properties_for_sort sorted_sort mset_sort)

lemma map_sort_key: "map k (sort_key k xs) = sort (map k xs)"
  by (metis mset_map mset_sort properties_for_sort sorted_sort_key)

lemma canonical_result_eq:
  assumes "same_result r s"
  shows "is_obj r = is_obj s" "dget (obj_of r) ''passed'' = dget (obj_of s) ''passed''"
    "dget (obj_of r) ''error'' = dget (obj_of s) ''error''"
    "canonical_issues (get_default (obj_of r) ''issues'' (JArr [])) reps = canonical_issues (get_default (obj_of s) ''issues'' (JArr [])) reps"
  using assms by (auto simp: same_result_def canonical_issues_def get_default_def intro!: arg_cong[of _ _ "map JStr"] sort_mset_eq)

lemma canonical_validators_eq:
  assumes "list_all2 (\<lambda>(n, r) (n', s). n = n' \<and> same_result r s) (sort_key fst vs) (sort_key fst ws)"
  shows "canonical_validators vs reps = canonical_validators ws reps"
  unfolding canonical_validators_def using assms
  by (induction rule: list_all2_induct) (auto simp: canonical_result_eq split: prod.splits)

text \<open>A list of failures prints as the join of their texts, so sorting by text makes it canonical.\<close>

lemma print_failures:
  "print_raw (sort_keys (JArr (canonical_failures v reps)))
     = ''['' @ join '','' (sort (map (\<lambda>f. dumps_raw (canonical_failure reps (obj_of f))) (filter is_obj (arr_of v)))) @ '']''"
proof -
  have "map print_raw (map sort_keys (canonical_failures v reps)) = map dumps_raw (canonical_failures v reps)"
    by (simp add: dumps_raw_def)
  also have "\<dots> = sort (map (\<lambda>f. dumps_raw (canonical_failure reps (obj_of f))) (filter is_obj (arr_of v)))"
    unfolding canonical_failures_def map_sort_key by (simp add: comp_def)
  finally show ?thesis by simp
qed

lemma print_failures_eq:
  assumes "mset (arr_of v) = mset (arr_of w)"
  shows "print_raw (sort_keys (JArr (canonical_failures v reps))) = print_raw (sort_keys (JArr (canonical_failures w reps)))"
proof -
  have "mset (filter is_obj (arr_of v)) = mset (filter is_obj (arr_of w))" using assms by simp
  then show ?thesis unfolding print_failures by (metis sort_mset_eq)
qed

section \<open>Properties\<close>

lemma canonical_validate_eq:
  "same_validate d e \<Longrightarrow> canonical_validate (JObj d) reps = canonical_validate (JObj e) reps"
  by (simp add: same_validate_def canonical_validate_def canonical_validators_eq)

text \<open>The canonical companion outcome with its failures left open.\<close>

definition companion_with :: "jobj \<Rightarrow> (string \<times> string) list \<Rightarrow> json \<Rightarrow> json" where
  "companion_with raw reps failures =
     JObj [(''present'', JBool (truthy (dget raw ''present''))), (''passed'', JBool (truthy (dget raw ''passed''))),
       (''path'', normalized_optional_text (dget raw ''path'') reps), (''cases'', get_default raw ''cases'' (JInt 0)),
       (''failures'', failures)]"

lemma canonical_companion_Inr:
  "canonical_companion (JObj d) reps =
    (if is_int (get_default d ''cases'' (JInt 0)) \<and> int_of (get_default d ''cases'' (JInt 0)) \<ge> 0
     then Inr (companion_with d reps (JArr (canonical_failures (dget d ''failures'') reps)))
     else Inl (ValidationWaiverError ''companion cases must be a non-negative integer''))"
  by (simp add: canonical_companion_def Let_def companion_with_def)

lemma print_outcome_cong:
  assumes "print_raw (sort_keys f) = print_raw (sort_keys g)"
  shows "dumps_raw (JObj [(''schema'', s), (''validate'', v), (''companion'', companion_with d reps f)])
    = dumps_raw (JObj [(''schema'', s), (''validate'', v), (''companion'', companion_with d reps g)])"
  using assms by (simp add: dumps_raw_def companion_with_def insort_key_def)

text \<open>C16. The fingerprint of a failure does not depend on the order in which it is reported: permuting the
  issues of a validator, the validators and the companion failures leaves the canonical bytes, and so the
  fingerprint, unchanged.\<close>

theorem fingerprint_order_independent:
  assumes "same_validate d e" "same_companion c f"
  shows "fingerprint_outcome sha256 (JObj d) (JObj c) reps = fingerprint_outcome sha256 (JObj e) (JObj f) reps"
proof -
  have get: "get_default c ''cases'' (JInt 0) = get_default f ''cases'' (JInt 0)"
    and dg: "dget c ''present'' = dget f ''present''" "dget c ''passed'' = dget f ''passed''" "dget c ''path'' = dget f ''path''"
    and fl: "mset (arr_of (dget c ''failures'')) = mset (arr_of (dget f ''failures''))"
    using assms(2) by (simp_all add: same_companion_def get_default_def dget_def)
  have comp: "companion_with c reps x = companion_with f reps x" for x
    by (simp add: companion_with_def get dg)
  note pr = print_outcome_cong[OF print_failures_eq[OF fl, of reps]]
  show ?thesis
    unfolding fingerprint_outcome_def canonicalize_outcome_def canonical_companion_Inr get
      canonical_validate_eq[OF assms(1)] comp
    by (simp add: pr)
qed

end
