(* ===== verification/Waiver_Examples.thy ===== *)
theory Waiver_Examples
  imports Waiver_Facts Failure_Fingerprint
begin

text \<open>
  Concrete waiver files, histories and failure reports on which the hypotheses of the waiver properties hold.
\<close>

section \<open>Dates\<close>

definition leap_day :: date where "leap_day = \<lparr>year = 2028, month = 2, day = 29\<rparr>"

definition toy_today :: date where "toy_today = \<lparr>year = 2028, month = 3, day = 1\<rparr>"

theorem ordinal_less_iff_before_witness:
  "valid_date leap_day \<and> valid_date toy_today \<and> before leap_day toy_today \<and> ordinal leap_day < ordinal toy_today"
proof -
  have v: "valid_date leap_day" "valid_date toy_today" by code_simp+
  have b: "before leap_day toy_today" by (simp add: before_def leap_day_def toy_today_def)
  show ?thesis using ordinal_less_iff_before[OF v] v b by simp
qed

section \<open>A waiver file\<close>

definition toy_path :: string where "toy_path = ''us-ca/statutes/17041.yaml''"

definition toy_metadata :: waiver_metadata where
  "toy_metadata = \<lparr>fingerprint = ''sha256:'' @ replicate 64 CHR ''0'', owner = ''@octo-cat'',
     w_issue = ''https://github.com/TheAxiomFoundation/rulespec-us/issues/12'', expires = ''2028-05-01''\<rparr>"

definition metadata_yaml :: "waiver_metadata \<Rightarrow> yaml" where
  "metadata_yaml m = YMap [(JStr ''fingerprint'', YScalar (JStr (fingerprint m))), (JStr ''owner'', YScalar (JStr (owner m))),
     (JStr ''issue'', YScalar (JStr (w_issue m))), (JStr ''expires'', YScalar (JStr (expires m)))]"

definition toy_events :: "yaml_event list" where
  "toy_events = [OtherEvent, CollectionStart None, ScalarEvent None ''validate_failures'', CollectionStart None,
     ScalarEvent None toy_path, CollectionStart None, CollectionEnd, CollectionEnd, CollectionEnd, OtherEvent]"

definition toy_file :: waiver_file where
  "toy_file = \<lparr>wf_exists = True, wf_lstat = Some RegularFile, wf_size = 400, wf_events = Some toy_events,
     wf_value = Some (YMap [(JStr ''validate_failures'',
       YMap [(JStr toy_path, YMap [(JStr ''pending'', metadata_yaml toy_metadata)])])])\<rparr>"

definition toy_repo :: file_system where
  "toy_repo = \<lparr>lstat = (\<lambda>p. if p = [''us-ca''] \<or> p = [''us-ca'', ''statutes''] then Some Directory
     else if p = [''us-ca'', ''statutes'', ''17041.yaml''] then Some RegularFile else None), resolves_inside = (\<lambda>_. True)\<rparr>"

definition toy_pending :: waiver_set where
  "toy_pending = [(toy_path, \<lparr>w_path = toy_path, active = None, pending = Some toy_metadata\<rparr>)]"

definition toy_activated :: waiver_set where
  "toy_activated = [(toy_path, \<lparr>w_path = toy_path, active = Some toy_metadata, pending = None\<rparr>)]"

theorem scan_bounded_yaml_bounds_witness:
  "scan_bounded_yaml toy_events = Inr () \<and> yaml_depth (take 6 toy_events) = 3 \<and> length toy_events \<le> 250000 \<and> list_all event_ok toy_events"
proof -
  have s: "scan_bounded_yaml toy_events = Inr ()" by code_simp
  moreover have "yaml_depth (take 6 toy_events) = 3" by code_simp
  ultimately show ?thesis using scan_bounded_yaml_bounds[OF s] by blast
qed

theorem module_path_safe_witness:
  "module_path (JStr toy_path) = Inr toy_path \<and> 3 \<le> length (split_on CHR ''/'' toy_path)"
proof -
  have m: "module_path (JStr toy_path) = Inr toy_path" by code_simp
  then show ?thesis using module_path_safe[OF m] by blast
qed

theorem resolved_module_is_regular_witness:
  "resolve_validation_waiver_module toy_repo toy_path = Inr ([''us-ca'', ''statutes'', ''17041.yaml''], toy_path)
     \<and> lstat toy_repo [''us-ca'', ''statutes'', ''17041.yaml''] = Some RegularFile"
proof -
  have r: "resolve_validation_waiver_module toy_repo toy_path = Inr ([''us-ca'', ''statutes'', ''17041.yaml''], toy_path)"
    by code_simp
  then show ?thesis using resolved_module_is_regular[OF r] by blast
qed

lemma toy_file_loads: "load_validation_waivers toy_file (Some toy_repo) toy_today False = Inr toy_pending"
  by code_simp

text \<open>A day after its expiry the file no longer loads in the strict mode, but loads in the other.\<close>

definition toy_later :: date where "toy_later = \<lparr>year = 2028, month = 6, day = 1\<rparr>"

theorem loaded_waivers_ok_witness:
  "list_all (\<lambda>(p, e). entry_ok toy_today False p e) toy_pending \<and> list_all (\<lambda>(p, e). entry_ok toy_later True p e) toy_pending
     \<and> isl (load_validation_waivers toy_file (Some toy_repo) toy_later False)"
proof -
  have "load_validation_waivers toy_file (Some toy_repo) toy_later True = Inr toy_pending"
    "isl (load_validation_waivers toy_file (Some toy_repo) toy_later False)" by code_simp+
  then show ?thesis using loaded_waivers_ok[OF toy_file_loads] loaded_waivers_ok by blast
qed

section \<open>A history\<close>

lemma toy_approve: "validate_protected_base_transition [] toy_pending {''w.yaml''} ''w.yaml'' toy_today = Inr ()"
  by code_simp

lemma toy_activate: "validate_protected_base_transition toy_pending toy_activated {''w.yaml'', toy_path} ''w.yaml'' toy_today = Inr ()"
  by code_simp

lemma toy_entries: "entry_pending toy_pending p = (if p = toy_path then Some toy_metadata else None)"
  "entry_active toy_activated toy_path = Some toy_metadata"
  by (simp_all add: entry_pending_def entry_active_def toy_pending_def toy_activated_def)

theorem transition_accepted_iff_witness:
  "validate_protected_base_transition toy_pending toy_activated {''w.yaml'', toy_path} ''w.yaml'' toy_today = Inr ()
     \<and> ordinal toy_today < expiry_ordinal toy_metadata
     \<and> (entry_active toy_pending toy_path = Some toy_metadata \<or> entry_pending toy_pending toy_path = Some toy_metadata)"
proof -
  have "ordinal toy_today < expiry_ordinal toy_metadata" by code_simp
  then show ?thesis using toy_activate toy_entries(2)
    toy_activate[unfolded transition_accepted_iff, THEN conjunct1, rule_format, OF toy_entries(2)] by blast
qed

theorem active_waiver_was_approved_before_witness:
  "(toy_path, toy_metadata) \<in> {} \<union> approvals ''w.yaml'' {''w.yaml''} toy_pending"
proof (rule active_waiver_was_approved_before[OF _ toy_activate toy_entries(2)])
  have "merged_pr ''w.yaml'' ([], {}) (toy_pending, {} \<union> approvals ''w.yaml'' {''w.yaml''} toy_pending)"
    by (rule merge[OF toy_approve])
  then show "(merged_pr ''w.yaml'')\<^sup>*\<^sup>* ([], {}) (toy_pending, {} \<union> approvals ''w.yaml'' {''w.yaml''} toy_pending)" by blast
qed

section \<open>A failure reported in two orders\<close>

definition toy_validate :: "json list \<Rightarrow> jobj" where
  "toy_validate issues = [(''passed'', JBool False),
     (''validators'', JObj [(''ci'', JObj [(''passed'', JBool False), (''issues'', JArr issues)])])]"

definition toy_companion :: "json list \<Rightarrow> jobj" where
  "toy_companion fs = [(''present'', JBool True), (''passed'', JBool False), (''cases'', JInt 2), (''failures'', JArr fs)]"

definition toy_failure :: "string \<Rightarrow> json" where
  "toy_failure m = JObj [(''case'', JStr m), (''message'', JStr m)]"

lemma toy_validate_same: "same_validate (toy_validate [JStr ''a'', JStr ''b'']) (toy_validate [JStr ''b'', JStr ''a''])"
  by (auto simp: same_validate_def toy_validate_def same_result_def dget_def)

lemma toy_companion_same: "same_companion (toy_companion [toy_failure ''x'', toy_failure ''y'']) (toy_companion [toy_failure ''y'', toy_failure ''x''])"
  by (simp add: same_companion_def toy_companion_def dget_def)

theorem fingerprint_order_independent_witness:
  "fingerprint_outcome id (JObj (toy_validate [JStr ''a'', JStr ''b''])) (JObj (toy_companion [toy_failure ''x'', toy_failure ''y''])) []
     = fingerprint_outcome id (JObj (toy_validate [JStr ''b'', JStr ''a''])) (JObj (toy_companion [toy_failure ''y'', toy_failure ''x''])) []"
  by (rule fingerprint_order_independent[OF toy_validate_same toy_companion_same])

end
