(* ===== verification/Signing_Broker.thy ===== *)
theory Signing_Broker
  imports Py_Json_Parse Py_Base64
begin

text \<open>
  The out-of-process signing boundary (\<open>src/axiom_encode/signing_broker.py\<close>): the domain-separated signing
  message, the framed JSON protocol over a stream socket, the client with its request numbers, the trust
  roots a broker exposes, the process-wide broker slot and its handling over a fork, the attachment from
  the environment, and the environment handed to untrusted children.

  A socket is the list of what its next \<open>recv\<close> calls find (\<open>Chunk\<close>, of which a call takes at most what it
  asked for, or \<open>RecvFailure\<close>; an exhausted list or an empty chunk is the end of the stream) and the bytes
  sent so far. The client's lock makes its operations atomic, so a history of a client is a sequence of
  steps. \<open>os_facts\<close> holds what the operating system answers. The digit and nesting limits of \<open>json.loads\<close>
  are those of \<open>Py_Json_Parse\<close>.
\<close>

section \<open>Errors\<close>

datatype broker_error = SigningBrokerError string | ValueError string | EOFError | OSError | OutsideText

abbreviation broker_fails :: "string \<Rightarrow> (broker_error, 'a) result" where
  "broker_fails msg \<equiv> Inl (SigningBrokerError msg)"

section \<open>Signing messages\<close>

definition protocol_version :: int where "protocol_version = 4"
definition max_frame_bytes :: nat where "max_frame_bytes = 64 * 1024 * 1024"

definition signature_domain_prefix :: string where
  "signature_domain_prefix = ''axiom-encode/external-signer-sign/v2'' @ [CHR 0x00]"

definition signing_scopes :: "string list" where
  "signing_scopes = [''apply_ed25519'', ''eval_ed25519'']"

definition canonical_signing_message :: "string \<Rightarrow> string \<Rightarrow> (broker_error, string) result" where
  "canonical_signing_message scope payload =
    (if scope \<notin> set signing_scopes then Inl (ValueError (''Unsupported signing scope: '' @ str_repr scope))
     else Inr (signature_domain_prefix @ scope @ [CHR 0x00] @ payload))"

section \<open>Environments\<close>

definition private_env_names :: "string list" where
  "private_env_names = [''AXIOM_ENCODE_APPLY_SIGNING_KEY'', ''AXIOM_ENCODE_APPLY_SIGNING_PRIVATE_KEY'',
     ''AXIOM_ENCODE_EVAL_SIGNING_PRIVATE_KEY'']"

definition broker_fd_env :: string where "broker_fd_env = ''AXIOM_ENCODE_SIGNING_BROKER_FD''"
definition broker_pid_env :: string where "broker_pid_env = ''AXIOM_ENCODE_SIGNING_BROKER_PID''"
definition broker_marker_env :: string where "broker_marker_env = ''AXIOM_ENCODE_SIGNING_BROKER_ACTIVE''"

definition broker_env_names :: "string list" where
  "broker_env_names = [broker_fd_env, broker_pid_env, broker_marker_env]"

definition trusted_subprocess_base_names :: "string list" where
  "trusted_subprocess_base_names = [''GIT_CONFIG_GLOBAL'', ''GIT_CONFIG_NOSYSTEM'', ''GIT_TERMINAL_PROMPT'', ''HOME'',
     ''LANG'', ''PATH'', ''PYTHONDONTWRITEBYTECODE'', ''PYTHONNOUSERSITE'', ''PYTHONSAFEPATH'', ''XDG_CONFIG_HOME'', ''XDG_DATA_HOME'']"

definition explicit_subprocess_env_names :: "string list" where
  "explicit_subprocess_env_names = [''LC_ALL'', ''PYTHONHASHSEED'', ''TZ'']"

definition default_base_environment :: "string dict" where
  "default_base_environment = [(''GIT_CONFIG_GLOBAL'', ''/dev/null''), (''GIT_CONFIG_NOSYSTEM'', ''1''), (''GIT_TERMINAL_PROMPT'', ''0''),
     (''HOME'', ''/nonexistent''), (''LANG'', ''C.UTF-8''), (''PATH'', ''''), (''PYTHONDONTWRITEBYTECODE'', ''1''),
     (''PYTHONNOUSERSITE'', ''1''), (''PYTHONSAFEPATH'', ''1''), (''XDG_CONFIG_HOME'', ''/nonexistent''), (''XDG_DATA_HOME'', ''/nonexistent'')]"

text \<open>The first argument is \<open>_trusted_subprocess_base_environment\<close>; an empty dict is false, as \<open>None\<close> is.\<close>

definition scrub_private_signing_environment :: "string dict option \<Rightarrow> string dict option \<Rightarrow> string dict" where
  "scrub_private_signing_environment base environment =
    (let clean = (case base of None \<Rightarrow> default_base_environment | Some b \<Rightarrow> if b = [] then default_base_environment else b)
     in foldl (\<lambda>env (name, v). if name \<in> set explicit_subprocess_env_names then AList.update name v env else env)
          clean (case environment of None \<Rightarrow> [] | Some e \<Rightarrow> e))"

definition reject_direct_private_signing_environment :: "string dict \<Rightarrow> (broker_error, unit) result" where
  "reject_direct_private_signing_environment source =
    (let present = filter (\<lambda>name. name \<in> keys source) private_env_names in
     fail_if (present \<noteq> []) (SigningBrokerError (''Private signing keys must not be supplied to axiom-encode through its environment; attach an externally provisioned signing broker instead (forbidden: '' @ join '', '' present @ '')'')))"

section \<open>Frames\<close>

datatype recv_event = Chunk string | RecvFailure

definition pack_u32 :: "nat \<Rightarrow> string" where
  "pack_u32 n = map (\<lambda>k. char_of (n div 256 ^ k mod 256)) [3, 2, 1, 0]"

definition unpack_u32 :: "string \<Rightarrow> nat" where
  "unpack_u32 bs = foldl (\<lambda>a c. 256 * a + code c) 0 bs"

fun receive_exact :: "recv_event list \<Rightarrow> nat \<Rightarrow> (broker_error, string) result \<times> recv_event list" where
  "receive_exact evs 0 = (Inr [], evs)"
| "receive_exact [] (Suc n) = (Inl EOFError, [])"
| "receive_exact (RecvFailure # evs) (Suc n) = (Inl OSError, evs)"
| "receive_exact (Chunk bs # evs) (Suc n) =
    (if bs = [] then (Inl EOFError, evs)
     else if Suc n < length bs then (Inr (take (Suc n) bs), Chunk (drop (Suc n) bs) # evs)
     else (let (m, evs') = receive_exact evs (Suc n - length bs) in (bind_r m (\<lambda>more. Inr (bs @ more)), evs')))"

definition exact_object :: "(string \<times> json) list \<Rightarrow> jobj option" where
  "exact_object pairs =
    foldl (\<lambda>acc (name, v). case acc of None \<Rightarrow> None
        | Some d \<Rightarrow> if name \<in> keys d then None else Some (AList.update name v d)) (Some []) pairs"

text \<open>The interpreter: \<open>repr(float(text))\<close> and the nesting \<open>json.loads\<close> can follow.\<close>

record interpreter =
  py_float_repr :: "string \<Rightarrow> string"
  recursion_limit :: nat

definition frame_conf :: "interpreter \<Rightarrow> load_conf" where
  "frame_conf I = \<lparr>hook = exact_object, float_repr = py_float_repr I\<rparr>"

definition decode_frame :: "interpreter \<Rightarrow> string \<Rightarrow> (broker_error, jobj) result" where
  "decode_frame I raw =
    (case bind_r (utf8_decode raw) (loads (frame_conf I) (recursion_limit I)) of
       Inl HookError \<Rightarrow> Inl (ValueError ''duplicate object key'')
     | Inl IntLimit \<Rightarrow> Inl (ValueError ''Exceeds the limit (4300 digits) for integer string conversion'')
     | Inl OutsideModel \<Rightarrow> Inl OutsideText
     | Inl _ \<Rightarrow> broker_fails ''Signing broker frame is malformed''
     | Inr (JObj d) \<Rightarrow> Inr d
     | Inr _ \<Rightarrow> broker_fails ''Signing broker frame must be an object'')"

definition receive_frame :: "interpreter \<Rightarrow> recv_event list \<Rightarrow> (broker_error, jobj) result \<times> recv_event list" where
  "receive_frame I evs =
    (case receive_exact evs 4 of (Inl e, evs1) \<Rightarrow> (Inl e, evs1)
     | (Inr header, evs1) \<Rightarrow>
       if unpack_u32 header > max_frame_bytes then (broker_fails ''Signing broker frame exceeds its size limit'', evs1)
       else (case receive_exact evs1 (unpack_u32 header) of (Inl e, evs2) \<Rightarrow> (Inl e, evs2)
         | (Inr raw, evs2) \<Rightarrow> (decode_frame I raw, evs2)))"

definition frame_bytes :: "jobj \<Rightarrow> string" where
  "frame_bytes payload = pack_u32 (length (dumps (JObj payload))) @ dumps (JObj payload)"

section \<open>The client\<close>

record client =
  incoming :: "recv_event list"
  outgoing :: string
  send_fails :: bool
  next_request_id :: int
  closed :: bool

definition send_frame :: "client \<Rightarrow> jobj \<Rightarrow> client \<times> (broker_error, unit) result" where
  "send_frame c payload =
    (if length (dumps (JObj payload)) > max_frame_bytes then (c, broker_fails ''Signing broker frame exceeds its size limit'')
     else if send_fails c then (c, Inl OSError)
     else (c\<lparr>outgoing := outgoing c @ frame_bytes payload\<rparr>, Inr ()))"

definition request_of :: "int \<Rightarrow> string \<Rightarrow> jobj \<Rightarrow> jobj" where
  "request_of request_id operation extra =
     [(''version'', JInt protocol_version), (''id'', JInt request_id), (''op'', JStr operation)] @ extra"

text \<open>\<open>except (EOFError, OSError, ValueError)\<close>.\<close>

fun connection_failed :: "broker_error \<Rightarrow> broker_error" where
  "connection_failed EOFError = SigningBrokerError ''Signing broker connection failed''"
| "connection_failed OSError = SigningBrokerError ''Signing broker connection failed''"
| "connection_failed (ValueError m) = SigningBrokerError ''Signing broker connection failed''"
| "connection_failed e = e"

definition check_response :: "int \<Rightarrow> jobj \<Rightarrow> (broker_error, jobj) result" where
  "check_response request_id response =
    (if \<not> py_eq (dget response ''version'') (JInt protocol_version) then broker_fails ''Signing broker protocol version mismatch''
     else if \<not> py_eq (dget response ''id'') (JInt request_id) then broker_fails ''Signing broker response identity mismatch''
     else if \<not> is_true (dget response ''ok'') then
       (if keys response \<noteq> {''version'', ''id'', ''ok'', ''error'', ''result''} then broker_fails ''Signing broker returned a malformed error response''
        else case dget response ''error'' of JStr d \<Rightarrow> broker_fails (if d \<noteq> [] then d else ''Signing failed'') | _ \<Rightarrow> broker_fails ''Signing failed'')
     else if keys response \<noteq> {''version'', ''id'', ''ok'', ''result''} then broker_fails ''Signing broker returned a malformed response''
     else case dget response ''result'' of JObj r \<Rightarrow> Inr r | _ \<Rightarrow> broker_fails ''Signing broker returned a malformed response'')"

definition request :: "interpreter \<Rightarrow> client \<Rightarrow> string \<Rightarrow> jobj \<Rightarrow> client \<times> (broker_error, jobj) result" where
  "request I c operation extra =
    (if closed c then (c, broker_fails ''Signing broker connection is closed'') else
     let request_id = next_request_id c; c1 = c\<lparr>next_request_id := request_id + 1\<rparr> in
     case send_frame c1 (request_of request_id operation extra) of
       (c2, Inl e) \<Rightarrow> (c2, Inl (connection_failed e))
     | (c2, Inr _) \<Rightarrow>
       (case receive_frame I (incoming c2) of
          (Inl e, evs) \<Rightarrow> (c2\<lparr>incoming := evs\<rparr>, Inl (connection_failed e))
        | (Inr response, evs) \<Rightarrow> (c2\<lparr>incoming := evs\<rparr>, check_response request_id response)))"

definition close :: "client \<Rightarrow> client" where
  "close c =
    (if closed c then c else
     let request_id = next_request_id c; c1 = c\<lparr>next_request_id := request_id + 1\<rparr> in
     (fst (send_frame c1 (request_of request_id ''shutdown'' [])))\<lparr>closed := True\<rparr>)"

definition close_after_fork_in_child :: "client \<Rightarrow> client" where
  "close_after_fork_in_child c = (if closed c then c else c\<lparr>closed := True\<rparr>)"

subsection \<open>Signatures\<close>

definition malformed_signature :: "(broker_error, string) result" where
  "malformed_signature = broker_fails ''Signing broker returned a malformed Ed25519 signature''"

definition signature_of_response :: "jobj \<Rightarrow> (broker_error, string) result" where
  "signature_of_response response =
    (if keys response \<noteq> {''signature''} then malformed_signature
     else case dget response ''signature'' of
       JStr encoded \<Rightarrow> (case b64decode encoded of None \<Rightarrow> malformed_signature
         | Some sg \<Rightarrow> if length sg \<noteq> 64 then malformed_signature else Inr sg)
     | _ \<Rightarrow> malformed_signature)"

definition request_ed25519_signature :: "interpreter \<Rightarrow> client \<Rightarrow> string \<Rightarrow> string \<Rightarrow> client \<times> (broker_error, string) result" where
  "request_ed25519_signature I c operation payload =
    (case request I c operation [(''payload'', JStr (b64encode payload))] of (c', m) \<Rightarrow> (c', bind_r m signature_of_response))"

definition apply_ed25519_sign :: "interpreter \<Rightarrow> client \<Rightarrow> string \<Rightarrow> client \<times> (broker_error, string) result" where
  "apply_ed25519_sign I c payload = request_ed25519_signature I c ''apply_ed25519_sign'' payload"

definition eval_ed25519_sign :: "interpreter \<Rightarrow> client \<Rightarrow> string \<Rightarrow> client \<times> (broker_error, string) result" where
  "eval_ed25519_sign I c payload = request_ed25519_signature I c ''eval_ed25519_sign'' payload"

subsection \<open>Construction\<close>

record broker_status =
  capabilities :: "string set"
  apply_public_key_raw :: "string option"
  eval_public_key_raw :: "string option"
  corpus_release_public_key_raw :: "string option"
  corpus_release_public_keys_raw :: "string list"

definition malformed_key :: "string \<Rightarrow> (broker_error, 'a) result" where
  "malformed_key label = broker_fails (''Signing broker returned a malformed '' @ label @ '' public key'')"

definition decode_status_public_key :: "json \<Rightarrow> string \<Rightarrow> (broker_error, string option) result" where
  "decode_status_public_key encoded_public label =
    (case encoded_public of JNull \<Rightarrow> Inr None
     | JStr s \<Rightarrow> (case b64decode s of None \<Rightarrow> malformed_key label
         | Some raw \<Rightarrow> if length raw \<noteq> 32 then malformed_key label else Inr (Some raw))
     | _ \<Rightarrow> malformed_key label)"

definition decode_required_status_public_key :: "json \<Rightarrow> string \<Rightarrow> (broker_error, string) result" where
  "decode_required_status_public_key encoded_public label =
    bind_r (decode_status_public_key encoded_public label) (\<lambda>k. case k of None \<Rightarrow> malformed_key label | Some raw \<Rightarrow> Inr raw)"

definition legacy_status_fields :: "string list" where
  "legacy_status_fields = [''capabilities'', ''apply_public_key'', ''eval_public_key'', ''corpus_release_public_key'']"

definition status_keyring :: "jobj \<Rightarrow> string option \<Rightarrow> (broker_error, string list) result" where
  "status_keyring status corpus_key =
    (if ''corpus_release_public_keys'' \<notin> keys status
     then Inr (case corpus_key of Some k \<Rightarrow> [k] | None \<Rightarrow> [])
     else case dget status ''corpus_release_public_keys'' of
       JArr ks \<Rightarrow> if ks = [] then broker_fails ''Signing broker returned a malformed corpus release public keyring''
                  else map_r (\<lambda>k. decode_required_status_public_key k ''corpus release'') ks
     | _ \<Rightarrow> broker_fails ''Signing broker returned a malformed corpus release public keyring'')"

definition parse_status :: "jobj \<Rightarrow> (broker_error, broker_status) result" where
  "parse_status status =
    bind_r (checks
      [fail_if (keys status \<noteq> set legacy_status_fields \<and> keys status \<noteq> set (''corpus_release_public_keys'' # legacy_status_fields))
         (SigningBrokerError ''Signing broker returned malformed status''),
       fail_if (\<not> is_arr (dget status ''capabilities'') \<or> \<not> list_all is_str (arr_of (dget status ''capabilities'')))
         (SigningBrokerError ''Signing broker returned malformed capabilities''),
       fail_if (\<not> distinct (arr_of (dget status ''capabilities''))
           \<or> \<not> set (arr_of (dget status ''capabilities'')) \<subseteq> {JStr ''apply_ed25519'', JStr ''eval_ed25519''})
         (SigningBrokerError ''Signing broker returned malformed capabilities'')]) (\<lambda>_.
    bind_r (decode_status_public_key (dget status ''apply_public_key'') ''apply'') (\<lambda>ak.
    bind_r (decode_status_public_key (dget status ''eval_public_key'') ''eval'') (\<lambda>ek.
    bind_r (decode_status_public_key (dget status ''corpus_release_public_key'') ''corpus release'') (\<lambda>ck.
    bind_r (status_keyring status ck) (\<lambda>cks.
      if cks = [] \<or> Some (hd cks) \<noteq> ck
      then broker_fails ''Signing broker returned a conflicting corpus release public keyring''
      else
        let protected_roots = {ak, ek} \<union> set (map Some cks) in
        if None \<in> protected_roots \<or> card protected_roots \<noteq> 2 + length cks
        then broker_fails ''Signing broker must expose distinct protected apply, eval, and corpus release trust roots''
        else Inr \<lparr>capabilities = set (map str_of (arr_of (dget status ''capabilities''))), apply_public_key_raw = ak,
          eval_public_key_raw = ek, corpus_release_public_key_raw = ck, corpus_release_public_keys_raw = cks\<rparr>)))))"

definition connect :: "recv_event list \<Rightarrow> bool \<Rightarrow> client" where
  "connect evs fails = \<lparr>incoming = evs, outgoing = [], send_fails = fails, next_request_id = 1, closed = False\<rparr>"

definition init_client :: "interpreter \<Rightarrow> client \<Rightarrow> client \<times> (broker_error, broker_status) result" where
  "init_client I c = (case request I c ''status'' [] of (c', m) \<Rightarrow> (c', bind_r m parse_status))"

section \<open>The broker slot of the process\<close>

text \<open>A client object: its identity, its connection and its status.\<close>

record broker =
  b_ident :: nat
  b_client :: client
  b_status :: broker_status

record process =
  active_broker :: "broker option"
  active_broker_pid :: "int option"
  environ :: "string dict"
  trusted_base :: "string dict option"

definition drop_active_broker_after_fork_in_child :: "process \<Rightarrow> process \<times> client option" where
  "drop_active_broker_after_fork_in_child p =
    (p\<lparr>active_broker := None, active_broker_pid := None\<rparr>,
     map_option (\<lambda>b. close_after_fork_in_child (b_client b)) (active_broker p))"

definition install_signing_broker :: "process \<Rightarrow> broker \<Rightarrow> int option \<Rightarrow> process \<times> (broker_error, unit) result" where
  "install_signing_broker p b pid =
    (case active_broker p of
       Some a \<Rightarrow> if b_ident a \<noteq> b_ident b then (p, broker_fails ''A signing broker is already installed'')
                 else (p\<lparr>active_broker := Some b, active_broker_pid := pid\<rparr>, Inr ())
     | None \<Rightarrow> (p\<lparr>active_broker := Some b, active_broker_pid := pid\<rparr>, Inr ()))"

definition get_signing_broker :: "process \<Rightarrow> string option \<Rightarrow> (broker_error, broker) result" where
  "get_signing_broker p capability =
    (case active_broker p of
       None \<Rightarrow> broker_fails ''No trusted signing broker is attached; launch axiom-encode under a trusted supervisor that attaches one before the console entrypoint''
     | Some b \<Rightarrow> (case capability of
         Some c \<Rightarrow> if c \<notin> capabilities (b_status b) then broker_fails (''Trusted signing broker does not provide '' @ str_repr c) else Inr b
       | None \<Rightarrow> Inr b))"

definition close_active_production_broker :: "process \<Rightarrow> process \<times> client option" where
  "close_active_production_broker p =
    (p\<lparr>active_broker := None\<rparr>, map_option (\<lambda>b. close (b_client b)) (active_broker p))"

section \<open>Attachment\<close>

datatype platform = Linux | Darwin | OtherPlatform

text \<open>What the operating system answers: the credential messages of the peer (\<open>None\<close> for one of the wrong
  size), whether exchanging them fails, its \<open>getpeereid\<close> (where the socket has it) and \<open>LOCAL_PEERPID\<close> (\<open>None\<close> when the call fails or
  answers another size), and whether the descriptor is open and the process could be hardened.\<close>

record os_facts =
  os_platform :: platform
  has_credentials_api :: bool
  peer_reply :: string
  control_truncated :: bool
  peer_credentials :: "(int \<times> int \<times> int) option list"
  getpeereid :: "(int \<times> int) option"
  local_peerpid :: "int option"
  geteuid :: int
  getegid :: int
  descriptor_open :: bool
  handshake_fails :: bool
  prctl_ok :: bool
  ptrace_ok :: bool

definition authenticate_broker_peer :: "os_facts \<Rightarrow> int \<Rightarrow> (broker_error, unit) result" where
  "authenticate_broker_peer S expected_pid =
    (case os_platform S of
       Linux \<Rightarrow>
         if \<not> has_credentials_api S then broker_fails ''Linux signing broker credential messages unavailable''
         else if handshake_fails S then Inl OSError
         else if peer_reply S \<noteq> [CHR 0x5A] \<or> control_truncated S then broker_fails ''Signing broker peer credential is malformed''
         else (case peer_credentials S of
             [Some (pid, uid, gid)] \<Rightarrow> fail_if (pid \<noteq> expected_pid \<or> uid \<noteq> geteuid S \<or> gid \<noteq> getegid S)
               (SigningBrokerError ''Signing broker peer identity mismatch'')
           | _ \<Rightarrow> broker_fails ''Signing broker peer credential is malformed'')
     | Darwin \<Rightarrow> checks
         [fail_if (case getpeereid S of Some (uid, gid) \<Rightarrow> uid \<noteq> geteuid S \<or> gid \<noteq> getegid S | None \<Rightarrow> False)
            (SigningBrokerError ''Signing broker peer identity mismatch''),
          fail_if (local_peerpid S \<noteq> Some expected_pid) (SigningBrokerError ''Signing broker peer identity mismatch'')]
     | OtherPlatform \<Rightarrow> broker_fails ''Signing broker peer authentication is unsupported'')"

definition harden_signing_capability_process :: "os_facts \<Rightarrow> string \<Rightarrow> (broker_error, unit) result" where
  "harden_signing_capability_process S role =
    (case os_platform S of
       Linux \<Rightarrow> fail_if (\<not> prctl_ok S) (SigningBrokerError (''Could not disable signing-broker '' @ role @ '' process dumping''))
     | Darwin \<Rightarrow> fail_if (\<not> ptrace_ok S) (SigningBrokerError (''Could not deny signing-broker '' @ role @ '' debugger attachment''))
     | OtherPlatform \<Rightarrow> Inr ())"

text \<open>\<open>os.environ.get(name) or ""\<close>.\<close>

definition env_text :: "string dict \<Rightarrow> string \<Rightarrow> string" where
  "env_text env name = (case map_of env name of Some v \<Rightarrow> v | None \<Rightarrow> [])"

definition drop_names :: "string list \<Rightarrow> string dict \<Rightarrow> string dict" where
  "drop_names names env = filter (\<lambda>kv. fst kv \<notin> set names) env"

definition only_names :: "string list \<Rightarrow> string dict \<Rightarrow> string dict" where
  "only_names names env = filter (\<lambda>kv. fst kv \<in> set names) env"

text \<open>The attachment itself, once the marker is read: \<open>evs\<close> and \<open>fails\<close> are the inherited socket, \<open>ident\<close>
  the identity of the client object it creates.\<close>

definition attach_descriptor :: "interpreter \<Rightarrow> os_facts \<Rightarrow> recv_event list \<Rightarrow> bool \<Rightarrow> nat \<Rightarrow> int \<Rightarrow> process \<Rightarrow> process \<times> (broker_error, broker option) result" where
  "attach_descriptor I S evs fails ident broker_pid p =
    (let p1 = p\<lparr>environ := drop_names broker_env_names (environ p)\<rparr> in
     case checks [fail_if (\<not> descriptor_open S) OSError, harden_signing_capability_process S ''client'', authenticate_broker_peer S broker_pid] of
       Inl e \<Rightarrow> (p1, Inl e)
     | Inr _ \<Rightarrow> (case init_client I (connect evs fails) of
         (c, Inl e) \<Rightarrow> (p1, Inl e)
       | (c, Inr st) \<Rightarrow>
         (let b = \<lparr>b_ident = ident, b_client = c, b_status = st\<rparr> in
          case install_signing_broker p1 b (Some broker_pid) of
            (p2, Inl e) \<Rightarrow> (p2, Inl e)
          | (p2, Inr _) \<Rightarrow>
            (p2\<lparr>trusted_base := Some (only_names trusted_subprocess_base_names (environ p2))\<rparr>, Inr (Some b)))))"

definition attach_signing_broker_from_environment :: "interpreter \<Rightarrow> os_facts \<Rightarrow> recv_event list \<Rightarrow> bool \<Rightarrow> nat \<Rightarrow> process \<Rightarrow> process \<times> (broker_error, broker option) result" where
  "attach_signing_broker_from_environment I S evs fails ident p =
    (if map_of (environ p) broker_marker_env \<noteq> Some ''1'' then
       (if broker_fd_env \<in> keys (environ p) \<or> broker_pid_env \<in> keys (environ p)
        then (p, broker_fails ''Incomplete signing-broker attachment marker'') else (p, Inr None))
     else case (py_int (env_text (environ p) broker_fd_env), py_int (env_text (environ p) broker_pid_env)) of
       (Some descriptor, Some broker_pid) \<Rightarrow>
         if descriptor < 3 \<or> broker_pid \<le> 0 then (p, broker_fails ''Malformed signing-broker attachment marker'')
         else attach_descriptor I S evs fails ident broker_pid p
     | _ \<Rightarrow> (p, broker_fails ''Malformed signing-broker attachment marker''))"

end
