(* ===== verification/Broker_Facts.thy ===== *)
theory Broker_Facts
  imports Signing_Broker
begin

text \<open>
  The properties of \<open>Signing_Broker\<close>: what is signed under one scope is not valid under the other, frames
  survive any cutting of the stream, every accepted response answers the request just sent and no request
  number is used twice, a signature the broker sends arrives, a broker's trust roots are distinct, children
  get a confined environment, and an attachment leaves no marker behind. The transport is the contract
  \<open>stream_codec\<close>, interpreted on the broker's frames.
\<close>

section \<open>Signing messages\<close>

lemma scope_no_zero: "scope \<in> set signing_scopes \<Longrightarrow> CHR 0x00 \<notin> set scope"
proof -
  have "list_all (\<lambda>s. CHR 0x00 \<notin> set s) signing_scopes" by code_simp
  then show "scope \<in> set signing_scopes \<Longrightarrow> CHR 0x00 \<notin> set scope" by (simp add: list_all_iff)
qed

lemma takeWhile_upto: "z \<notin> set a \<Longrightarrow> takeWhile (\<lambda>c. c \<noteq> z) (a @ z # x) = a"
  by (induction a) auto

lemma split_at_zero: "z \<notin> set a \<Longrightarrow> z \<notin> set b \<Longrightarrow> a @ z # x = b @ z # y \<Longrightarrow> a = b \<and> x = y"
  using takeWhile_upto[of z a x] takeWhile_upto[of z b y] by (metis same_append_eq list.inject)

text \<open>Signatures are bound to their scope: two signing messages are equal only if both the scope and the
  payload are, so a signature made for one operation is never valid for the other.\<close>

theorem signing_message_domain_separated:
  assumes "canonical_signing_message scope payload = Inr m" "canonical_signing_message scope' payload' = Inr m"
  shows "scope = scope' \<and> payload = payload'"
proof -
  have s: "scope \<in> set signing_scopes" "scope' \<in> set signing_scopes"
    and "scope @ CHR 0x00 # payload = scope' @ CHR 0x00 # payload'"
    using assms by (auto simp: canonical_signing_message_def split: if_splits)
  then show ?thesis by (intro split_at_zero[of "CHR 0x00"] scope_no_zero)
qed

section \<open>Bytes of a stream\<close>

fun stream :: "recv_event list \<Rightarrow> string" where
  "stream [] = []"
| "stream (Chunk bs # evs) = bs @ stream evs"
| "stream (RecvFailure # evs) = stream evs"

text \<open>A stream without failures and without an early end.\<close>

fun steady :: "recv_event list \<Rightarrow> bool" where
  "steady [] = True"
| "steady (Chunk bs # evs) = (bs \<noteq> [] \<and> steady evs)"
| "steady (RecvFailure # evs) = False"

lemma receive_exact_steady:
  "steady evs \<Longrightarrow> stream evs = xs @ rest \<Longrightarrow> length xs = n
    \<Longrightarrow> \<exists>evs'. receive_exact evs n = (Inr xs, evs') \<and> steady evs' \<and> stream evs' = rest"
proof (induction evs n arbitrary: xs rule: receive_exact.induct)
  case (4 bs evs n)
  show ?case
  proof (cases "Suc n < length bs")
    case True
    then have "xs = take (Suc n) bs" "rest = drop (Suc n) bs @ stream evs"
      using 4(3,4) by (auto simp: append_eq_append_conv_if split: if_splits)
    with True 4(2) show ?thesis by simp
  next
    case False
    then obtain ys where ys: "xs = bs @ ys" "stream evs = ys @ rest"
      using 4(3,4) by (auto simp: append_eq_append_conv2)
    then have "length ys = Suc n - length bs" using 4(4) by simp
    then obtain evs' where "receive_exact evs (Suc n - length bs) = (Inr ys, evs')" "steady evs'" "stream evs' = rest"
      using 4(1)[of ys] False 4(2) ys(2) by auto
    then show ?thesis using False 4(2) ys by simp
  qed
qed auto

lemma length_pack [simp]: "length (pack_u32 n) = 4"
  by (simp add: pack_u32_def)

lemma code_char_of_mod: "code (char_of n) = n mod 256"
  by (simp add: code_def)

lemma unpack_pack: "n \<le> max_frame_bytes \<Longrightarrow> unpack_u32 (pack_u32 n) = n"
proof -
  assume n: "n \<le> max_frame_bytes"
  have d: "n div 65536 = n div 256 div 256" "n div 16777216 = n div 256 div 256 div 256" by (simp_all add: div_mult2_eq[symmetric])
  have "n div 256 div 256 div 256 < 256" using n by (simp add: d(2)[symmetric] max_frame_bytes_def)
  then have "n div 256 div 256 div 256 mod 256 = n div 256 div 256 div 256" by simp
  then show ?thesis
    using div_mult_mod_eq[of n 256] div_mult_mod_eq[of "n div 256" 256] div_mult_mod_eq[of "n div 256 div 256" 256]
    by (simp add: unpack_u32_def pack_u32_def code_char_of_mod d)
qed

section \<open>Frames\<close>

lemma exact_object_step:
  fixes d ps :: jobj
  shows "distinct (map fst (d @ ps)) \<Longrightarrow>
    foldl (\<lambda>acc (name, v). case acc of None \<Rightarrow> None
        | Some d \<Rightarrow> if name \<in> keys d then None else Some (AList.update name v d)) (Some d) ps = Some (d @ ps)"
proof (induction ps arbitrary: d)
  case (Cons p ps)
  have "fst p \<notin> keys d" "AList.update (fst p) (snd p) d = d @ [p]"
    using Cons.prems by (auto simp: keys_def, induction d) (auto split: if_splits)
  then show ?case using Cons by (simp add: split_def)
qed simp

lemma plain_frame_conf: "plain_hook (frame_conf I)"
  unfolding plain_hook_def frame_conf_def exact_object_def using exact_object_step[of "[]"] by auto

text \<open>The payloads a frame carries unchanged, and the order the receiver sees their keys in.\<close>

definition framed :: "interpreter \<Rightarrow> jobj \<Rightarrow> bool" where
  "framed I payload \<longleftrightarrow> fits (JObj payload) (recursion_limit I) \<and> length (dumps (JObj payload)) \<le> max_frame_bytes"

definition arrived :: "jobj \<Rightarrow> jobj" where
  "arrived payload = obj_of (sort_keys (JObj payload))"

lemma decode_frame_dumps: "framed I payload \<Longrightarrow> decode_frame I (dumps (JObj payload)) = Inr (arrived payload)"
proof -
  assume f: "framed I payload"
  then have "fits (sort_keys (JObj payload)) (recursion_limit I)" by (simp add: framed_def del: sort_keys.simps fits.simps)
  from print_json_ascii[OF this] have "utf8_decode (dumps (JObj payload)) = Inr (dumps (JObj payload))"
    by (intro utf8_decode_ascii) (simp add: dumps_def del: sort_keys.simps)
  moreover have "loads (frame_conf I) (recursion_limit I) (dumps (JObj payload)) = Inr (sort_keys (JObj payload))"
    using f by (intro loads_dumps plain_frame_conf) (simp add: framed_def)
  ultimately show ?thesis by (simp add: decode_frame_def arrived_def)
qed

lemma receive_frame_steady:
  assumes "framed I payload" "steady evs" "stream evs = frame_bytes payload @ rest"
  shows "\<exists>evs'. receive_frame I evs = (Inr (arrived payload), evs') \<and> steady evs' \<and> stream evs' = rest"
proof -
  let ?raw = "dumps (JObj payload)"
  have "stream evs = pack_u32 (length ?raw) @ (?raw @ rest)" using assms(3) by (simp add: frame_bytes_def)
  then obtain evs1 where 1: "receive_exact evs 4 = (Inr (pack_u32 (length ?raw)), evs1)" "steady evs1" "stream evs1 = ?raw @ rest"
    using receive_exact_steady[OF assms(2), of "pack_u32 (length ?raw)" "?raw @ rest" 4] by auto
  have len: "length ?raw \<le> max_frame_bytes" using assms(1) by (simp add: framed_def)
  from receive_exact_steady[OF 1(2,3) refl] obtain evs2
    where 2: "receive_exact evs1 (length ?raw) = (Inr ?raw, evs2)" "steady evs2" "stream evs2 = rest" by blast
  show ?thesis using 1 2 len decode_frame_dumps[OF assms(1)]
    by (simp add: receive_frame_def unpack_pack numeral_eq_Suc)
qed

text \<open>What a receive takes from the stream, whatever the peer does: the next bytes in order, no byte of what follows, with at
  most one read for each byte and one more that ends it early.\<close>

lemma receive_exact_takes:
  "receive_exact evs n = (r, evs') \<Longrightarrow> \<exists>taken. stream evs = taken @ stream evs' \<and> length taken \<le> n
     \<and> length evs \<le> length evs' + length taken + (if isl r then 1 else 0) \<and> (\<forall>bs. r = Inr bs \<longrightarrow> bs = taken \<and> length taken = n)"
proof (induction evs n arbitrary: r evs' rule: receive_exact.induct)
  case (4 bs evs n)
  consider (eof) "bs = []" | (rest) "bs \<noteq> []" "Suc n < length bs" | (more) "bs \<noteq> []" "length bs \<le> Suc n" by linarith
  then show ?case
  proof cases
    case more
    obtain m evs1 where m: "receive_exact evs (Suc n - length bs) = (m, evs1)" by fastforce
    then have r: "r = bind_r m (\<lambda>x. Inr (bs @ x))" "evs' = evs1" using "4.prems" more by auto
    from "4.IH"[OF _ _ m] more obtain taken where t: "stream evs = taken @ stream evs1" "length taken \<le> Suc n - length bs"
      "length evs \<le> length evs1 + length taken + (if isl m then 1 else 0)" "\<forall>x. m = Inr x \<longrightarrow> x = taken \<and> length taken = Suc n - length bs" by auto
    have "0 < length bs" using more(1) by simp
    then show ?thesis using t more r by (intro exI[of _ "bs @ taken"]) (cases m; cases bs; auto)
  next
    case rest
    then show ?thesis using "4.prems" by (intro exI[of _ "take (Suc n) bs"]) auto
  qed (use "4.prems" in \<open>auto intro: exI[of _ "[]"]\<close>)
qed auto

text \<open>C25. Receiving a frame ends, whatever the peer sends: it makes at most one read for each byte it takes and one that ends it,
  takes at most the header and 64 MiB, in order and from the front of the stream, and leaves the rest untouched. An object is
  only returned when exactly the announced number of bytes was taken after the header, and then it is what those bytes
  decode to; a header that announces more is refused before any byte of the body is taken.\<close>

theorem receive_frame_bounded:
  assumes "receive_frame I evs = (r, evs')"
  shows "\<exists>taken. stream evs = taken @ stream evs' \<and> length taken \<le> 4 + 64 * 1024 * 1024
     \<and> length evs \<le> length evs' + length taken + 1
     \<and> (\<forall>d. r = Inr d \<longrightarrow> length taken = 4 + unpack_u32 (take 4 taken) \<and> decode_frame I (drop 4 taken) = Inr d)
     \<and> (4 \<le> length taken \<and> 64 * 1024 * 1024 < unpack_u32 (take 4 taken) \<longrightarrow> length taken = 4 \<and> isl r)"
proof -
  obtain h evs1 where h: "receive_exact evs 4 = (h, evs1)" by fastforce
  from receive_exact_takes[OF h] obtain t1 where t1: "stream evs = t1 @ stream evs1" "length t1 \<le> 4"
    "length evs \<le> length evs1 + length t1 + (if isl h then 1 else 0)" "\<forall>bs. h = Inr bs \<longrightarrow> bs = t1 \<and> length t1 = 4" by blast
  have limit: "max_frame_bytes = 64 * 1024 * 1024" by (simp add: max_frame_bytes_def)
  consider (header) e where "h = Inl e" "r = Inl e" "evs' = evs1"
    | (refused) "h = Inr t1" "length t1 = 4" "64 * 1024 * 1024 < unpack_u32 t1" "isl r" "evs' = evs1"
    | (body) "h = Inr t1" "length t1 = 4" "unpack_u32 t1 \<le> 64 * 1024 * 1024"
    using assms t1(4) unfolding receive_frame_def h limit by (cases h) (auto split: if_splits)
  then show ?thesis
  proof cases
    case header
    then show ?thesis using t1(1-3) by (intro exI[of _ t1] conjI) simp_all
  next
    case refused
    then have "\<forall>d. r \<noteq> Inr d" by (cases r) simp_all
    with refused show ?thesis using t1(1-3) by (intro exI[of _ t1] conjI) simp_all
  next
    case body
    obtain b evs2 where b: "receive_exact evs1 (unpack_u32 t1) = (b, evs2)" by fastforce
    from receive_exact_takes[OF b] obtain t2 where t2: "stream evs1 = t2 @ stream evs2" "length t2 \<le> unpack_u32 t1"
      "length evs1 \<le> length evs2 + length t2 + (if isl b then 1 else 0)" "\<forall>bs. b = Inr bs \<longrightarrow> bs = t2 \<and> length t2 = unpack_u32 t1" by blast
    have "(r, evs') = (case b of Inl e \<Rightarrow> (Inl e, evs2) | Inr raw \<Rightarrow> (decode_frame I raw, evs2))"
      using assms body(3) by (simp add: receive_frame_def h body(1) limit b)
    then have r: "evs' = evs2" "\<forall>d. r = Inr d \<longrightarrow> b = Inr t2 \<and> decode_frame I t2 = Inr d"
      using t2(4) by (cases b; auto)+
    have l: "length evs \<le> length evs2 + length (t1 @ t2) + 1" using t1(3) t2(3) body(1) by (simp split: if_splits)
    show ?thesis
    proof (intro exI[of _ "t1 @ t2"] conjI)
      show "stream evs = (t1 @ t2) @ stream evs'" using t1(1) t2(1) r(1) by simp
      show "\<forall>d. r = Inr d \<longrightarrow> length (t1 @ t2) = 4 + unpack_u32 (take 4 (t1 @ t2)) \<and> decode_frame I (drop 4 (t1 @ t2)) = Inr d"
      proof (intro allI impI)
        fix d
        assume "r = Inr d"
        then have "decode_frame I t2 = Inr d" "length t2 = unpack_u32 t1" using r(2) t2(4) by blast+
        then show "length (t1 @ t2) = 4 + unpack_u32 (take 4 (t1 @ t2)) \<and> decode_frame I (drop 4 (t1 @ t2)) = Inr d"
          by (simp add: body(2))
      qed
      show "length (t1 @ t2) \<le> 4 + 64 * 1024 * 1024" using t2(2) body(2,3) unfolding length_append by linarith
      show "length evs \<le> length evs' + length (t1 @ t2) + 1" using l r(1) by simp
      show "4 \<le> length (t1 @ t2) \<and> 64 * 1024 * 1024 < unpack_u32 (take 4 (t1 @ t2)) \<longrightarrow> length (t1 @ t2) = 4 \<and> isl r"
        using body(2,3) by simp
    qed
  qed
qed

section \<open>The contract of a transport\<close>

text \<open>A codec for messages on a stream: receiving takes exactly the bytes of one message, however the stream
  is cut.\<close>

locale stream_codec =
  fixes enc :: "'m \<Rightarrow> string"
    and recv :: "recv_event list \<Rightarrow> (broker_error, 'm) result \<times> recv_event list"
    and carried :: "'m \<Rightarrow> bool"
    and seen :: "'m \<Rightarrow> 'm"
  assumes recv_enc: "carried m \<Longrightarrow> steady evs \<Longrightarrow> stream evs = enc m @ rest
    \<Longrightarrow> \<exists>evs'. recv evs = (Inr (seen m), evs') \<and> steady evs' \<and> stream evs' = rest"
begin

primrec recv_many :: "nat \<Rightarrow> recv_event list \<Rightarrow> (broker_error, 'm list) result \<times> recv_event list" where
  "recv_many 0 evs = (Inr [], evs)"
| "recv_many (Suc n) evs = (case recv evs of (Inl e, evs1) \<Rightarrow> (Inl e, evs1)
     | (Inr m, evs1) \<Rightarrow> (case recv_many n evs1 of (r, evs2) \<Rightarrow> (bind_r r (\<lambda>ms. Inr (m # ms)), evs2)))"

lemma recv_many_enc:
  "list_all carried ms \<Longrightarrow> steady evs \<Longrightarrow> stream evs = concat (map enc ms) @ rest
    \<Longrightarrow> \<exists>evs'. recv_many (length ms) evs = (Inr (map seen ms), evs') \<and> steady evs' \<and> stream evs' = rest"
proof (induction ms arbitrary: evs)
  case (Cons m ms)
  then obtain evs1 where "recv evs = (Inr (seen m), evs1)" "steady evs1" "stream evs1 = concat (map enc ms) @ rest"
    using recv_enc[of m evs "concat (map enc ms) @ rest"] by auto
  with Cons.IH[of evs1] Cons.prems show ?case by auto
qed simp

end

interpretation frames: stream_codec frame_bytes "receive_frame I" "framed I" arrived for I
  by unfold_locales (rule receive_frame_steady)

text \<open>C17. Frames survive the transport: the frames of any sequence of requests or responses, however the stream
  cuts or joins their bytes, are received one by one with their exact content, and the bytes after them are
  left for the next reader.\<close>

theorem frames_round_trip:
  assumes "list_all (framed I) payloads" "steady evs" "stream evs = concat (map frame_bytes payloads) @ rest"
  shows "\<exists>evs'. frames.recv_many I (length payloads) evs = (Inr (map arrived payloads), evs')
    \<and> (\<forall>p\<in>set payloads. \<forall>k. map_of (arrived p) k = map_option sort_keys (map_of p k)) \<and> stream evs' = rest"
proof -
  have "map_of (arrived p) k = map_option sort_keys (map_of p k)" for p k
    by (simp add: arrived_def map_of_map_prod)
  then show ?thesis using frames.recv_many_enc[OF assms] by blast
qed

section \<open>Requests and responses\<close>

lemma send_frame_Inr: "send_frame c payload = (c', Inr u) \<longleftrightarrow>
    length (dumps (JObj payload)) \<le> max_frame_bytes \<and> \<not> send_fails c \<and> c' = c\<lparr>outgoing := outgoing c @ frame_bytes payload\<rparr>"
  by (auto simp: send_frame_def)

lemma send_frame_fst: "fst (send_frame c payload) = c \<or> fst (send_frame c payload) = c\<lparr>outgoing := outgoing c @ frame_bytes payload\<rparr>"
  by (simp add: send_frame_def)

lemma check_response_Inr: "check_response i response = Inr r \<longleftrightarrow>
    py_eq (dget response ''version'') (JInt protocol_version) \<and> py_eq (dget response ''id'') (JInt i)
    \<and> dget response ''ok'' = JBool True \<and> keys response = {''version'', ''id'', ''ok'', ''result''} \<and> dget response ''result'' = JObj r"
  by (auto simp: check_response_def is_true_def split: json.splits)

lemma request_Inr: "request I c operation extra = (c', Inr r) \<longleftrightarrow>
    (\<exists>response evs. \<not> closed c \<and> \<not> send_fails c
      \<and> length (dumps (JObj (request_of (next_request_id c) operation extra))) \<le> max_frame_bytes
      \<and> receive_frame I (incoming c) = (Inr response, evs) \<and> check_response (next_request_id c) response = Inr r
      \<and> c' = c\<lparr>next_request_id := next_request_id c + 1, incoming := evs,
          outgoing := outgoing c @ frame_bytes (request_of (next_request_id c) operation extra)\<rparr>)"
  by (auto simp: request_def Let_def send_frame_def split: sum.splits prod.splits)

text \<open>C19. An accepted response answers the request just sent: a result is returned only when the next frame on the
  stream has the protocol version, the number of this request, a true \<open>ok\<close> and exactly the four fields of a
  success, and the result is the object that frame carries.\<close>

theorem response_answers_request:
  assumes "request I c operation extra = (c', Inr r)"
  shows "\<exists>response. receive_frame I (incoming c) = (Inr response, incoming c')
    \<and> py_eq (dget response ''version'') (JInt 4) \<and> py_eq (dget response ''id'') (JInt (next_request_id c))
    \<and> dget response ''ok'' = JBool True \<and> keys response = {''version'', ''id'', ''ok'', ''result''} \<and> dget response ''result'' = JObj r
    \<and> outgoing c' = outgoing c @ frame_bytes (request_of (next_request_id c) operation extra)
    \<and> next_request_id c' = next_request_id c + 1"
proof -
  from assms obtain response evs where "receive_frame I (incoming c) = (Inr response, evs)"
    and ok: "check_response (next_request_id c) response = Inr r"
    and c': "c' = c\<lparr>next_request_id := next_request_id c + 1, incoming := evs,
          outgoing := outgoing c @ frame_bytes (request_of (next_request_id c) operation extra)\<rparr>"
    unfolding request_Inr by (elim exE conjE) (rule that)
  then have "receive_frame I (incoming c) = (Inr response, incoming c')" by simp
  moreover note ok[unfolded check_response_Inr protocol_version_def]
  moreover have "outgoing c' = outgoing c @ frame_bytes (request_of (next_request_id c) operation extra)
      \<and> next_request_id c' = next_request_id c + 1" by (simp add: c')
  ultimately show ?thesis by (elim conjE) (intro exI conjI)
qed

text \<open>A request whose response is next on the stream, cut in any way, succeeds.\<close>

lemma request_steady:
  assumes "\<not> closed c" "\<not> send_fails c" "steady (incoming c)" "stream (incoming c) = frame_bytes response @ rest"
    and "framed I (request_of (next_request_id c) operation extra)" "framed I response"
    and "check_response (next_request_id c) (arrived response) = Inr r"
  shows "\<exists>c'. request I c operation extra = (c', Inr r) \<and> stream (incoming c') = rest
    \<and> outgoing c' = outgoing c @ frame_bytes (request_of (next_request_id c) operation extra)"
proof -
  obtain evs where evs: "receive_frame I (incoming c) = (Inr (arrived response), evs)" "stream evs = rest"
    using receive_frame_steady[OF assms(6,3,4)] by blast
  have "request I c operation extra = (c\<lparr>next_request_id := next_request_id c + 1, incoming := evs,
      outgoing := outgoing c @ frame_bytes (request_of (next_request_id c) operation extra)\<rparr>, Inr r)"
    unfolding request_Inr using assms(1,2,5,7) evs(1) by (auto simp: framed_def)
  with evs(2) show ?thesis by simp
qed

section \<open>Request numbers\<close>

text \<open>The life of a client: its operations, one at a time under its lock, between which the peer may send
  bytes or hang up.\<close>

inductive client_step :: "interpreter \<Rightarrow> client \<Rightarrow> client \<Rightarrow> bool" for I where
  step_request: "request I c operation extra = (c', m) \<Longrightarrow> client_step I c c'"
| step_close: "client_step I c (close c)"
| step_fork: "client_step I c (close_after_fork_in_child c)"
| step_peer: "client_step I c (c\<lparr>incoming := evs, send_fails := b\<rparr>)"

inductive_cases client_stepE: "client_step I c c'"

definition logged :: "client \<Rightarrow> (int \<times> string \<times> jobj) list \<Rightarrow> bool" where
  "logged c log \<longleftrightarrow> outgoing c = concat (map (\<lambda>(i, operation, extra). frame_bytes (request_of i operation extra)) log)
     \<and> sorted_wrt (<) (map fst log) \<and> (\<forall>i\<in>set (map fst log). 1 \<le> i \<and> i < next_request_id c)
     \<and> 1 \<le> next_request_id c"

lemma logged_keep: "logged c log \<Longrightarrow> outgoing c' = outgoing c \<Longrightarrow> next_request_id c \<le> next_request_id c' \<Longrightarrow> logged c' log"
  unfolding logged_def by force

lemma logged_send:
  assumes "logged c log" "outgoing c' = outgoing c @ frame_bytes (request_of (next_request_id c) operation extra)"
    "next_request_id c' = next_request_id c + 1"
  shows "logged c' (log @ [(next_request_id c, operation, extra)])"
  using assms by (force simp: logged_def sorted_wrt_append)

lemma request_effect:
  assumes "request I c operation extra = (c', m)"
  shows "closed c' = closed c \<and> (if closed c then c' = c else next_request_id c' = next_request_id c + 1
    \<and> (outgoing c' = outgoing c \<or> outgoing c' = outgoing c @ frame_bytes (request_of (next_request_id c) operation extra)))"
  using assms by (auto simp: request_def Let_def send_frame_def split: prod.splits sum.splits if_splits)

lemma close_effect: "closed (close c) \<and> (if closed c then close c = c else next_request_id (close c) = next_request_id c + 1
    \<and> (outgoing (close c) = outgoing c \<or> outgoing (close c) = outgoing c @ frame_bytes (request_of (next_request_id c) ''shutdown'' [])))"
  by (auto simp: close_def Let_def send_frame_def)

lemma logged_extend:
  assumes "logged c log" "next_request_id c' = next_request_id c + 1"
    "outgoing c' = outgoing c \<or> outgoing c' = outgoing c @ frame_bytes (request_of (next_request_id c) operation extra)"
  shows "\<exists>log. logged c' log"
  using assms(3)
proof
  assume "outgoing c' = outgoing c"
  then have "logged c' log" using assms(2) by (intro logged_keep[OF assms(1)]) auto
  then show ?thesis ..
qed (use logged_send[OF assms(1) _ assms(2)] in blast)

lemma client_step_logged: "client_step I c c' \<Longrightarrow> \<exists>log. logged c log \<Longrightarrow> \<exists>log. logged c' log"
proof (elim client_stepE exE)
  fix log operation extra m
  assume "logged c log" "request I c operation extra = (c', m)"
  then show "\<exists>log. logged c' log" using request_effect[of I c operation extra c' m] logged_extend[of c log c']
    by (cases "closed c") (simp, blast)+
next
  fix log
  assume "logged c log" "c' = close c"
  then show "\<exists>log. logged c' log" using close_effect[of c] logged_extend[of c log c'] by (cases "closed c") (simp, blast)+
next
  fix log
  assume "logged c log" "c' = close_after_fork_in_child c"
  then show "\<exists>log. logged c' log" using logged_keep[of c log c'] by (auto simp: close_after_fork_in_child_def)
next
  fix log evs b
  assume "logged c log" "c' = c\<lparr>incoming := evs, send_fails := b\<rparr>"
  then show "\<exists>log. logged c' log" using logged_keep[of c log c'] by auto
qed

definition closed_after :: "client \<Rightarrow> client \<Rightarrow> bool" where
  "closed_after c c' \<longleftrightarrow> (closed c \<longrightarrow> closed c' \<and> outgoing c' = outgoing c)"

lemma client_step_closed: "client_step I c c' \<Longrightarrow> closed_after c c'"
  unfolding closed_after_def
  by (elim client_stepE) (auto simp: close_after_fork_in_child_def close_def dest: request_effect)

interpretation client_log: kept_invariant "client_step I" "\<lambda>c. \<exists>log. logged c log" for I
  by unfold_locales (rule client_step_logged)

interpretation client_silence: respected_preorder "client_step I" closed_after for I
  by unfold_locales (auto simp: client_step_closed closed_after_def dest: client_step_closed)

text \<open>No request number is sent twice: whatever operations a client goes through, the bytes it has sent are the
  frames of requests with strictly increasing numbers below its next one, and once it is closed it stays
  closed and sends nothing more.\<close>

theorem request_numbers_unique:
  assumes "(client_step I)\<^sup>*\<^sup>* (connect evs fails) c"
  shows "(\<exists>log. outgoing c = concat (map (\<lambda>(i, operation, extra). frame_bytes (request_of i operation extra)) log)
      \<and> sorted_wrt (<) (map fst log) \<and> (\<forall>i\<in>set (map fst log). 1 \<le> i \<and> i < next_request_id c))
    \<and> (\<forall>d. closed c \<and> (client_step I)\<^sup>*\<^sup>* c d \<longrightarrow> closed d \<and> outgoing d = outgoing c)"
proof (intro conjI allI impI)
  have "\<exists>log. logged (connect evs fails) log" by (rule exI[of _ "[]"]) (simp add: logged_def connect_def)
  then show "\<exists>log. outgoing c = concat (map (\<lambda>(i, operation, extra). frame_bytes (request_of i operation extra)) log)
      \<and> sorted_wrt (<) (map fst log) \<and> (\<forall>i\<in>set (map fst log). 1 \<le> i \<and> i < next_request_id c)"
    using client_log.run_inv[OF assms] unfolding logged_def by blast
next
  fix d
  assume "closed c \<and> (client_step I)\<^sup>*\<^sup>* c d"
  then have "closed d \<and> outgoing d = outgoing c" using client_silence.run_le[of I c d] unfolding closed_after_def by blast
  then show "closed d" "outgoing d = outgoing c" by blast+
qed

section \<open>Signatures\<close>

definition signature_response :: "int \<Rightarrow> string \<Rightarrow> jobj" where
  "signature_response i sg = [(''version'', JInt protocol_version), (''id'', JInt i), (''ok'', JBool True),
     (''result'', JObj [(''signature'', JStr (b64encode sg))])]"

lemma keys_sort [simp]: "keys (sort_key f d) = keys d"
  by (simp add: keys_def)

lemma keys_map_prod [simp]: "keys (map (map_prod id f) d) = keys d"
  by (force simp: keys_def)

lemma arrived_response:
  "check_response i (arrived (signature_response i sg)) = Inr [(''signature'', JStr (b64encode sg))]"
proof -
  let ?r = "arrived (signature_response i sg)"
  have get: "dget ?r k = (case map_of (signature_response i sg) k of None \<Rightarrow> JNull | Some v \<Rightarrow> sort_keys v)" for k
    by (simp add: dget_def arrived_def map_of_map_prod split: option.split)
  have "keys (arrived p) = keys p" for p by (simp add: arrived_def)
  then have "keys ?r = {''version'', ''id'', ''ok'', ''result''}" by (simp add: signature_response_def)
  then show ?thesis unfolding check_response_Inr get by (simp add: signature_response_def)
qed

text \<open>C18. A signature the broker sends arrives: if the stream, cut in any way, starts with the broker's response to
  the request about to be sent, the client returns exactly the 64 bytes the broker signed with, sends one
  frame and leaves the rest of the stream untouched.\<close>

theorem signature_arrives:
  assumes "\<not> closed c" "\<not> send_fails c" "steady (incoming c)" "length sg = 64"
    and "framed I (request_of (next_request_id c) operation [(''payload'', JStr (b64encode payload))])"
    and "framed I (signature_response (next_request_id c) sg)"
    and "stream (incoming c) = frame_bytes (signature_response (next_request_id c) sg) @ rest"
  shows "\<exists>c'. request_ed25519_signature I c operation payload = (c', Inr sg) \<and> stream (incoming c') = rest
    \<and> outgoing c' = outgoing c @ frame_bytes (request_of (next_request_id c) operation [(''payload'', JStr (b64encode payload))])"
proof -
  obtain c' where c': "request I c operation [(''payload'', JStr (b64encode payload))] = (c', Inr [(''signature'', JStr (b64encode sg))])"
      "stream (incoming c') = rest"
      "outgoing c' = outgoing c @ frame_bytes (request_of (next_request_id c) operation [(''payload'', JStr (b64encode payload))])"
    using request_steady[OF assms(1-3,7,5,6) arrived_response] by blast
  have "signature_of_response [(''signature'', JStr (b64encode sg))] = Inr sg"
    using assms(4) by (simp add: signature_of_response_def dget_def b64.dec_enc)
  with c' show ?thesis by (simp add: request_ed25519_signature_def)
qed

section \<open>Trust roots\<close>

lemma decode_key_Inr: "decode_status_public_key v label = Inr (Some k) \<Longrightarrow> length k = 32"
  by (auto simp: decode_status_public_key_def malformed_key_def split: json.splits option.splits if_splits)

lemma decode_required_Inr: "decode_required_status_public_key v label = Inr k \<Longrightarrow> length k = 32"
  by (auto simp: decode_required_status_public_key_def malformed_key_def dest: decode_key_Inr split: option.splits)

lemma map_r_all:
  assumes "map_r f xs = Inr ys" "\<And>x y. f x = Inr y \<Longrightarrow> P y"
  shows "\<forall>y\<in>set ys. P y"
  using assms unfolding map_r_Inr_iff by (fastforce simp: list_all2_conv_all_nth in_set_conv_nth)

lemma status_keyring_length:
  assumes "status_keyring status ck = Inr cks" "decode_status_public_key v label = Inr ck"
  shows "\<forall>k\<in>set cks. length k = 32"
proof (cases "''corpus_release_public_keys'' \<in> keys status")
  case True
  then obtain ks where "map_r (\<lambda>k. decode_required_status_public_key k ''corpus release'') ks = Inr cks"
    using assms(1) by (auto simp: status_keyring_def split: json.splits if_splits)
  then show ?thesis by (rule map_r_all) (rule decode_required_Inr)
next
  case False
  then show ?thesis using assms by (auto simp: status_keyring_def dest: decode_key_Inr split: option.splits)
qed

lemma card_union_distinct:
  assumes "card ({a, b} \<union> set xs) = 2 + length xs"
  shows "a \<noteq> b \<and> distinct xs \<and> a \<notin> set xs \<and> b \<notin> set xs"
proof -
  have "set (a # b # xs) = {a, b} \<union> set xs" by auto
  then have "card (set (a # b # xs)) = length (a # b # xs)" using assms by (simp del: set_simps)
  then have "distinct (a # b # xs)" by (rule card_distinct)
  then show ?thesis by auto
qed

definition status_ok :: "broker_status \<Rightarrow> bool" where
  "status_ok st \<longleftrightarrow> capabilities st \<subseteq> set signing_scopes
     \<and> (\<exists>a e cs. apply_public_key_raw st = Some a \<and> eval_public_key_raw st = Some e
       \<and> corpus_release_public_keys_raw st = cs \<and> cs \<noteq> [] \<and> corpus_release_public_key_raw st = Some (hd cs)
       \<and> distinct (a # e # cs) \<and> (\<forall>k\<in>set (a # e # cs). length k = 32))"

lemma parse_status_ok:
  assumes "parse_status status = Inr st"
  shows "status_ok st"
proof -
  from assms obtain ak ek ck cks where keys:
      "decode_status_public_key (dget status ''apply_public_key'') ''apply'' = Inr ak"
      "decode_status_public_key (dget status ''eval_public_key'') ''eval'' = Inr ek"
      "decode_status_public_key (dget status ''corpus_release_public_key'') ''corpus release'' = Inr ck"
      "status_keyring status ck = Inr cks"
    and caps: "set (arr_of (dget status ''capabilities'')) \<subseteq> {JStr ''apply_ed25519'', JStr ''eval_ed25519''}"
    and roots: "cks \<noteq> []" "Some (hd cks) = ck" "None \<notin> {ak, ek} \<union> set (map Some cks)"
      "card ({ak, ek} \<union> set (map Some cks)) = 2 + length (map Some cks)"
    and st: "st = \<lparr>capabilities = set (map str_of (arr_of (dget status ''capabilities''))), apply_public_key_raw = ak,
          eval_public_key_raw = ek, corpus_release_public_key_raw = ck, corpus_release_public_keys_raw = cks\<rparr>"
    unfolding parse_status_def by (elim bind_r_InrE, goal_cases) (simp add: Let_def split: if_splits)
  obtain a e where ae: "ak = Some a" "ek = Some e" using roots(3) by (cases ak; cases ek) auto
  have "distinct (a # e # cks)" using card_union_distinct[OF roots(4)] by (auto simp: ae distinct_map)
  moreover have "\<forall>k\<in>set (a # e # cks). length k = 32"
    using decode_key_Inr keys(1,2) status_keyring_length[OF keys(4,3)] by (auto simp: ae)
  moreover have "set (map str_of (arr_of (dget status ''capabilities''))) \<subseteq> set signing_scopes"
    using image_mono[OF caps, of str_of] by (simp add: signing_scopes_def)
  ultimately show ?thesis using roots(1,2) ae by (simp add: status_ok_def st)
qed

text \<open>A client exists only with distinct trust roots: after a successful construction the apply, evaluation and
  corpus-release keys are all present, 32 bytes long and pairwise different, the ring starts with the
  corpus-release key, and the capabilities are signing scopes.\<close>

theorem client_trust_roots_distinct:
  assumes "init_client I c = (c', Inr st)"
  shows "capabilities st \<subseteq> {''apply_ed25519'', ''eval_ed25519''}
    \<and> (\<exists>a e cs. apply_public_key_raw st = Some a \<and> eval_public_key_raw st = Some e
       \<and> corpus_release_public_keys_raw st = cs \<and> cs \<noteq> [] \<and> corpus_release_public_key_raw st = Some (hd cs)
       \<and> distinct (a # e # cs) \<and> (\<forall>k\<in>set (a # e # cs). length k = 32))"
proof -
  from assms obtain status where "parse_status status = Inr st"
    by (auto simp: init_client_def split: prod.splits)
  then have ok: "status_ok st" by (rule parse_status_ok)
  have scopes: "set signing_scopes = {''apply_ed25519'', ''eval_ed25519''}" by (simp add: signing_scopes_def)
  show ?thesis using ok unfolding status_ok_def scopes .
qed

section \<open>Attachment\<close>

lemma install_Inr: "install_signing_broker p b pid = (p', Inr u) \<longleftrightarrow>
    (\<forall>a. active_broker p = Some a \<longrightarrow> b_ident a = b_ident b) \<and> p' = p\<lparr>active_broker := Some b, active_broker_pid := pid\<rparr>"
  by (auto simp: install_signing_broker_def split: option.splits)

lemma install_fst: "fst (install_signing_broker p b pid) = p \<or> fst (install_signing_broker p b pid) = p\<lparr>active_broker := Some b, active_broker_pid := pid\<rparr>"
  by (simp add: install_signing_broker_def split: option.splits)

lemma attach_descriptor_Inr:
  assumes "attach_descriptor I S evs fails ident pid p = (p', Inr (Some b))"
  shows "authenticate_broker_peer S pid = Inr () \<and> (\<exists>c. init_client I (connect evs fails) = (c, Inr (b_status b)))
    \<and> (\<forall>a. active_broker p = Some a \<longrightarrow> b_ident a = ident)
    \<and> active_broker p' = Some b \<and> active_broker_pid p' = Some pid
    \<and> environ p' = drop_names broker_env_names (environ p)"
proof -
  from assms have ok: "authenticate_broker_peer S pid = Inr ()"
    by (auto simp: attach_descriptor_def Let_def split: sum.splits)
  with assms show ?thesis
    by (auto simp: attach_descriptor_def Let_def install_Inr split: sum.splits prod.splits)
qed

lemma drop_names_get: "k \<notin> set names \<Longrightarrow> map_of (drop_names names env) k = map_of env k"
  by (induction env) (auto simp: drop_names_def)

lemma only_names_keys: "keys (only_names names env) \<subseteq> set names"
  by (auto simp: keys_def only_names_def)

lemma authenticated_peer:
  assumes "authenticate_broker_peer S pid = Inr ()"
  shows "(os_platform S = Linux \<and> peer_credentials S = [Some (pid, geteuid S, getegid S)] \<and> \<not> control_truncated S)
    \<or> (os_platform S = Darwin \<and> local_peerpid S = Some pid)"
  using assms by (auto simp: authenticate_broker_peer_def split: platform.splits if_splits list.splits option.splits)

text \<open>An attachment is authenticated and leaves no marker: when a client is returned, the process had no other
  broker, the kernel named the peer as the announced process of the same user and group (or, on Darwin, the
  announced process), the marker, descriptor and process id are gone from the environment while everything
  else is kept, and the installed broker has distinct trust roots.\<close>

theorem attachment_is_authenticated:
  assumes "attach_signing_broker_from_environment I S evs fails ident p = (p', Inr (Some b))"
  shows "\<exists>pid. py_int (env_text (environ p) broker_pid_env) = Some pid \<and> 0 < pid
    \<and> active_broker p' = Some b \<and> active_broker_pid p' = Some pid
    \<and> (\<forall>a. active_broker p = Some a \<longrightarrow> b_ident a = ident)
    \<and> ((os_platform S = Linux \<and> peer_credentials S = [Some (pid, geteuid S, getegid S)] \<and> \<not> control_truncated S)
       \<or> (os_platform S = Darwin \<and> local_peerpid S = Some pid))
    \<and> keys (environ p') \<inter> set broker_env_names = {}
    \<and> (\<forall>name. name \<notin> set broker_env_names \<longrightarrow> map_of (environ p') name = map_of (environ p) name)
    \<and> status_ok (b_status b)"
proof -
  from assms obtain pid where pid: "py_int (env_text (environ p) broker_pid_env) = Some pid" "0 < pid"
    and att: "attach_descriptor I S evs fails ident pid p = (p', Inr (Some b))"
    by (auto simp: attach_signing_broker_from_environment_def split: if_splits option.splits)
  note d = attach_descriptor_Inr[OF att]
  then obtain c status where "parse_status status = Inr (b_status b)"
    by (auto simp: init_client_def split: prod.splits)
  then have ok: "status_ok (b_status b)" by (rule parse_status_ok)
  have env: "environ p' = drop_names broker_env_names (environ p)" using d by blast
  have "keys (environ p') \<inter> set broker_env_names = {}" by (auto simp: env keys_def drop_names_def)
  moreover have "map_of (environ p') name = map_of (environ p) name" if "name \<notin> set broker_env_names" for name
    using that by (simp add: env drop_names_get)
  ultimately show ?thesis using pid d authenticated_peer ok by blast
qed

section \<open>The environment of children\<close>

definition trusted_base_ok :: "process \<Rightarrow> bool" where
  "trusted_base_ok p \<longleftrightarrow> (\<forall>b. trusted_base p = Some b \<longrightarrow> keys b \<subseteq> set trusted_subprocess_base_names)"

text \<open>The life of a process, between whose steps its environment may change in any way.\<close>

inductive process_step :: "process \<Rightarrow> process \<Rightarrow> bool" where
  step_attach: "attach_signing_broker_from_environment I S evs fails ident p = (p', m) \<Longrightarrow> process_step p p'"
| step_drop: "process_step p (fst (drop_active_broker_after_fork_in_child p))"
| step_close_active: "process_step p (fst (close_active_production_broker p))"
| step_environ: "process_step p (p\<lparr>environ := env\<rparr>)"

inductive_cases process_stepE: "process_step p p'"

lemma attach_trusted_base:
  assumes "attach_signing_broker_from_environment I S evs fails ident p = (p', m)"
  shows "trusted_base p' = trusted_base p \<or> (\<exists>env. trusted_base p' = Some (only_names trusted_subprocess_base_names env))"
  using assms install_fst
  by (auto simp: attach_signing_broker_from_environment_def attach_descriptor_def install_signing_broker_def Let_def
      split: if_splits option.splits sum.splits prod.splits)

lemma process_step_base: "process_step p p' \<Longrightarrow> trusted_base_ok p \<Longrightarrow> trusted_base_ok p'"
proof (elim process_stepE)
  fix I S evs fails ident m
  assume ok: "trusted_base_ok p" and att: "attach_signing_broker_from_environment I S evs fails ident p = (p', m)"
  show "trusted_base_ok p'" using attach_trusted_base[OF att] ok
    by (elim disjE exE) (simp_all add: trusted_base_ok_def only_names_keys)
qed (simp_all add: trusted_base_ok_def drop_active_broker_after_fork_in_child_def close_active_production_broker_def)

interpretation process_base: kept_invariant process_step trusted_base_ok
  by unfold_locales (rule process_step_base)

lemma scrub_fold:
  "map_of (foldl (\<lambda>env (name, v). if name \<in> E then AList.update name v env else env) b kvs) k
     = (if k \<in> E \<and> k \<in> keys kvs then map_of (rev kvs) k else map_of b k)"
proof (induction kvs rule: rev_induct)
  case (snoc kv kvs)
  then show ?case by (cases kv) (auto simp: keys_def)
qed (simp add: keys_def)

lemma default_base_keys: "keys default_base_environment \<subseteq> set trusted_subprocess_base_names"
proof -
  have "list_all (\<lambda>k. k \<in> set trusted_subprocess_base_names) (map fst default_base_environment)" by code_simp
  then show ?thesis by (auto simp: keys_def list_all_iff)
qed

text \<open>Children of a signing process get a confined environment: at any point of a process's life, whatever its
  own environment and the environment a caller asks for, the scrubbed environment has only the trusted base
  names and the three explicit ones, so no private key and no broker marker, and no base value is replaced.\<close>

theorem child_environment_confined:
  assumes "process_step\<^sup>*\<^sup>* p0 p" "trusted_base p0 = None"
  shows "keys (scrub_private_signing_environment (trusted_base p) environment)
      \<subseteq> set trusted_subprocess_base_names \<union> set explicit_subprocess_env_names
    \<and> keys (scrub_private_signing_environment (trusted_base p) environment) \<inter> set (private_env_names @ broker_env_names) = {}
    \<and> (\<forall>name\<in>set trusted_subprocess_base_names. map_of (scrub_private_signing_environment (trusted_base p) environment) name
        = map_of (scrub_private_signing_environment (trusted_base p) None) name)"
proof -
  have ok: "trusted_base_ok p" using process_base.run_inv[OF assms(1)] assms(2) by (simp add: trusted_base_ok_def)
  define clean where "clean = (case trusted_base p of None \<Rightarrow> default_base_environment | Some b \<Rightarrow> if b = [] then default_base_environment else b)"
  define kvs where "kvs = (case environment of None \<Rightarrow> [] | Some e \<Rightarrow> e)"
  have clean_keys: "keys clean \<subseteq> set trusted_subprocess_base_names"
    using ok default_base_keys by (auto simp: clean_def trusted_base_ok_def split: option.splits)
  have get: "map_of (scrub_private_signing_environment (trusted_base p) environment) k
      = (if k \<in> set explicit_subprocess_env_names \<and> k \<in> keys kvs then map_of (rev kvs) k else map_of clean k)" for k
    unfolding scrub_private_signing_environment_def Let_def clean_def[symmetric] kvs_def[symmetric] by (rule scrub_fold)
  have none: "scrub_private_signing_environment (trusted_base p) None = clean"
    by (simp add: scrub_private_signing_environment_def clean_def)
  have sub: "keys (scrub_private_signing_environment (trusted_base p) environment) \<subseteq> set trusted_subprocess_base_names \<union> set explicit_subprocess_env_names"
    using clean_keys unfolding keys_dom by (auto simp: get split: if_splits)
  have dj: "list_all (\<lambda>k. k \<notin> set (private_env_names @ broker_env_names)) (trusted_subprocess_base_names @ explicit_subprocess_env_names)"
    "list_all (\<lambda>k. k \<notin> set explicit_subprocess_env_names) trusted_subprocess_base_names" by code_simp+
  have "keys (scrub_private_signing_environment (trusted_base p) environment) \<inter> set (private_env_names @ broker_env_names) = {}"
    using sub dj(1) unfolding list_all_iff set_append by blast
  moreover have "\<forall>name\<in>set trusted_subprocess_base_names. map_of (scrub_private_signing_environment (trusted_base p) environment) name
        = map_of (scrub_private_signing_environment (trusted_base p) None) name"
    using dj(2) unfolding none get list_all_iff by simp
  ultimately show ?thesis using sub by blast
qed

end
