(* ===== verification/Broker_Examples.thy ===== *)
theory Broker_Examples
  imports Broker_Facts
begin

text \<open>
  A concrete broker session on which the hypotheses of the broker properties hold: a status response and a
  signature on a stream that is cut inside the header and inside the body.
\<close>

definition toy_interp :: interpreter where
  "toy_interp = \<lparr>py_float_repr = id, recursion_limit = 20\<rparr>"

lemma framedI: "fits (JObj payload) (recursion_limit I) \<Longrightarrow> length (dumps (JObj payload)) \<le> 1000 \<Longrightarrow> framed I payload"
  by (simp add: framed_def max_frame_bytes_def)

section \<open>Messages\<close>

theorem signing_message_domain_separated_witness:
  "canonical_signing_message ''apply_ed25519'' ''x'' = Inr (signature_domain_prefix @ ''apply_ed25519'' @ [CHR 0x00] @ ''x'')
     \<and> ''apply_ed25519'' = ''apply_ed25519'' \<and> ''x'' = ''x''"
proof -
  have m: "canonical_signing_message ''apply_ed25519'' ''x'' = Inr (signature_domain_prefix @ ''apply_ed25519'' @ [CHR 0x00] @ ''x'')"
    by code_simp
  show ?thesis using m signing_message_domain_separated[OF m m] by blast
qed

section \<open>Frames\<close>

definition toy_request :: jobj where
  "toy_request = request_of 1 ''status'' []"

definition cut :: "nat \<Rightarrow> string \<Rightarrow> recv_event list" where
  "cut n s = [Chunk (take n s), Chunk (drop n s)]"

lemma cut_stream: "stream (cut n s) = s"
  by (simp add: cut_def)

lemma cut_steady: "0 < n \<Longrightarrow> n < length s \<Longrightarrow> steady (cut n s)"
  by (cases s) (auto simp: cut_def)

lemma length_frame: "length (frame_bytes p) = 4 + length (dumps (JObj p))"
  by (simp add: frame_bytes_def)

lemma toy_request_framed: "framed toy_interp toy_request"
  by (intro framedI) code_simp+

theorem frames_round_trip_witness:
  "\<exists>evs'. frames.recv_many toy_interp 2 (cut 3 (frame_bytes toy_request @ frame_bytes toy_request))
     = (Inr [arrived toy_request, arrived toy_request], evs') \<and> stream evs' = []"
proof -
  let ?evs = "cut 3 (frame_bytes toy_request @ frame_bytes toy_request)"
  have "list_all (framed toy_interp) [toy_request, toy_request]" by (simp add: toy_request_framed)
  moreover have "steady ?evs" by (rule cut_steady) (simp_all add: length_frame)
  moreover have "stream ?evs = concat (map frame_bytes [toy_request, toy_request]) @ []" by (simp add: cut_stream)
  ultimately show ?thesis
    using frames_round_trip[of toy_interp "[toy_request, toy_request]" ?evs "[]"] by (auto simp: numeral_eq_Suc)
qed

section \<open>A session\<close>

definition toy_status :: jobj where
  "toy_status = [(''capabilities'', JArr [JStr ''apply_ed25519'']), (''apply_public_key'', JStr (b64encode (replicate 32 CHR ''a''))),
     (''eval_public_key'', JStr (b64encode (replicate 32 CHR ''b''))), (''corpus_release_public_key'', JStr (b64encode (replicate 32 CHR ''c'')))]"

definition toy_status_response :: jobj where
  "toy_status_response = [(''version'', JInt 4), (''id'', JInt 1), (''ok'', JBool True), (''result'', JObj toy_status)]"

definition toy_client :: client where
  "toy_client = connect (cut 2 (frame_bytes toy_status_response)) False"

definition toy_broker_status :: broker_status where
  "toy_broker_status = \<lparr>capabilities = {''apply_ed25519''}, apply_public_key_raw = Some (replicate 32 CHR ''a''),
     eval_public_key_raw = Some (replicate 32 CHR ''b''), corpus_release_public_key_raw = Some (replicate 32 CHR ''c''),
     corpus_release_public_keys_raw = [replicate 32 CHR ''c'']\<rparr>"

definition toy_arrived_status :: jobj where
  "toy_arrived_status = arrived toy_status"

lemma toy_status_framed: "framed toy_interp toy_status_response"
  by (intro framedI) code_simp+

lemma toy_check_status: "check_response 1 (arrived toy_status_response) = Inr toy_arrived_status"
  by code_simp

lemma toy_parse_status: "parse_status toy_arrived_status = Inr toy_broker_status"
  by code_simp

lemma toy_client_facts: "\<not> closed toy_client" "\<not> send_fails toy_client" "next_request_id toy_client = 1"
    "steady (incoming toy_client)" "stream (incoming toy_client) = frame_bytes toy_status_response @ []"
  by (simp_all add: toy_client_def connect_def cut_steady cut_stream length_frame)

lemma toy_status_request: "\<exists>c'. request toy_interp toy_client ''status'' [] = (c', Inr toy_arrived_status)"
proof -
  have "framed toy_interp (request_of (next_request_id toy_client) ''status'' [])"
    using toy_request_framed by (simp add: toy_request_def toy_client_facts)
  moreover have "check_response (next_request_id toy_client) (arrived toy_status_response) = Inr toy_arrived_status"
    using toy_check_status by (simp add: toy_client_facts)
  ultimately show ?thesis
    using request_steady[OF toy_client_facts(1,2,4,5) _ toy_status_framed] by blast
qed

lemma toy_init: "\<exists>c'. init_client toy_interp toy_client = (c', Inr toy_broker_status)"
  using toy_status_request toy_parse_status by (auto simp: init_client_def)

theorem response_answers_request_witness:
  "\<exists>response (c' :: client). receive_frame toy_interp (incoming toy_client) = (Inr response, incoming c') \<and> dget response ''result'' = JObj toy_arrived_status
     \<and> py_eq (dget response ''id'') (JInt 1)"
proof -
  obtain c' where "request toy_interp toy_client ''status'' [] = (c', Inr toy_arrived_status)" using toy_status_request by blast
  from response_answers_request[OF this] obtain response where
    "receive_frame toy_interp (incoming toy_client) = (Inr response, incoming c') \<and> dget response ''result'' = JObj toy_arrived_status
      \<and> py_eq (dget response ''id'') (JInt 1)"
    unfolding toy_client_facts(3) by (elim exE conjE) simp
  then show ?thesis by blast
qed

theorem client_trust_roots_distinct_witness:
  "\<exists>c'. init_client toy_interp toy_client = (c', Inr toy_broker_status)
     \<and> distinct [replicate 32 CHR ''a'', replicate 32 CHR ''b'', replicate 32 CHR ''c'']"
proof -
  obtain c' where c': "init_client toy_interp toy_client = (c', Inr toy_broker_status)" using toy_init by blast
  from client_trust_roots_distinct[OF this] have
    "distinct [replicate 32 CHR ''a'', replicate 32 CHR ''b'', replicate 32 CHR ''c'']"
    by (auto simp: toy_broker_status_def)
  with c' show ?thesis by blast
qed

theorem request_numbers_unique_witness:
  "\<exists>c. (client_step toy_interp)\<^sup>*\<^sup>* toy_client c \<and> closed c \<and> (\<forall>d. (client_step toy_interp)\<^sup>*\<^sup>* c d \<longrightarrow> outgoing d = outgoing c)"
proof -
  have "(client_step toy_interp)\<^sup>*\<^sup>* toy_client (close toy_client)" by (rule r_into_rtranclp) (rule step_close)
  moreover have "closed (close toy_client)" using close_effect by blast
  ultimately show ?thesis using request_numbers_unique[of toy_interp "cut 2 (frame_bytes toy_status_response)" False "close toy_client"]
    unfolding toy_client_def by blast
qed

definition toy_signature :: string where "toy_signature = replicate 64 CHR ''s''"

definition toy_signing_client :: client where
  "toy_signing_client = toy_client\<lparr>incoming := cut 5 (frame_bytes (signature_response 1 toy_signature))\<rparr>"

theorem signature_arrives_witness:
  "\<exists>c'. request_ed25519_signature toy_interp toy_signing_client ''apply_ed25519_sign'' ''m'' = (c', Inr toy_signature) \<and> stream (incoming c') = []"
proof -
  have i: "next_request_id toy_signing_client = 1" "\<not> closed toy_signing_client" "\<not> send_fails toy_signing_client"
      "stream (incoming toy_signing_client) = frame_bytes (signature_response 1 toy_signature) @ []"
    by (simp_all add: toy_signing_client_def toy_client_facts cut_stream)
  have "5 < length (frame_bytes (signature_response 1 toy_signature))" unfolding length_frame by code_simp
  then have st: "steady (incoming toy_signing_client)" by (simp add: toy_signing_client_def cut_steady)
  have f: "framed toy_interp (request_of 1 ''apply_ed25519_sign'' [(''payload'', JStr (b64encode ''m''))])"
      "framed toy_interp (signature_response 1 toy_signature)" by (intro framedI; code_simp)+
  have "length toy_signature = 64" by (simp add: toy_signature_def)
  with signature_arrives[of toy_signing_client toy_signature toy_interp "''apply_ed25519_sign''" "''m''" "[]"] i st f
  show ?thesis by auto
qed

section \<open>An attachment\<close>

definition toy_process :: process where
  "toy_process = \<lparr>active_broker = None, active_broker_pid = None,
     environ = [(''PATH'', ''/bin''), (broker_marker_env, ''1''), (broker_fd_env, ''7''), (broker_pid_env, ''42'')], trusted_base = None\<rparr>"

definition toy_os :: os_facts where
  "toy_os = \<lparr>os_platform = Linux, has_credentials_api = True, peer_reply = [CHR 0x5A], control_truncated = False,
     peer_credentials = [Some (42, 1000, 1000)], getpeereid = None, local_peerpid = None, geteuid = 1000, getegid = 1000,
     descriptor_open = True, handshake_fails = False, prctl_ok = True, ptrace_ok = False\<rparr>"

lemma toy_attach:
  "\<exists>p' b. attach_signing_broker_from_environment toy_interp toy_os (cut 2 (frame_bytes toy_status_response)) False 1 toy_process = (p', Inr (Some b))"
proof -
  obtain c' where c': "init_client toy_interp (connect (cut 2 (frame_bytes toy_status_response)) False) = (c', Inr toy_broker_status)"
    using toy_init by (auto simp: toy_client_def)
  have e: "map_of (environ toy_process) broker_marker_env = Some ''1''" "py_int (env_text (environ toy_process) broker_fd_env) = Some 7"
    "py_int (env_text (environ toy_process) broker_pid_env) = Some 42" by code_simp+
  have k: "checks [fail_if (\<not> descriptor_open toy_os) OSError, harden_signing_capability_process toy_os ''client'', authenticate_broker_peer toy_os 42] = Inr ()"
    by (simp add: toy_os_def harden_signing_capability_process_def authenticate_broker_peer_def)
  have "active_broker toy_process = None" by (simp add: toy_process_def)
  then show ?thesis
    by (simp add: attach_signing_broker_from_environment_def e attach_descriptor_def Let_def k c' install_signing_broker_def del: checks_step checks.simps)
qed

theorem attachment_is_authenticated_witness:
  "\<exists>p' b pid. attach_signing_broker_from_environment toy_interp toy_os (cut 2 (frame_bytes toy_status_response)) False 1 toy_process = (p', Inr (Some b))
     \<and> active_broker_pid p' = Some pid \<and> keys (environ p') \<inter> set broker_env_names = {}"
proof -
  obtain p' b where a: "attach_signing_broker_from_environment toy_interp toy_os (cut 2 (frame_bytes toy_status_response)) False 1 toy_process = (p', Inr (Some b))"
    using toy_attach by blast
  from attachment_is_authenticated[OF a] a show ?thesis by blast
qed

theorem child_environment_confined_witness:
  "\<exists>p. process_step\<^sup>*\<^sup>* toy_process p
     \<and> keys (scrub_private_signing_environment (trusted_base p) (Some [(''TZ'', ''UTC''), (''SECRET'', ''x'')])) \<inter> set (private_env_names @ broker_env_names) = {}"
proof -
  obtain p' b where a: "attach_signing_broker_from_environment toy_interp toy_os (cut 2 (frame_bytes toy_status_response)) False 1 toy_process = (p', Inr (Some b))"
    using toy_attach by blast
  then have run: "process_step\<^sup>*\<^sup>* toy_process p'" by (intro r_into_rtranclp step_attach)
  have "trusted_base toy_process = None" by (simp add: toy_process_def)
  then show ?thesis using run child_environment_confined[OF run, of "Some [(''TZ'', ''UTC''), (''SECRET'', ''x'')]"] by blast
qed

section \<open>Limits of a receive\<close>

text \<open>Two bytes of a body and the start of the next message; and a header that announces almost 4 GiB.\<close>

theorem receive_frame_bounded_witness:
  "(\<exists>evs'. receive_frame toy_interp [Chunk [CHR 0x00, CHR 0x00], Chunk [CHR 0x00, CHR 0x02, CHR ''{''], Chunk ''}next''] = (Inr [], evs') \<and> stream evs' = ''next'')
     \<and> isl (fst (receive_frame toy_interp [Chunk (replicate 4 CHR 0xFF @ ''body'')]))
     \<and> stream (snd (receive_frame toy_interp [Chunk (replicate 4 CHR 0xFF @ ''body'')])) = ''body''"
proof (intro conjI)
  let ?evs = "[Chunk [CHR 0x00, CHR 0x00], Chunk [CHR 0x00, CHR 0x02, CHR ''{''], Chunk ''}next'']"
  obtain evs' where r: "receive_frame toy_interp ?evs = (fst (receive_frame toy_interp ?evs), evs')" by (cases "receive_frame toy_interp ?evs") auto
  have h: "receive_exact ?evs 4 = (Inr [CHR 0x00, CHR 0x00, CHR 0x00, CHR 0x02], [Chunk ''{'', Chunk ''}next''])"
    "receive_exact [Chunk ''{'', Chunk ''}next''] 2 = (Inr ''{}'', [Chunk ''next''])" by (simp_all add: numeral_eq_Suc)
  have u: "unpack_u32 [CHR 0x00, CHR 0x00, CHR 0x00, CHR 0x02] = 2" "decode_frame toy_interp ''{}'' = Inr []" by code_simp+
  then have d: "fst (receive_frame toy_interp ?evs) = Inr []"
    using h by (simp add: receive_frame_def max_frame_bytes_def)
  from receive_frame_bounded[OF r] obtain taken where t: "[CHR 0x00, CHR 0x00, CHR 0x00, CHR 0x02] @ ''{}next'' = taken @ stream evs'"
    "length taken = 4 + unpack_u32 (take 4 taken)" by (auto simp: d)
  then have "take 4 taken = take 4 ([CHR 0x00, CHR 0x00, CHR 0x00, CHR 0x02] @ ''{}next'')" by (metis append_take_drop_id le_add1 take_append take_all_iff diff_is_0_eq take_0 append_Nil2)
  then have "length taken = 6" using t(2) u by simp
  then have "stream evs' = drop 6 ([CHR 0x00, CHR 0x00, CHR 0x00, CHR 0x02] @ ''{}next'')" using t(1) by (metis append_eq_conv_conj)
  then show "\<exists>evs'. receive_frame toy_interp ?evs = (Inr [], evs') \<and> stream evs' = ''next''" using r d by (intro exI[of _ evs']) simp
next
  have h: "receive_exact [Chunk (replicate 4 CHR 0xFF @ ''body'')] 4 = (Inr (replicate 4 CHR 0xFF), [Chunk ''body''])"
    by (simp add: numeral_eq_Suc)
  have u: "unpack_u32 (replicate 4 CHR 0xFF) = 4294967295" by code_simp
  then have "receive_frame toy_interp [Chunk (replicate 4 CHR 0xFF @ ''body'')]
      = (Inl (SigningBrokerError ''Signing broker frame exceeds its size limit''), [Chunk ''body''])"
    using h by (simp add: receive_frame_def max_frame_bytes_def)
  then show "isl (fst (receive_frame toy_interp [Chunk (replicate 4 CHR 0xFF @ ''body'')]))"
    "stream (snd (receive_frame toy_interp [Chunk (replicate 4 CHR 0xFF @ ''body'')])) = ''body''" by simp_all
qed

end
