(* ===== verification/Attempt_Budget.thy ===== *)
theory Attempt_Budget
  imports Py_Json_Parse
begin

text \<open>
  The failed-attempt budget of the targeted re-encode workflow (\<open>scripts/enforce_attempt_budget.py\<close>): the
  streak of consecutive failures of one citation, the bounded classifier that asks the jobs API whether a run
  spent model tokens, the paged listing of runs, and the decision of the guard.

  A run is the dict the API returns. The API is an argument: \<open>fetch_jobs\<close> gives the jobs of a run (\<open>None\<close> for
  an exception), \<open>page\<close> the outcome of one attempt at one page of runs. The environment is a dict. The text
  of the summary is not modelled.
\<close>

section \<open>Errors and constants\<close>

datatype guard_error = UnhashableConclusion | NotIterable

definition default_budget :: int where "default_budget = 3"
definition failure_conclusions :: "string list" where "failure_conclusions = [''failure'', ''timed_out'']"
definition neutral_conclusions :: "string list" where
  "neutral_conclusions = [''cancelled'', ''skipped'', ''neutral'', ''action_required'', ''startup_failure'', ''stale'']"
definition max_run_pages :: nat where "max_run_pages = 5"
definition runs_per_page :: nat where "runs_per_page = 100"
definition encode_job_name :: string where "encode_job_name = ''Queue protected signed RuleSpec re-encode''"
definition encode_step_name :: string where "encode_step_name = ''Encode, review, validate, and apply''"
definition max_job_lookups :: nat where "max_job_lookups = 10"

section \<open>Runs\<close>

fun after_last_marker :: "string \<Rightarrow> string option" where
  "after_last_marker [] = None"
| "after_last_marker (c # cs) =
    (case after_last_marker cs of Some t \<Rightarrow> Some t
     | None \<Rightarrow> if prefix ''] '' (c # cs) then Some (drop 2 (c # cs)) else None)"

definition run_citation :: "json \<Rightarrow> string option" where
  "run_citation run_name = (case run_name of JStr s \<Rightarrow> after_last_marker s | _ \<Rightarrow> None)"

definition created_key :: "jobj \<Rightarrow> string" where
  "created_key run = str_or_empty (dget run ''created_at'')"

text \<open>\<open>sort(key=..., reverse=True)\<close> is stable too.\<close>

definition newest_first :: "jobj list \<Rightarrow> jobj list" where
  "newest_first runs = rev (sort_key created_key (rev runs))"

definition matches :: "string \<Rightarrow> int \<Rightarrow> jobj \<Rightarrow> bool" where
  "matches citation current_run_id run \<longleftrightarrow>
     run_citation (dget run ''name'') = Some citation \<and> \<not> py_eq (dget run ''id'') (JInt current_run_id)
     \<and> dget run ''status'' = JStr ''completed''"

definition matching_runs :: "jobj list \<Rightarrow> string \<Rightarrow> int \<Rightarrow> jobj list" where
  "matching_runs runs citation current_run_id = newest_first (filter (matches citation current_run_id) runs)"

section \<open>The classifier\<close>

type_synonym fetcher = "int \<Rightarrow> json list option"

definition unverified :: "jobj \<Rightarrow> bool" where
  "unverified run \<longleftrightarrow> dget run ''conclusion'' \<noteq> JStr ''success''"

text \<open>\<open>isinstance(run_id, int)\<close>; a bool is an int.\<close>

definition int_id :: "json \<Rightarrow> int option" where
  "int_id v = (case v of JInt i \<Rightarrow> Some i | JBool b \<Rightarrow> Some (if b then 1 else 0) | _ \<Rightarrow> None)"

text \<open>The members of \<open>job.get("steps") or []\<close> that are dicts; a text and a dict have none.\<close>

definition steps_of :: "jobj \<Rightarrow> (guard_error, jobj list) result" where
  "steps_of job =
    (let steps = dget job ''steps'' in
     if \<not> truthy steps then Inr []
     else case steps of JArr xs \<Rightarrow> Inr (map obj_of (filter is_obj xs)) | JStr _ \<Rightarrow> Inr [] | JObj _ \<Rightarrow> Inr [] | _ \<Rightarrow> Inl NotIterable)"

definition ran_encode :: "json list \<Rightarrow> (guard_error, bool) result" where
  "ran_encode jobs =
    bind_r (map_r steps_of (filter (\<lambda>job. dget job ''name'' = JStr encode_job_name) (map obj_of (filter is_obj jobs)))) (\<lambda>steps.
      Inr (list_ex (\<lambda>step. dget step ''name'' = JStr encode_step_name \<and> dget step ''conclusion'' \<noteq> JStr ''skipped'') (concat steps)))"

text \<open>One call of the classifier; the state is the number of lookups so far.\<close>

definition spent_model_tokens :: "fetcher \<Rightarrow> nat \<Rightarrow> jobj \<Rightarrow> (guard_error, nat \<times> bool) result" where
  "spent_model_tokens fetch_jobs lookups run =
    (case int_id (dget run ''id'') of
       None \<Rightarrow> Inr (lookups, unverified run)
     | Some run_id \<Rightarrow>
       if lookups \<ge> max_job_lookups then Inr (lookups, unverified run)
       else (case fetch_jobs run_id of
           None \<Rightarrow> Inr (lookups + 1, unverified run)
         | Some jobs \<Rightarrow> bind_r (ran_encode jobs) (\<lambda>b. Inr (lookups + 1, b))))"

section \<open>The streak\<close>

record decision =
  streak :: nat
  budget :: int
  counted_runs :: "jobj list"

definition exhausted :: "decision \<Rightarrow> bool" where
  "exhausted d \<longleftrightarrow> int (streak d) \<ge> budget d"

definition counted_run :: "jobj \<Rightarrow> jobj" where
  "counted_run run = map (\<lambda>k. (k, dget run k)) [''id'', ''created_at'', ''conclusion'', ''html_url'']"

text \<open>The loop over the matching runs. No classifier counts every run as having spent tokens.\<close>

definition classify :: "fetcher option \<Rightarrow> nat \<Rightarrow> jobj \<Rightarrow> (guard_error, nat \<times> bool) result" where
  "classify checker lookups run =
    (case checker of None \<Rightarrow> Inr (lookups, True) | Some fetch_jobs \<Rightarrow> spent_model_tokens fetch_jobs lookups run)"

fun count_streak :: "fetcher option \<Rightarrow> nat \<Rightarrow> decision \<Rightarrow> jobj list \<Rightarrow> (guard_error, nat \<times> decision) result" where
  "count_streak checker lookups d [] = Inr (lookups, d)"
| "count_streak checker lookups d (run # runs) =
    (if dget run ''conclusion'' = JStr ''success'' then
       bind_r (classify checker lookups run) (\<lambda>(n, spent). if \<not> spent then count_streak checker n d runs else Inr (n, d))
     else if \<not> hashable (dget run ''conclusion'') then Inl UnhashableConclusion
     else if in_strs (dget run ''conclusion'') neutral_conclusions then count_streak checker lookups d runs
     else if in_strs (dget run ''conclusion'') failure_conclusions then
       bind_r (classify checker lookups run) (\<lambda>(n, spent).
         if \<not> spent then count_streak checker n d runs
         else count_streak checker n (d\<lparr>streak := streak d + 1, counted_runs := counted_runs d @ [counted_run run]\<rparr>) runs)
     else count_streak checker lookups d runs)"

definition evaluate_attempt_budget :: "jobj list \<Rightarrow> string \<Rightarrow> int \<Rightarrow> int \<Rightarrow> fetcher option \<Rightarrow> (guard_error, nat \<times> decision) result" where
  "evaluate_attempt_budget runs citation bud current_run_id checker =
     count_streak checker 0 \<lparr>streak = 0, budget = bud, counted_runs = []\<rparr> (matching_runs runs citation current_run_id)"

section \<open>Listing runs\<close>

datatype attempt_result = Reply json | Retryable | Fatal

text \<open>At most two attempts at a page; \<open>None\<close> is the exception that ends the listing.\<close>

definition fetch_page :: "(nat \<Rightarrow> nat \<Rightarrow> attempt_result) \<Rightarrow> nat \<Rightarrow> json option" where
  "fetch_page page n =
    (case page n 0 of Reply v \<Rightarrow> Some v | Fatal \<Rightarrow> None
     | Retryable \<Rightarrow> (case page n 1 of Reply v \<Rightarrow> Some v | _ \<Rightarrow> None))"

text \<open>\<open>(payload or {}).get("workflow_runs") or []\<close>: its length and its dicts.\<close>

definition page_runs :: "json \<Rightarrow> (nat \<times> jobj list) option" where
  "page_runs payload =
    (case (if truthy payload then payload else JObj []) of
       JObj d \<Rightarrow> (let v = dget d ''workflow_runs'' in
         if \<not> truthy v then Some (0, [])
         else (case v of JArr xs \<Rightarrow> Some (length xs, map obj_of (filter is_obj xs)) | JStr s \<Rightarrow> Some (length s, [])
           | JObj e \<Rightarrow> Some (length e, []) | _ \<Rightarrow> None))
     | _ \<Rightarrow> None)"

fun fetch_pages :: "(nat \<Rightarrow> nat \<Rightarrow> attempt_result) \<Rightarrow> nat list \<Rightarrow> jobj list option" where
  "fetch_pages page [] = Some []"
| "fetch_pages page (n # ns) =
    (case Option.bind (fetch_page page n) page_runs of
       None \<Rightarrow> None
     | Some (len, runs) \<Rightarrow> if len < runs_per_page then Some runs else map_option (\<lambda>more. runs @ more) (fetch_pages page ns))"

definition fetch_completed_runs :: "(nat \<Rightarrow> nat \<Rightarrow> attempt_result) \<Rightarrow> jobj list option" where
  "fetch_completed_runs page = fetch_pages page [1..<max_run_pages + 1]"

section \<open>The guard\<close>

definition env_get :: "string dict \<Rightarrow> string \<Rightarrow> string \<Rightarrow> string" where
  "env_get env name dflt = (case map_of env name of Some v \<Rightarrow> v | None \<Rightarrow> dflt)"

definition lower_char :: "char \<Rightarrow> char" where
  "lower_char c = (if is_upper c then char_of (code c + 32) else c)"

definition budget_of :: "string dict \<Rightarrow> int" where
  "budget_of env =
    (let b = (case py_int (env_get env ''ATTEMPT_BUDGET'' ''3'') of Some n \<Rightarrow> n | None \<Rightarrow> default_budget)
     in if b < 1 then default_budget else b)"

definition current_run_id_of :: "string dict \<Rightarrow> int" where
  "current_run_id_of env = (case py_int (env_get env ''GITHUB_RUN_ID'' ''0'') of Some n \<Rightarrow> n | None \<Rightarrow> 0)"

definition enforced :: "string dict \<Rightarrow> bool" where
  "enforced env \<longleftrightarrow> strip (env_get env ''QUEUE_ID'' []) = [] \<and> strip (env_get env ''REPAIR_RUN_ID'' []) = []
     \<and> map lower_char (strip (env_get env ''ATTEMPT_BUDGET_OVERRIDE'' [])) \<noteq> ''true''"

text \<open>The exit code.\<close>

definition main :: "string dict \<Rightarrow> (nat \<Rightarrow> nat \<Rightarrow> attempt_result) \<Rightarrow> fetcher \<Rightarrow> (guard_error, nat) result" where
  "main env page fetch_jobs =
    (let citation = strip (env_get env ''CITATION'' []) in
     if citation = [] \<or> env_get env ''GITHUB_REPOSITORY'' [] = [] \<or> env_get env ''GH_TOKEN'' [] = [] then Inr 0
     else case fetch_completed_runs page of
       None \<Rightarrow> Inr 0
     | Some runs \<Rightarrow>
       bind_r (evaluate_attempt_budget runs citation (budget_of env) (current_run_id_of env) (Some fetch_jobs)) (\<lambda>(n, d).
         Inr (if enforced env \<and> exhausted d then 1 else 0)))"

section \<open>Facts\<close>

lemma classify_lookups:
  assumes "classify checker n run = Inr (n', b)" "n \<le> max_job_lookups"
  shows "n \<le> n' \<and> n' \<le> max_job_lookups \<and> n' \<le> Suc n"
  using assms by (auto simp: classify_def spent_model_tokens_def split: option.splits if_splits)

text \<open>What a run does to the streak.\<close>

definition failed :: "jobj \<Rightarrow> bool" where
  "failed run \<longleftrightarrow> in_strs (dget run ''conclusion'') failure_conclusions"

definition succeeded :: "jobj \<Rightarrow> bool" where
  "succeeded run \<longleftrightarrow> dget run ''conclusion'' = JStr ''success''"

lemma conclusions_disjoint:
  "succeeded run \<Longrightarrow> \<not> failed run" "in_strs (dget run ''conclusion'') neutral_conclusions \<Longrightarrow> \<not> failed run"
proof -
  have "list_all (\<lambda>s. s \<notin> set failure_conclusions) (''success'' # neutral_conclusions)" by code_simp
  then have d: "\<And>s. s \<in> set (''success'' # neutral_conclusions) \<Longrightarrow> s \<notin> set failure_conclusions" unfolding list_all_iff by blast
  show "succeeded run \<Longrightarrow> \<not> failed run" using d[of "''success''"] by (simp add: succeeded_def failed_def in_strs_def)
  show "in_strs (dget run ''conclusion'') neutral_conclusions \<Longrightarrow> \<not> failed run"
    using d by (auto simp: failed_def in_strs_def)
qed

lemma count_streak_step:
  assumes "hashable (dget run ''conclusion'')"
  shows "count_streak checker n d (run # runs) =
    (if succeeded run then bind_r (classify checker n run) (\<lambda>(n, spent). if spent then Inr (n, d) else count_streak checker n d runs)
     else if failed run then bind_r (classify checker n run) (\<lambda>(n, spent). count_streak checker n
       (if spent then d\<lparr>streak := streak d + 1, counted_runs := counted_runs d @ [counted_run run]\<rparr> else d) runs)
     else count_streak checker n d runs)"
  using assms conclusions_disjoint[of run]
  by (auto simp: succeeded_def failed_def if_distrib intro!: arg_cong[of _ _ "bind_r _"] split: prod.splits)

lemma count_streak_hashable:
  "count_streak checker n d (run # runs) = Inr r \<Longrightarrow> hashable (dget run ''conclusion'')"
  by (auto split: if_splits)

lemma count_streak_counted:
  assumes "count_streak checker n d runs = Inr (n', d')" "n \<le> max_job_lookups"
  shows "\<exists>fs. subseq fs runs \<and> list_all failed fs \<and> counted_runs d' = counted_runs d @ map counted_run fs
    \<and> streak d' = streak d + length fs \<and> budget d' = budget d \<and> n' \<le> max_job_lookups"
  using assms
proof (induction runs arbitrary: n d)
  case (Cons run runs)
  note st = count_streak_step[OF count_streak_hashable[OF Cons.prems(1)], of checker n d runs]
  consider (keep) m where "count_streak checker m d runs = Inr (n', d')" "m \<le> max_job_lookups"
    | (count) m where "count_streak checker m (d\<lparr>streak := streak d + 1, counted_runs := counted_runs d @ [counted_run run]\<rparr>) runs = Inr (n', d')"
        "m \<le> max_job_lookups" "failed run"
    | (stop) "d' = d" "n' \<le> max_job_lookups"
    using Cons.prems(2) Cons.prems(1)[unfolded st] classify_lookups[of checker n run]
    by (auto split: if_splits simp del: count_streak.simps)
  then show ?case
  proof cases
    case keep
    then show ?thesis using Cons.IH[OF keep] by (meson list_emb_Cons)
  next
    case count
    obtain fs where "subseq fs runs" "list_all failed fs" "counted_runs d' = counted_runs d @ map counted_run (run # fs)"
      "streak d' = streak d + length (run # fs)" "budget d' = budget d" "n' \<le> max_job_lookups"
      using Cons.IH[OF count(1,2)] by auto
    with count(3) show ?thesis by (intro exI[of _ "run # fs"]) auto
  next
    case stop
    then show ?thesis by (intro exI[of _ "[]"]) auto
  qed
qed (auto intro: exI[of _ "[]"])

text \<open>C22. The streak is backed by failures and the guard asks little: every counted run is a distinct failed run of
  the citation, in order from the newest, the streak is their number, and the jobs API is asked at most ten
  times however long the history.\<close>

theorem streak_is_backed:
  assumes "evaluate_attempt_budget runs citation bud current_run_id checker = Inr (lookups, d)"
  shows "\<exists>fs. subseq fs (matching_runs runs citation current_run_id)
    \<and> list_all (\<lambda>r. failed r \<and> matches citation current_run_id r) fs
    \<and> counted_runs d = map counted_run fs \<and> streak d = length fs \<and> budget d = bud \<and> lookups \<le> 10"
proof -
  obtain fs where fs: "subseq fs (matching_runs runs citation current_run_id)" "list_all failed fs"
      "counted_runs d = map counted_run fs" "streak d = length fs" "budget d = bud" "lookups \<le> 10"
    using count_streak_counted[OF assms[unfolded evaluate_attempt_budget_def]] by (auto simp: max_job_lookups_def)
  have "set fs \<subseteq> set (matching_runs runs citation current_run_id)"
    using list_emb_set[OF fs(1)] by auto
  then have "list_all (\<lambda>r. failed r \<and> matches citation current_run_id r) fs"
    using fs(2) by (auto simp: list_all_iff matching_runs_def newest_first_def)
  with fs show ?thesis by blast
qed

section \<open>The streak as a specification\<close>

definition verdict :: "fetcher option \<Rightarrow> jobj \<Rightarrow> bool" where
  "verdict checker run = (case classify checker 0 run of Inr (n, b) \<Rightarrow> b | Inl e \<Rightarrow> False)"

lemma classify_verdict: "classify checker n run = Inr (n', b) \<Longrightarrow> n < max_job_lookups \<Longrightarrow> b = verdict checker run"
  by (auto simp: verdict_def classify_def spent_model_tokens_def max_job_lookups_def split: option.splits)

definition streak_runs :: "fetcher option \<Rightarrow> jobj list \<Rightarrow> jobj list" where
  "streak_runs checker runs = filter (\<lambda>r. failed r \<and> verdict checker r) (takeWhile (\<lambda>r. \<not> (succeeded r \<and> verdict checker r)) runs)"

lemma streak_runs_Cons: "streak_runs checker (r # rs) =
    (if succeeded r \<and> verdict checker r then [] else if failed r \<and> verdict checker r then r # streak_runs checker rs else streak_runs checker rs)"
  by (auto simp: streak_runs_def)

lemma count_streak_spec:
  assumes "count_streak checker n d runs = Inr (n', d')" "n + length runs \<le> max_job_lookups"
  shows "counted_runs d' = counted_runs d @ map counted_run (streak_runs checker runs) \<and> streak d' = streak d + length (streak_runs checker runs)"
  using assms
proof (induction runs arbitrary: n d)
  case (Cons run runs)
  note st = count_streak_step[OF count_streak_hashable[OF Cons.prems(1)], of checker n d runs]
  have v: "b = verdict checker run" "m + length runs \<le> max_job_lookups" if "classify checker n run = Inr (m, b)" for m b
    using classify_verdict[OF that] classify_lookups[OF that] Cons.prems(2) by auto
  have n: "n + length runs \<le> max_job_lookups" using Cons.prems(2) by simp
  show ?case
  proof (cases "succeeded run \<or> failed run")
    case True
    then obtain m where m: "classify checker n run = Inr (m, verdict checker run)"
      using Cons.prems(1) v unfolding st by (auto split: if_splits)
    then show ?thesis
      using Cons.prems(1) True Cons.IH[of m] v(2)[OF m] conclusions_disjoint(1)[of run] unfolding st
      by (auto simp: streak_runs_Cons split: if_splits)
  next
    case False
    then show ?thesis using Cons.prems(1) Cons.IH[OF _ n] unfolding st by (simp add: streak_runs_Cons)
  qed
qed (simp add: streak_runs_def)

text \<open>C20. The streak counts what its description says: while the history of a citation has at most ten completed
  runs, the counted runs are, newest first, exactly the failures that spent tokens before the most recent
  success that did; everything else is neutral.\<close>

theorem streak_matches_specification:
  assumes "evaluate_attempt_budget runs citation bud current_run_id checker = Inr (lookups, d)"
    and "length (matching_runs runs citation current_run_id) \<le> 10"
  shows "counted_runs d = map counted_run (streak_runs checker (matching_runs runs citation current_run_id))
    \<and> streak d = length (streak_runs checker (matching_runs runs citation current_run_id))"
  using count_streak_spec[OF assms(1)[unfolded evaluate_attempt_budget_def]] assms(2) by (simp add: max_job_lookups_def)

section \<open>The order of the listing\<close>

lemma filter_key_unique: "distinct (map f xs) \<Longrightarrow> k \<in> set xs \<Longrightarrow> filter (\<lambda>x. f k = f x) xs = [k]"
  by (induction xs) (auto simp: filter_empty_conv image_iff)

lemma sort_key_perm:
  assumes "mset xs = mset ys" "distinct (map f xs)"
  shows "sort_key f xs = sort_key f ys"
proof (rule properties_for_sort_key)
  have d: "distinct (map f ys)" "distinct (map f (sort_key f ys))"
    using assms distinct_map_mset[of xs ys f] by auto
  show "mset (sort_key f ys) = mset xs" using assms(1) by simp
  then have "set (sort_key f ys) = set xs" by (metis set_mset_mset)
  then show "filter (\<lambda>x. f k = f x) (sort_key f ys) = filter (\<lambda>x. f k = f x) xs" if "k \<in> set (sort_key f ys)" for k
    using that filter_key_unique[OF d(2), of k] filter_key_unique[OF assms(2), of k] by auto
qed simp

text \<open>Runs may arrive in any order: two listings of the same runs, with different creation times, lead to the same
  lookups and the same decision.\<close>

theorem listing_order_irrelevant:
  assumes "mset runs = mset runs'" "distinct (map created_key runs)"
  shows "evaluate_attempt_budget runs citation bud current_run_id checker
    = evaluate_attempt_budget runs' citation bud current_run_id checker"
proof -
  let ?f = "filter (matches citation current_run_id)"
  have "mset (rev (?f runs)) = mset (rev (?f runs'))" using assms(1) by simp
  moreover have "distinct (map created_key (rev (?f runs)))"
    using assms(2) by (simp add: rev_map[symmetric] distinct_map_filter)
  ultimately have "matching_runs runs citation current_run_id = matching_runs runs' citation current_run_id"
    unfolding matching_runs_def newest_first_def by (simp only: sort_key_perm)
  then show ?thesis by (simp add: evaluate_attempt_budget_def)
qed

section \<open>The decision\<close>

lemma budget_of_pos: "1 \<le> budget_of env"
  by (simp add: budget_of_def Let_def default_budget_def)

text \<open>A dispatch is blocked only for cause: the guard exits with 1 only for an enforced dispatch whose citation has
  at least the budget, and so at least one, of failed completed runs in the listing.\<close>

theorem block_is_justified:
  assumes "main env page fetch_jobs = Inr 1"
  shows "enforced env \<and> (\<exists>runs fs. fetch_completed_runs page = Some runs \<and> 1 \<le> budget_of env \<and> budget_of env \<le> int (length fs)
    \<and> subseq fs (matching_runs runs (strip (env_get env ''CITATION'' [])) (current_run_id_of env)) \<and> list_all failed fs)"
proof -
  let ?c = "strip (env_get env ''CITATION'' [])"
  from assms obtain runs n d where runs: "fetch_completed_runs page = Some runs"
    and ev: "evaluate_attempt_budget runs ?c (budget_of env) (current_run_id_of env) (Some fetch_jobs) = Inr (n, d)"
    and ex: "enforced env" "exhausted d"
    by (auto simp: main_def Let_def split: if_splits option.splits)
  obtain fs where fs: "subseq fs (matching_runs runs ?c (current_run_id_of env))" "list_all failed fs" "streak d = length fs" "budget d = budget_of env"
    using count_streak_counted[OF ev[unfolded evaluate_attempt_budget_def]] by auto
  have "budget_of env \<le> int (length fs)" using ex(2) fs(3,4) by (simp add: exhausted_def)
  with runs ex(1) fs budget_of_pos show ?thesis by blast
qed

text \<open>The reply to a page within two attempts; a page without a readable one, and one that says that another page follows.\<close>

definition page_reply :: "(nat \<Rightarrow> nat \<Rightarrow> attempt_result) \<Rightarrow> nat \<Rightarrow> json \<Rightarrow> bool" where
  "page_reply page n v \<longleftrightarrow> page n 0 = Reply v \<or> page n 0 = Retryable \<and> page n 1 = Reply v"

definition page_unavailable :: "(nat \<Rightarrow> nat \<Rightarrow> attempt_result) \<Rightarrow> nat \<Rightarrow> bool" where
  "page_unavailable page n \<longleftrightarrow> (\<forall>v. page_reply page n v \<longrightarrow> page_runs v = None)"

definition page_full :: "(nat \<Rightarrow> nat \<Rightarrow> attempt_result) \<Rightarrow> nat \<Rightarrow> bool" where
  "page_full page n \<longleftrightarrow> (\<exists>v len runs. page_reply page n v \<and> page_runs v = Some (len, runs) \<and> 100 \<le> len)"

lemma fetch_page_Some: "fetch_page page n = Some v \<longleftrightarrow> page_reply page n v"
  by (auto simp: fetch_page_def page_reply_def split: attempt_result.splits)

lemma upt_append': "i \<le> j \<Longrightarrow> j \<le> k \<Longrightarrow> [i..<k] = [i..<j] @ [j..<k]"
  using upt_add_eq_append[of i j "k - j"] by simp

lemma fetch_pages_unavailable:
  "(\<forall>k\<in>set before. page_full page k) \<Longrightarrow> page_unavailable page n \<Longrightarrow> fetch_pages page (before @ n # after) = None"
proof (induction before)
  case Nil
  then have "Option.bind (fetch_page page n) page_runs = None"
    by (cases "fetch_page page n") (simp_all add: page_unavailable_def fetch_page_Some[symmetric])
  then show ?case by simp
next
  case (Cons k before)
  then obtain v len runs where "fetch_page page k = Some v" "page_runs v = Some (len, runs)" "100 \<le> len"
    by (auto simp: page_full_def fetch_page_Some)
  then show ?case using Cons by (simp add: runs_per_page_def)
qed

text \<open>What the streak is when no job listing can be read: every failed run counts, and a success ends nothing.\<close>

lemma count_streak_outage:
  assumes "\<forall>i. fetch_jobs i = None" and "list_all (\<lambda>run. hashable (dget run ''conclusion'')) runs"
  shows "\<exists>n' d'. count_streak (Some fetch_jobs) n d runs = Inr (n', d') \<and> streak d' = streak d + length (filter failed runs) \<and> budget d' = budget d"
  using assms(2)
proof (induction runs arbitrary: n d)
  case (Cons run runs)
  have c: "\<exists>m. classify (Some fetch_jobs) n run = Inr (m, unverified run)"
    using assms(1) by (auto simp: classify_def spent_model_tokens_def split: option.splits)
  then obtain m where m: "classify (Some fetch_jobs) n run = Inr (m, unverified run)" by blast
  have u: "unverified run \<longleftrightarrow> \<not> succeeded run" by (simp add: unverified_def succeeded_def)
  have h: "hashable (dget run ''conclusion'')" "list_all (\<lambda>run. hashable (dget run ''conclusion'')) runs" using Cons.prems by simp_all
  consider "succeeded run" "\<not> failed run" | "\<not> succeeded run" "failed run" | "\<not> succeeded run" "\<not> failed run"
    using conclusions_disjoint(1) by blast
  then show ?case
    using Cons.IH[OF h(2), of n d] Cons.IH[OF h(2), of m d]
      Cons.IH[OF h(2), of m "d\<lparr>streak := streak d + 1, counted_runs := counted_runs d @ [counted_run run]\<rparr>"]
    by cases (simp_all add: count_streak_step[OF h(1)] m u del: count_streak.simps)
qed simp


end
