(* ===== verification/Budget_Examples.thy ===== *)
theory Budget_Examples
  imports Attempt_Budget
begin

text \<open>
  A history of one citation with three failures, a neutral run and an older success, on which the hypotheses
  of the budget properties hold.
\<close>

definition toy_run :: "int \<Rightarrow> string \<Rightarrow> string \<Rightarrow> jobj" where
  "toy_run i conclusion created = [(''id'', JInt i), (''name'', JStr ''Targeted [adhoc] us/statute/1''), (''status'', JStr ''completed''),
     (''conclusion'', JStr conclusion), (''created_at'', JStr created)]"

definition toy_runs :: "jobj list" where
  "toy_runs = [toy_run 1 ''success'' ''2028-01-01'', toy_run 3 ''failure'' ''2028-01-03'', toy_run 2 ''timed_out'' ''2028-01-02'',
     toy_run 4 ''cancelled'' ''2028-01-04'', toy_run 5 ''failure'' ''2028-01-05'']"

definition toy_fetch :: fetcher where
  "toy_fetch i = Some [JObj [(''name'', JStr encode_job_name), (''steps'', JArr [JObj [(''name'', JStr encode_step_name), (''conclusion'', JStr ''failure'')]])]]"

definition toy_decision :: decision where
  "toy_decision = \<lparr>streak = 3, budget = 3, counted_runs = map counted_run
     [toy_run 5 ''failure'' ''2028-01-05'', toy_run 3 ''failure'' ''2028-01-03'', toy_run 2 ''timed_out'' ''2028-01-02'']\<rparr>"

definition toy_guard_env :: "string dict" where
  "toy_guard_env = [(''CITATION'', '' us/statute/1''), (''GITHUB_REPOSITORY'', ''o/r''), (''GH_TOKEN'', ''t''), (''GITHUB_RUN_ID'', ''9'')]"

definition toy_page :: "nat \<Rightarrow> nat \<Rightarrow> attempt_result" where
  "toy_page n attempt = (if attempt = 0 then Retryable else Reply (JObj [(''workflow_runs'', JArr (map JObj toy_runs))]))"

lemma toy_evaluation: "evaluate_attempt_budget toy_runs ''us/statute/1'' 3 9 (Some toy_fetch) = Inr (4, toy_decision)"
  by code_simp

lemma toy_matching_length: "length (matching_runs toy_runs ''us/statute/1'' 9) \<le> 10"
  by code_simp

theorem streak_is_backed_witness:
  "\<exists>fs. subseq fs (matching_runs toy_runs ''us/statute/1'' 9) \<and> counted_runs toy_decision = map counted_run fs \<and> length fs = 3"
proof -
  obtain fs where fs: "subseq fs (matching_runs toy_runs ''us/statute/1'' 9)" "counted_runs toy_decision = map counted_run fs" "streak toy_decision = length fs"
    using streak_is_backed[OF toy_evaluation] by (elim exE conjE)
  have "length fs = 3" using fs(3) by (simp add: toy_decision_def)
  with fs show ?thesis by blast
qed

theorem streak_matches_specification_witness:
  "evaluate_attempt_budget toy_runs ''us/statute/1'' 3 9 (Some toy_fetch) = Inr (4, toy_decision)
     \<and> streak toy_decision = length (streak_runs (Some toy_fetch) (matching_runs toy_runs ''us/statute/1'' 9))"
  using streak_matches_specification[OF toy_evaluation toy_matching_length] toy_evaluation by (elim conjE) (intro conjI)

theorem listing_order_irrelevant_witness:
  "evaluate_attempt_budget toy_runs ''us/statute/1'' 3 9 (Some toy_fetch)
     = evaluate_attempt_budget (rev toy_runs) ''us/statute/1'' 3 9 (Some toy_fetch)"
proof (rule listing_order_irrelevant)
  show "distinct (map created_key toy_runs)" by code_simp
qed simp

theorem block_is_justified_witness:
  "main toy_guard_env toy_page toy_fetch = Inr 1 \<and> enforced toy_guard_env"
proof -
  have m: "main toy_guard_env toy_page toy_fetch = Inr 1" by code_simp
  show ?thesis using block_is_justified[OF m] m by (elim conjE) (intro conjI)
qed

text \<open>A first page with a hundred runs and no second one; and a history of three failures whose jobs cannot be read.\<close>

definition toy_half_listing :: "nat \<Rightarrow> nat \<Rightarrow> attempt_result" where
  "toy_half_listing n attempt = (if n = 1 then Reply (JObj [(''workflow_runs'', JArr (replicate 100 (JObj (toy_run 5 ''failure'' ''2028-01-05''))))])
     else Retryable)"


end
