(* ===== verification/Concept_Registry.thy ===== *)
theory Concept_Registry
  imports Py_Json Py_Regex
begin

text \<open>
  The canonical-concept registry (\<open>src/axiom_encode/concepts/registry.py\<close>), the validator of generated RuleSpec
  (\<open>validator.py\<close>) and the repair of generated test files (\<open>auto_repair.py\<close>).

  A YAML document is a JSON value: keys that are not strings, which no lookup reads, are left out. The
  registry files are an argument, a list of paths with their payloads, as are the generated files with their
  text and parsed document. An anchored reference \<open>jurisdiction:path#[input.]name\<close> is the record \<open>ref\<close>; the
  three character classes of its pattern are separated by characters outside them, so greedy matching needs
  no backtracking except for the optional \<open>input.\<close>. The identifiers of a formula are a Python set, whose
  iteration order is unspecified; the model takes them in order of appearance.
\<close>

section \<open>The registry\<close>

datatype registry_error = RegistryError string | RegistryAttributeError

record concept =
  concept_id :: string
  canonical_name :: string
  producer_anchor :: "string option"
  blocked_synonyms :: "string list"
  producer_missing :: bool
  description :: json
  source_file :: string

definition has_producer :: "concept \<Rightarrow> bool" where
  "has_producer c \<longleftrightarrow> producer_anchor c \<noteq> None \<and> \<not> producer_missing c"

record registry =
  concepts_by_id :: "concept dict"
  canonical_to_concept :: "concept dict"
  synonym_to_concept :: "concept dict"

definition lookup_canonical :: "registry \<Rightarrow> string \<Rightarrow> concept option" where
  "lookup_canonical R name = map_of (canonical_to_concept R) name"

definition lookup_synonym :: "registry \<Rightarrow> string \<Rightarrow> concept option" where
  "lookup_synonym R name = map_of (synonym_to_concept R) name"

definition concept_for_name :: "registry \<Rightarrow> string \<Rightarrow> concept option" where
  "concept_for_name R name = (case lookup_canonical R name of Some c \<Rightarrow> Some c | None \<Rightarrow> lookup_synonym R name)"

definition both_issues :: "registry \<Rightarrow> string list" where
  "both_issues R = concat (map (\<lambda>(name, c). case map_of (synonym_to_concept R) name of None \<Rightarrow> []
     | Some other \<Rightarrow> [name @ '' is both canonical for '' @ concept_id c @ '' and blocked synonym for '' @ concept_id other])
     (canonical_to_concept R))"

definition share_step :: "string list \<times> string dict \<Rightarrow> string \<times> concept \<Rightarrow> string list \<times> string dict" where
  "share_step st kv =
    (let cid = fst kv; cn = canonical_name (snd kv); existing = map_of (snd st) cn in
     ((case existing of None \<Rightarrow> fst st | Some e \<Rightarrow> if e \<noteq> [] \<and> e \<noteq> cid
         then fst st @ [''Two concepts share canonical_name '' @ str_repr cn @ '': '' @ e @ '' and '' @ cid] else fst st),
      AList.update cn cid (snd st)))"

definition validate_registry :: "registry \<Rightarrow> string list" where
  "validate_registry R = both_issues R @ fst (foldl share_step ([], []) (concepts_by_id R))"

definition concept_from_payload :: "string \<Rightarrow> json \<Rightarrow> (registry_error, concept) result" where
  "concept_from_payload file payload =
    (case payload of JObj d \<Rightarrow>
       if ''id'' \<notin> keys d then Inl (RegistryError (file @ '': concept missing required '' @ str_repr ''id'' @ '': '' @ py_repr payload))
       else if ''canonical_name'' \<notin> keys d then Inl (RegistryError (file @ '': concept missing required '' @ str_repr ''canonical_name'' @ '': '' @ py_repr payload))
       else
         let blocked = dget d ''blocked_synonyms'' in
         bind_r (if \<not> truthy blocked then Inr [] else case blocked of JStr s \<Rightarrow> Inr [s] | JArr xs \<Rightarrow> Inr (map py_str xs)
                 | _ \<Rightarrow> Inl (RegistryError (file @ '': blocked_synonyms must be a list''))) (\<lambda>syns.
           Inr \<lparr>concept_id = py_str (dget d ''id''), canonical_name = py_str (dget d ''canonical_name''),
             producer_anchor = (if truthy (dget d ''producer_anchor'') then Some (py_str (dget d ''producer_anchor'')) else None),
             blocked_synonyms = syns, producer_missing = truthy (dget d ''producer_missing''), description = dget d ''description'',
             source_file = file\<rparr>)
     | _ \<Rightarrow> Inl (RegistryError (file @ '': each concept must be a mapping'')))"

definition add_synonym :: "concept \<Rightarrow> registry \<Rightarrow> string \<Rightarrow> (registry_error, registry) result" where
  "add_synonym c R syn =
    (case map_of (canonical_to_concept R) syn of
       Some other \<Rightarrow> Inl (RegistryError (str_repr syn @ '' is canonical for '' @ concept_id other @ '' but blocked by '' @ concept_id c))
     | None \<Rightarrow>
       (case map_of (synonym_to_concept R) syn of
          Some other \<Rightarrow> if concept_id other \<noteq> concept_id c
            then Inl (RegistryError (str_repr syn @ '' is blocked synonym for both '' @ concept_id other @ '' and '' @ concept_id c))
            else Inr (R\<lparr>synonym_to_concept := AList.update syn c (synonym_to_concept R)\<rparr>)
        | None \<Rightarrow> Inr (R\<lparr>synonym_to_concept := AList.update syn c (synonym_to_concept R)\<rparr>)))"

definition add_concept :: "string \<Rightarrow> registry \<Rightarrow> json \<Rightarrow> (registry_error, registry) result" where
  "add_concept file R raw =
    bind_r (concept_from_payload file raw) (\<lambda>c.
      case map_of (concepts_by_id R) (concept_id c) of
        Some other \<Rightarrow> Inl (RegistryError (''Duplicate concept id '' @ str_repr (concept_id c) @ '' (in '' @ source_file other @ '' and '' @ file @ '')''))
      | None \<Rightarrow> case map_of (canonical_to_concept R) (canonical_name c) of
        Some other \<Rightarrow> Inl (RegistryError (''Canonical name '' @ str_repr (canonical_name c) @ '' claimed by both '' @ concept_id other @ '' and '' @ concept_id c))
      | None \<Rightarrow> for_each (add_synonym c)
          (R\<lparr>concepts_by_id := AList.update (concept_id c) c (concepts_by_id R),
             canonical_to_concept := AList.update (canonical_name c) c (canonical_to_concept R)\<rparr>) (blocked_synonyms c))"

definition registry_format :: string where "registry_format = ''axiom-encode/concepts/v1''"

definition load_file :: "registry \<Rightarrow> string \<times> json \<Rightarrow> (registry_error, registry) result" where
  "load_file R file =
    (case (if truthy (snd file) then snd file else JObj []) of
       JObj d \<Rightarrow>
         if dget d ''format'' \<noteq> JStr registry_format
         then Inl (RegistryError (fst file @ '': unsupported registry format '' @ py_repr (dget d ''format'')))
         else (case (if truthy (dget d ''concepts'') then dget d ''concepts'' else JArr []) of
             JArr raws \<Rightarrow> for_each (add_concept (fst file)) R raws
           | _ \<Rightarrow> Inl (RegistryError (fst file @ '': concepts must be a list'')))
     | _ \<Rightarrow> Inl RegistryAttributeError)"

definition load_concept_registry :: "(string \<times> json) list \<Rightarrow> (registry_error, registry) result" where
  "load_concept_registry files =
    bind_r (for_each load_file \<lparr>concepts_by_id = [], canonical_to_concept = [], synonym_to_concept = []\<rparr> (sort_key fst files)) (\<lambda>R.
      if validate_registry R \<noteq> [] then Inl (RegistryError (''Invalid concept registry: '' @ join ''; '' (validate_registry R)))
      else Inr R)"

section \<open>Anchored references\<close>

record ref =
  anchor :: string
  is_input :: bool
  ref_name :: string

definition jur_char :: "char \<Rightarrow> bool" where
  "jur_char c \<longleftrightarrow> is_lower c \<or> is_digit c \<or> c = CHR ''-''"

definition path_char :: "char \<Rightarrow> bool" where
  "path_char c \<longleftrightarrow> is_alnum c \<or> c \<in> {CHR ''_'', CHR ''-'', CHR ''/'', CHR ''.''}"

definition name_char :: "char \<Rightarrow> bool" where
  "name_char c \<longleftrightarrow> is_lower c \<or> is_digit c \<or> c = CHR ''_''"

definition starts_lower :: "string \<Rightarrow> bool" where
  "starts_lower s \<longleftrightarrow> s \<noteq> [] \<and> is_lower (hd s)"

definition starts_with :: "char \<Rightarrow> string \<Rightarrow> bool" where
  "starts_with c s \<longleftrightarrow> s \<noteq> [] \<and> hd s = c"

text \<open>The part of a match after the number sign.\<close>

definition name_at :: "string \<Rightarrow> string \<Rightarrow> (ref \<times> string) option" where
  "name_at a r =
    (let inp = prefix ''input.'' r \<and> starts_lower (drop 6 r); body = (if inp then drop 6 r else r) in
     if starts_lower body then Some (\<lparr>anchor = a, is_input = inp, ref_name = takeWhile name_char body\<rparr>, dropWhile name_char body)
     else None)"

definition ref_at :: "string \<Rightarrow> (ref \<times> string) option" where
  "ref_at t =
    (let jur = takeWhile jur_char t; t1 = dropWhile jur_char t; pth = takeWhile path_char (tl t1); t2 = dropWhile path_char (tl t1) in
     if starts_lower t \<and> starts_with (CHR '':'') t1 \<and> pth \<noteq> [] \<and> starts_with (CHR ''#'') t2
     then name_at (jur @ '':'' @ pth) (tl t2) else None)"

definition ref_text :: "ref \<Rightarrow> string" where
  "ref_text r = anchor r @ ''#'' @ (if is_input r then ''input.'' else []) @ ref_name r"

text \<open>\<open>ANCHORED_REF_RE.finditer(text)\<close>.\<close>

function find_refs :: "string \<Rightarrow> ref list" where
  "find_refs [] = []"
| "find_refs (c # cs) =
    (case ref_at (c # cs) of
       Some (r, rest) \<Rightarrow> if length rest \<le> length cs then r # find_refs rest else find_refs cs
     | None \<Rightarrow> find_refs cs)"
  by pat_completeness auto
termination
  by (relation "measure length") auto

section \<open>Repair of test files\<close>

definition or_anchor :: "string option \<Rightarrow> string \<Rightarrow> string" where
  "or_anchor p a = (case p of Some x \<Rightarrow> if x \<noteq> [] then x else a | None \<Rightarrow> a)"

definition repair_ref :: "registry \<Rightarrow> ref \<Rightarrow> ref" where
  "repair_ref R r =
    (case lookup_synonym R (ref_name r) of
       Some b \<Rightarrow>
         if is_input r \<and> producer_anchor b = Some (anchor r) then r
         else \<lparr>anchor = (if is_input r then anchor r else or_anchor (producer_anchor b) (anchor r)), is_input = is_input r, ref_name = canonical_name b\<rparr>
     | None \<Rightarrow>
       (case lookup_canonical R (ref_name r) of
          Some c \<Rightarrow> if has_producer c \<and> producer_anchor c \<noteq> Some (anchor r) \<and> \<not> is_input r
            then r\<lparr>anchor := the (producer_anchor c)\<rparr> else r
        | None \<Rightarrow> r))"

definition repair_match :: "registry \<Rightarrow> matcher" where
  "repair_match R prev t = map_option (\<lambda>(r, rest). (ref_text (repair_ref R r), rest)) (ref_at t)"

definition rewrite_anchored_refs :: "registry \<Rightarrow> string \<Rightarrow> string" where
  "rewrite_anchored_refs R text = sub_with (repair_match R) None text"

text \<open>The files handed over, with different paths: each with the text \<open>read_text\<close> gives (\<open>None\<close> when it does not
  exist). What \<open>yaml.safe_load\<close> makes of a
  text (the error, or the document) is the argument \<open>parse\<close> of the validator.\<close>

type_synonym files = "(string \<times> string option) list"

definition file_name :: "string \<Rightarrow> string" where
  "file_name p = last (split_on CHR ''/'' p)"

definition is_test :: "string \<Rightarrow> bool" where
  "is_test p \<longleftrightarrow> suffix ''.test.yaml'' (file_name p)"

definition repair_file :: "registry \<Rightarrow> string \<times> string option \<Rightarrow> string \<times> string option" where
  "repair_file R f = (if is_test (fst f) then (fst f, map_option (rewrite_anchored_refs R) (snd f)) else f)"

definition auto_repair_test_yaml_canonical_violations :: "registry \<Rightarrow> files \<Rightarrow> files \<times> string list" where
  "auto_repair_test_yaml_canonical_violations R fs =
     (map (repair_file R) fs, map fst (filter (\<lambda>f. repair_file R f \<noteq> f) fs))"

section \<open>The validator\<close>

record violation =
  v_kind :: string
  v_name :: string
  v_where :: string
  v_concept :: "string option"
  v_detail :: string

definition anchored_violations :: "registry \<Rightarrow> string \<Rightarrow> ref \<Rightarrow> violation list" where
  "anchored_violations R p r =
    (let place = p @ '':'' @ anchor r @ ''#'' @ ref_name r in
     case lookup_synonym R (ref_name r) of
       Some b \<Rightarrow>
         if is_input r \<and> producer_anchor b = Some (anchor r) then []
         else [\<lparr>v_kind = ''blocked_synonym'', v_name = ref_name r, v_where = place, v_concept = Some (concept_id b),
                v_detail = ''use canonical '' @ str_repr (canonical_name b) @ '' instead''\<rparr>]
     | None \<Rightarrow>
       (case lookup_canonical R (ref_name r) of
          Some c \<Rightarrow> if has_producer c \<and> producer_anchor c \<noteq> Some (anchor r) \<and> \<not> is_input r
            then [\<lparr>v_kind = ''anchored_ref_miss'', v_name = ref_name r, v_where = place, v_concept = Some (concept_id c),
                   v_detail = ''canonical '' @ str_repr (ref_name r) @ '' is anchored at '' @ the (producer_anchor c) @ '', not '' @ anchor r\<rparr>]
            else []
        | None \<Rightarrow> []))"

text \<open>\<open>\w\<close> below code point 256.\<close>

definition word :: "char \<Rightarrow> bool" where
  "word c \<longleftrightarrow> is_alnum c \<or> c = CHR ''_'' \<or> code c \<in> {170, 178, 179, 181, 185, 186, 188, 189, 190}
     \<or> (192 \<le> code c \<and> code c \<noteq> 215 \<and> code c \<noteq> 247)"

text \<open>The maximal runs of word characters; the pattern \<open>\b([a-z][a-z0-9_]*)\b\<close> matches a run as a whole or
  not at all.\<close>

function word_runs :: "string \<Rightarrow> string list" where
  "word_runs [] = []"
| "word_runs (c # cs) = (if word c then (c # takeWhile word cs) # word_runs (dropWhile word cs) else word_runs cs)"
  by pat_completeness auto
termination
  by (relation "measure length") (auto simp: le_imp_less_Suc length_dropWhile_le)

definition identifiers :: "string \<Rightarrow> string list" where
  "identifiers formula = remdups (filter (\<lambda>w. starts_lower w \<and> list_all name_char w) (word_runs formula))"

definition formula_violations :: "registry \<Rightarrow> string \<Rightarrow> string \<Rightarrow> string \<Rightarrow> violation list" where
  "formula_violations R p rname formula =
    concat (map (\<lambda>i. case lookup_synonym R i of None \<Rightarrow> []
      | Some b \<Rightarrow> [\<lparr>v_kind = ''blocked_synonym'', v_name = i, v_where = p @ '':rule '' @ rname @ '' formula'', v_concept = Some (concept_id b),
           v_detail = ''use canonical '' @ str_repr (canonical_name b) @ '' in formula''\<rparr>]) (identifiers formula))"

definition rule_name :: "jobj \<Rightarrow> string option" where
  "rule_name rule = (case dget rule ''name'' of JStr s \<Rightarrow> Some s | _ \<Rightarrow> None)"

definition name_violations :: "registry \<Rightarrow> string option \<Rightarrow> string \<Rightarrow> string \<Rightarrow> violation list" where
  "name_violations R apply_anchor p n =
    (if n = [] then [] else
     (case lookup_synonym R n of
        Some b \<Rightarrow> if is_test p then [] else [\<lparr>v_kind = ''blocked_synonym'', v_name = n, v_where = p @ '':rule '' @ n,
            v_concept = Some (concept_id b), v_detail = ''rename producer to canonical '' @ str_repr (canonical_name b)\<rparr>]
      | None \<Rightarrow> [])
     @ (case (lookup_canonical R n, apply_anchor) of
        (Some c, Some a) \<Rightarrow> if has_producer c \<and> producer_anchor c \<noteq> Some a \<and> \<not> is_test p
          then [\<lparr>v_kind = ''canonical_conflict'', v_name = n, v_where = p @ '':rule '' @ n, v_concept = Some (concept_id c),
            v_detail = ''canonical anchor is '' @ the (producer_anchor c) @ '', applying under '' @ a\<rparr>] else []
      | _ \<Rightarrow> []))"

text \<open>The formulas of a rule: the strings among those of its versions that are dicts.\<close>

definition formulas :: "jobj \<Rightarrow> string list" where
  "formulas rule =
    concat (map (\<lambda>v. case v of JObj d \<Rightarrow> (case dget d ''formula'' of JStr f \<Rightarrow> [f] | _ \<Rightarrow> []) | _ \<Rightarrow> []) (arr_of (dget rule ''versions'')))"

definition rule_violations :: "registry \<Rightarrow> string option \<Rightarrow> string \<Rightarrow> jobj \<Rightarrow> violation list" where
  "rule_violations R apply_anchor p rule =
    (case rule_name rule of Some n \<Rightarrow> name_violations R apply_anchor p n | None \<Rightarrow> [])
    @ concat (map (formula_violations R p (case rule_name rule of Some n \<Rightarrow> n | None \<Rightarrow> ''None'')) (formulas rule))"

definition document_violations :: "registry \<Rightarrow> string option \<Rightarrow> string \<Rightarrow> json \<Rightarrow> violation list" where
  "document_violations R apply_anchor p doc =
    (case doc of JObj d \<Rightarrow> concat (map (\<lambda>r. case r of JObj rule \<Rightarrow> rule_violations R apply_anchor p rule | _ \<Rightarrow> []) (arr_of (dget d ''rules'')))
     | _ \<Rightarrow> [])"

definition file_violations :: "(string \<Rightarrow> (string, json) result) \<Rightarrow> registry \<Rightarrow> string option \<Rightarrow> string \<times> string option \<Rightarrow> violation list" where
  "file_violations parse R apply_anchor f =
    (case snd f of None \<Rightarrow> []
     | Some text \<Rightarrow>
       (case parse text of Inl e \<Rightarrow> [\<lparr>v_kind = ''parse_error'', v_name = [], v_where = fst f, v_concept = None,
            v_detail = ''YAML did not parse, validator cannot scan rules: '' @ e\<rparr>] | Inr doc \<Rightarrow> [])
       @ concat (map (anchored_violations R (fst f)) (find_refs text))
       @ (case parse text of Inl e \<Rightarrow> [] | Inr doc \<Rightarrow> document_violations R apply_anchor (fst f) doc))"

text \<open>The first violation of each kind, name and place.\<close>

definition violation_key :: "violation \<Rightarrow> string \<times> string \<times> string" where
  "violation_key v = (v_kind v, v_name v, v_where v)"

fun dedup :: "(string \<times> string \<times> string) list \<Rightarrow> violation list \<Rightarrow> violation list" where
  "dedup seen [] = []"
| "dedup seen (v # vs) = (if violation_key v \<in> set seen then dedup seen vs else v # dedup (violation_key v # seen) vs)"

definition validate_generated_against_registry :: "(string \<Rightarrow> (string, json) result) \<Rightarrow> registry \<Rightarrow> string option \<Rightarrow> files \<Rightarrow> violation list" where
  "validate_generated_against_registry parse R apply_anchor fs = dedup [] (concat (map (file_violations parse R apply_anchor) fs))"

end
