(* ===== verification/Concept_Facts.thy ===== *)
theory Concept_Facts
  imports Concept_Registry
begin

text \<open>
  The properties of \<open>Concept_Registry\<close>: a loaded registry names every concept unambiguously, a clean validation
  means that generated files use canonical names only, and repairing test files leaves no reference the
  validator would reject. The last rests on a fact about the pattern: rewriting a reference neither creates
  nor hides another match.
\<close>

section \<open>The registry\<close>

text \<open>The invariant of loading. The synonyms may clash with a canonical name that is loaded later; that is what
  the final validation is for.\<close>

definition linked :: "registry \<Rightarrow> bool" where
  "linked R \<longleftrightarrow>
     (\<forall>i c. map_of (concepts_by_id R) i = Some c \<longrightarrow> concept_id c = i \<and> map_of (canonical_to_concept R) (canonical_name c) = Some c)
     \<and> (\<forall>n c. map_of (canonical_to_concept R) n = Some c \<longrightarrow> canonical_name c = n \<and> map_of (concepts_by_id R) (concept_id c) = Some c)
     \<and> (\<forall>n c. map_of (synonym_to_concept R) n = Some c \<longrightarrow> n \<in> set (blocked_synonyms c) \<and> map_of (concepts_by_id R) (concept_id c) = Some c)"

definition synonyms_listed :: "registry \<Rightarrow> concept \<Rightarrow> string set \<Rightarrow> bool" where
  "synonyms_listed R c S \<longleftrightarrow> (\<forall>n\<in>S. map_of (synonym_to_concept R) n = Some c)"

definition complete :: "registry \<Rightarrow> bool" where
  "complete R \<longleftrightarrow> (\<forall>i c. map_of (concepts_by_id R) i = Some c \<longrightarrow> synonyms_listed R c (set (blocked_synonyms c)))"

lemma add_synonym_Inr:
  "add_synonym c R n = Inr R' \<longleftrightarrow> map_of (canonical_to_concept R) n = None
     \<and> (\<forall>d. map_of (synonym_to_concept R) n = Some d \<longrightarrow> concept_id d = concept_id c)
     \<and> R' = R\<lparr>synonym_to_concept := AList.update n c (synonym_to_concept R)\<rparr>"
  by (auto simp: add_synonym_def split: option.splits)

lemma linkedD:
  assumes "linked R"
  shows "map_of (concepts_by_id R) i = Some c \<Longrightarrow> concept_id c = i \<and> map_of (canonical_to_concept R) (canonical_name c) = Some c"
    and "map_of (canonical_to_concept R) n = Some c \<Longrightarrow> canonical_name c = n \<and> map_of (concepts_by_id R) (concept_id c) = Some c"
    and "map_of (synonym_to_concept R) n = Some c \<Longrightarrow> n \<in> set (blocked_synonyms c) \<and> map_of (concepts_by_id R) (concept_id c) = Some c"
  using assms unfolding linked_def by blast+

lemma linkedI:
  assumes "\<And>i c. map_of (concepts_by_id R) i = Some c \<Longrightarrow> concept_id c = i \<and> map_of (canonical_to_concept R) (canonical_name c) = Some c"
    and "\<And>n c. map_of (canonical_to_concept R) n = Some c \<Longrightarrow> canonical_name c = n \<and> map_of (concepts_by_id R) (concept_id c) = Some c"
    and "\<And>n c. map_of (synonym_to_concept R) n = Some c \<Longrightarrow> n \<in> set (blocked_synonyms c) \<and> map_of (concepts_by_id R) (concept_id c) = Some c"
  shows "linked R"
  unfolding linked_def using assms by blast

lemma linked_synonym:
  assumes "linked R" "n \<in> set (blocked_synonyms c)" "map_of (concepts_by_id R) (concept_id c) = Some c"
  shows "linked (R\<lparr>synonym_to_concept := AList.update n c (synonym_to_concept R)\<rparr>)"
proof (rule linkedI, goal_cases)
  case (3 m d)
  show ?case
  proof (cases "m = n")
    case False
    then have "map_of (synonym_to_concept R) m = Some d" using 3 by simp
    from linkedD(3)[OF assms(1) this] show ?thesis by simp
  qed (use 3 assms(2,3) in simp)
qed (use linkedD[OF assms(1)] in simp_all)

lemma linked_concept:
  assumes "linked R" "map_of (concepts_by_id R) (concept_id c) = None" "map_of (canonical_to_concept R) (canonical_name c) = None"
  shows "linked (R\<lparr>concepts_by_id := AList.update (concept_id c) c (concepts_by_id R),
      canonical_to_concept := AList.update (canonical_name c) c (canonical_to_concept R)\<rparr>)"
proof (rule linkedI, goal_cases)
  case (1 i d)
  show ?case
  proof (cases "i = concept_id c")
    case False
    then have "map_of (concepts_by_id R) i = Some d" using 1 by simp
    from linkedD(1)[OF assms(1) this] assms(3) show ?thesis by auto
  qed (use 1 in simp)
next
  case (2 n d)
  show ?case
  proof (cases "n = canonical_name c")
    case False
    then have "map_of (canonical_to_concept R) n = Some d" using 2 by simp
    from linkedD(2)[OF assms(1) this] assms(2) show ?thesis by auto
  qed (use 2 in simp)
next
  case (3 n d)
  then have "map_of (synonym_to_concept R) n = Some d" by simp
  from linkedD(3)[OF assms(1) this] assms(2) show ?case by auto
qed

text \<open>Adding the synonyms of a concept that is in the registry.\<close>

lemma add_synonyms:
  assumes "for_each (add_synonym c) R ns = Inr R'" "linked R" "map_of (concepts_by_id R) (concept_id c) = Some c"
    "set ns \<subseteq> set (blocked_synonyms c)"
  shows "linked R' \<and> concepts_by_id R' = concepts_by_id R \<and> canonical_to_concept R' = canonical_to_concept R
    \<and> synonyms_listed R' c (set ns)
    \<and> (\<forall>n d. map_of (synonym_to_concept R) n = Some d \<longrightarrow> map_of (synonym_to_concept R') n = Some d)"
  using assms(1)
proof (rule for_each_rule)
  fix ys y S S' and zs :: "string list"
  assume ns: "ns = ys @ y # zs" and st: "add_synonym c S y = Inr S'"
    and inv: "linked S \<and> concepts_by_id S = concepts_by_id R \<and> canonical_to_concept S = canonical_to_concept R
      \<and> synonyms_listed S c (set ys) \<and> (\<forall>n d. map_of (synonym_to_concept R) n = Some d \<longrightarrow> map_of (synonym_to_concept S) n = Some d)"
  have y: "y \<in> set (blocked_synonyms c)" using ns assms(4) by auto
  have S': "S' = S\<lparr>synonym_to_concept := AList.update y c (synonym_to_concept S)\<rparr>"
    and same: "\<And>d. map_of (synonym_to_concept S) y = Some d \<Longrightarrow> concept_id d = concept_id c"
    using st by (auto simp: add_synonym_Inr)
  have "d = c" if "map_of (synonym_to_concept S) y = Some d" for d
  proof -
    have "linked S" "concepts_by_id S = concepts_by_id R" using inv by blast+
    with linkedD(3)[OF _ that] same[OF that] assms(3) show ?thesis by simp
  qed
  moreover have "linked S'" using inv y assms(3) unfolding S' by (intro linked_synonym) simp_all
  ultimately show "linked S' \<and> concepts_by_id S' = concepts_by_id R \<and> canonical_to_concept S' = canonical_to_concept R
      \<and> synonyms_listed S' c (set (ys @ [y])) \<and> (\<forall>n d. map_of (synonym_to_concept R) n = Some d \<longrightarrow> map_of (synonym_to_concept S') n = Some d)"
    using inv by (auto simp: S' synonyms_listed_def)
qed (use assms(2) in \<open>simp add: synonyms_listed_def\<close>)

lemma add_concept_keeps:
  assumes "add_concept file R raw = Inr R'" "linked R" "complete R"
  shows "linked R' \<and> complete R'"
proof -
  from assms(1) obtain c where c: "map_of (concepts_by_id R) (concept_id c) = None" "map_of (canonical_to_concept R) (canonical_name c) = None"
    and loop: "for_each (add_synonym c) (R\<lparr>concepts_by_id := AList.update (concept_id c) c (concepts_by_id R),
             canonical_to_concept := AList.update (canonical_name c) c (canonical_to_concept R)\<rparr>) (blocked_synonyms c) = Inr R'"
      (is "for_each _ ?R _ = _")
    by (auto simp: add_concept_def split: option.splits)
  have l: "linked ?R" using assms(2) c by (rule linked_concept)
  have i: "map_of (concepts_by_id ?R) (concept_id c) = Some c" by simp
  note a = add_synonyms[OF loop l i subset_refl]
  have "synonyms_listed R' d (set (blocked_synonyms d))" if "map_of (concepts_by_id R') j = Some d" for j d
  proof (cases "j = concept_id c")
    case True
    then show ?thesis using a that by (simp split: if_splits)
  next
    case False
    then have "map_of (concepts_by_id R) j = Some d" using a that by simp
    then show ?thesis using assms(3) a by (auto simp: complete_def synonyms_listed_def)
  qed
  then show ?thesis using a by (auto simp: complete_def)
qed

lemma load_file_keeps:
  assumes "load_file R file = Inr R'" "linked R \<and> complete R"
  shows "linked R' \<and> complete R'"
proof -
  obtain raws where "for_each (add_concept (fst file)) R raws = Inr R'"
    using assms(1) by (auto simp: load_file_def split: json.splits if_splits)
  then show ?thesis
  proof (rule for_each_rule)
    fix ys y S S' and zs :: "json list"
    assume "add_concept (fst file) S y = Inr S'" "linked S \<and> complete S"
    then show "linked S' \<and> complete S'" using add_concept_keeps by blast
  qed (use assms(2) in simp)
qed

lemma both_issues_Nil: "both_issues R = [] \<longleftrightarrow> keys (canonical_to_concept R) \<inter> keys (synonym_to_concept R) = {}"
proof -
  have "both_issues R = [] \<longleftrightarrow> (\<forall>kv\<in>set (canonical_to_concept R). fst kv \<notin> keys (synonym_to_concept R))"
    unfolding keys_dom both_issues_def by (force split: option.splits prod.splits)
  then show ?thesis by (auto simp: keys_def)
qed

text \<open>What a loaded registry satisfies.\<close>

definition registry_ok :: "registry \<Rightarrow> bool" where
  "registry_ok R \<longleftrightarrow> linked R \<and> complete R \<and> keys (canonical_to_concept R) \<inter> keys (synonym_to_concept R) = {}"

lemma loaded_ok:
  assumes "load_concept_registry files = Inr R"
  shows "registry_ok R"
proof -
  from assms have loop: "for_each load_file \<lparr>concepts_by_id = [], canonical_to_concept = [], synonym_to_concept = []\<rparr> (sort_key fst files) = Inr R"
    and v: "both_issues R = []"
    by (auto simp: load_concept_registry_def validate_registry_def split: if_splits)
  from loop have "linked R \<and> complete R"
  proof (rule for_each_rule)
    fix ys y S S' and zs :: "(string \<times> json) list"
    assume "load_file S y = Inr S'" "linked S \<and> complete S"
    then show "linked S' \<and> complete S'" by (rule load_file_keeps)
  qed (simp add: linked_def complete_def)
  with v show ?thesis by (simp add: registry_ok_def both_issues_Nil)
qed

text \<open>A loaded registry is unambiguous: the concept of a name is the one concept that lists it as its canonical
  name or as a blocked synonym, never both, and no two concepts share an id, a canonical name or a synonym.\<close>

theorem registry_names_unambiguous:
  assumes "load_concept_registry files = Inr R"
    and "map_of (concepts_by_id R) i = Some c" "n = canonical_name c \<or> n \<in> set (blocked_synonyms c)"
  shows "concept_for_name R n = Some c \<and> concept_id c = i \<and> \<not> (n = canonical_name c \<and> n \<in> set (blocked_synonyms c))
    \<and> (\<forall>j d. map_of (concepts_by_id R) j = Some d \<and> (n = canonical_name d \<or> n \<in> set (blocked_synonyms d)) \<longrightarrow> j = i \<and> d = c)"
proof -
  have ok: "linked R" "complete R" and dj: "keys (canonical_to_concept R) \<inter> keys (synonym_to_concept R) = {}"
    using loaded_ok[OF assms(1)] by (auto simp: registry_ok_def)
  have can: "map_of (canonical_to_concept R) (canonical_name d) = Some d" "concept_id d = j" if "map_of (concepts_by_id R) j = Some d" for j d
    using linkedD(1)[OF ok(1) that] by simp_all
  have syn: "map_of (synonym_to_concept R) m = Some d" if "map_of (concepts_by_id R) j = Some d" "m \<in> set (blocked_synonyms d)" for j d m
    using ok(2) that by (auto simp: complete_def synonyms_listed_def)
  have excl: "map_of (canonical_to_concept R) m = None" if "map_of (synonym_to_concept R) m = Some d" for m d
    using dj that unfolding keys_dom by auto
  have name: "concept_for_name R n = Some d \<and> concept_id d = j" if "map_of (concepts_by_id R) j = Some d" "n = canonical_name d \<or> n \<in> set (blocked_synonyms d)" for j d
    using that can[OF that(1)] syn[OF that(1)] excl by (auto simp: concept_for_name_def lookup_canonical_def lookup_synonym_def)
  have "j = i \<and> d = c" if "map_of (concepts_by_id R) j = Some d" "n = canonical_name d \<or> n \<in> set (blocked_synonyms d)" for j d
    using name[OF that] name[OF assms(2,3)] by simp
  moreover have "\<not> (n = canonical_name c \<and> n \<in> set (blocked_synonyms c))"
    using can(1)[OF assms(2)] syn[OF assms(2)] excl by fastforce
  ultimately show ?thesis using name[OF assms(2,3)] by blast
qed

section \<open>The validator\<close>

lemma dedup_Nil: "dedup [] vs = [] \<longleftrightarrow> vs = []"
  by (cases vs) auto

definition ref_ok :: "registry \<Rightarrow> ref \<Rightarrow> bool" where
  "ref_ok R r \<longleftrightarrow>
    (case lookup_synonym R (ref_name r) of Some b \<Rightarrow> is_input r \<and> producer_anchor b = Some (anchor r)
     | None \<Rightarrow> (case lookup_canonical R (ref_name r) of
         Some c \<Rightarrow> has_producer c \<longrightarrow> is_input r \<or> producer_anchor c = Some (anchor r) | None \<Rightarrow> True))"

lemma anchored_violations_Nil: "anchored_violations R p r = [] \<longleftrightarrow> ref_ok R r"
  by (auto simp: anchored_violations_def Let_def ref_ok_def split: option.splits)

definition name_ok :: "registry \<Rightarrow> string option \<Rightarrow> string \<Rightarrow> string \<Rightarrow> bool" where
  "name_ok R apply_anchor p n \<longleftrightarrow> n = [] \<or> is_test p \<or> (lookup_synonym R n = None
     \<and> (\<forall>c a. lookup_canonical R n = Some c \<and> apply_anchor = Some a \<and> has_producer c \<longrightarrow> producer_anchor c = Some a))"

lemma name_violations_Nil: "name_violations R apply_anchor p n = [] \<longleftrightarrow> name_ok R apply_anchor p n"
  by (auto simp: name_violations_def name_ok_def split: option.splits)

definition rule_ok :: "registry \<Rightarrow> string option \<Rightarrow> string \<Rightarrow> jobj \<Rightarrow> bool" where
  "rule_ok R apply_anchor p rule \<longleftrightarrow> (\<forall>n. rule_name rule = Some n \<longrightarrow> name_ok R apply_anchor p n)
     \<and> (\<forall>f\<in>set (formulas rule). \<forall>i\<in>set (identifiers f). lookup_synonym R i = None)"

lemma formula_violations_Nil: "formula_violations R p n f = [] \<longleftrightarrow> (\<forall>i\<in>set (identifiers f). lookup_synonym R i = None)"
  by (auto simp: formula_violations_def split: option.splits)

lemma rule_violations_Nil: "rule_violations R apply_anchor p rule = [] \<longleftrightarrow> rule_ok R apply_anchor p rule"
  by (auto simp: rule_violations_def rule_ok_def name_violations_Nil formula_violations_Nil split: option.splits)

definition document_ok :: "registry \<Rightarrow> string option \<Rightarrow> string \<Rightarrow> json \<Rightarrow> bool" where
  "document_ok R apply_anchor p doc \<longleftrightarrow> (\<forall>d rule. doc = JObj d \<and> JObj rule \<in> set (arr_of (dget d ''rules'')) \<longrightarrow> rule_ok R apply_anchor p rule)"

lemma document_violations_Nil: "document_violations R apply_anchor p doc = [] \<longleftrightarrow> document_ok R apply_anchor p doc"
proof (cases doc)
  case (JObj d)
  have "document_violations R apply_anchor p doc = [] \<longleftrightarrow>
      (\<forall>r\<in>set (arr_of (dget d ''rules'')). \<forall>rule. r = JObj rule \<longrightarrow> rule_ok R apply_anchor p rule)"
    by (auto simp: document_violations_def JObj rule_violations_Nil split: json.splits)
  then show ?thesis by (auto simp: document_ok_def JObj)
qed (auto simp: document_violations_def document_ok_def)

text \<open>C24. A clean validation means canonical names throughout: the validator reports nothing exactly when every
  existing file parses, no anchored reference uses a blocked synonym (other than an input of its own
  producer) or names a concept at a wrong anchor, no producer rule of a file that is not a test is named by a
  synonym or outside its concept's anchor, and no formula mentions a synonym.\<close>

theorem validation_clean_iff:
  "validate_generated_against_registry parse R apply_anchor fs = [] \<longleftrightarrow>
    (\<forall>p text. (p, Some text) \<in> set fs \<longrightarrow> list_all (ref_ok R) (find_refs text)
      \<and> (\<exists>doc. parse text = Inr doc \<and> document_ok R apply_anchor p doc))"
proof -
  have one: "file_violations parse R apply_anchor (p, Some t) = [] \<longleftrightarrow> list_all (ref_ok R) (find_refs t)
      \<and> (\<exists>doc. parse t = Inr doc \<and> document_ok R apply_anchor p doc)" for p t
    by (auto simp: file_violations_def anchored_violations_Nil document_violations_Nil list_all_iff split: sum.splits)
  have none: "file_violations parse R apply_anchor (p, None) = []" for p by (simp add: file_violations_def)
  have "validate_generated_against_registry parse R apply_anchor fs = [] \<longleftrightarrow> (\<forall>f\<in>set fs. file_violations parse R apply_anchor f = [])"
    by (simp add: validate_generated_against_registry_def dedup_Nil)
  also have "\<dots> \<longleftrightarrow> (\<forall>p text. (p, Some text) \<in> set fs \<longrightarrow> file_violations parse R apply_anchor (p, Some text) = [])"
    using none by (metis option.exhaust surj_pair)
  finally show ?thesis unfolding one .
qed

section \<open>Matches of the reference pattern\<close>

definition anchor_wf :: "string \<Rightarrow> bool" where
  "anchor_wf a \<longleftrightarrow> (\<exists>j p. a = j @ '':'' @ p \<and> starts_lower j \<and> list_all jur_char j \<and> p \<noteq> [] \<and> list_all path_char p)"

definition name_wf :: "string \<Rightarrow> bool" where
  "name_wf n \<longleftrightarrow> starts_lower n \<and> list_all name_char n"

definition ref_wf :: "ref \<Rightarrow> bool" where
  "ref_wf r \<longleftrightarrow> anchor_wf (anchor r) \<and> name_wf (ref_name r)"

text \<open>What may follow a match: the name is maximal, and the optional \<open>input.\<close> has been tried.\<close>

definition ends_ref :: "ref \<Rightarrow> string \<Rightarrow> bool" where
  "ends_ref r rest \<longleftrightarrow> (rest = [] \<or> \<not> name_char (hd rest))
     \<and> (\<not> is_input r \<and> ref_name r = ''input'' \<longrightarrow> \<not> (starts_with (CHR ''.'') rest \<and> starts_lower (tl rest)))"

lemma char_classes:
  "is_lower c \<Longrightarrow> jur_char c" "is_lower c \<Longrightarrow> name_char c" "jur_char c \<Longrightarrow> path_char c"
  "\<not> jur_char CHR '':''" "\<not> path_char CHR '':''" "\<not> path_char CHR ''#''" "\<not> jur_char CHR ''#''" "\<not> name_char CHR ''.''"
  by (auto simp: jur_char_def name_char_def path_char_def is_alnum_def is_lower_def is_upper_def is_digit_def)

lemma split_while:
  assumes "list_all P a" "b = [] \<or> \<not> P (hd b)"
  shows "takeWhile P (a @ b) = a" "dropWhile P (a @ b) = b"
  using assms by (induction a) (cases b, auto)+

lemma starts_lower_append [simp]: "starts_lower (j @ r) \<longleftrightarrow> (if j = [] then starts_lower r else starts_lower j)"
  by (cases j) (simp_all add: starts_lower_def)

lemma name_at_Some:
  assumes "name_at a t = Some (r, rest)"
  shows "anchor r = a \<and> t = (if is_input r then ''input.'' else []) @ ref_name r @ rest \<and> name_wf (ref_name r) \<and> ends_ref r rest"
proof -
  define inp where "inp \<longleftrightarrow> prefix ''input.'' t \<and> starts_lower (drop 6 t)"
  define body where "body = (if inp then drop 6 t else t)"
  have low: "starts_lower body" and r: "r = \<lparr>anchor = a, is_input = inp, ref_name = takeWhile name_char body\<rparr>" and rest: "rest = dropWhile name_char body"
    using assms by (auto simp: name_at_def Let_def inp_def[symmetric] body_def[symmetric] split: if_splits)
  have t: "t = (if inp then ''input.'' else []) @ body" by (auto simp: body_def inp_def prefix_def)
  have "rest = [] \<or> \<not> name_char (hd rest)" using hd_dropWhile[of name_char body] rest by auto
  moreover have "name_wf (takeWhile name_char body)"
    using low char_classes(2)[of "hd body"] by (cases body) (auto simp: name_wf_def starts_lower_def list_all_iff dest: set_takeWhileD)
  moreover have "\<not> (starts_with (CHR ''.'') rest \<and> starts_lower (tl rest))" if "\<not> inp" "takeWhile name_char body = ''input''"
  proof
    assume s: "starts_with (CHR ''.'') rest \<and> starts_lower (tl rest)"
    then obtain u where u: "rest = CHR ''.'' # u" by (cases rest) (auto simp: starts_with_def)
    moreover have "body = takeWhile name_char body @ rest" by (simp add: rest)
    ultimately have "t = ''input.'' @ u" using that by (simp add: t)
    then show False using s that(1) u by (simp add: inp_def)
  qed
  ultimately show ?thesis using t by (auto simp: r rest ends_ref_def)
qed

lemma ref_at_Some:
  assumes "ref_at t = Some (r, rest)"
  shows "t = ref_text r @ rest" "ref_wf r" "ends_ref r rest"
proof -
  define jur where "jur = takeWhile jur_char t"
  define t1 where "t1 = dropWhile jur_char t"
  define pth where "pth = takeWhile path_char (tl t1)"
  define t2 where "t2 = dropWhile path_char (tl t1)"
  have c: "starts_lower t" "starts_with (CHR '':'') t1" "pth \<noteq> []" "starts_with (CHR ''#'') t2" "name_at (jur @ '':'' @ pth) (tl t2) = Some (r, rest)"
    using assms by (auto simp: ref_at_def Let_def jur_def[symmetric] t1_def[symmetric] pth_def[symmetric] t2_def[symmetric] split: if_splits)
  have "t = jur @ t1" by (simp add: jur_def t1_def)
  moreover have "t1 = CHR '':'' # pth @ t2" using c(2) by (cases t1) (simp_all add: starts_with_def pth_def t2_def)
  moreover have "t2 = CHR ''#'' # tl t2" using c(4) by (cases t2) (simp_all add: starts_with_def)
  ultimately have t: "t = jur @ '':'' @ pth @ ''#'' @ tl t2" by simp
  note n = name_at_Some[OF c(5)]
  have j: "starts_lower jur" using c(1) char_classes(1)[of "hd t"] by (cases t) (auto simp: jur_def starts_lower_def)
  then have "anchor_wf (jur @ '':'' @ pth)"
    using c(3) unfolding anchor_wf_def by (intro exI[of _ jur] exI[of _ pth]) (auto simp: jur_def pth_def list_all_iff dest: set_takeWhileD)
  with n t show "t = ref_text r @ rest" "ref_wf r" "ends_ref r rest" by (simp_all add: ref_text_def ref_wf_def)
qed

lemma prefix_input_name:
  assumes "name_wf n" "rest = [] \<or> \<not> name_char (hd rest)"
  shows "prefix ''input.'' (n @ rest) \<longleftrightarrow> n = ''input'' \<and> starts_with (CHR ''.'') rest"
proof
  assume "prefix ''input.'' (n @ rest)"
  then obtain z where z: "n @ rest = ''input'' @ CHR ''.'' # z" by (auto simp: prefix_def)
  have "list_all name_char ''input''" by code_simp
  then have "takeWhile name_char (n @ rest) = ''input''" "dropWhile name_char (n @ rest) = CHR ''.'' # z"
    unfolding z using split_while[of name_char "''input''" "CHR ''.'' # z"] char_classes(8) by simp_all
  then show "n = ''input'' \<and> starts_with (CHR ''.'') rest"
    using split_while[of name_char n rest] assms by (auto simp: name_wf_def starts_with_def)
qed (auto simp: starts_with_def neq_Nil_conv prefix_def)

lemma ref_at_text:
  assumes "ref_wf r" "ends_ref r rest"
  shows "ref_at (ref_text r @ rest) = Some (r, rest)"
proof -
  obtain j p where a: "anchor r = j @ '':'' @ p" "starts_lower j" "list_all jur_char j" "p \<noteq> []" "list_all path_char p"
    using assms(1) by (auto simp: ref_wf_def anchor_wf_def)
  have n: "name_wf (ref_name r)" using assms(1) by (simp add: ref_wf_def)
  have e: "rest = [] \<or> \<not> name_char (hd rest)" using assms(2) by (simp add: ends_ref_def)
  let ?tail = "(if is_input r then ''input.'' else []) @ ref_name r @ rest"
  have t: "ref_text r @ rest = j @ CHR '':'' # p @ CHR ''#'' # ?tail" by (simp add: ref_text_def a)
  have "j \<noteq> []" using a(2) by (auto simp: starts_lower_def)
  then have "ref_at (ref_text r @ rest) = name_at (anchor r) ?tail"
    unfolding ref_at_def t Let_def using a split_while[of jur_char j "CHR '':'' # p @ CHR ''#'' # ?tail"]
      split_while[of path_char p "CHR ''#'' # ?tail"] char_classes
    by (simp add: starts_with_def)
  moreover have "name_at (anchor r) ?tail = Some (r, rest)"
  proof -
    have tw: "takeWhile name_char (ref_name r @ rest) = ref_name r" "dropWhile name_char (ref_name r @ rest) = rest"
      using split_while[of name_char "ref_name r" rest] n e by (simp_all add: name_wf_def)
    have low: "starts_lower (ref_name r)" "ref_name r \<noteq> []" using n by (auto simp: name_wf_def starts_lower_def)
    show ?thesis
    proof (cases "is_input r")
      case True
      then show ?thesis using low by (simp add: name_at_def tw)
    next
      case False
      have "\<not> (prefix ''input.'' (ref_name r @ rest) \<and> starts_lower (drop 6 (ref_name r @ rest)))"
        using assms(2) False unfolding prefix_input_name[OF n e] ends_ref_def
        by (auto simp: starts_with_def neq_Nil_conv)
      then show ?thesis using low False by (simp add: name_at_def Let_def tw)
    qed
  qed
  ultimately show ?thesis by simp
qed

lemma starts_lowerE: "starts_lower s \<Longrightarrow> (\<And>c z. s = c # z \<Longrightarrow> is_lower c \<Longrightarrow> thesis) \<Longrightarrow> thesis"
  by (cases s) (auto simp: starts_lower_def)

lemma split_cases:
  assumes "u @ V = j @ a # p @ b # W"
  obtains (inside) v where "j = u @ v" | (path) v w where "u = j @ a # v" "p = v @ w" "V = w @ b # W"
    | (after) q where "u = j @ a # p @ b # q" "q @ V = W"
  using assms by (auto simp: append_eq_append_conv2 Cons_eq_append_conv append_eq_Cons_conv)

text \<open>A text starts with a match exactly when it has this shape; where the name ends does not matter.\<close>

definition ref_shape :: "string \<Rightarrow> bool" where
  "ref_shape t \<longleftrightarrow> (\<exists>j p c z. t = j @ CHR '':'' # p @ CHR ''#'' # c # z \<and> starts_lower j \<and> list_all jur_char j
     \<and> p \<noteq> [] \<and> list_all path_char p \<and> is_lower c)"

lemma ref_at_shape: "ref_at t = None \<longleftrightarrow> \<not> ref_shape t"
proof
  assume "ref_at t = None"
  show "\<not> ref_shape t"
  proof
    assume "ref_shape t"
    then obtain j p c z where t: "t = j @ CHR '':'' # p @ CHR ''#'' # c # z" "starts_lower j" "list_all jur_char j" "p \<noteq> []"
        "list_all path_char p" "is_lower c" by (auto simp: ref_shape_def)
    moreover have "j \<noteq> []" using t(2) by (auto simp: starts_lower_def)
    ultimately have eq: "ref_at t = name_at (j @ '':'' @ p) (c # z)"
      using split_while[of jur_char j "CHR '':'' # p @ CHR ''#'' # c # z"] split_while[of path_char p "CHR ''#'' # c # z"] char_classes
      by (simp add: ref_at_def Let_def starts_with_def)
    have "name_at (j @ '':'' @ p) (c # z) \<noteq> None"
      using t(6) by (simp add: name_at_def Let_def starts_lower_def)
    then show False using \<open>ref_at t = None\<close> eq by metis
  qed
next
  assume "\<not> ref_shape t"
  show "ref_at t = None"
  proof (rule ccontr)
    assume "ref_at t \<noteq> None"
    then obtain r rest where r: "ref_at t = Some (r, rest)" by auto
    obtain j p where a: "anchor r = j @ '':'' @ p" "starts_lower j" "list_all jur_char j" "p \<noteq> []" "list_all path_char p"
      using ref_at_Some(2)[OF r] by (auto simp: ref_wf_def anchor_wf_def)
    have "starts_lower ((if is_input r then ''input.'' else []) @ ref_name r)"
      using ref_at_Some(2)[OF r] by (auto simp: ref_wf_def name_wf_def starts_lower_def is_lower_def)
    then obtain c z where c: "(if is_input r then ''input.'' else []) @ ref_name r = c # z" "is_lower c"
      by (rule starts_lowerE)
    then have "ref_text r = j @ CHR '':'' # p @ CHR ''#'' # c # z" using a by (simp add: ref_text_def)
    then have "t = j @ CHR '':'' # p @ CHR ''#'' # c # (z @ rest)" using ref_at_Some(1)[OF r] by simp
    then have "ref_shape t" using a c(2) unfolding ref_shape_def by blast
    with \<open>\<not> ref_shape t\<close> show False ..
  qed
qed

lemma ref_text_shape:
  assumes "ref_wf r"
  obtains j p c z where "ref_text r = j @ CHR '':'' # p @ CHR ''#'' # c # z" "starts_lower j" "list_all jur_char j"
    "p \<noteq> []" "list_all path_char p" "is_lower c"
proof -
  have "ends_ref r []" by (simp add: ends_ref_def starts_with_def)
  from ref_at_text[OF assms this] have "ref_at (ref_text r) \<noteq> None" by simp
  then have "ref_shape (ref_text r)" using ref_at_shape[of "ref_text r"] by metis
  then show ?thesis using that unfolding ref_shape_def by blast
qed

text \<open>Replacing one reference by another neither creates nor hides an earlier match.\<close>

lemma earlier_match:
  assumes "ref_wf r" "ref_wf r'" "ref_shape (u @ ref_text r' @ y)" "u \<noteq> []"
  shows "ref_shape (u @ ref_text r @ x)"
proof -
  from assms(3) obtain j p c z where T: "u @ ref_text r' @ y = j @ CHR '':'' # p @ CHR ''#'' # c # z"
    and cond: "starts_lower j" "list_all jur_char j" "p \<noteq> []" "list_all path_char p" "is_lower c" by (auto simp: ref_shape_def)
  obtain jr pr cr zr where R: "ref_text r = jr @ CHR '':'' # pr @ CHR ''#'' # cr # zr" "starts_lower jr" "list_all jur_char jr"
    "pr \<noteq> []" "list_all path_char pr" "is_lower cr" using ref_text_shape[OF assms(1)] .
  obtain j' p' c' z' where R': "ref_text r' = j' @ CHR '':'' # p' @ CHR ''#'' # c' # z'" "starts_lower j'" "list_all jur_char j'"
    using ref_text_shape[OF assms(2)] by metis
  from T show ?thesis
  proof (cases rule: split_cases)
    case (inside v)
    then have "starts_lower (u @ jr)" "list_all jur_char (u @ jr)" using cond(1,2) assms(4) R(3) by (simp_all split: if_splits)
    then show ?thesis using R(4-6) unfolding ref_shape_def
      by (intro exI[of _ "u @ jr"] exI[of _ pr] exI[of _ cr] exI[of _ "zr @ x"]) (simp add: R(1))
  next
    case (path v w)
    have w: "list_all path_char w" using cond(4) path(2) by simp
    have j': "list_all path_char j'" using R'(3) by (auto simp: list_all_iff char_classes(3))
    have "takeWhile path_char (ref_text r' @ y) = j'" "dropWhile path_char (ref_text r' @ y) = CHR '':'' # p' @ CHR ''#'' # c' # z' @ y"
      using split_while[OF j', of "CHR '':'' # p' @ CHR ''#'' # c' # z' @ y"] char_classes(5) by (simp_all add: R'(1))
    moreover have "dropWhile path_char (ref_text r' @ y) = CHR ''#'' # c # z"
      using split_while[OF w, of "CHR ''#'' # c # z"] char_classes(6) by (simp add: path(3))
    ultimately show ?thesis by simp
  next
    case (after q)
    show ?thesis
    proof (cases q)
      case Nil
      obtain d ds where d: "jr = d # ds" "is_lower d" using R(2) by (auto simp: starts_lower_def neq_Nil_conv)
      then show ?thesis using cond unfolding ref_shape_def after(1) Nil R(1)
        by (intro exI[of _ j] exI[of _ p] exI[of _ d] exI[of _ "ds @ CHR '':'' # pr @ CHR ''#'' # cr # zr @ x"]) simp
    next
      case (Cons d ds)
      then have "is_lower d" using after(2) cond(5) by simp
      then show ?thesis using cond unfolding ref_shape_def after(1) Cons
        by (intro exI[of _ j] exI[of _ p] exI[of _ d] exI[of _ "ds @ ref_text r @ x"]) simp
    qed
  qed
qed

section \<open>Repair\<close>

lemma ref_text_not_Nil: "ref_wf r \<Longrightarrow> starts_lower (ref_text r)"
  by (elim ref_text_shape) (simp add: starts_lower_def)

lemma ref_at_shorter: "ref_at (c # cs) = Some (r, rest) \<Longrightarrow> length rest \<le> length cs"
proof -
  assume a: "ref_at (c # cs) = Some (r, rest)"
  obtain d ds where "ref_text r = d # ds" using ref_text_not_Nil[OF ref_at_Some(2)[OF a]] by (rule starts_lowerE)
  then show ?thesis using ref_at_Some(1)[OF a] by simp
qed

lemma find_refs_step:
  "ref_at (c # cs) = Some (r, rest) \<Longrightarrow> find_refs (c # cs) = r # find_refs rest"
  "ref_at (c # cs) = None \<Longrightarrow> find_refs (c # cs) = find_refs cs"
  by (simp_all add: ref_at_shorter)

lemma repair_any_prev: "sub_with (repair_match R) prev t = rewrite_anchored_refs R t"
proof -
  have "sub_with (repair_match R) prev t = sub_with (repair_match R) prev' t" for prev'
    by (cases t) (simp_all add: repair_match_def)
  then show ?thesis unfolding rewrite_anchored_refs_def by metis
qed

lemma rewrite_step:
  "rewrite_anchored_refs R [] = []"
  "ref_at (c # cs) = Some (r, rest) \<Longrightarrow> rewrite_anchored_refs R (c # cs) = ref_text (repair_ref R r) @ rewrite_anchored_refs R rest"
  "ref_at (c # cs) = None \<Longrightarrow> rewrite_anchored_refs R (c # cs) = c # rewrite_anchored_refs R cs"
proof -
  show "rewrite_anchored_refs R [] = []" by (simp add: rewrite_anchored_refs_def)
  show "ref_at (c # cs) = Some (r, rest) \<Longrightarrow> rewrite_anchored_refs R (c # cs) = ref_text (repair_ref R r) @ rewrite_anchored_refs R rest"
    unfolding rewrite_anchored_refs_def[of R "c # cs"] by (simp add: repair_match_def ref_at_shorter repair_any_prev)
  show "ref_at (c # cs) = None \<Longrightarrow> rewrite_anchored_refs R (c # cs) = c # rewrite_anchored_refs R cs"
    unfolding rewrite_anchored_refs_def[of R "c # cs"] by (simp add: repair_match_def repair_any_prev)
qed

text \<open>A registry whose names and anchors are ones the pattern can read back.\<close>

definition readable :: "registry \<Rightarrow> bool" where
  "readable R \<longleftrightarrow> (\<forall>i c. map_of (concepts_by_id R) i = Some c \<longrightarrow> name_wf (canonical_name c) \<and> canonical_name c \<noteq> ''input''
     \<and> (\<forall>a. producer_anchor c = Some a \<longrightarrow> anchor_wf a))"

lemma readable_lookup:
  assumes "registry_ok R" "readable R" "lookup_synonym R n = Some c \<or> lookup_canonical R n = Some c"
  shows "name_wf (canonical_name c)" "canonical_name c \<noteq> ''input''" "producer_anchor c = Some a \<Longrightarrow> anchor_wf a"
proof -
  have l: "linked R" using assms(1) by (simp add: registry_ok_def)
  have c: "map_of (concepts_by_id R) (concept_id c) = Some c"
    using assms(3) linkedD(2,3)[OF l, of n c] by (auto simp: lookup_synonym_def lookup_canonical_def)
  show "name_wf (canonical_name c)" "canonical_name c \<noteq> ''input''" "producer_anchor c = Some a \<Longrightarrow> anchor_wf a"
    using assms(2) c unfolding readable_def by blast+
qed

lemma repair_ref_wf:
  assumes "registry_ok R" "readable R" "ref_wf r"
  shows "ref_wf (repair_ref R r)" "is_input (repair_ref R r) = is_input r"
    "ref_name (repair_ref R r) = ref_name r \<or> ref_name (repair_ref R r) \<noteq> ''input''"
proof -
  note rl = readable_lookup[OF assms(1,2)]
  show "ref_wf (repair_ref R r)"
    using assms(3) rl(1,3)[OF disjI1] rl(3)[OF disjI2] by (auto simp: repair_ref_def ref_wf_def or_anchor_def has_producer_def split: option.splits)
  show "is_input (repair_ref R r) = is_input r" by (simp add: repair_ref_def split: option.splits)
  show "ref_name (repair_ref R r) = ref_name r \<or> ref_name (repair_ref R r) \<noteq> ''input''"
    using rl(2) by (auto simp: repair_ref_def split: option.splits)
qed

lemma rewrite_head:
  assumes "registry_ok R" "readable R" "t \<noteq> []"
  shows "rewrite_anchored_refs R t \<noteq> [] \<and> (hd (rewrite_anchored_refs R t) = hd t \<or> is_lower (hd (rewrite_anchored_refs R t)) \<and> is_lower (hd t))"
proof -
  obtain c cs where t: "t = c # cs" using assms(3) by (cases t) auto
  show ?thesis
  proof (cases "ref_at t")
    case None
    then show ?thesis by (simp add: t rewrite_step(3))
  next
    case (Some rr)
    obtain r rest where r: "ref_at t = Some (r, rest)" using Some by (cases rr) auto
    note wf = ref_at_Some(2)[OF r] repair_ref_wf(1)[OF assms(1,2) ref_at_Some(2)[OF r]]
    obtain d ds where d: "ref_text r = d # ds" "is_lower d" using ref_text_not_Nil[OF wf(1)] by (rule starts_lowerE)
    obtain e es where e: "ref_text (repair_ref R r) = e # es" "is_lower e" using ref_text_not_Nil[OF wf(2)] by (rule starts_lowerE)
    have "rewrite_anchored_refs R t = e # es @ rewrite_anchored_refs R rest" using rewrite_step(2)[of c cs r rest R] r e by (simp add: t)
    then show ?thesis using ref_at_Some(1)[OF r] d e by simp
  qed
qed

lemma rewrite_starts_lower:
  assumes "registry_ok R" "readable R"
  shows "starts_lower (rewrite_anchored_refs R t) = starts_lower t"
  using rewrite_head[OF assms, of t] by (cases "t = []") (auto simp: starts_lower_def rewrite_step(1))

text \<open>The text after a match still ends it after repair.\<close>

lemma ends_ref_rewrite:
  assumes "registry_ok R" "readable R" "ref_wf r" "ends_ref r rest"
  shows "ends_ref (repair_ref R r) (rewrite_anchored_refs R rest)"
proof (cases rest)
  case Nil
  then show ?thesis using rewrite_step(1)[of R] by (simp add: ends_ref_def starts_with_def)
next
  case (Cons c cs)
  have nc: "\<not> name_char c" using assms(4) by (simp add: ends_ref_def Cons)
  then have "\<not> is_lower c" using char_classes(2) by blast
  have "ref_at (c # cs) = None"
  proof (rule ccontr)
    assume "ref_at (c # cs) \<noteq> None"
    then obtain r' x where a: "ref_at (c # cs) = Some (r', x)" by auto
    obtain d ds where "ref_text r' = d # ds" "is_lower d" using ref_text_not_Nil[OF ref_at_Some(2)[OF a]] by (rule starts_lowerE)
    then show False using ref_at_Some(1)[OF a] \<open>\<not> is_lower c\<close> by simp
  qed
  then have f: "rewrite_anchored_refs R rest = c # rewrite_anchored_refs R cs" by (simp add: Cons rewrite_step(3))
  have "\<not> (starts_with (CHR ''.'') (c # rewrite_anchored_refs R cs) \<and> starts_lower (rewrite_anchored_refs R cs))"
    if "\<not> is_input (repair_ref R r)" "ref_name (repair_ref R r) = ''input''"
    using that assms(4) repair_ref_wf(2,3)[OF assms(1-3)] rewrite_starts_lower[OF assms(1,2), of cs]
    by (auto simp: ends_ref_def Cons starts_with_def)
  then show ?thesis using nc by (simp add: ends_ref_def f)
qed

text \<open>The first match of a text, and what the repair makes of the text around it.\<close>

lemma first_match:
  "rewrite_anchored_refs R t = t \<or> (\<exists>u r rest. t = u @ ref_text r @ rest \<and> ref_wf r
     \<and> rewrite_anchored_refs R t = u @ ref_text (repair_ref R r) @ rewrite_anchored_refs R rest)"
proof (induction t)
  case (Cons c cs)
  show ?case
  proof (cases "ref_at (c # cs)")
    case None
    from Cons.IH show ?thesis
    proof
      assume "\<exists>u r rest. cs = u @ ref_text r @ rest \<and> ref_wf r \<and> rewrite_anchored_refs R cs = u @ ref_text (repair_ref R r) @ rewrite_anchored_refs R rest"
      then obtain u r rest where "cs = u @ ref_text r @ rest" "ref_wf r" "rewrite_anchored_refs R cs = u @ ref_text (repair_ref R r) @ rewrite_anchored_refs R rest" by blast
      then show ?thesis using None by (intro disjI2 exI[of _ "c # u"] exI[of _ r] exI[of _ rest]) (simp add: rewrite_step(3))
    qed (simp add: None rewrite_step(3))
  next
    case (Some rr)
    obtain r rest where r: "ref_at (c # cs) = Some (r, rest)" using Some by (cases rr) auto
    then show ?thesis using ref_at_Some(1,2)[OF r] rewrite_step(2)[OF r, of R]
      by (intro disjI2 exI[of _ "[]"] exI[of _ r] exI[of _ rest]) simp
  qed
qed (simp add: rewrite_step(1))

lemma find_refs_rewrite:
  assumes "registry_ok R" "readable R"
  shows "find_refs (rewrite_anchored_refs R t) = map (repair_ref R) (find_refs t)"
proof (induction t rule: length_induct)
  case (1 t)
  show ?case
  proof (cases t)
    case (Cons c cs)
    show ?thesis
    proof (cases "ref_at t")
      case (Some rr)
      obtain r rest where r: "ref_at (c # cs) = Some (r, rest)" using Some Cons by (cases rr) auto
      note wf = ref_at_Some(2)[OF r]
      have at: "ref_at (ref_text (repair_ref R r) @ rewrite_anchored_refs R rest) = Some (repair_ref R r, rewrite_anchored_refs R rest)"
        by (rule ref_at_text[OF repair_ref_wf(1)[OF assms wf] ends_ref_rewrite[OF assms wf ref_at_Some(3)[OF r]]])
      obtain d ds where d: "ref_text (repair_ref R r) @ rewrite_anchored_refs R rest = d # ds"
        using ref_text_not_Nil[OF repair_ref_wf(1)[OF assms wf]] by (rule starts_lowerE) simp
      have "find_refs rest' = map (repair_ref R) (find_refs rest)" if "rest' = rewrite_anchored_refs R rest" for rest'
        using 1 ref_at_shorter[OF r] that Cons by (simp add: le_imp_less_Suc)
      then show ?thesis using find_refs_step(1)[OF r] find_refs_step(1)[OF at[unfolded d]]
        unfolding Cons rewrite_step(2)[OF r] d by simp
    next
      case None
      have "ref_at (c # rewrite_anchored_refs R cs) = None"
        using first_match[of R cs]
      proof
        assume "\<exists>u r rest. cs = u @ ref_text r @ rest \<and> ref_wf r \<and> rewrite_anchored_refs R cs = u @ ref_text (repair_ref R r) @ rewrite_anchored_refs R rest"
        then obtain u r rest where m: "cs = u @ ref_text r @ rest" "ref_wf r"
          "rewrite_anchored_refs R cs = u @ ref_text (repair_ref R r) @ rewrite_anchored_refs R rest" by blast
        have "\<not> ref_shape ((c # u) @ ref_text r @ rest)" using None ref_at_shape[of t] by (simp add: Cons m(1))
        then have "\<not> ref_shape ((c # u) @ ref_text (repair_ref R r) @ rewrite_anchored_refs R rest)"
          using earlier_match[OF m(2) repair_ref_wf(1)[OF assms m(2)], of "c # u" "rewrite_anchored_refs R rest" rest] by blast
        then show ?thesis using ref_at_shape[of "c # rewrite_anchored_refs R cs"] by (simp add: m(3))
      qed (use None in \<open>simp add: Cons\<close>)
      then show ?thesis using 1 None by (simp add: Cons rewrite_step(3) find_refs_step(2) del: find_refs.simps)
    qed
  qed (simp add: rewrite_step(1))
qed

lemma repaired_ref_ok:
  assumes "registry_ok R" "readable R"
  shows "ref_ok R (repair_ref R r)"
proof (cases "lookup_synonym R (ref_name r)")
  case None
  then show ?thesis by (auto simp: repair_ref_def ref_ok_def has_producer_def split: option.splits)
next
  case (Some b)
  have l: "linked R" and dj: "keys (canonical_to_concept R) \<inter> keys (synonym_to_concept R) = {}"
    using assms(1) by (simp_all add: registry_ok_def)
  have p: "producer_anchor b \<noteq> Some []"
    using readable_lookup(3)[OF assms disjI1[OF Some], of "[]"] by (auto simp: anchor_wf_def)
  have b: "lookup_canonical R (canonical_name b) = Some b"
    using Some linkedD(3)[OF l, of "ref_name r" b] linkedD(1)[OF l, of "concept_id b" b]
    by (simp add: lookup_synonym_def lookup_canonical_def)
  then have "lookup_synonym R (canonical_name b) = None"
    using dj unfolding keys_dom lookup_canonical_def lookup_synonym_def by auto
  then show ?thesis using Some b p by (auto simp: repair_ref_def ref_ok_def has_producer_def or_anchor_def split: option.splits)
qed

lemma repair_keeps_ok: "ref_ok R r \<Longrightarrow> repair_ref R r = r"
  by (auto simp: ref_ok_def repair_ref_def split: option.splits)

lemma rewrite_keeps_ok: "list_all (ref_ok R) (find_refs t) \<Longrightarrow> rewrite_anchored_refs R t = t"
proof (induction t rule: length_induct)
  case (1 t)
  show ?case
  proof (cases t)
    case (Cons c cs)
    show ?thesis
    proof (cases "ref_at (c # cs)")
      case None
      then have "list_all (ref_ok R) (find_refs cs)" using 1(2) find_refs_step(2)[OF None] by (simp add: Cons)
      then have "rewrite_anchored_refs R cs = cs" using 1(1) by (simp add: Cons)
      then show ?thesis by (simp add: Cons rewrite_step(3)[OF None])
    next
      case (Some rr)
      obtain r rest where r: "ref_at (c # cs) = Some (r, rest)" using Some by (cases rr) auto
      then have "ref_ok R r" "list_all (ref_ok R) (find_refs rest)"
        using 1(2) find_refs_step(1)[OF r] by (simp_all add: Cons del: find_refs.simps)
      moreover have "length rest < length t" using ref_at_shorter[OF r] by (simp add: Cons)
      ultimately have "rewrite_anchored_refs R rest = rest" "repair_ref R r = r" using 1(1) repair_keeps_ok by auto
      then show ?thesis using rewrite_step(2)[OF r, of R] ref_at_Some(1)[OF r] by (simp add: Cons)
    qed
  qed (simp add: rewrite_step(1))
qed

text \<open>C23. Repairing test files makes their references canonical: for a loaded registry whose names and anchors the
  pattern reads, a second look at a repaired test file finds the repaired references and nothing else, the
  validator has no objection to any of them, files that are not tests are untouched, and repairing again
  changes nothing.\<close>

theorem repaired_tests_are_canonical:
  assumes "load_concept_registry files = Inr R" "readable R"
    and "auto_repair_test_yaml_canonical_violations R fs = (fs', changed)"
  shows "map fst fs' = map fst fs
    \<and> (\<forall>p t. (p, Some t) \<in> set fs \<and> is_test p \<longrightarrow>
        find_refs (rewrite_anchored_refs R t) = map (repair_ref R) (find_refs t) \<and> (p, Some (rewrite_anchored_refs R t)) \<in> set fs')
    \<and> (\<forall>p t. (p, Some t) \<in> set fs' \<and> is_test p \<longrightarrow> concat (map (anchored_violations R p) (find_refs t)) = [])
    \<and> (\<forall>f\<in>set fs. \<not> is_test (fst f) \<longrightarrow> f \<in> set fs')
    \<and> auto_repair_test_yaml_canonical_violations R fs' = (fs', [])"
proof -
  have ok: "registry_ok R" using assms(1) by (rule loaded_ok)
  have fs': "fs' = map (repair_file R) fs" using assms(3) by (simp add: auto_repair_test_yaml_canonical_violations_def)
  have refs: "find_refs (rewrite_anchored_refs R t) = map (repair_ref R) (find_refs t)" for t
    by (rule find_refs_rewrite[OF ok assms(2)])
  then have clean: "list_all (ref_ok R) (find_refs (rewrite_anchored_refs R t))" for t
    using repaired_ref_ok[OF ok assms(2)] by (simp add: list_all_iff)
  have again: "repair_file R (repair_file R f) = repair_file R f" for f
    using rewrite_keeps_ok[OF clean] by (cases "snd f") (simp_all add: repair_file_def)
  have "map fst fs' = map fst fs" by (simp add: fs' repair_file_def)
  moreover have "(p, Some (rewrite_anchored_refs R t)) \<in> set fs'" if "(p, Some t) \<in> set fs" "is_test p" for p t
    using imageI[OF that(1), of "repair_file R"] that(2) by (simp add: fs' repair_file_def)
  moreover have "concat (map (anchored_violations R p) (find_refs t)) = []" if mem: "(p, Some t) \<in> set fs'" "is_test p" for p t
  proof -
    have "(p, Some t) \<in> repair_file R ` set fs" using mem(1) by (simp add: fs')
    then obtain f where "(p, Some t) = repair_file R f" by (rule imageE)
    then have f: "repair_file R f = (p, Some t)" by (rule sym)
    then have "fst f = p" by (auto simp: repair_file_def split: if_splits)
    then obtain t0 where "t = rewrite_anchored_refs R t0" using f mem(2) by (auto simp: repair_file_def)
    then show ?thesis using clean[of t0] by (simp add: list_all_iff anchored_violations_Nil)
  qed
  moreover have "f \<in> set fs'" if "f \<in> set fs" "\<not> is_test (fst f)" for f
    using imageI[OF that(1), of "repair_file R"] that(2) by (simp add: fs' repair_file_def)
  moreover have "auto_repair_test_yaml_canonical_violations R fs' = (fs', [])"
    by (simp add: auto_repair_test_yaml_canonical_violations_def fs' again comp_def filter_empty_conv)
  ultimately show ?thesis using refs by blast
qed

end
