(* ===== verification/Concept_Examples.thy ===== *)
theory Concept_Examples
  imports Concept_Facts
begin

text \<open>
  A registry of one concept and a generated test file that uses its blocked synonym at a foreign anchor, on
  which the hypotheses of the concept properties hold.
\<close>

definition toy_payload :: json where
  "toy_payload = JObj [(''format'', JStr registry_format), (''concepts'', JArr [JObj
     [(''id'', JStr ''us.snap''), (''canonical_name'', JStr ''snap_income''), (''producer_anchor'', JStr ''us:regs/273''),
      (''blocked_synonyms'', JArr [JStr ''income''])]])]"

definition toy_concept :: concept where
  "toy_concept = \<lparr>concept_id = ''us.snap'', canonical_name = ''snap_income'', producer_anchor = Some ''us:regs/273'',
     blocked_synonyms = [''income''], producer_missing = False, description = JNull, source_file = ''a.yaml''\<rparr>"

definition toy_registry :: registry where
  "toy_registry = \<lparr>concepts_by_id = [(''us.snap'', toy_concept)], canonical_to_concept = [(''snap_income'', toy_concept)],
     synonym_to_concept = [(''income'', toy_concept)]\<rparr>"

lemma toy_registry_loads: "load_concept_registry [(''a.yaml'', toy_payload)] = Inr toy_registry"
  by code_simp

lemma toy_readable: "readable toy_registry"
proof -
  have n: "name_wf ''snap_income''" by code_simp
  have p: "starts_lower ''us'' \<and> list_all jur_char ''us'' \<and> ''regs/273'' \<noteq> [] \<and> list_all path_char ''regs/273''" by code_simp
  have a: "anchor_wf ''us:regs/273''"
    unfolding anchor_wf_def by (rule exI[of _ "''us''"], rule exI[of _ "''regs/273''"]) (use p in simp)
  show ?thesis using n a by (simp add: readable_def toy_registry_def toy_concept_def)
qed

theorem registry_names_unambiguous_witness:
  "map_of (concepts_by_id toy_registry) ''us.snap'' = Some toy_concept \<and> concept_for_name toy_registry ''income'' = Some toy_concept"
proof -
  have m: "map_of (concepts_by_id toy_registry) ''us.snap'' = Some toy_concept" by code_simp
  have n: "''income'' = canonical_name toy_concept \<or> ''income'' \<in> set (blocked_synonyms toy_concept)" by code_simp
  show ?thesis using registry_names_unambiguous[OF toy_registry_loads m n] m by (elim conjE) (intro conjI)
qed

definition toy_text :: string where
  "toy_text = ''- us:other/x#income: 1''"

definition toy_files :: files where
  "toy_files = [(''out/x.test.yaml'', Some toy_text)]"

definition repaired_files :: files where
  "repaired_files = [(''out/x.test.yaml'', Some ''- us:regs/273#snap_income: 1'')]"

lemma toy_repair: "auto_repair_test_yaml_canonical_violations toy_registry toy_files = (repaired_files, [''out/x.test.yaml''])"
  by code_simp

theorem repaired_tests_are_canonical_witness:
  "auto_repair_test_yaml_canonical_violations toy_registry repaired_files = (repaired_files, [])"
  using repaired_tests_are_canonical[OF toy_registry_loads toy_readable toy_repair] by (elim conjE)

text \<open>The file before the repair is not clean, after it is.\<close>

definition toy_parse :: "string \<Rightarrow> (string, json) result" where
  "toy_parse t = Inr (JObj [])"

theorem validation_clean_iff_witness:
  "validate_generated_against_registry toy_parse toy_registry None toy_files \<noteq> []
     \<and> validate_generated_against_registry toy_parse toy_registry None repaired_files = []"
proof -
  have "\<not> list_all (ref_ok toy_registry) (find_refs toy_text)" by code_simp
  then have "\<not> (\<forall>p t. (p, Some t) \<in> set toy_files \<longrightarrow> list_all (ref_ok toy_registry) (find_refs t)
      \<and> (\<exists>doc. toy_parse t = Inr doc \<and> document_ok toy_registry None p doc))"
    by (auto simp: toy_files_def)
  moreover have "list_all (ref_ok toy_registry) (find_refs ''- us:regs/273#snap_income: 1'')" by code_simp
  then have "\<forall>p t. (p, Some t) \<in> set repaired_files \<longrightarrow> list_all (ref_ok toy_registry) (find_refs t)
      \<and> (\<exists>doc. toy_parse t = Inr doc \<and> document_ok toy_registry None p doc)"
    by (simp add: repaired_files_def toy_parse_def document_ok_def del: find_refs.simps)
  ultimately show ?thesis unfolding validation_clean_iff by blast
qed

end
