(* ===== verification/Citation_Paths.thy ===== *)
theory Citation_Paths
  imports Py_Json Py_Regex Py_Path
begin

text \<open>
  Citations and the places they name: the parser of USC citations (\<open>src/axiom_encode/statute.py\<close>), the canonical
  corpus citation paths (\<open>src/axiom_encode/corpus_resolver.py\<close>) and the mapping of a citation to the path of its RuleSpec module
  (\<open>src/axiom_encode/harness/evals.py\<close>, \<open>citation_rulespec_path\<close> of \<open>src/axiom_encode/prepare_signed_backfill.py\<close>).

  The Unicode dashes that the sources translate or admit lie above code point 255, so
  \<open>normalize_rulespec_path_segment\<close> is the identity on the texts of the model. The regular expressions are
  deterministic: at every choice the next character decides, so they are read from left to right.
\<close>

datatype path_error = ValueError string | RuntimeError string | IndexError | RecursionError | CalledProcessError | TypeError | OSError
  | OutsideText

abbreviation bad :: "string \<Rightarrow> (path_error, 'a) result" where
  "bad msg \<equiv> Inl (ValueError msg)"

text \<open>\<open>except ValueError as exc: raise ValueError(msg) from exc\<close>.\<close>

definition value_error_as :: "string \<Rightarrow> (path_error, 'a) result \<Rightarrow> (path_error, 'a) result" where
  "value_error_as msg m = (case m of Inl (ValueError _) \<Rightarrow> bad msg | r \<Rightarrow> r)"

lemma value_error_as_Inr [simp]: "value_error_as msg m = Inr x \<longleftrightarrow> m = Inr x"
  by (auto simp: value_error_as_def split: sum.splits path_error.splits)

section \<open>Text\<close>

definition section_sign :: char where "section_sign = CHR 0xA7"

definition lower :: "char \<Rightarrow> char" where
  "lower c = (if is_upper c then char_of (code c + 32) else c)"

definition upper :: "char \<Rightarrow> char" where
  "upper c = (if is_lower c then char_of (code c - 32) else c)"

text \<open>\<open>str.isdigit\<close>, which superscripts satisfy too, and the word characters of \<open>re\<close>.\<close>

definition digit_like :: "char \<Rightarrow> bool" where
  "digit_like c \<longleftrightarrow> is_digit c \<or> code c \<in> {178, 179, 185}"

definition all_digits :: "string \<Rightarrow> bool" where
  "all_digits s \<longleftrightarrow> s \<noteq> [] \<and> list_all is_digit s"

definition re_word :: "char \<Rightarrow> bool" where
  "re_word c \<longleftrightarrow> is_alnum c \<or> c = CHR ''_'' \<or> code c \<in> {170, 178, 179, 181, 185, 186, 188, 189, 190}
     \<or> (192 \<le> code c \<and> code c \<noteq> 215 \<and> code c \<noteq> 247)"

definition strip_slashes :: "string \<Rightarrow> string" where
  "strip_slashes s = rev (dropWhile (\<lambda>c. c = CHR ''/'') (rev (dropWhile (\<lambda>c. c = CHR ''/'') s)))"

definition segments :: "string \<Rightarrow> string list" where
  "segments s = filter (\<lambda>p. p \<noteq> []) (split_on CHR ''/'' s)"

definition before :: "char \<Rightarrow> string \<Rightarrow> string" where
  "before c s = takeWhile (\<lambda>x. x \<noteq> c) s"

definition after :: "char \<Rightarrow> string \<Rightarrow> string" where
  "after c s = tl (dropWhile (\<lambda>x. x \<noteq> c) s)"

section \<open>Legal citations\<close>

text \<open>A letter in either case with an optional dot; at least one blank; an optional run of section signs with its blanks.\<close>

definition eat_letter :: "char \<Rightarrow> string \<Rightarrow> string option" where
  "eat_letter c s = (if s \<noteq> [] \<and> upper (hd s) = c
     then Some (if tl s \<noteq> [] \<and> hd (tl s) = CHR ''.'' then tl (tl s) else tl s) else None)"

definition eat_blanks :: "string \<Rightarrow> string option" where
  "eat_blanks s = (if s \<noteq> [] \<and> is_space (hd s) then Some (dropWhile is_space s) else None)"

definition skip_section_signs :: "string \<Rightarrow> string" where
  "skip_section_signs s = (if s \<noteq> [] \<and> hd s = section_sign
     then dropWhile is_space (dropWhile (\<lambda>c. c = section_sign) s) else s)"

text \<open>Three letters such as \<open>C.F.R.\<close> with blanks between, and the blanks that follow.\<close>

definition eat_code :: "string \<Rightarrow> string \<Rightarrow> string option" where
  "eat_code letters s = (case letters of [a, b, c] \<Rightarrow>
     Option.bind (eat_letter a s) (\<lambda>r1. Option.bind (eat_letter b (dropWhile is_space r1)) (\<lambda>r2.
       Option.bind (eat_letter c (dropWhile is_space r2)) eat_blanks)) | _ \<Rightarrow> None)"

text \<open>\<open>(?:(?:part|pt\.?)\s+)?\<close>: without blanks after it, the word is the section itself.\<close>

definition skip_part :: "string \<Rightarrow> string" where
  "skip_part s =
    (let low = map lower s;
         r = (if prefix ''part'' low then drop 4 s else if prefix ''pt.'' low then drop 3 s else if prefix ''pt'' low then drop 2 s else [])
     in case eat_blanks r of Some r' \<Rightarrow> r' | None \<Rightarrow> s)"

text \<open>\<open>(?:\([^)]+\))*$\<close>, with the contents of the parentheses.\<close>

function paren_groups :: "string \<Rightarrow> string list option" where
  "paren_groups [] = Some []"
| "paren_groups (c # s) =
    (let g = takeWhile (\<lambda>x. x \<noteq> CHR '')'') s; rest = dropWhile (\<lambda>x. x \<noteq> CHR '')'') s in
     if c \<noteq> CHR ''('' \<or> g = [] \<or> rest = [] then None
     else map_option (\<lambda>gs. g # gs) (paren_groups (tl rest)))"
  by pat_completeness auto
termination
proof (relation "measure length")
  fix c :: char and s g rest :: string
  assume "rest = dropWhile (\<lambda>x. x \<noteq> CHR '')'') s" "\<not> (c \<noteq> CHR ''('' \<or> g = [] \<or> rest = [])"
  then have "length rest \<le> length s" "rest \<noteq> []" by (auto simp: length_dropWhile_le)
  then show "(tl rest, c # s) \<in> measure length" by (cases rest) auto
qed simp

definition section_char :: "char \<Rightarrow> bool" where
  "section_char c \<longleftrightarrow> is_alnum c \<or> c = CHR ''.'' \<or> c = CHR ''-''"

text \<open>\<open>(?P<section>[0-9A-Za-z.-]+)(?P<tail>...)$\<close>.\<close>

definition section_tail :: "string \<Rightarrow> (string \<times> string list) option" where
  "section_tail s =
    (let sec = takeWhile section_char s in
     if sec = [] then None else map_option (\<lambda>gs. (sec, gs)) (paren_groups (dropWhile section_char s)))"

text \<open>\<open>_CFR_CITATION_RE\<close> and \<open>_CFR_IDENTIFIER_RE\<close>: the title, the section and the parentheses.\<close>

definition cfr_match :: "string \<Rightarrow> (string \<times> string \<times> string list) option" where
  "cfr_match s =
    (let title = takeWhile is_digit s in
     if title = [] then None else
     Option.bind (eat_blanks (dropWhile is_digit s)) (\<lambda>r1.
     Option.bind (eat_code ''CFR'' r1) (\<lambda>r2.
     map_option (\<lambda>(sec, gs). (title, sec, gs)) (section_tail (skip_section_signs (skip_part r2))))))"

definition usc_match :: "string \<Rightarrow> bool" where
  "usc_match s \<longleftrightarrow> takeWhile is_digit s \<noteq> [] \<and>
     Option.bind (eat_blanks (dropWhile is_digit s)) (\<lambda>r1. Option.bind (eat_code ''USC'' r1) (\<lambda>r2.
       section_tail (skip_section_signs r2))) \<noteq> None"

text \<open>\<open>re.search(r"\bC\.?\s*F\.?\s*R\.?\b", s)\<close>: after the last letter comes no word character.\<close>

definition cfr_word_here :: "char option \<Rightarrow> string \<Rightarrow> bool" where
  "cfr_word_here prev s \<longleftrightarrow> (case prev of None \<Rightarrow> True | Some c \<Rightarrow> \<not> re_word c) \<and>
     (case Option.bind (eat_letter CHR ''C'' s) (\<lambda>r1. eat_letter CHR ''F'' (dropWhile is_space r1)) of
        None \<Rightarrow> False
      | Some r2 \<Rightarrow> (let r3 = dropWhile is_space r2 in r3 \<noteq> [] \<and> upper (hd r3) = CHR ''R''
          \<and> (tl r3 = [] \<or> \<not> re_word (hd (tl r3)))))"

fun mentions_cfr :: "char option \<Rightarrow> string \<Rightarrow> bool" where
  "mentions_cfr prev [] = False"
| "mentions_cfr prev (c # s) = (cfr_word_here prev (c # s) \<or> mentions_cfr (Some c) s)"

section \<open>USC citations\<close>

record citation_parts =
  cp_title :: string
  cp_section :: string
  cp_fragments :: "string list"

definition usc_word :: matcher where
  "usc_word prev s =
    (if (case prev of None \<Rightarrow> True | Some c \<Rightarrow> \<not> re_word c) \<and> map upper (take 3 s) = ''USC''
        \<and> (drop 3 s = [] \<or> \<not> re_word (hd (drop 3 s)))
     then Some ([], drop 3 s) else None)"

fun one_blank :: "string \<Rightarrow> string" where
  "one_blank [] = []"
| "one_blank (c # s) = (if is_space c then (if s \<noteq> [] \<and> is_space (hd s) then one_blank s else CHR '' '' # one_blank s)
     else c # one_blank s)"

definition contains_text :: "string \<Rightarrow> string \<Rightarrow> bool" where
  "contains_text pat s \<longleftrightarrow> list_ex (prefix pat) (suffixes s)"

definition parse_usc_citation :: "string \<Rightarrow> (path_error, citation_parts) result" where
  "parse_usc_citation citation =
    (let err = bad (''Could not parse citation: '' @ citation);
         c0 = filter (\<lambda>c. c \<noteq> section_sign) (strip citation);
         c1 = (if prefix ''us:statutes/'' c0 then drop 12 c0 else if prefix ''us:statute/'' c0 then drop 11 c0 else c0)
     in if CHR ''/'' \<in> set c1 \<and> \<not> contains_text ''USC'' (map upper c1) then
       (let p0 = segments c1;
            p = (if take 2 p0 \<in> {[''us'', ''statute''], [''us'', ''statutes'']} then drop 2 p0
                 else if p0 \<noteq> [] \<and> hd p0 = ''statutes'' then tl p0 else p0)
        in if length p < 2 then err
           else Inr \<lparr>cp_title = p ! 0, cp_section = p ! 1, cp_fragments = drop 2 p\<rparr>)
     else
       (let c2 = strip (one_blank (sub_with usc_word None c1)) in
        if CHR '' '' \<notin> set c2 then err
        else case section_tail (filter (\<lambda>c. c \<noteq> CHR '' '') (after CHR '' '' c2)) of
          None \<Rightarrow> err
        | Some (sec, gs) \<Rightarrow> Inr \<lparr>cp_title = before CHR '' '' c2, cp_section = sec, cp_fragments = gs\<rparr>))"

definition citation_to_citation_path :: "string \<Rightarrow> (path_error, string) result" where
  "citation_to_citation_path citation = bind_r (parse_usc_citation citation) (\<lambda>p.
     Inr (''us/statute/'' @ join ''/'' (cp_title p # cp_section p # cp_fragments p)))"

section \<open>Corpus citation paths\<close>

definition max_citation_length :: nat where "max_citation_length = 4096"
definition max_citation_segments :: nat where "max_citation_segments = 64"
definition max_segment_length :: nat where "max_segment_length = 512"

definition corpus_classes :: "string list" where
  "corpus_classes = [''form'', ''guidance'', ''district-plan'', ''legislation'', ''manual'', ''other'', ''policy'',
     ''regulation'', ''rulemaking'', ''statute'']"

definition safe_corpus_segment :: "string \<Rightarrow> bool" where
  "safe_corpus_segment s \<longleftrightarrow> length s \<le> max_segment_length \<and> s \<notin> {'''', ''.'', ''..''}
     \<and> list_all (\<lambda>c. c \<noteq> CHR ''/'' \<and> c \<noteq> CHR 0x5C \<and> c \<noteq> CHR 0x00 \<and> c \<noteq> CHR ''*'' \<and> c \<noteq> CHR ''%'') s"

text \<open>\<open>^[a-z]{2,3}(?:-[a-z]{2,32})*$\<close>.\<close>

definition jurisdiction_re :: "string \<Rightarrow> bool" where
  "jurisdiction_re s \<longleftrightarrow> (let ps = split_on CHR ''-'' s in
     list_all (list_all is_lower) ps \<and> length (hd ps) \<in> {2, 3} \<and> list_all (\<lambda>p. 2 \<le> length p \<and> length p \<le> 32) (tl ps))"

text \<open>\<open>^[A-Za-z0-9][A-Za-z0-9 .:\-]*$\<close>.\<close>

definition hierarchy_re :: "string \<Rightarrow> bool" where
  "hierarchy_re s \<longleftrightarrow> s \<noteq> [] \<and> is_alnum (hd s) \<and> list_all (\<lambda>c. is_alnum c \<or> c \<in> set '' .:-'') (tl s)"

definition normalize_citation_path :: "string \<Rightarrow> (path_error, string) result" where
  "normalize_citation_path identifier =
    (let normalized = strip_slashes (strip identifier);
         parts = (if normalized = [] then [] else split_on CHR ''/'' normalized)
     in bind_r (checks
       ([fail_if (length identifier > max_citation_length) (ValueError ''Corpus citation path exceeds the maximum length of 4096 characters''),
         fail_if (length parts > max_citation_segments) (ValueError ''Corpus citation path exceeds the maximum segment count of 64''),
         fail_if (length parts < 2) (ValueError (''Corpus citation path must have at least two segments: '' @ str_repr identifier))]
        @ map (\<lambda>p. fail_if (\<not> safe_corpus_segment p) (ValueError (''Unsafe citation path segment: '' @ str_repr p))) parts
        @ [fail_if (parts ! 1 \<notin> set corpus_classes)
             (ValueError (''Unsupported corpus document class '' @ str_repr (parts ! 1) @ '' in '' @ str_repr identifier)),
           fail_if (\<not> jurisdiction_re (hd parts))
             (ValueError (''Invalid corpus jurisdiction '' @ str_repr (hd parts) @ '' in '' @ str_repr identifier))]
        @ map (\<lambda>p. fail_if (\<not> hierarchy_re p)
             (ValueError (''Invalid corpus citation path segment '' @ str_repr p @ '' in '' @ str_repr identifier))) (drop 2 parts)))
       (\<lambda>_. Inr (join ''/'' parts)))"

definition require_canonical :: "string \<Rightarrow> (path_error, string) result" where
  "require_canonical identifier =
    (case normalize_citation_path identifier of
       Inl _ \<Rightarrow> bad (''Corpus citation path must be an exact canonical <jurisdiction>/<document-class>/... path: '' @ str_repr identifier)
     | Inr c \<Rightarrow> if c \<noteq> identifier
         then bad (''Corpus citation path must be an exact canonical path; expected '' @ str_repr c @ '', got '' @ str_repr identifier)
         else Inr c)"

definition rulespec_document_class :: "(string \<times> string) list" where
  "rulespec_document_class = [(''forms'', ''form''), (''guidance'', ''guidance''), (''manuals'', ''manual''), (''policies'', ''policy''),
     (''regulations'', ''regulation''), (''statutes'', ''statute'')]"

definition get_or :: "(string \<times> string) list \<Rightarrow> string \<Rightarrow> string" where
  "get_or d k = (case map_of d k of None \<Rightarrow> k | Some v \<Rightarrow> v)"

definition normalize_corpus_identifier :: "string \<Rightarrow> (path_error, string) result" where
  "normalize_corpus_identifier identifier =
    (let v = strip_slashes (strip identifier); parts = segments v;
         prefixed = parts \<noteq> [] \<and> CHR '':'' \<in> set (hd parts);
         j = before CHR '':'' (hd parts); cls = get_or rulespec_document_class (after CHR '':'' (hd parts))
     in if v = [] then bad ''Corpus citation path must not be empty''
        else if prefixed \<and> j \<noteq> [] \<and> cls \<noteq> [] then normalize_citation_path (join ''/'' (j # cls # tl parts))
        else if length parts \<ge> 2 \<and> parts ! 1 \<in> set corpus_classes then normalize_citation_path v
        else case cfr_match v of
          Some (title, sec, gs) \<Rightarrow> normalize_citation_path
            (join ''/'' ([''us'', ''regulation'', title] @ filter (\<lambda>p. p \<noteq> []) (split_on CHR ''.'' sec) @ gs))
        | None \<Rightarrow> value_error_as (''Could not normalize corpus identifier '' @ str_repr identifier)
            (bind_r (citation_to_citation_path v) normalize_citation_path))"

section \<open>The path of a RuleSpec module\<close>

definition source_root_tokens :: "string list" where
  "source_root_tokens = [''form'', ''forms'', ''guidance'', ''manual'', ''manuals'', ''policies'', ''policy'', ''regulation'', ''regulations'',
     ''statute'', ''statutes'']"

definition output_root :: "(string \<times> string) list" where
  "output_root = [(''form'', ''policies''), (''forms'', ''policies''), (''guidance'', ''policies''), (''manual'', ''policies''),
     (''manuals'', ''policies''), (''policies'', ''policies''), (''policy'', ''policies''), (''regulation'', ''regulations''),
     (''regulations'', ''regulations''), (''statute'', ''statutes''), (''statutes'', ''statutes'')]"

definition looks_like_corpus_path :: "string \<Rightarrow> bool" where
  "looks_like_corpus_path identifier =
    (let parts = segments (strip_slashes (strip identifier)) in
     (parts \<noteq> [] \<and> CHR '':'' \<in> set (hd parts) \<and> after CHR '':'' (hd parts) \<in> set source_root_tokens)
     \<or> (length parts \<ge> 2 \<and> hd parts \<in> set source_root_tokens)
     \<or> (length parts \<ge> 3 \<and> parts ! 1 \<in> set source_root_tokens))"

definition ill_dotted :: "string \<Rightarrow> bool" where
  "ill_dotted p \<longleftrightarrow> p = [] \<or> hd p = CHR ''.'' \<or> last p = CHR ''.'' \<or> contains_text ''..'' p"

definition expand_louisiana :: "string \<Rightarrow> string \<Rightarrow> string list \<Rightarrow> (path_error, string list) result" where
  "expand_louisiana jur root tail =
    (if jur \<noteq> ''us-la'' \<or> root \<noteq> ''statutes'' \<or> tail = [] then Inr tail
     else if list_ex ill_dotted tail \<or> list_ex (\<lambda>p. CHR '':'' \<in> set p) (tl tail)
     then bad (''Invalid Louisiana statute path: '' @ py_repr (JArr (map JStr tail)))
     else if CHR '':'' \<notin> set (hd tail) then Inr tail
     else let components = split_on CHR '':'' (hd tail); expanded = components @ tl tail in
       if length components \<noteq> 2 \<or> list_ex ill_dotted expanded
       then bad (''Invalid Louisiana title:section statute segment: '' @ str_repr (hd tail))
       else Inr expanded)"

text \<open>\<open>\d+(?:c\d+)*\<close> and, with at least two runs, \<open>\d+(?:c\d+)+\<close>.\<close>

definition digit_runs :: "char \<Rightarrow> string \<Rightarrow> bool" where
  "digit_runs c s \<longleftrightarrow> list_all all_digits (split_on c s)"

definition dotted_number :: "string \<Rightarrow> bool" where
  "dotted_number s \<longleftrightarrow> digit_runs CHR ''.'' s \<and> CHR ''.'' \<in> set s"

text \<open>\<open>\d+-ccr-\d+-\d+\<close> in either case, and \<open>\d+(?:-\d+)+(?:\.\d+)?\<close>.\<close>

definition ccr_re :: "string \<Rightarrow> bool" where
  "ccr_re s \<longleftrightarrow> (case split_on CHR ''-'' s of
     [a, b, c, d] \<Rightarrow> all_digits a \<and> map lower b = ''ccr'' \<and> all_digits c \<and> all_digits d | _ \<Rightarrow> False)"

definition hyphen_number :: "string \<Rightarrow> bool" where
  "hyphen_number s \<longleftrightarrow> (let ps = split_on CHR ''.'' s in
     length ps \<le> 2 \<and> list_all all_digits (tl ps) \<and> digit_runs CHR ''-'' (hd ps) \<and> CHR ''-'' \<in> set (hd ps))"

definition preserve_dotted_leaf_filename :: "string list \<Rightarrow> bool" where
  "preserve_dotted_leaf_filename tail \<longleftrightarrow> length tail \<ge> 2 \<and> ccr_re (hd tail) \<and> dotted_number (last tail)"

definition preserve_state_statute_dotted_leaf :: "string \<Rightarrow> string \<Rightarrow> string list \<Rightarrow> bool" where
  "preserve_state_statute_dotted_leaf jur root tail =
    (if jur \<noteq> ''us-co'' \<or> root \<noteq> ''statutes'' \<or> length tail < 2 then False
     else if length tail = 2 \<and> hd tail \<noteq> [] \<and> list_all digit_like (hd tail)
     then (let crs = split_on CHR ''-'' (last tail) in length crs = 3 \<and> list_all (digit_runs CHR ''.'') crs)
     else dotted_number (last tail) \<and> hyphen_number (last (butlast tail)))"

text \<open>\<open>Path(*segments)\<close>: empty and dot segments vanish. The functions that read the last segment are given one.\<close>

definition joined :: "string list \<Rightarrow> ppath" where
  "joined ps = filter (\<lambda>p. p \<noteq> [] \<and> p \<noteq> ''.'') ps"

definition flat_yaml_path :: "string list \<Rightarrow> ppath" where
  "flat_yaml_path tail = joined (butlast tail @ [last tail @ ''.yaml''])"

definition dotted_leaf_to_nested_yaml_path :: "string list \<Rightarrow> ppath" where
  "dotted_leaf_to_nested_yaml_path tail =
    (if preserve_dotted_leaf_filename tail then flat_yaml_path tail
     else flat_yaml_path (butlast tail @ split_on CHR ''.'' (last tail)))"

definition canonical_us_regulation_tail :: "string list \<Rightarrow> string list" where
  "canonical_us_regulation_tail tail =
    (if tail = [] then tail
     else let title = strip (hd tail) in
       if title \<noteq> [] \<and> list_all digit_like title then (title @ ''-cfr'') # tl tail else tail)"

definition canonical_uk_legislation_tail :: "string list \<Rightarrow> string list" where
  "canonical_uk_legislation_tail tail =
    (let n = (if tail \<noteq> [] \<and> hd tail = ''legislation.gov.uk'' then tl tail else tail) in
     if length n \<ge> 2 \<and> map lower (last (butlast n)) \<in> {''article'', ''regulation'', ''section''}
     then butlast (butlast n) @ [last n] else n)"

text \<open>The module of the tail below its root, for a tail that names its jurisdiction; \<open>None\<close> when nothing is left of it.\<close>

definition jurisdiction_yaml_path :: "string \<Rightarrow> string \<Rightarrow> string \<Rightarrow> string list \<Rightarrow> (path_error, ppath option) result" where
  "jurisdiction_yaml_path jur token root tail0 =
    bind_r (expand_louisiana jur root tail0) (\<lambda>tail1.
      let tail2 = (if jur = ''us'' \<and> token \<in> {''regulation'', ''regulations''} then canonical_us_regulation_tail tail1 else tail1);
          tail = (if jur = ''uk'' then canonical_uk_legislation_tail tail2 else tail2)
      in Inr (if tail = [] then None
              else Some (root # (if preserve_state_statute_dotted_leaf jur root tail then flat_yaml_path tail
                                 else dotted_leaf_to_nested_yaml_path tail))))"

definition source_identifier_path :: "string \<Rightarrow> (path_error, ppath) result" where
  "source_identifier_path source_id =
    (let parts = segments (strip_slashes (strip source_id)); head = hd parts; jur = before CHR '':'' head; token = after CHR '':'' head;
         unsupported = bad (''Unsupported canonical source identifier: '' @ str_repr source_id)
     in if list_ex (\<lambda>p. p = ''.'' \<or> p = ''..'') parts
        then bad (''Unsafe RuleSpec path component in source identifier: '' @ str_repr source_id)
        else bind_r (if parts \<noteq> [] \<and> CHR '':'' \<in> set head \<and> token \<in> set source_root_tokens
            then jurisdiction_yaml_path jur token (get_or output_root token) (tl parts) else Inr None) (\<lambda>found.
          case found of Some p \<Rightarrow> Inr p | None \<Rightarrow>
          if length parts \<ge> 2 \<and> head \<in> set source_root_tokens
          then let tail = (if parts ! 1 = ''legislation.gov.uk'' then canonical_uk_legislation_tail (tl parts) else tl parts)
               in if tail = [] then Inl IndexError else Inr (get_or output_root head # dotted_leaf_to_nested_yaml_path tail)
          else if length parts \<ge> 3 \<and> map_of output_root (parts ! 1) \<noteq> None
          then bind_r (jurisdiction_yaml_path head (parts ! 1) (the (map_of output_root (parts ! 1))) (drop 2 parts)) (\<lambda>found'.
                 case found' of Some p \<Rightarrow> Inr p | None \<Rightarrow> unsupported)
          else unsupported))"

definition citation_to_corpus_path :: "string \<Rightarrow> (path_error, string) result" where
  "citation_to_corpus_path citation =
    (let spaced = concat (map (\<lambda>c. if c = section_sign then [c, CHR '' ''] else [c]) (strip citation));
         usc = (if mentions_cfr None citation then bad (''Could not parse CFR citation: '' @ citation)
                else if \<not> usc_match (strip citation) then bad (''Could not parse USC citation: '' @ citation)
                else citation_to_citation_path citation)
     in case cfr_match spaced of
       None \<Rightarrow> usc
     | Some (title, sec, gs) \<Rightarrow>
         (let sections = filter (\<lambda>p. p \<noteq> []) (split_on CHR ''.'' sec) in
          if sections = [] then usc else Inr (join ''/'' ([''us'', ''regulation'', title] @ sections @ gs))))"

definition resolve_eval_output_path :: "string \<Rightarrow> (path_error, ppath) result" where
  "resolve_eval_output_path citation =
    (if looks_like_corpus_path citation then source_identifier_path citation
     else value_error_as (''Eval source identity is not a canonical citation path: '' @ citation)
       (bind_r (citation_to_corpus_path citation) source_identifier_path))"

definition atomic_roots :: "string list" where
  "atomic_roots = [''legislation'', ''policies'', ''regulations'', ''statutes'']"

definition citation_parts_path :: "string \<Rightarrow> (path_error, string \<times> ppath) result" where
  "citation_parts_path citation =
    (if CHR ''/'' \<notin> set citation then bad ''citation must be a canonical corpus citation path''
     else bind_r (resolve_eval_output_path citation) (\<lambda>rel.
       if path_absolute rel \<or> ''..'' \<in> set rel \<or> length rel < 2 \<or> hd rel \<notin> set atomic_roots \<or> path_suffix (path_name rel) \<noteq> ''.yaml''
       then bad ''citation does not resolve to a canonical RuleSpec path''
       else Inr (before CHR ''/'' citation, rel)))"

definition citation_rulespec_path :: "string \<Rightarrow> (path_error, ppath) result" where
  "citation_rulespec_path citation = bind_r (citation_parts_path citation) (\<lambda>(jur, rel). Inr (path_of jur @ rel))"

end
