(* ===== verification/Backfill_Bundle.thy ===== *)
theory Backfill_Bundle
  imports Citation_Paths Py_Date
begin

text \<open>
  \<open>src/axiom_encode/prepare_signed_backfill.py\<close>, the planning half: what a dispatch of a signed backfill may ask for. The
  dispatch input is JSON text from outside; the checkout it is about is the record \<open>bundle_world\<close>: what \<open>lstat\<close> finds
  at a path below the resolved root, what Git answers to a command line (\<open>None\<close> when it fails), SHA-256, the parser of
  YAML and the parts of the JSON decoder that depend on the interpreter. Every operation reads one snapshot of it.
  The admission of the base, the three bundles a dispatch may carry, the normalisation of required test cases, the
  inventory of a refresh target with its later verification, and the check of direct dependents are here.
\<close>

section \<open>The checkout\<close>

datatype fs_node = Absent | Denied | Link | Folder | File nat string | Device

record bundle_world =
  bw_root :: ppath
  bw_node :: "ppath \<Rightarrow> fs_node"
  bw_present :: "ppath \<Rightarrow> bool"
  bw_yaml_below :: "ppath \<Rightarrow> ppath list"
  bw_git :: "string list \<Rightarrow> string option"
  bw_sha256 :: "string \<Rightarrow> string"
  bw_yaml :: "string \<Rightarrow> json option"
  bw_float_repr :: "string \<Rightarrow> string"
  bw_depth :: nat

definition is_file :: "fs_node \<Rightarrow> bool" where
  "is_file x \<longleftrightarrow> (case x of File _ _ \<Rightarrow> True | _ \<Rightarrow> False)"

definition max_source_bundle_citations :: nat where "max_source_bundle_citations = 16"
definition max_source_bundle_json_bytes :: nat where "max_source_bundle_json_bytes = 512 * 1024"
definition max_canonical_refresh_bundle_citations :: nat where
  "max_canonical_refresh_bundle_citations = max_source_bundle_citations - 1"
definition max_deferred_output_contracts :: nat where "max_deferred_output_contracts = 16"
definition max_required_test_cases :: nat where "max_required_test_cases = 32"
definition max_required_test_case_fields :: nat where "max_required_test_case_fields = 64"
definition max_review_contract_json_bytes :: nat where "max_review_contract_json_bytes = 64 * 1024"

section \<open>Reading untrusted input\<close>

definition unique_object :: "(string \<times> json) list \<Rightarrow> jobj option" where
  "unique_object ps = (if distinct (map fst ps) then Some ps else None)"

definition unique_conf :: "bundle_world \<Rightarrow> load_conf" where
  "unique_conf W = \<lparr>hook = unique_object, float_repr = bw_float_repr W\<rparr>"

definition int_limit_message :: string where
  "int_limit_message = ''Exceeds the limit (4300 digits) for integer string conversion''"

text \<open>The message of a duplicate key leaves out which key it is.\<close>

definition load_unambiguous_json :: "bundle_world \<Rightarrow> string \<Rightarrow> string \<Rightarrow> (path_error, json) result" where
  "load_unambiguous_json W label raw = (case loads (unique_conf W) (bw_depth W) raw of
     Inr v \<Rightarrow> Inr v
   | Inl HookError \<Rightarrow> bad (label @ '' contains duplicate JSON key'')
   | Inl RecursionLimit \<Rightarrow> Inl RecursionError
   | Inl IntLimit \<Rightarrow> bad int_limit_message
   | Inl OutsideModel \<Rightarrow> Inl OutsideText
   | Inl _ \<Rightarrow> bad ''JSONDecodeError'')"

text \<open>\<open>json.loads\<close> with the default \<open>dict\<close>: a repeated key keeps its first position and its last value.\<close>

definition lenient_conf :: "bundle_world \<Rightarrow> load_conf" where
  "lenient_conf W = \<lparr>hook = (\<lambda>ps. Some (foldl (\<lambda>d (k, v). AList.update k v d) [] ps)), float_repr = bw_float_repr W\<rparr>"

text \<open>A text decoded with \<open>json.loads\<close> and no handler around it.\<close>

definition lenient_json :: "bundle_world \<Rightarrow> string \<Rightarrow> (path_error, json) result" where
  "lenient_json W text = (case loads (lenient_conf W) (bw_depth W) text of Inr v \<Rightarrow> Inr v
     | Inl RecursionLimit \<Rightarrow> Inl RecursionError | Inl OutsideModel \<Rightarrow> Inl OutsideText
     | Inl IntLimit \<Rightarrow> bad int_limit_message | Inl _ \<Rightarrow> bad ''JSONDecodeError'')"

lemma lenient_json_Inr [simp]: "lenient_json W text = Inr v \<longleftrightarrow> loads (lenient_conf W) (bw_depth W) text = Inr v"
  by (auto simp: lenient_json_def split: sum.splits load_error.splits)

definition octal4 :: "nat \<Rightarrow> string" where
  "octal4 m = map digit_char [m div 512, m div 64 mod 8, m div 8 mod 8, m mod 8]"

definition parents_open :: "bundle_world \<Rightarrow> ppath \<Rightarrow> bool" where
  "parents_open W p \<longleftrightarrow> list_all (\<lambda>k. bw_node W (take k p) = Folder) [1..<length p]"

text \<open>Every component is opened below its parent without following a link.\<close>

definition read_bounded_regular_file :: "bundle_world \<Rightarrow> ppath \<Rightarrow> string \<Rightarrow> nat \<Rightarrow> (path_error, string) result" where
  "read_bounded_regular_file W p label max_bytes =
    (let candidate = path_str (bw_root W @ p); unsafe = bad (''Could not safely open '' @ label @ '': '' @ candidate);
         irregular = bad (label @ '' is not a regular file: '' @ candidate)
     in if p = [] then bad (label @ '' is not a file: '' @ candidate)
        else if \<not> parents_open W p then unsafe
        else case bw_node W p of
          File mode content \<Rightarrow>
            if mode \<noteq> 420 then bad (label @ '' must have mode 0644, found '' @ octal4 mode @ '': '' @ candidate)
            else if length content > max_bytes
            then bad (label @ '' exceeds the '' @ nat_repr max_bytes @ ''-byte safety limit: '' @ candidate)
            else Inr content
        | Folder \<Rightarrow> irregular | Device \<Rightarrow> irregular | _ \<Rightarrow> unsafe)"

definition read_bounded_regular :: "bundle_world \<Rightarrow> ppath \<Rightarrow> string \<Rightarrow> nat \<Rightarrow> (path_error, string) result" where
  "read_bounded_regular W p label max_bytes =
    (if path_absolute p \<or> p = [] \<or> list_ex (\<lambda>s. s \<in> {[], ''.'', ''..''}) p
     then bad (label @ '' path is not canonical: '' @ path_str p)
     else read_bounded_regular_file W p label max_bytes)"

definition safe_relative_path :: "json \<Rightarrow> string \<Rightarrow> (path_error, ppath) result" where
  "safe_relative_path v label =
    (if \<not> is_str v then bad (label @ '' must be a string'')
     else let p = path_of (str_of v) in
       if path_absolute p \<or> path_str p \<noteq> str_of v \<or> list_ex (\<lambda>s. s \<in> {[], ''.'', ''..''}) p \<or> p = []
       then bad (label @ '' is not a safe repository-relative path'') else Inr p)"

section \<open>Admission of a dispatch\<close>

definition validate_country :: "string \<Rightarrow> (path_error, string) result" where
  "validate_country v = (if length v = 2 \<and> list_all is_lower v then Inr v
     else bad ''country must be a two-letter lowercase country code'')"

definition queue_tracking_re :: "string \<Rightarrow> bool" where
  "queue_tracking_re s \<longleftrightarrow> s \<noteq> [] \<and> length s \<le> 64 \<and> hd s \<noteq> CHR ''-'' \<and> list_all (\<lambda>c. is_lower c \<or> is_digit c \<or> c = CHR ''-'') s"

definition hex_of_length :: "nat \<Rightarrow> string \<Rightarrow> bool" where
  "hex_of_length n s \<longleftrightarrow> length s = n \<and> list_all is_hex s"

definition validate_queue_tracking :: "string \<Rightarrow> string \<Rightarrow> string \<Rightarrow> string \<Rightarrow> (path_error, string) result" where
  "validate_queue_tracking queue_id item_id manifest_sha generation_sha =
    (let values = [queue_id, item_id, manifest_sha, generation_sha] in
     if list_all (\<lambda>v. v = []) values then Inr ''ad-hoc''
     else bind_r (checks
       [fail_if (list_ex (\<lambda>v. v = []) values) (ValueError ''queue tracking fields must be supplied together''),
        fail_if (\<not> queue_tracking_re queue_id) (ValueError ''queue_id is malformed''),
        fail_if (\<not> queue_tracking_re item_id) (ValueError ''queue_item_id is malformed''),
        fail_if (\<not> hex_of_length 64 manifest_sha) (ValueError ''queue_manifest_sha256 is malformed''),
        fail_if (\<not> hex_of_length 64 generation_sha) (ValueError ''queue_item_generation_sha256 is malformed'')])
       (\<lambda>_. Inr ''tracked''))"

definition branch_name :: "string \<Rightarrow> string \<Rightarrow> string \<Rightarrow> (path_error, string) result" where
  "branch_name country run_id attempt = bind_r (validate_country country) (\<lambda>_.
     if \<not> all_digits run_id \<or> \<not> all_digits attempt then bad ''run id and attempt must be decimal integers''
     else Inr (''axiom/signed-backfill-'' @ country @ ''-'' @ run_id @ ''-'' @ attempt))"

definition reviewed_rulespec_refs :: "(string \<times> string) list" where
  "reviewed_rulespec_refs =
    [(''dk'', ''06489d04e7d4b8d424d1711d99df883c6411248a''),
     (''us'', ''b61918da93fe8a1a29b35b9330aef2085291a5d0''),
     (''us'', ''251d8d66dabdebcb763d9e7c9b8322a281440c36''),
     (''us'', ''68cca4a6fa806b63f95277c129575d88d2ac07f1''),
     (''us'', ''1e04e456ab404860050586c34eef51321eea95e9''),
     (''us'', ''b1a6e07af093d62f613f83afe26fcb4dd87de491''),
     (''us'', ''38ddc92d4160a0d39af13bfe232a446b554a15c5''),
     (''us'', ''ef9dd5f72d529ebc70f539c42144361e536d7563''),
     (''us'', ''f4fd3203db560c0d4661542388b6ae2f353e0bd3''),
     (''us'', ''e942ce50546b1c3a1c0c8f3f0404a217eddbe071''),
     (''us'', ''dc87ef6212accbc4ff67b81f97b6ddf0cf3b5a5c''),
     (''us'', ''2a503a5c9a2227c363aceaece6c547429c3c0878''),
     (''us'', ''6535019ce780d9e78f10509f2fe7a2607fb2bdc4''),
     (''us'', ''c482ef6506c50b54236354926bbce1bcd6434132''),
     (''ca'', ''f60f7a84c30e38c7d4961d70647eb0457e7d76c2'')]"

definition reviewed_rulespec_pr_base_branches :: "(string \<times> string) list" where
  "reviewed_rulespec_pr_base_branches = [(''dk'', ''pin/dk-rulespec-2026-08-07''), (''us'', ''hard-cut/canonical-layout-us'')]"

text \<open>\<open>_git(...).decode().strip()\<close>.\<close>

definition decoded :: "string \<Rightarrow> (path_error, string) result" where
  "decoded b = (case utf8_decode b of Inr t \<Rightarrow> Inr t | Inl OutsideModel \<Rightarrow> Inl OutsideText | Inl _ \<Rightarrow> bad ''UnicodeDecodeError'')"

definition git_word :: "bundle_world \<Rightarrow> string list \<Rightarrow> (path_error, string) result" where
  "git_word W args = (case bw_git W args of None \<Rightarrow> Inl CalledProcessError
     | Some b \<Rightarrow> bind_r (decoded b) (\<lambda>t. Inr (strip t)))"

definition require_remote_branch_tip :: "bundle_world \<Rightarrow> string \<Rightarrow> string \<Rightarrow> (path_error, unit) result" where
  "require_remote_branch_tip W branch requested_ref =
    (case git_word W [''rev-parse'', ''refs/remotes/origin/'' @ branch] of
       Inl CalledProcessError \<Rightarrow> bad (''pull request base branch is unavailable: '' @ branch)
     | Inl e \<Rightarrow> Inl e
     | Inr branch_ref \<Rightarrow> fail_if (branch_ref \<noteq> requested_ref)
         (ValueError ''rulespec ref is not the exact pull request base branch tip''))"

definition validate_rulespec_base :: "bundle_world \<Rightarrow> string \<Rightarrow> string \<Rightarrow> bool \<Rightarrow> string \<Rightarrow> (path_error, string) result" where
  "validate_rulespec_base W country requested_ref open_pr pr_base_branch =
    bind_r (validate_country country) (\<lambda>_.
    if \<not> hex_of_length 40 requested_ref then bad ''rulespec ref must be a full lowercase commit SHA'' else
    bind_r (git_word W [''rev-parse'', ''HEAD'']) (\<lambda>actual_ref.
    if actual_ref \<noteq> requested_ref then bad ''rulespec checkout does not match the requested ref''
    else if bw_git W [''merge-base'', ''--is-ancestor'', ''HEAD'', ''refs/remotes/origin/main''] \<noteq> None then
      (if \<not> open_pr then Inr ''main''
       else if pr_base_branch \<noteq> ''main'' then bad ''main-ancestor pull requests must target main''
       else bind_r (require_remote_branch_tip W pr_base_branch requested_ref) (\<lambda>_. Inr ''main''))
    else if (country, requested_ref) \<notin> set reviewed_rulespec_refs
      then bad ''rulespec ref is neither on main nor an approved reviewed head''
    else if \<not> open_pr then Inr ''reviewed-head-artifact''
    else if (country, pr_base_branch) \<notin> set reviewed_rulespec_pr_base_branches
      then bad ''reviewed-head runs are artifact-only unless the pull request targets an approved protected base branch''
    else bind_r (require_remote_branch_tip W pr_base_branch requested_ref) (\<lambda>_. Inr ''reviewed-head-pr'')))"

section \<open>The atomic source mode\<close>

record source_mode =
  sm_refresh :: "json list"
  sm_cases :: "json list"
  sm_sources :: "json list"

definition split_atomic_source_input :: "bundle_world \<Rightarrow> string \<Rightarrow> (path_error, source_mode) result" where
  "split_atomic_source_input W text =
    (if length (utf8_encode text) > max_source_bundle_json_bytes then bad ''atomic source JSON exceeds the maximum input size''
     else bind_r (load_unambiguous_json W ''atomic source JSON'' text) (\<lambda>payload.
       let d = obj_of payload; refresh = dget d ''canonical_refresh_bundle''; sources = dget d ''source_bundle'';
           cases = dget d ''primary_required_test_cases'' in
       if is_arr payload then Inr \<lparr>sm_refresh = [], sm_cases = [], sm_sources = arr_of payload\<rparr>
       else if is_obj payload \<and> keys d = {''canonical_refresh_bundle''} then
         (if \<not> is_arr refresh then bad ''canonical_refresh_bundle must be an array''
          else Inr \<lparr>sm_refresh = arr_of refresh, sm_cases = [], sm_sources = []\<rparr>)
       else if \<not> is_obj payload
           \<or> keys d \<noteq> {''schema'', ''source_bundle'', ''canonical_refresh_bundle'', ''primary_required_test_cases''}
           \<or> dget d ''schema'' \<noteq> JStr ''axiom-encode/atomic-source-transaction/v2''
         then bad (''atomic source JSON must be a source citation array or an exact ''
                   @ ''canonical_refresh_bundle or atomic-source-transaction/v2 object'')
       else if \<not> list_all is_arr [refresh, sources, cases] then bad ''atomic source transaction bundle fields must be arrays''
       else if arr_of sources \<noteq> [] \<and> (arr_of refresh \<noteq> [] \<or> arr_of cases \<noteq> [])
         then bad ''atomic source transaction must select exactly one source mode''
       else Inr \<lparr>sm_refresh = arr_of refresh, sm_cases = arr_of cases, sm_sources = arr_of sources\<rparr>))"

section \<open>A bundle of fresh sources\<close>

definition validate_citation :: "json \<Rightarrow> string \<Rightarrow> (path_error, string \<times> ppath) result" where
  "validate_citation v label =
    (if \<not> is_str v \<or> str_of v = [] then bad (label @ '' must be a nonempty citation string'')
     else value_error_as (label @ '' must be an exact canonical corpus citation path'')
       (bind_r (require_canonical (str_of v)) (\<lambda>c. bind_r (citation_rulespec_path c) (\<lambda>p. Inr (c, p)))))"

text \<open>What is taken so far: citations with their modules.\<close>

type_synonym taken = "(string \<times> ppath) list"

definition reserve_citation :: "string \<Rightarrow> taken \<Rightarrow> nat \<times> string \<Rightarrow> (path_error, taken) result" where
  "reserve_citation jur reserved = (\<lambda>(n, value).
    bind_r (validate_citation (JStr value) (''excluded citation #'' @ nat_repr n)) (\<lambda>(citation, path).
      if before CHR ''/'' citation \<noteq> jur
      then bad ''excluded citations must use the primary citation jurisdiction and country''
      else Inr (reserved @ [(citation, path)])))"

definition add_source :: "string \<Rightarrow> taken \<Rightarrow> taken \<Rightarrow> nat \<times> json \<Rightarrow> (path_error, taken) result" where
  "add_source jur reserved seen = (\<lambda>(n, value).
    bind_r (validate_citation value (''source bundle item #'' @ nat_repr n)) (\<lambda>(citation, path).
      if before CHR ''/'' citation \<noteq> jur
      then bad ''source bundle citations must use the primary citation jurisdiction and country''
      else if citation \<in> fst ` set reserved then bad ''source bundle must exclude the primary and excluded citations''
      else if citation \<in> fst ` set seen then bad ''source bundle citations must be unique''
      else if path \<in> snd ` set (reserved @ seen)
      then bad ''source bundle citations must resolve to unique, unreserved canonical RuleSpec paths''
      else Inr (seen @ [(citation, path)])))"

definition parse_source_bundle :: "bundle_world \<Rightarrow> string \<Rightarrow> string \<Rightarrow> string list \<Rightarrow> (path_error, string list) result" where
  "parse_source_bundle W text primary_citation excluded =
    (if length (utf8_encode text) > max_source_bundle_json_bytes then bad ''source bundle JSON exceeds the maximum input size''
     else bind_r (load_unambiguous_json W ''source bundle JSON'' text) (\<lambda>payload.
       if \<not> is_arr payload then bad ''source bundle JSON must be an array''
       else if length (arr_of payload) > max_source_bundle_citations
       then bad (''source bundle contains more than '' @ nat_repr max_source_bundle_citations @ '' citations'')
       else bind_r (validate_citation (JStr primary_citation) ''primary citation'') (\<lambda>(primary, primary_path).
         let jur = before CHR ''/'' primary in
         bind_r (validate_country (before CHR ''-'' jur)) (\<lambda>_.
         bind_r (for_each (reserve_citation jur) [(primary, primary_path)] (enumerate 1 excluded)) (\<lambda>reserved.
         bind_r (for_each (add_source jur reserved) [] (enumerate 1 (arr_of payload))) (\<lambda>seen.
           Inr (map fst seen)))))))"

section \<open>Additions must be new\<close>

text \<open>\<open>_checkout_path_exists_without_indirection\<close>: the last \<open>n\<close> components remain to be inspected.\<close>

fun exists_without_indirection :: "bundle_world \<Rightarrow> string \<Rightarrow> ppath \<Rightarrow> nat \<Rightarrow> (path_error, bool) result" where
  "exists_without_indirection W label p 0 = Inr False"
| "exists_without_indirection W label p (Suc n) =
    (let x = bw_node W (take (length p - n) p) in
     case x of
       Absent \<Rightarrow> Inr False
     | Denied \<Rightarrow> bad (''cannot inspect '' @ label @ '': '' @ path_str p)
     | Link \<Rightarrow> bad (label @ '' contains a symlink: '' @ path_str p)
     | _ \<Rightarrow> if n = 0 then Inr True
         else if x \<noteq> Folder then bad (label @ '' parent is not a directory: '' @ path_str p)
         else exists_without_indirection W label p n)"

definition companion_path :: "ppath \<Rightarrow> ppath" where
  "companion_path p = with_name p (path_stem (path_name p) @ ''.test.yaml'')"

definition manifest_root :: ppath where
  "manifest_root = [''.axiom'', ''encoding-manifests'']"

definition manifest_path_of :: "ppath \<Rightarrow> ppath" where
  "manifest_path_of p = manifest_root @ with_suffix p ''.json''"

definition add_conflicts :: "bundle_world \<Rightarrow> string \<Rightarrow> (path_error, string list) result" where
  "add_conflicts W citation =
    bind_r (citation_rulespec_path citation) (\<lambda>p.
    bind_r (map_r (\<lambda>(label, q). bind_r (exists_without_indirection W label q (length q)) (\<lambda>there.
        Inr (if there then [path_str q] else [])))
      [(''RuleSpec primary'', p), (''RuleSpec companion'', companion_path p), (''RuleSpec ownership manifest'', manifest_path_of p)])
      (\<lambda>found. Inr (concat found)))"

definition repository_name :: "string \<Rightarrow> string" where
  "repository_name jur = ''rulespec-'' @ before CHR ''-'' jur"

definition validate_source_add_targets :: "bundle_world \<Rightarrow> string \<Rightarrow> string \<Rightarrow> string \<Rightarrow> (path_error, string list) result" where
  "validate_source_add_targets W text primary_citation primary_rulespec_path =
    bind_r (parse_source_bundle W text primary_citation []) (\<lambda>sources.
    let expected = repository_name (before CHR ''/'' primary_citation) in
    if path_name (bw_root W) \<noteq> expected
    then bad (''repository directory must match the primary citation country: '' @ expected)
    else bind_r (if primary_rulespec_path \<noteq> []
        then bind_r (safe_relative_path (JStr primary_rulespec_path) ''source-add primary replacement'') (\<lambda>_. Inr sources)
        else Inr (primary_citation # sources)) (\<lambda>additions.
      bind_r (map_r (add_conflicts W) additions) (\<lambda>found.
        if concat found \<noteq> []
        then bad (''source-add destination already exists in the pinned RuleSpec checkout; ''
                  @ ''existing modules must use canonical_refresh_bundle: '' @ join '', '' (sort (concat found)))
        else Inr sources)))"

end
