(* ===== verification/Backfill_Refresh.thy ===== *)
theory Backfill_Refresh
  imports Backfill_Bundle
begin

text \<open>
  \<open>src/axiom_encode/prepare_signed_backfill.py\<close>, refreshing existing modules: the required test cases of a review
  contract, the bundle of canonical modules to encode afresh, the inventory that binds each of them to its bytes at
  \<open>HEAD\<close>, and the verification of one inventory before its lane runs. A target and a case are the dicts of the
  source, with their keys in the order in which the source inserts them.
\<close>

section \<open>Required test cases\<close>

definition control_char :: "char \<Rightarrow> bool" where
  "control_char c \<longleftrightarrow> code c < 32 \<or> code c = 127"

text \<open>A non-empty line without blanks around it, and a text that may have several lines.\<close>

definition normal_line :: "string \<Rightarrow> bool" where
  "normal_line s \<longleftrightarrow> s \<noteq> [] \<and> s = strip s \<and> list_all (\<lambda>c. \<not> control_char c) s"

definition normal_text :: "string \<Rightarrow> bool" where
  "normal_text s \<longleftrightarrow> s = strip s \<and> list_all (\<lambda>c. \<not> control_char c \<or> c = CHR 0x0A \<or> c = CHR 0x09) s"

definition normal_str :: "(string \<Rightarrow> bool) \<Rightarrow> json \<Rightarrow> bool" where
  "normal_str P v \<longleftrightarrow> is_str v \<and> P (str_of v)"

definition period_kinds :: "string list" where
  "period_kinds = [''month'', ''benefit_week'', ''tax_year'', ''custom'']"

definition period_fields :: "json \<Rightarrow> string set" where
  "period_fields v = {''period_kind'', ''start'', ''end''}
     \<union> (if is_obj v \<and> dget (obj_of v) ''period_kind'' = JStr ''custom'' then {''name''} else {})"

text \<open>The period of a case, and the date it has as a text.\<close>

definition check_period :: "string \<Rightarrow> json \<Rightarrow> (path_error, unit) result" where
  "check_period label v =
    (let d = obj_of v; start = iso_ordinal (str_of (dget d ''start'')); stop = iso_ordinal (str_of (dget d ''end'')) in checks
      [fail_if (\<not> is_obj v \<or> keys d \<noteq> period_fields v \<or> \<not> list_all (\<lambda>(k, f). normal_str normal_line f) d)
         (ValueError (label @ '' period must be an exact normalized RuleSpec period mapping'')),
       fail_if (str_of (dget d ''period_kind'') \<notin> set period_kinds)
         (ValueError (label @ '' period_kind is not supported by the RuleSpec engine'')),
       fail_if (start = None \<or> stop = None) (ValueError (label @ '' period dates must be ISO dates'')),
       fail_if (the start > the stop) (ValueError (label @ '' period start must not follow end''))])"

definition normal_period :: "jobj \<Rightarrow> json" where
  "normal_period d = JObj ([(''period_kind'', dget d ''period_kind'')]
     @ (if dget d ''period_kind'' = JStr ''custom'' then [(''name'', dget d ''name'')] else [])
     @ [(''start'', dget d ''start''), (''end'', dget d ''end'')])"

definition finite_scalar :: "json \<Rightarrow> bool" where
  "finite_scalar v \<longleftrightarrow> (case v of JStr _ \<Rightarrow> True | JInt _ \<Rightarrow> True | JBool _ \<Rightarrow> True
     | JFloat t \<Rightarrow> t \<notin> {''nan'', ''inf'', ''-inf''} | _ \<Rightarrow> False)"

definition check_field :: "string \<Rightarrow> string \<Rightarrow> string \<times> json \<Rightarrow> (path_error, unit) result" where
  "check_field label field = (\<lambda>(k, v). checks
     [fail_if (\<not> normal_line k) (ValueError (label @ '' '' @ field @ '' keys must be normalized strings'')),
      fail_if (\<not> finite_scalar v) (ValueError (label @ '' '' @ field @ '' values must be finite JSON scalars'')),
      fail_if (is_str v \<and> \<not> normal_text (str_of v)) (ValueError (label @ '' '' @ field @ '' string values must be normalized''))])"

text \<open>The keys of a decoded object are distinct, so the copy made key by key is the object; it is then sorted.\<close>

definition normal_mapping :: "string \<Rightarrow> string \<Rightarrow> json \<Rightarrow> (path_error, jobj) result" where
  "normal_mapping label field v =
    (let d = obj_of v in
     if \<not> is_obj v \<or> (field = ''required_output'' \<and> d = []) \<or> length d > max_required_test_case_fields
     then bad (label @ '' '' @ field @ '' must be an object with at most '' @ nat_repr max_required_test_case_fields @ '' fields'')
     else bind_r (checks (map (check_field label field) d)) (\<lambda>_. Inr (sort_key fst d)))"

definition normal_case :: "string \<Rightarrow> json list \<Rightarrow> nat \<times> json \<Rightarrow> (path_error, json list) result" where
  "normal_case label done = (\<lambda>(n, item).
    let lab = label @ '' case #'' @ nat_repr n; d = obj_of item; name = dget d ''name'' in
    if \<not> is_obj item \<or> keys d \<noteq> {''name'', ''period'', ''input'', ''required_output''}
    then bad (lab @ '' must contain exactly name, period, input, and required_output'')
    else if \<not> normal_str normal_line name then bad (lab @ '' name must be a normalized string'')
    else if list_ex (\<lambda>c. dget (obj_of c) ''name'' = name) done then bad (label @ '' case names must be unique'')
    else bind_r (check_period lab (dget d ''period'')) (\<lambda>_.
      bind_r (normal_mapping lab ''input'' (dget d ''input'')) (\<lambda>inp.
      bind_r (normal_mapping lab ''required_output'' (dget d ''required_output'')) (\<lambda>out.
        Inr (done @ [JObj [(''name'', name), (''period'', normal_period (obj_of (dget d ''period''))),
                           (''input'', JObj inp), (''required_output'', JObj out)]])))))"

definition normalize_required_test_cases :: "json \<Rightarrow> string \<Rightarrow> (path_error, json list) result" where
  "normalize_required_test_cases v label =
    (if \<not> is_arr v \<or> length (arr_of v) > max_required_test_cases
     then bad (label @ '' must be an array with at most '' @ nat_repr max_required_test_cases @ '' entries'')
     else for_each (normal_case label) [] (enumerate 1 (arr_of v)))"

section \<open>The size of the review contract\<close>

text \<open>\<open>json.dumps(payload, ensure_ascii=False, separators=(",", ":"))\<close>.\<close>

definition raw_char :: "char \<Rightarrow> string" where
  "raw_char c = (if code c < 127 then esc_char c else [c])"

definition raw_str :: "string \<Rightarrow> string" where
  "raw_str s = [CHR 0x22] @ concat (map raw_char s) @ [CHR 0x22]"

primrec print_raw :: "json \<Rightarrow> string" where
  "print_raw JNull = ''null''"
| "print_raw (JBool b) = (if b then ''true'' else ''false'')"
| "print_raw (JInt i) = int_repr i"
| "print_raw (JFloat t) = t"
| "print_raw (JStr s) = raw_str s"
| "print_raw (JArr xs) = [CHR ''['' ] @ join '','' (map print_raw xs) @ [CHR '']'' ]"
| "print_raw (JObj d) = [CHR ''{'' ] @ join '','' (map (\<lambda>(k, t). raw_str k @ [CHR '':'' ] @ t) (map (map_prod id print_raw) d)) @ [CHR ''}'' ]"

definition review_contract :: "string \<Rightarrow> ppath \<Rightarrow> json list \<Rightarrow> json list \<Rightarrow> json" where
  "review_contract citation p contracts cases = JObj
    ([(''schema'', JStr (if cases \<noteq> [] then ''axiom-encode/review-contract/v2'' else ''axiom-encode/review-contract/v1'')),
      (''citation'', JStr citation), (''rulespec_path'', JStr (path_str p)), (''required_deferred_outputs'', JArr contracts)]
     @ (if cases \<noteq> [] then [(''required_test_cases'', JArr cases)] else []))"

definition validate_wrapped_review_contract_size ::
    "string \<Rightarrow> ppath \<Rightarrow> json list \<Rightarrow> json list \<Rightarrow> string \<Rightarrow> (path_error, unit) result" where
  "validate_wrapped_review_contract_size citation p contracts cases label =
    fail_if ((contracts \<noteq> [] \<or> cases \<noteq> [])
        \<and> length (utf8_encode (print_raw (review_contract citation p contracts cases))) > max_review_contract_json_bytes)
      (ValueError (label @ '' wrapped review contract exceeds the maximum input size''))"

section \<open>The inventory of a target\<close>

text \<open>One entry of \<open>git ls-files --stage\<close> for exactly this path, as a regular file.\<close>

definition staged_exactly :: "string list \<Rightarrow> ppath \<Rightarrow> bool" where
  "staged_exactly lines p \<longleftrightarrow> length lines = 1 \<and> prefix ''100644 '' (hd lines)
     \<and> (if CHR 0x09 \<in> set (hd lines) then after CHR 0x09 (hd lines) else hd lines) = path_str p"

definition stage_lines :: "bundle_world \<Rightarrow> ppath \<Rightarrow> string \<Rightarrow> (path_error, string list) result" where
  "stage_lines W p msg = (case bw_git W [''ls-files'', ''--stage'', ''--'', path_str p] of None \<Rightarrow> bad msg
     | Some b \<Rightarrow> value_error_as msg (bind_r (decoded b) (\<lambda>t. Inr (split_lines t))))"

definition at_head :: "ppath \<Rightarrow> string list" where
  "at_head p = [''show'', ''HEAD:'' @ path_str p]"

text \<open>The bytes of a file that is tracked and unchanged since \<open>HEAD\<close>.\<close>

definition unchanged_bytes :: "bundle_world \<Rightarrow> ppath \<Rightarrow> string \<Rightarrow> nat \<Rightarrow> (path_error, string) result" where
  "unchanged_bytes W p label max_bytes =
    bind_r (read_bounded_regular W p label max_bytes) (\<lambda>raw.
      case bw_git W (at_head p) of None \<Rightarrow> bad (label @ '' is absent from HEAD'')
      | Some base \<Rightarrow> if raw \<noteq> base then bad (label @ '' differs from HEAD'') else Inr raw)"

definition tracked_bytes :: "bundle_world \<Rightarrow> ppath \<Rightarrow> string \<Rightarrow> nat \<Rightarrow> (path_error, string) result" where
  "tracked_bytes W p label max_bytes =
    (let msg = label @ '' must be exactly tracked 100644'' in
     bind_r (stage_lines W p msg) (\<lambda>lines. if \<not> staged_exactly lines p then bad msg else unchanged_bytes W p label max_bytes))"

definition rulespec_bytes_limit :: nat where "rulespec_bytes_limit = 10 * 1024 * 1024"
definition manifest_bytes_limit :: nat where "manifest_bytes_limit = 1024 * 1024"

definition companion_digest :: "bundle_world \<Rightarrow> string \<Rightarrow> ppath \<Rightarrow> (path_error, json) result" where
  "companion_digest W citation p =
    (let label = ''canonical refresh companion for '' @ citation in
     bind_r (stage_lines W p (label @ '' tracked state cannot be determined'')) (\<lambda>lines.
       if lines \<noteq> [] then
         (if \<not> staged_exactly lines p then bad (label @ '' must be exactly tracked 100644'')
          else bind_r (unchanged_bytes W p label rulespec_bytes_limit) (\<lambda>raw. Inr (JStr (bw_sha256 W raw))))
       else if bw_present W p \<or> bw_node W p = Link then bad (label @ '' is untracked'')
       else case bw_git W [''ls-tree'', ''--full-tree'', ''-z'', ''HEAD'', ''--'', path_str p] of
         None \<Rightarrow> Inl CalledProcessError
       | Some out \<Rightarrow> if out \<noteq> [] then bad (label @ '' differs from HEAD'') else Inr JNull))"

text \<open>\<open>for item in v or []\<close>.\<close>

definition iterate :: "json \<Rightarrow> (path_error, json list) result" where
  "iterate v = (if \<not> truthy v then Inr [] else case v of JArr xs \<Rightarrow> Inr xs | JObj d \<Rightarrow> Inr (map (JStr \<circ> fst) d)
     | JStr s \<Rightarrow> Inr (map (\<lambda>c. JStr [c]) s) | _ \<Rightarrow> Inl TypeError)"

definition model_apply_tool :: string where "model_apply_tool = ''axiom-encode encode --apply''"

definition load_manifest :: "bundle_world \<Rightarrow> string \<Rightarrow> string \<Rightarrow> (path_error, json) result" where
  "load_manifest W msg raw = bind_r (value_error_as msg (decoded raw)) (\<lambda>t.
     case loads (lenient_conf W) (bw_depth W) t of Inr v \<Rightarrow> Inr v
     | Inl DecodeError \<Rightarrow> bad msg | Inl RecursionLimit \<Rightarrow> bad msg
     | Inl IntLimit \<Rightarrow> bad int_limit_message | Inl _ \<Rightarrow> Inl OutsideText)"

definition covers_target :: "jobj \<Rightarrow> string \<Rightarrow> ppath \<Rightarrow> string \<Rightarrow> bool" where
  "covers_target m citation p sha \<longleftrightarrow>
     dget m ''schema_version'' = JStr ''axiom-encode/applied-rulespec/v5'' \<and> dget m ''tool'' = JStr model_apply_tool
     \<and> dget m ''citation'' = JStr citation \<and> is_arr (dget m ''applied_files'')
     \<and> (let entries = filter (\<lambda>x. is_obj x \<and> dget (obj_of x) ''path'' = JStr (path_str p)) (arr_of (dget m ''applied_files'')) in
        length entries = 1 \<and> dget (obj_of (hd entries)) ''sha256'' = JStr sha)"

definition canonical_refresh_target_inventory ::
    "bundle_world \<Rightarrow> string \<Rightarrow> ppath \<Rightarrow> json \<Rightarrow> json list \<Rightarrow> json list \<Rightarrow> (path_error, jobj) result" where
  "canonical_refresh_target_inventory W citation p review_finding contracts cases =
    (let mp = manifest_path_of p; cp = companion_path p in
     bind_r (tracked_bytes W p (''canonical refresh RuleSpec for '' @ citation) rulespec_bytes_limit) (\<lambda>raw.
     bind_r (tracked_bytes W mp (''canonical refresh manifest for '' @ citation) manifest_bytes_limit) (\<lambda>mraw.
     bind_r (companion_digest W citation cp) (\<lambda>companion.
     bind_r (load_manifest W (''canonical refresh manifest for '' @ citation @ '' is invalid JSON'') mraw) (\<lambda>m.
     bind_r (iterate (if is_obj m then dget (obj_of m) ''applied_files'' else JNull)) (\<lambda>_.
     if \<not> is_obj m \<or> \<not> covers_target (obj_of m) citation p (bw_sha256 W raw)
     then bad (''canonical refresh manifest for '' @ citation @ '' does not structurally cover the requested target'')
     else Inr [(''citation'', JStr citation), (''review_finding'', review_finding),
       (''deferred_output_contracts'', JArr contracts), (''required_test_cases'', JArr cases),
       (''rulespec_path'', JStr (path_str p)), (''rulespec_sha256'', JStr (bw_sha256 W raw)),
       (''companion_path'', JStr (path_str cp)), (''companion_sha256'', companion),
       (''manifest_path'', JStr (path_str mp)), (''manifest_sha256'', JStr (bw_sha256 W mraw))]))))))"

section \<open>The refresh bundle\<close>

record refresh_request =
  rq_citation :: string
  rq_path :: ppath
  rq_finding :: json
  rq_contracts :: "json list"
  rq_cases :: "json list"

definition normal_contract :: "string \<Rightarrow> json list \<Rightarrow> nat \<times> json \<Rightarrow> (path_error, json list) result" where
  "normal_contract label done = (\<lambda>(n, contract).
    let lab = label @ '' deferred output contract #'' @ nat_repr n; d = obj_of contract; output = dget d ''output'' in
    if \<not> is_obj contract \<or> keys d \<noteq> {''output'', ''reason''} then bad (lab @ '' must contain exactly output and reason'')
    else if list_ex (\<lambda>f. \<not> normal_str (\<lambda>s. s \<noteq> [] \<and> normal_text s) f) [output, dget d ''reason'']
    then bad (lab @ '' fields must be nonempty normalized strings'')
    else if list_ex (\<lambda>c. dget (obj_of c) ''output'' = output) done
    then bad (label @ '' deferred output contract outputs must be unique'')
    else Inr (done @ [JObj [(''output'', output), (''reason'', dget d ''reason'')]]))"

definition get_or_empty_list :: "jobj \<Rightarrow> string \<Rightarrow> json" where
  "get_or_empty_list d k = (case map_of d k of None \<Rightarrow> JArr [] | Some v \<Rightarrow> v)"

definition normal_finding :: "json \<Rightarrow> bool" where
  "normal_finding v \<longleftrightarrow> v = JNull \<or> normal_str (\<lambda>s. s \<noteq> [] \<and> normal_text s) v"

definition printable_str :: "json \<Rightarrow> bool" where
  "printable_str v \<longleftrightarrow> normal_str (\<lambda>s. s \<noteq> [] \<and> list_all (\<lambda>c. \<not> control_char c) s) v"

definition admit_refresh :: "string \<Rightarrow> refresh_request list \<Rightarrow> nat \<times> json \<Rightarrow> (path_error, refresh_request list) result" where
  "admit_refresh primary_jur requested = (\<lambda>(n, value).
    let label = ''canonical refresh addition #'' @ nat_repr n; d = obj_of value;
        required = {''citation'', ''replace_rulespec_path''};
        optional = {''review_finding'', ''deferred_output_contracts'', ''required_test_cases''};
        citation0 = dget d ''citation''; raw_path = dget d ''replace_rulespec_path''; finding = dget d ''review_finding'';
        contracts0 = get_or_empty_list d ''deferred_output_contracts'' in
    if \<not> is_obj value \<or> \<not> required \<subseteq> keys d \<or> \<not> keys d \<subseteq> required \<union> optional
    then bad (label @ '' must contain citation and replace_rulespec_path, with only optional review_finding, ''
              @ ''deferred_output_contracts, and required_test_cases fields'')
    else bind_r (normalize_required_test_cases (get_or_empty_list d ''required_test_cases'') (label @ '' required test cases'')) (\<lambda>cases.
    if \<not> normal_str normal_line citation0 \<or> \<not> printable_str raw_path
    then bad (label @ '' fields must be nonempty canonical strings'')
    else if \<not> normal_finding finding then bad (label @ '' review_finding must be a nonempty normalized string'')
    else if \<not> is_arr contracts0 \<or> length (arr_of contracts0) > max_deferred_output_contracts
    then bad (label @ '' deferred_output_contracts must be an array with at most ''
              @ nat_repr max_deferred_output_contracts @ '' entries'')
    else bind_r (for_each (normal_contract label) [] (enumerate 1 (arr_of contracts0))) (\<lambda>contracts.
    bind_r (value_error_as (label @ '' citation must be an exact canonical corpus citation path'')
        (require_canonical (str_of citation0))) (\<lambda>citation.
    bind_r (citation_parts_path citation) (\<lambda>(jur, _).
    if jur \<noteq> primary_jur then bad ''canonical refresh targets must use the primary citation jurisdiction and country''
    else bind_r (safe_relative_path raw_path (label @ '' RuleSpec path'')) (\<lambda>p.
    bind_r (citation_rulespec_path citation) (\<lambda>expected.
    if p \<noteq> expected then bad (label @ '' path must equal the citation's canonical RuleSpec path'')
    else bind_r (validate_wrapped_review_contract_size citation p contracts cases label) (\<lambda>_.
    if citation \<in> rq_citation ` set requested \<or> p \<in> rq_path ` set requested
    then bad ''canonical refresh citations and paths must be unique''
    else Inr (requested @ [\<lparr>rq_citation = citation, rq_path = p, rq_finding = finding, rq_contracts = contracts,
                            rq_cases = cases\<rparr>])))))))))"

definition primary_request :: "bundle_world \<Rightarrow> string \<Rightarrow> string \<Rightarrow> json list \<Rightarrow> (path_error, refresh_request) result" where
  "primary_request W primary_citation primary_path cases =
    bind_r (value_error_as ''canonical refresh primary citation must be an exact canonical corpus citation path''
        (require_canonical primary_citation)) (\<lambda>citation.
    bind_r (citation_parts_path citation) (\<lambda>(jur, _).
    if path_name (bw_root W) \<noteq> repository_name jur
    then bad (''repository directory must match the primary citation country: '' @ repository_name jur)
    else bind_r (safe_relative_path (JStr primary_path) ''canonical refresh primary RuleSpec'') (\<lambda>p.
    bind_r (citation_rulespec_path citation) (\<lambda>expected.
    if p \<noteq> expected then bad ''canonical refresh primary path must equal the citation's canonical RuleSpec path''
    else bind_r (validate_wrapped_review_contract_size citation p [] cases ''canonical refresh primary'') (\<lambda>_.
      Inr \<lparr>rq_citation = citation, rq_path = p, rq_finding = JNull, rq_contracts = [], rq_cases = cases\<rparr>)))))"

definition parse_canonical_refresh_bundle ::
    "bundle_world \<Rightarrow> string \<Rightarrow> string \<Rightarrow> string \<Rightarrow> string \<Rightarrow> (path_error, jobj list) result" where
  "parse_canonical_refresh_bundle W text primary_citation primary_path cases_text =
    (if length (utf8_encode text) > max_source_bundle_json_bytes
     then bad ''canonical refresh bundle JSON exceeds the maximum input size''
     else bind_r (load_unambiguous_json W ''canonical refresh bundle JSON'' text) (\<lambda>payload.
     if \<not> is_arr payload then bad ''canonical refresh bundle JSON must be an array''
     else if length (arr_of payload) > max_canonical_refresh_bundle_citations
     then bad (''canonical refresh bundle and its primary contain more than ''
               @ nat_repr max_source_bundle_citations @ '' modules'')
     else if length (utf8_encode cases_text) > max_review_contract_json_bytes
     then bad ''primary required test cases JSON exceeds the maximum input size''
     else bind_r (load_unambiguous_json W ''primary required test cases JSON'' cases_text) (\<lambda>cases_value.
     bind_r (normalize_required_test_cases cases_value ''primary required test cases'') (\<lambda>cases.
     if arr_of payload = [] \<and> cases = [] then Inr []
     else bind_r (primary_request W primary_citation primary_path cases) (\<lambda>primary.
     bind_r (for_each (admit_refresh (before CHR ''/'' (rq_citation primary))) [primary] (enumerate 1 (arr_of payload))) (\<lambda>requested.
       map_r (\<lambda>q. canonical_refresh_target_inventory W (rq_citation q) (rq_path q) (rq_finding q) (rq_contracts q) (rq_cases q))
         requested))))))"

section \<open>Verification before the lane\<close>

definition target_fields :: "string set" where
  "target_fields = {''citation'', ''rulespec_path'', ''rulespec_sha256'', ''companion_path'', ''companion_sha256'', ''manifest_path'',
     ''manifest_sha256'', ''review_finding'', ''deferred_output_contracts'', ''required_test_cases''}"

definition contract_ok :: "json \<Rightarrow> bool" where
  "contract_ok c \<longleftrightarrow> is_obj c \<and> keys (obj_of c) = {''output'', ''reason''}
     \<and> list_all (\<lambda>f. normal_str (\<lambda>s. s \<noteq> [] \<and> normal_text s) (dget (obj_of c) f)) [''output'', ''reason'']"

definition digest_str :: "json \<Rightarrow> bool" where
  "digest_str v \<longleftrightarrow> normal_str (hex_of_length 64) v"

definition well_formed_target :: "json \<Rightarrow> json list \<Rightarrow> bool" where
  "well_formed_target v cases \<longleftrightarrow>
    (let t = obj_of v; contracts = dget t ''deferred_output_contracts'' in
     is_obj v \<and> keys t = target_fields
     \<and> list_all (\<lambda>f. normal_str (\<lambda>s. s \<noteq> []) (dget t f))
         [''citation'', ''rulespec_path'', ''rulespec_sha256'', ''companion_path'', ''manifest_path'', ''manifest_sha256'']
     \<and> (dget t ''companion_sha256'' = JNull \<or> digest_str (dget t ''companion_sha256''))
     \<and> digest_str (dget t ''rulespec_sha256'') \<and> digest_str (dget t ''manifest_sha256'')
     \<and> is_arr contracts \<and> length (arr_of contracts) \<le> max_deferred_output_contracts
     \<and> list_all contract_ok (arr_of contracts) \<and> distinct (map (\<lambda>c. dget (obj_of c) ''output'') (arr_of contracts))
     \<and> py_eq (JArr cases) (dget t ''required_test_cases'') \<and> normal_finding (dget t ''review_finding''))"

definition require_digest :: "bundle_world \<Rightarrow> ppath \<Rightarrow> json \<Rightarrow> string \<Rightarrow> nat \<Rightarrow> string \<Rightarrow> (path_error, unit) result" where
  "require_digest W p digest label max_bytes msg =
    bind_r (read_bounded_regular W p label max_bytes) (\<lambda>raw. fail_if (JStr (bw_sha256 W raw) \<noteq> digest) (ValueError msg))"

definition require_companion :: "bundle_world \<Rightarrow> ppath \<Rightarrow> json \<Rightarrow> (path_error, unit) result" where
  "require_companion W cp digest =
    (let changed = ''canonical refresh target companion changed before its signed refresh lane'' in
     if digest = JNull then fail_if (bw_present W cp \<or> bw_node W cp = Link) (ValueError changed)
     else require_digest W cp digest ''canonical refresh target companion'' rulespec_bytes_limit changed)"

definition malformed_message :: string where
  "malformed_message = ''canonical refresh target inventory is malformed''"

definition verify_refresh_value :: "bundle_world \<Rightarrow> json \<Rightarrow> (path_error, jobj) result" where
  "verify_refresh_value W v =
    (let t = obj_of v in
     bind_r (value_error_as malformed_message (normalize_required_test_cases
         (if is_obj v then dget t ''required_test_cases'' else JNull) ''canonical refresh target required test cases'')) (\<lambda>cases.
     if \<not> well_formed_target v cases then bad malformed_message else
     bind_r (safe_relative_path (dget t ''rulespec_path'') ''canonical refresh target RuleSpec'') (\<lambda>p.
     bind_r (safe_relative_path (dget t ''manifest_path'') ''canonical refresh target manifest'') (\<lambda>mp.
     bind_r (safe_relative_path (dget t ''companion_path'') ''canonical refresh target companion'') (\<lambda>cp.
     bind_r (validate_wrapped_review_contract_size (str_of (dget t ''citation'')) p (arr_of (dget t ''deferred_output_contracts'')) cases
        ''canonical refresh target'') (\<lambda>_.
     bind_r (citation_rulespec_path (str_of (dget t ''citation''))) (\<lambda>expected.
     if expected \<noteq> p \<or> manifest_path_of p \<noteq> mp \<or> companion_path p \<noteq> cp
     then bad ''canonical refresh target inventory paths are inconsistent'' else
     bind_r (require_digest W p (dget t ''rulespec_sha256'') ''canonical refresh target RuleSpec'' rulespec_bytes_limit
        ''canonical refresh target RuleSpec changed before its signed refresh lane'') (\<lambda>_.
     bind_r (require_digest W mp (dget t ''manifest_sha256'') ''canonical refresh target manifest'' manifest_bytes_limit
        ''canonical refresh target manifest changed before its signed refresh lane'') (\<lambda>_.
     bind_r (require_companion W cp (dget t ''companion_sha256''))
       (\<lambda>_. Inr t))))))))))"

definition verify_canonical_refresh_target :: "bundle_world \<Rightarrow> string \<Rightarrow> (path_error, jobj) result" where
  "verify_canonical_refresh_target W text =
    (case loads (unique_conf W) (bw_depth W) text of
       Inl HookError \<Rightarrow> bad ''canonical refresh target contains duplicate JSON key''
     | Inl IntLimit \<Rightarrow> bad int_limit_message
     | Inl OutsideModel \<Rightarrow> Inl OutsideText
     | Inl _ \<Rightarrow> bad ''canonical refresh target is invalid JSON''
     | Inr v \<Rightarrow> verify_refresh_value W v)"

end
