(* ===== verification/Citation_Facts.thy ===== *)
theory Citation_Facts
  imports Citation_Paths
begin

text \<open>
  What the citation functions guarantee: the machine identity of a corpus document is accepted exactly when it has
  the canonical form \<open>canonical_citation\<close>, and the module of a canonical citation lies below the directory of its
  jurisdiction, whatever the citation contains. Two examples record where the free-text parsers go astray.
\<close>

section \<open>Canonical citation paths\<close>

text \<open>The form a citation path must have, stated on the text itself: neither the parsers nor the test of unsafe segments
  are mentioned, since the forms of jurisdiction, class and hierarchy exclude every unsafe character.\<close>

definition canonical_citation :: "string \<Rightarrow> bool" where
  "canonical_citation s \<longleftrightarrow> (let parts = split_on CHR ''/'' s in
     length s \<le> 4096 \<and> 2 \<le> length parts \<and> length parts \<le> 64 \<and> list_all (\<lambda>p. length p \<le> 512) parts
     \<and> jurisdiction_re (hd parts) \<and> parts ! 1 \<in> set corpus_classes \<and> list_all hierarchy_re (drop 2 parts)
     \<and> \<not> is_space (last s))"

lemma strip_slashes_length: "length (strip_slashes s) \<le> length s"
  unfolding strip_slashes_def by (metis length_dropWhile_le length_rev order.trans)

lemma strip_length: "length (strip s) \<le> length s"
  unfolding strip_def by (metis length_dropWhile_le length_rev order.trans)

lemma strip_id_iff: "strip s = s \<longleftrightarrow> s = [] \<or> (\<not> is_space (hd s) \<and> \<not> is_space (last s))"
proof (cases s)
  case (Cons c cs)
  have shorter: "length (rev (dropWhile is_space (rev t))) \<le> length t" for t :: string
    by (metis length_dropWhile_le length_rev)
  show ?thesis
  proof (cases "is_space c")
    case True
    then have "length (strip s) \<le> length cs"
      using shorter[of "dropWhile is_space cs"] length_dropWhile_le[of is_space cs] by (simp add: strip_def Cons)
    then show ?thesis using True Cons by auto
  next
    case False
    have "rev (dropWhile is_space (rev s)) = s \<longleftrightarrow> \<not> is_space (last s)"
    proof (cases "is_space (last s)")
      case True
      then have "dropWhile is_space (rev s) \<noteq> rev s" using Cons by (simp add: dropWhile_eq_self_iff hd_rev del: rev.simps)
      then show ?thesis using True by (metis rev_rev_ident)
    next
      case nb: False
      then have "dropWhile is_space (rev s) = rev s" using Cons by (simp add: dropWhile_eq_self_iff hd_rev del: rev.simps)
      then show ?thesis using nb by simp
    qed
    then show ?thesis using False Cons by (simp add: strip_def)
  qed
qed (simp add: strip_def)

lemma dropWhile_same_length: "length (dropWhile P s) = length s \<Longrightarrow> dropWhile P s = s"
  by (metis suffix_dropWhile suffix_def append_Nil append_eq_append_conv)

lemma strip_same_length: "length (strip s) = length s \<Longrightarrow> strip s = s"
proof -
  assume l: "length (strip s) = length s"
  have "length (strip s) \<le> length (dropWhile is_space s)" unfolding strip_def by (metis length_dropWhile_le length_rev)
  then have d: "dropWhile is_space s = s" using l length_dropWhile_le[of is_space s] by (intro dropWhile_same_length) simp
  then have "dropWhile is_space (rev s) = rev s" using l by (intro dropWhile_same_length) (simp add: strip_def)
  then show ?thesis using d by (simp add: strip_def)
qed

lemma split_on_hd_last:
  assumes "\<forall>p\<in>set (split_on c s). p \<noteq> []"
  shows "s \<noteq> []" "hd s = hd (hd (split_on c s))" "last s = last (last (split_on c s))" "hd s \<noteq> c" "last s \<noteq> c"
proof -
  obtain p ps where ps: "split_on c s = p # ps" by (cases "split_on c s") auto
  then have s: "s = join [c] (p # ps)" by (metis join_split_on)
  have ne: "p \<noteq> []" "\<forall>q\<in>set ps. q \<noteq> []" using assms ps by auto
  have no: "c \<notin> set q" if "q \<in> set (p # ps)" for q using that split_on_parts ps by metis
  have "join [c] (p # ps) \<noteq> []" "hd (join [c] (p # ps)) = hd p" using ne by (cases ps; simp)+
  then show "s \<noteq> []" and h: "hd s = hd (hd (split_on c s))" unfolding ps using s by (metis list.sel(1))+
  have "last (join [c] (q # qs)) = last (last (q # qs))" if "q \<noteq> []" "\<forall>r\<in>set qs. r \<noteq> []" for q qs
    using that
  proof (induction qs arbitrary: q)
    case (Cons r rs)
    moreover have "join [c] (r # rs) \<noteq> []" using Cons.prems by (cases rs) auto
    ultimately show ?case by (simp add: join_Cons)
  qed simp
  then show l: "last s = last (last (split_on c s))" using s ps ne by simp
  show "hd s \<noteq> c" using h ps ne(1) no[of p] hd_in_set[of p] by auto
  have "last (p # ps) \<in> set (p # ps)" by (rule last_in_set) simp
  then have "last (p # ps) \<noteq> []" "c \<notin> set (last (p # ps))" using ne no by auto
  then show "last s \<noteq> c" using l ps last_in_set[of "last (p # ps)"] by auto
qed

lemma strip_slashes_keep: "s \<noteq> [] \<Longrightarrow> hd s \<noteq> CHR ''/'' \<Longrightarrow> last s \<noteq> CHR ''/'' \<Longrightarrow> strip_slashes s = s"
proof -
  assume "s \<noteq> []" "hd s \<noteq> CHR ''/''" "last s \<noteq> CHR ''/''"
  then have "dropWhile (\<lambda>c. c = CHR ''/'') s = s" "dropWhile (\<lambda>c. c = CHR ''/'') (rev s) = rev s"
    by (simp_all add: dropWhile_eq_self_iff hd_rev)
  then show ?thesis by (simp add: strip_slashes_def)
qed

lemma jurisdiction_letters: "jurisdiction_re s \<Longrightarrow> c \<in> set s \<Longrightarrow> is_lower c \<or> c = CHR ''-''"
proof -
  have "set (join [d] ps) \<subseteq> insert d (\<Union>(set ` set ps))" for d :: char and ps
    by (induction ps rule: induct_list012) auto
  from this[of "CHR ''-''" "split_on CHR ''-'' s"] show "jurisdiction_re s \<Longrightarrow> c \<in> set s \<Longrightarrow> ?thesis"
    by (force simp: jurisdiction_re_def Let_def list_all_iff)
qed

lemma jurisdiction_not_Nil: "jurisdiction_re s \<Longrightarrow> s \<noteq> []"
  by (auto simp: jurisdiction_re_def)

lemma is_lower_no_space: "is_lower c \<Longrightarrow> \<not> is_space c" "\<not> is_space CHR ''-''"
  by (auto simp: is_lower_def is_space_def)

lemma safe_corpus_not_Nil: "safe_corpus_segment p \<Longrightarrow> p \<noteq> []"
  by (simp add: safe_corpus_segment_def)

lemma normalize_Inr:
  "normalize_citation_path s = Inr c \<longleftrightarrow> (let n = strip_slashes (strip s); parts = split_on CHR ''/'' n in
     c = n \<and> n \<noteq> [] \<and> length s \<le> max_citation_length \<and> 2 \<le> length parts \<and> length parts \<le> max_citation_segments
     \<and> list_all safe_corpus_segment parts \<and> jurisdiction_re (hd parts) \<and> parts ! 1 \<in> set corpus_classes
     \<and> list_all hierarchy_re (drop 2 parts))"
proof -
  define n where "n = strip_slashes (strip s)"
  define parts where "parts = (if n = [] then [] else split_on CHR ''/'' n)"
  have "normalize_citation_path s = Inr c \<longleftrightarrow> length s \<le> max_citation_length \<and> length parts \<le> max_citation_segments \<and> 2 \<le> length parts
     \<and> (\<forall>p\<in>set parts. safe_corpus_segment p) \<and> parts ! 1 \<in> set corpus_classes \<and> jurisdiction_re (hd parts)
     \<and> (\<forall>p\<in>set (drop 2 parts). hierarchy_re p) \<and> c = join ''/'' parts"
    unfolding normalize_citation_path_def n_def[symmetric] Let_def parts_def[symmetric] bind_r_Inr_iff checks_append_Inr
      checks_map_fail checks_Cons_Inr fail_if_Inr checks.simps(1) not_not not_less Inr_inject by blast
  then show ?thesis unfolding n_def[symmetric] Let_def list_all_iff by (cases "n = []") (auto simp: parts_def)
qed

definition segment_char :: "char \<Rightarrow> bool" where
  "segment_char c \<longleftrightarrow> is_alnum c \<or> c \<in> set '' .:-''"

lemma unsafe_chars: "segment_char c \<Longrightarrow> c \<notin> {CHR ''/'', CHR 0x5C, CHR 0x00, CHR ''*'', CHR ''%''}"
  by (auto simp: segment_char_def is_alnum_def is_lower_def is_upper_def is_digit_def)

lemma shaped_segment:
  "p \<noteq> [] \<Longrightarrow> hd p \<noteq> CHR ''.'' \<Longrightarrow> list_all segment_char p \<Longrightarrow> safe_corpus_segment p \<longleftrightarrow> length p \<le> 512"
proof -
  assume a: "p \<noteq> []" "hd p \<noteq> CHR ''.''" "list_all segment_char p"
  have "\<forall>c\<in>set p. c \<noteq> CHR ''/'' \<and> c \<noteq> CHR 0x5C \<and> c \<noteq> CHR 0x00 \<and> c \<noteq> CHR ''*'' \<and> c \<noteq> CHR ''%''"
    using a(3) unsafe_chars unfolding list_all_iff by blast
  moreover have "p \<notin> {'''', ''.'', ''..''}" using a(1,2) by auto
  ultimately show ?thesis unfolding safe_corpus_segment_def max_segment_length_def list_all_iff by blast
qed

lemma dot_no_alnum: "\<not> is_alnum CHR ''.''"
  by (simp add: is_alnum_def is_lower_def is_upper_def is_digit_def)

lemma hierarchy_shape: "hierarchy_re p \<Longrightarrow> safe_corpus_segment p \<longleftrightarrow> length p \<le> 512"
proof (rule shaped_segment)
  assume h: "hierarchy_re p"
  then show ne: "p \<noteq> []" by (simp add: hierarchy_re_def)
  show "hd p \<noteq> CHR ''.''" using h dot_no_alnum unfolding hierarchy_re_def by metis
  show "list_all segment_char p" using h by (cases p) (auto simp only: hierarchy_re_def list.sel segment_char_def list_all_iff list.set insert_iff)
qed

lemma jurisdiction_shape: "jurisdiction_re p \<Longrightarrow> safe_corpus_segment p \<longleftrightarrow> length p \<le> 512"
proof (rule shaped_segment)
  assume j: "jurisdiction_re p"
  then show ne: "p \<noteq> []" by (rule jurisdiction_not_Nil)
  show "hd p \<noteq> CHR ''.''" using jurisdiction_letters[OF j, of "hd p"] ne by (auto simp: is_lower_def)
  show "list_all segment_char p" unfolding list_all_iff
    using jurisdiction_letters[OF j] by (auto simp: segment_char_def is_alnum_def)
qed

lemma class_shape: "p \<in> set corpus_classes \<Longrightarrow> safe_corpus_segment p \<longleftrightarrow> length p \<le> 512"
  by (rule shaped_segment) (auto simp: corpus_classes_def segment_char_def is_alnum_def is_lower_def)

lemma canonical_citation_iff:
  "canonical_citation s \<longleftrightarrow> (let parts = split_on CHR ''/'' s in
     length s \<le> max_citation_length \<and> 2 \<le> length parts \<and> length parts \<le> max_citation_segments
     \<and> list_all safe_corpus_segment parts \<and> jurisdiction_re (hd parts) \<and> parts ! 1 \<in> set corpus_classes
     \<and> list_all hierarchy_re (drop 2 parts) \<and> \<not> is_space (last s))"
proof -
  have "list_all safe_corpus_segment parts \<longleftrightarrow> list_all (\<lambda>p. length p \<le> 512) parts"
    if "2 \<le> length parts" "jurisdiction_re (hd parts)" "parts ! 1 \<in> set corpus_classes" "list_all hierarchy_re (drop 2 parts)" for parts
  proof -
    note l = that(1)
    obtain a b cs where "parts = a # b # cs" using l by (cases parts; cases "tl parts") auto
    then show ?thesis using that jurisdiction_shape[of a] class_shape[of b] hierarchy_shape
      by (auto simp: list_all_iff)
  qed
  then show ?thesis unfolding canonical_citation_def Let_def max_citation_length_def max_citation_segments_def by blast
qed

lemma canonical_kept:
  assumes "canonical_citation s"
  shows "strip_slashes (strip s) = s" "s \<noteq> []"
proof -
  let ?ps = "split_on CHR ''/'' s"
  have "list_all safe_corpus_segment ?ps" and j: "jurisdiction_re (hd ?ps)" and l: "\<not> is_space (last s)"
    using assms by (simp_all only: canonical_citation_iff Let_def simp_thms)
  then have all: "\<forall>p\<in>set ?ps. p \<noteq> []" unfolding list_all_iff using safe_corpus_not_Nil by blast
  note ends = split_on_hd_last[OF all]
  have "hd s \<in> set (hd ?ps)" using ends(2) jurisdiction_not_Nil[OF j] by simp
  from jurisdiction_letters[OF j this] have "\<not> is_space (hd s)" by (auto simp: is_lower_no_space)
  then have "strip s = s" using l by (simp add: strip_id_iff)
  then show "strip_slashes (strip s) = s" "s \<noteq> []" using ends strip_slashes_keep by auto
qed

lemma require_canonical_iff: "require_canonical s = Inr c \<longleftrightarrow> c = s \<and> canonical_citation s"
proof
  assume "require_canonical s = Inr c"
  then have n: "normalize_citation_path s = Inr s" and c: "c = s"
    by (auto simp: require_canonical_def split: sum.splits if_splits)
  then have e: "strip_slashes (strip s) = s" by (simp add: normalize_Inr Let_def)
  then have "length (strip s) = length s" using strip_slashes_length[of "strip s"] strip_length[of s] by simp
  then have "strip s = s" using strip_same_length by simp
  then have "\<not> is_space (last s)" using n by (auto simp: strip_id_iff normalize_Inr Let_def)
  then show "c = s \<and> canonical_citation s" using n c e by (auto simp: normalize_Inr canonical_citation_iff Let_def)
next
  assume "c = s \<and> canonical_citation s"
  then have "normalize_citation_path s = Inr s" and "c = s" using canonical_kept[of s]
    by (auto simp: normalize_Inr canonical_citation_iff Let_def)
  then show "require_canonical s = Inr c" by (simp add: require_canonical_def)
qed

section \<open>The module of a citation\<close>

lemma safe_append: "safe_segment s \<Longrightarrow> CHR ''/'' \<notin> set t \<Longrightarrow> t \<notin> {''.'', []} \<Longrightarrow> hd t \<noteq> CHR ''.'' \<Longrightarrow> safe_segment (s @ t)"
  by (cases s; cases t) (auto simp: safe_segment_def append_eq_Cons_conv Cons_eq_append_conv)

lemma safe_yaml: "CHR ''/'' \<notin> set s \<Longrightarrow> safe_segment (s @ ''.yaml'')"
  by (auto simp: safe_segment_def append_eq_Cons_conv)

lemma flat_yaml_safe:
  assumes "list_all safe_segment (butlast tail)" and "CHR ''/'' \<notin> set (last tail)"
  shows "contained (flat_yaml_path tail)"
proof -
  have "filter (\<lambda>p. p \<noteq> [] \<and> p \<noteq> ''.'') (butlast tail) = butlast tail"
    using assms(1) by (auto simp: list_all_iff safe_segment_def intro!: filter_True)
  moreover have "safe_segment (last tail @ ''.yaml'')" by (rule safe_yaml[OF assms(2)])
  ultimately show ?thesis using assms(1)
    by (auto simp: flat_yaml_path_def joined_def contained_def safe_segment_def)
qed

lemma joined_safe: "list_all (\<lambda>p. CHR ''/'' \<notin> set p \<and> p \<noteq> ''..'') ps \<Longrightarrow> list_all safe_segment (joined ps)"
  by (auto simp: joined_def list_all_iff safe_segment_def)

lemma dotted_leaf_safe:
  assumes "list_all safe_segment tail" and "tail \<noteq> []"
  shows "contained (dotted_leaf_to_nested_yaml_path tail)"
proof -
  let ?leaf = "split_on CHR ''.'' (last tail)"
  have l: "safe_segment (last tail)" and b: "list_all safe_segment (butlast tail)"
    using assms by (auto simp: list_all_iff in_set_butlastD)
  have join_sub: "set (join [c] ps) \<supseteq> (\<Union>(set ` set ps))" for c :: char and ps
    by (induction ps rule: induct_list012) auto
  have leaf: "CHR ''/'' \<notin> set p \<and> CHR ''.'' \<notin> set p" if "p \<in> set ?leaf" for p
    using that split_on_parts[OF that] join_sub[of ?leaf "CHR ''.''"] l by (auto simp: safe_segment_def)
  let ?q = "butlast tail @ butlast ?leaf @ [last ?leaf @ ''.yaml'']"
  have "last ?leaf \<in> set ?leaf" by (rule last_in_set) simp
  from leaf[OF this] have e: "CHR ''/'' \<notin> set (last ?leaf @ ''.yaml'') \<and> last ?leaf @ ''.yaml'' \<noteq> ''..''"
    using safe_yaml[of "last ?leaf"] by (simp add: safe_segment_def)
  have m: "\<forall>p\<in>set (butlast ?leaf). CHR ''/'' \<notin> set p \<and> p \<noteq> ''..''" using leaf by (force dest: in_set_butlastD)
  have "list_all (\<lambda>p. CHR ''/'' \<notin> set p \<and> p \<noteq> ''..'') ?q"
    unfolding list_all_append list_all_iff using b e m by (auto simp: list_all_iff safe_segment_def)
  from joined_safe[OF this] have "contained (joined ?q)"
    by (auto simp: contained_def joined_def append_eq_Cons_conv)
  then have "contained (flat_yaml_path (butlast tail @ ?leaf))" by (simp add: flat_yaml_path_def butlast_append)
  moreover have "contained (flat_yaml_path tail)" using flat_yaml_safe[OF b] l by (simp add: safe_segment_def)
  ultimately show ?thesis by (simp add: dotted_leaf_to_nested_yaml_path_def)
qed

lemma expand_louisiana_safe:
  assumes "expand_louisiana j r tail = Inr t" and "list_all safe_segment tail"
  shows "list_all safe_segment t"
proof (cases "t = tail")
  case False
  have join_sub: "set (join [c] ps) \<supseteq> (\<Union>(set ` set ps))" for c :: char and ps
    by (induction ps rule: induct_list012) auto
  have t: "t = split_on CHR '':'' (hd tail) @ tl tail" and ne: "tail \<noteq> []" and ill: "\<not> list_ex ill_dotted t"
    using assms(1) False by (auto simp: expand_louisiana_def Let_def split: if_splits)
  have "safe_segment p" if p: "p \<in> set (split_on CHR '':'' (hd tail))" for p
  proof -
    have "CHR ''/'' \<notin> set p" using p join_sub[of "split_on CHR '':'' (hd tail)" "CHR '':''"] assms(2) ne
      by (cases tail) (auto simp: safe_segment_def)
    moreover have "\<not> ill_dotted p" using ill p t by (auto simp: list_ex_iff)
    ultimately show ?thesis by (auto simp: safe_segment_def ill_dotted_def)
  qed
  then show ?thesis using assms(2) ne t by (cases tail) (auto simp: list_all_iff)
qed (use assms(2) in simp)

lemma regulation_tail_safe: "list_all safe_segment tail \<Longrightarrow> list_all safe_segment (canonical_us_regulation_tail tail)"
proof -
  assume a: "list_all safe_segment tail"
  have sub: "set (strip s) \<subseteq> set s" for s :: string
    by (metis strip_def set_rev set_dropWhileD subsetI)
  show ?thesis using a sub
    by (cases tail) (auto simp: canonical_us_regulation_tail_def Let_def safe_segment_def append_eq_Cons_conv)
qed

lemma legislation_tail_safe: "list_all safe_segment tail \<Longrightarrow> list_all safe_segment (canonical_uk_legislation_tail tail)"
proof -
  assume a: "list_all safe_segment tail"
  define n where "n = (if tail \<noteq> [] \<and> hd tail = ''legislation.gov.uk'' then tl tail else tail)"
  have n: "set n \<subseteq> set tail" by (cases tail) (auto simp: n_def)
  have "set (canonical_uk_legislation_tail tail) \<subseteq> set n"
  proof (cases "length n \<ge> 2 \<and> map lower (last (butlast n)) \<in> {''article'', ''regulation'', ''section''}")
    case True
    moreover from this have "last n \<in> set n" by (cases n) auto
    ultimately show ?thesis unfolding canonical_uk_legislation_tail_def Let_def n_def[symmetric]
      by (auto dest: in_set_butlastD)
  next
    case False
    then show ?thesis unfolding canonical_uk_legislation_tail_def Let_def n_def[symmetric] by (simp only: if_False)
  qed
  then show ?thesis using a n by (auto simp: list_all_iff)
qed

lemma jurisdiction_path_safe:
  assumes "jurisdiction_yaml_path j token root tail = Inr (Some p)" and "list_all safe_segment tail"
  shows "\<exists>rest. p = root # rest \<and> contained rest"
proof -
  obtain t1 where t1: "expand_louisiana j root tail = Inr t1" using assms(1) by (auto simp: jurisdiction_yaml_path_def)
  define t2 where "t2 = (if j = ''us'' \<and> token \<in> {''regulation'', ''regulations''} then canonical_us_regulation_tail t1 else t1)"
  define t where "t = (if j = ''uk'' then canonical_uk_legislation_tail t2 else t2)"
  have s: "list_all safe_segment t" using expand_louisiana_safe[OF t1 assms(2)]
    by (simp add: t_def t2_def regulation_tail_safe legislation_tail_safe)
  have p: "t \<noteq> []" "p = root # (if preserve_state_statute_dotted_leaf j root t then flat_yaml_path t else dotted_leaf_to_nested_yaml_path t)"
    using assms(1) by (auto simp: jurisdiction_yaml_path_def t1 t_def t2_def Let_def split: if_splits)
  have "contained (flat_yaml_path t)" using flat_yaml_safe[of t] s p(1)
    by (auto simp: list_all_iff safe_segment_def dest: in_set_butlastD)
  then show ?thesis using p dotted_leaf_safe[OF s p(1)] by auto
qed

lemma output_root_values: "map_of output_root k = Some r \<Longrightarrow> r \<in> {''policies'', ''regulations'', ''statutes''}"
  by (auto simp: output_root_def split: if_splits)

lemma source_tokens_roots: "k \<in> set source_root_tokens \<Longrightarrow> get_or output_root k \<in> {''policies'', ''regulations'', ''statutes''}"
  by (auto simp: source_root_tokens_def output_root_def get_or_def)

lemma source_path_safe:
  assumes "source_identifier_path s = Inr p"
  shows "\<exists>root rest. p = root # rest \<and> root \<in> {''policies'', ''regulations'', ''statutes''} \<and> contained rest"
proof -
  define parts where "parts = segments (strip_slashes (strip s))"
  have dots: "\<not> list_ex (\<lambda>p. p = ''.'' \<or> p = ''..'') parts" using assms
    by (auto simp: source_identifier_path_def parts_def Let_def split: if_splits)
  then have safe: "list_all safe_segment parts"
    by (auto simp: parts_def segments_def list_all_iff list_ex_iff safe_segment_def dest: split_on_parts)
  then have tls: "list_all safe_segment (tl parts)" "list_all safe_segment (drop 2 parts)"
    by (auto simp: list_all_iff dest: in_set_dropD list.set_sel(2)) (metis list.set_sel(2) tl_Nil)+
  let ?j = "before CHR '':'' (hd parts)" and ?token = "after CHR '':'' (hd parts)"
  let ?first = "if parts \<noteq> [] \<and> CHR '':'' \<in> set (hd parts) \<and> ?token \<in> set source_root_tokens
    then jurisdiction_yaml_path ?j ?token (get_or output_root ?token) (tl parts) else Inr None"
  obtain found where f: "?first = Inr found" and rest: "(case found of Some p \<Rightarrow> Inr p | None \<Rightarrow>
      if length parts \<ge> 2 \<and> hd parts \<in> set source_root_tokens
      then let tail = (if parts ! 1 = ''legislation.gov.uk'' then canonical_uk_legislation_tail (tl parts) else tl parts)
           in if tail = [] then Inl IndexError else Inr (get_or output_root (hd parts) # dotted_leaf_to_nested_yaml_path tail)
      else if length parts \<ge> 3 \<and> map_of output_root (parts ! 1) \<noteq> None
      then bind_r (jurisdiction_yaml_path (hd parts) (parts ! 1) (the (map_of output_root (parts ! 1))) (drop 2 parts)) (\<lambda>found'.
             case found' of Some p \<Rightarrow> Inr p | None \<Rightarrow> bad (''Unsupported canonical source identifier: '' @ str_repr s))
      else bad (''Unsupported canonical source identifier: '' @ str_repr s)) = Inr p"
    using assms dots unfolding source_identifier_path_def Let_def parts_def[symmetric] if_not_P[OF dots] by (elim bind_r_InrE)
  from f rest consider
    (pre) token where "token \<in> set source_root_tokens"
      "jurisdiction_yaml_path ?j token (get_or output_root token) (tl parts) = Inr (Some p)"
  | (root) t where "hd parts \<in> set source_root_tokens" "t \<noteq> []" "t = tl parts \<or> t = canonical_uk_legislation_tail (tl parts)"
      "p = get_or output_root (hd parts) # dotted_leaf_to_nested_yaml_path t"
  | (cls) r where "map_of output_root (parts ! 1) = Some r" "jurisdiction_yaml_path (hd parts) (parts ! 1) r (drop 2 parts) = Inr (Some p)"
    by (cases found) (simp_all add: Let_def bind_r_Inr_iff split: if_split_asm option.split_asm, blast+)
  then show ?thesis
  proof cases
    case pre
    then show ?thesis using jurisdiction_path_safe[OF _ tls(1)] source_tokens_roots by blast
  next
    case root
    then have "list_all safe_segment t" using tls(1) legislation_tail_safe by blast
    then show ?thesis using dotted_leaf_safe root source_tokens_roots by blast
  next
    case cls
    then show ?thesis using jurisdiction_path_safe[OF _ tls(2)] output_root_values by blast
  qed
qed

lemma jurisdiction_path: "jurisdiction_re j \<Longrightarrow> path_of j = [j] \<and> safe_segment j"
proof -
  assume j: "jurisdiction_re j"
  have c: "is_lower c \<or> c = CHR ''-''" if "c \<in> set j" for c using that jurisdiction_letters[OF j] by blast
  have no: "CHR ''/'' \<notin> set j" "CHR ''.'' \<notin> set j" using c[of "CHR ''/''"] c[of "CHR ''.''"] by (auto simp: is_lower_def)
  then have "safe_segment j" using jurisdiction_not_Nil[OF j] by (auto simp: safe_segment_def)
  moreover have "contained [j]" using calculation by (simp add: contained_def)
  ultimately show ?thesis using path_of_str[of "[j]"] safe_not_root by (auto simp: path_str_def)
qed

lemma canonical_jurisdiction: "canonical_citation s \<Longrightarrow> jurisdiction_re (before CHR ''/'' s)"
proof -
  have "before c s = hd (split_on c s)" for c s by (induction s) (auto simp: before_def split: list.splits)
  then show "canonical_citation s \<Longrightarrow> ?thesis" by (simp add: canonical_citation_iff Let_def)
qed

text \<open>C26. A text is accepted as the machine identity of a corpus document exactly when it has the canonical form: at
  most 4096 characters, 2 to 64 segments of at most 512 characters, namely a jurisdiction, a document class and
  hierarchy labels, and no blank at its end; it is then returned unchanged. No second spelling of a document is ever accepted.\<close>

theorem canonical_identity_exact: "require_canonical s = Inr c \<longleftrightarrow> c = s \<and> canonical_citation s"
  by (rule require_canonical_iff)

lemma citation_path_shape:
  assumes "canonical_citation c" and "citation_rulespec_path c = Inr p"
  shows "\<exists>root rest. p = before CHR ''/'' c # root # rest \<and> root \<in> set atomic_roots \<and> contained p
     \<and> path_suffix (path_name p) = ''.yaml'' \<and> citation_parts_path c = Inr (before CHR ''/'' c, root # rest) \<and> contained rest"
proof -
  from assms(2) obtain j rel where cp: "citation_parts_path c = Inr (j, rel)" and p: "p = path_of j @ rel"
    by (auto simp: citation_rulespec_path_def)
  then have j: "j = before CHR ''/'' c" and rel: "resolve_eval_output_path c = Inr rel"
    and suf: "path_suffix (path_name rel) = ''.yaml''"
    by (auto simp: citation_parts_path_def split: if_splits)
  from rel obtain s where "source_identifier_path s = Inr rel"
    by (auto simp: resolve_eval_output_path_def split: if_splits)
  from source_path_safe[OF this] obtain root rest where r: "rel = root # rest" "root \<in> {''policies'', ''regulations'', ''statutes''}"
    "contained rest" by blast
  have "path_of j = [j]" "safe_segment j" using jurisdiction_path[OF canonical_jurisdiction[OF assms(1)]] j by simp_all
  moreover have "safe_segment root" using r(2) by (auto simp: safe_segment_def)
  moreover have "path_name p = path_name rel" using r by (simp add: p path_name_def)
  ultimately show ?thesis using r suf p j cp by (auto simp: contained_def atomic_roots_def)
qed

text \<open>C27. The module of a canonical citation lies below the directory of its jurisdiction, in one of the atomic roots, under
  safe path segments only, and is a YAML file: whatever a citation contains, writing its module cannot leave the
  checkout, and the written text of the path reads back as the same path.\<close>

theorem citation_module_confined:
  assumes "require_canonical c = Inr c" and "citation_rulespec_path c = Inr p"
  shows "\<exists>root rest. p = before CHR ''/'' c # root # rest \<and> root \<in> set atomic_roots \<and> rest \<noteq> [] \<and> list_all safe_segment p
     \<and> \<not> path_absolute p \<and> path_suffix (path_name p) = ''.yaml'' \<and> path_of (path_str p) = p"
proof -
  have "canonical_citation c" using assms(1) by (simp add: require_canonical_iff)
  from citation_path_shape[OF this assms(2)] show ?thesis
    by (auto simp: contained_relative path_of_str) (auto simp: contained_def)
qed

lemma citation_module_confined_witness:
  "\<exists>root rest. [''us'', ''statutes'', ''26'', ''32'', ''a.yaml''] = ''us'' # root # rest \<and> root \<in> set atomic_roots"
proof -
  have "require_canonical ''us/statute/26/32/a'' = Inr ''us/statute/26/32/a''" by code_simp
  moreover have "citation_rulespec_path ''us/statute/26/32/a'' = Inr [''us'', ''statutes'', ''26'', ''32'', ''a.yaml'']" by code_simp
  ultimately show ?thesis using citation_module_confined[of "''us/statute/26/32/a''"] by auto
qed

section \<open>Where the parsers go astray\<close>

text \<open>The pattern of USC citations admits \<open>26 U.S.C. 1\<close>, but the parser only knows the undotted spelling.\<close>

lemma dotted_usc_misread:
  "usc_match ''26 U.S.C. 1'' \<and> citation_to_corpus_path ''26 U.S.C. 1'' = Inr ''us/statute/26/U.S.C.1''
   \<and> citation_to_corpus_path ''26 USC 1'' = Inr ''us/statute/26/1''"
  by code_simp

text \<open>Stripping blanks and then slashes can expose a blank, so the normal form need not be canonical.\<close>

lemma normal_form_not_canonical:
  "normalize_citation_path ''us/statute/26 /'' = Inr ''us/statute/26 '' \<and> \<not> ok (require_canonical ''us/statute/26 '')"
  by code_simp

text \<open>A UK source identifier that is only its domain leaves nothing to name the file after.\<close>

lemma bare_domain_raises: "resolve_eval_output_path ''statutes/legislation.gov.uk'' = Inl IndexError"
  by code_simp

end
