(* ===== verification/Backfill_Facts.thy ===== *)
theory Backfill_Facts
  imports Backfill_Refresh Citation_Facts
begin

text \<open>
  What the planning operations of a signed backfill guarantee. The loops that admit untrusted entries one by one
  satisfy the contract \<open>admission\<close>: an entry is appended or the loop raises. Its consequences (every admitted entry is
  good, no key is admitted twice, nothing is dropped or reordered) are proved once and interpreted on fresh sources,
  refresh requests, deferred-output contracts, existing imports and required test cases; the last also satisfy
  \<open>stable_admission\<close>, by which normalisation is idempotent.
\<close>

section \<open>Admission loops\<close>

locale admission =
  fixes step :: "'x list \<Rightarrow> nat \<times> 'v \<Rightarrow> (path_error, 'x list) result"
    and good :: "'x \<Rightarrow> bool" and key :: "'x \<Rightarrow> 'k" and origin :: "'v \<Rightarrow> 'x \<Rightarrow> bool"
  assumes admits: "step seen (n, v) = Inr t \<Longrightarrow> \<exists>x. t = seen @ [x] \<and> good x \<and> key x \<notin> key ` set seen \<and> origin v x"
begin

lemma run:
  "for_each step seen (enumerate n vs) = Inr t \<Longrightarrow>
     \<exists>xs. t = seen @ xs \<and> list_all good xs \<and> list_all2 origin vs xs \<and> (distinct (map key seen) \<longrightarrow> distinct (map key t))"
proof (induction vs arbitrary: seen n)
  case (Cons v vs)
  from Cons.prems obtain s where "step seen (n, v) = Inr s" and rest: "for_each step s (enumerate (Suc n) vs) = Inr t"
    by (auto split: sum.splits)
  from admits[OF this(1)] obtain x where x: "s = seen @ [x]" "good x" "key x \<notin> key ` set seen" "origin v x" by blast
  from Cons.IH[OF rest] x obtain xs where "t = seen @ x # xs" "list_all good xs" "list_all2 origin vs xs"
    "distinct (map key (seen @ [x])) \<longrightarrow> distinct (map key t)" by auto
  then show ?case using x by (intro exI[of _ "x # xs"]) auto
qed simp

lemma run_all:
  assumes "for_each step [] (enumerate n vs) = Inr xs"
  shows "list_all good xs" "list_all2 origin vs xs" "distinct (map key xs)" "length xs = length vs"
  using run[OF assms] by (auto dest: list_all2_lengthD)

end

locale stable_admission = admission step good key origin
  for step :: "'x list \<Rightarrow> nat \<times> 'x \<Rightarrow> (path_error, 'x list) result" and good key and origin :: "'x \<Rightarrow> 'x \<Rightarrow> bool" +
  fixes again :: "'x list \<Rightarrow> nat \<times> 'x \<Rightarrow> (path_error, 'x list) result"
  assumes readmits: "good x \<Longrightarrow> key x \<notin> key ` set seen \<Longrightarrow> again seen (m, x) = Inr (seen @ [x])"
begin

lemma good_run:
  "list_all good xs \<Longrightarrow> distinct (map key (seen @ xs)) \<Longrightarrow> for_each again seen (enumerate m xs) = Inr (seen @ xs)"
proof (induction xs arbitrary: seen m)
  case (Cons x xs)
  then have "again seen (m, x) = Inr (seen @ [x])" by (intro readmits) auto
  then show ?case using Cons.IH[of "seen @ [x]" "Suc m"] Cons.prems by simp
qed simp

lemma rerun: "for_each step [] (enumerate n vs) = Inr xs \<Longrightarrow> for_each again [] (enumerate m xs) = Inr xs"
  using run_all[of n vs xs] good_run[of xs "[]" m] by simp

end

section \<open>Admission of the base\<close>

lemma branch_tip_Inr:
  "require_remote_branch_tip W b r = Inr u \<longleftrightarrow> git_word W [''rev-parse'', ''refs/remotes/origin/'' @ b] = Inr r"
  unfolding require_remote_branch_tip_def by (auto split: sum.splits path_error.splits)

text \<open>C32. A backfill is admitted only on the commit that was asked for and is checked out, and only if that commit is on
  main or in the list of reviewed heads of its country; a pull request is opened only onto a branch whose remote tip
  is this very commit, and that branch is main or a reviewed protected branch.\<close>

theorem admitted_base_reviewed:
  assumes "validate_rulespec_base W country requested open_pr branch = Inr mode"
  shows "hex_of_length 40 requested \<and> git_word W [''rev-parse'', ''HEAD''] = Inr requested
     \<and> (bw_git W [''merge-base'', ''--is-ancestor'', ''HEAD'', ''refs/remotes/origin/main''] \<noteq> None
        \<or> (country, requested) \<in> set reviewed_rulespec_refs)
     \<and> (open_pr \<longrightarrow> git_word W [''rev-parse'', ''refs/remotes/origin/'' @ branch] = Inr requested
        \<and> (branch = ''main'' \<or> (country, branch) \<in> set reviewed_rulespec_pr_base_branches))
     \<and> (mode = ''reviewed-head-artifact'' \<longrightarrow> \<not> open_pr)"
  using assms unfolding validate_rulespec_base_def
  by (auto elim!: bind_r_InrE split: if_splits simp: branch_tip_Inr)

section \<open>The source mode\<close>

text \<open>The dispatch input selects at most one mode: fresh sources, or a refresh of canonical modules with the cases of
  its primary. Whatever list it carries is taken over unchanged.\<close>

theorem source_mode_exclusive:
  assumes "split_atomic_source_input W text = Inr m"
  shows "(sm_sources m = [] \<or> (sm_refresh m = [] \<and> sm_cases m = []))
     \<and> length (utf8_encode text) \<le> max_source_bundle_json_bytes
     \<and> (load_unambiguous_json W ''atomic source JSON'' text = Inr (JArr (sm_sources m))
        \<or> (\<exists>d. load_unambiguous_json W ''atomic source JSON'' text = Inr (JObj d) \<and> dget d ''canonical_refresh_bundle'' = JArr (sm_refresh m)
            \<and> (keys d = {''canonical_refresh_bundle''} \<or> (dget d ''source_bundle'' = JArr (sm_sources m)
               \<and> dget d ''primary_required_test_cases'' = JArr (sm_cases m)))))"
proof -
  from assms obtain v where v: "load_unambiguous_json W ''atomic source JSON'' text = Inr v" and l: "length (utf8_encode text) \<le> max_source_bundle_json_bytes"
    unfolding split_atomic_source_input_def by (auto simp: not_less split: if_splits)
  show ?thesis
  proof (cases "is_arr v")
    case True
    have "m = \<lparr>sm_refresh = [], sm_cases = [], sm_sources = arr_of v\<rparr>"
      using assms True unfolding split_atomic_source_input_def Let_def v by (simp split: if_split_asm)
    then show ?thesis using True v l by (auto simp: is_arr_iff)
  next
    case False
    note step = assms[unfolded split_atomic_source_input_def Let_def v bind_r_simps if_not_P[OF False]]
    show ?thesis
    proof (cases "is_obj v \<and> keys (obj_of v) = {''canonical_refresh_bundle''}")
      case True
      then have "is_arr (dget (obj_of v) ''canonical_refresh_bundle'')
        \<and> m = \<lparr>sm_refresh = arr_of (dget (obj_of v) ''canonical_refresh_bundle''), sm_cases = [], sm_sources = []\<rparr>"
        using step by (simp split: if_split_asm)
      then obtain d xs where "v = JObj d" "dget d ''canonical_refresh_bundle'' = JArr xs"
        "m = \<lparr>sm_refresh = xs, sm_cases = [], sm_sources = []\<rparr>" using True unfolding is_arr_iff is_obj_iff by fastforce
      then show ?thesis using True v l by simp
    next
      case other: False
      let ?get = "\<lambda>k. dget (obj_of v) k"
      have "is_obj v \<and> list_all is_arr [?get ''canonical_refresh_bundle'', ?get ''source_bundle'', ?get ''primary_required_test_cases'']
        \<and> (arr_of (?get ''source_bundle'') = [] \<or> arr_of (?get ''canonical_refresh_bundle'') = []
           \<and> arr_of (?get ''primary_required_test_cases'') = [])
        \<and> m = \<lparr>sm_refresh = arr_of (?get ''canonical_refresh_bundle''), sm_cases = arr_of (?get ''primary_required_test_cases''),
               sm_sources = arr_of (?get ''source_bundle'')\<rparr>"
        using step[unfolded if_not_P[OF other]] by (simp only: split: if_split_asm) (simp_all only: sum.distinct Inr_inject, blast)
      moreover from this obtain d where "v = JObj d" by (auto simp: is_obj_iff)
      moreover have "is_arr x \<Longrightarrow> x = JArr (arr_of x)" for x by (cases x) auto
      ultimately show ?thesis using v l by simp
    qed
  qed
qed

section \<open>Fresh sources\<close>

definition cited_module :: "string \<Rightarrow> string \<times> ppath \<Rightarrow> bool" where
  "cited_module jur = (\<lambda>(c, p). canonical_citation c \<and> before CHR ''/'' c = jur \<and> citation_rulespec_path c = Inr p)"

lemma validate_citation_Inr:
  "validate_citation v label = Inr (c, p) \<longleftrightarrow> v = JStr c \<and> c \<noteq> [] \<and> canonical_citation c \<and> citation_rulespec_path c = Inr p"
  by (cases v) (auto simp: validate_citation_def require_canonical_iff bind_r_Inr_iff)

interpretation sources: admission "add_source jur reserved"
  "\<lambda>x. cited_module jur x \<and> fst x \<notin> fst ` set reserved \<and> snd x \<notin> snd ` set reserved" fst "\<lambda>v x. v = JStr (fst x)"
  for jur reserved
  by unfold_locales (auto simp: add_source_def validate_citation_Inr cited_module_def elim!: bind_r_InrE split: if_splits)

interpretation source_modules: admission "add_source jur reserved" "\<lambda>x. True" snd "\<lambda>v x. True" for jur reserved
  by unfold_locales (auto simp: add_source_def elim!: bind_r_InrE split: if_splits)

lemma reserved_citations:
  assumes "for_each (reserve_citation jur) [(c, p)] (enumerate n xs) = Inr reserved" and "cited_module jur (c, p)"
  shows "map fst reserved = c # xs \<and> list_all (cited_module jur) reserved"
proof -
  have "map fst reserved = c # map snd (enumerate n xs) \<and> list_all (cited_module jur) reserved"
    using assms(1)
  proof (rule for_each_rule)
    fix ys :: "(nat \<times> string) list" and y and zs :: "(nat \<times> string) list" and s s'
    assume "map fst s = c # map snd ys \<and> list_all (cited_module jur) s" "reserve_citation jur s y = Inr s'"
    then show "map fst s' = c # map snd (ys @ [y]) \<and> list_all (cited_module jur) s'"
      by (auto simp: reserve_citation_def validate_citation_Inr cited_module_def split: prod.splits if_splits elim!: bind_r_InrE)
  qed (use assms(2) in simp)
  then show ?thesis by (simp add: map_snd_enumerate)
qed

lemma parsed_sources:
  assumes "parse_source_bundle W text primary excluded = Inr cs"
  obtains pp reserved seen where "load_unambiguous_json W ''source bundle JSON'' text = Inr (JArr (map JStr cs))"
    "length cs \<le> max_source_bundle_citations" "cited_module (before CHR ''/'' primary) (primary, pp)"
    "map fst reserved = primary # excluded" "list_all (cited_module (before CHR ''/'' primary)) reserved"
    "map fst seen = cs" "list_all (cited_module (before CHR ''/'' primary)) seen"
    "distinct (map fst seen)" "distinct (map snd seen)"
    "fst ` set seen \<inter> fst ` set reserved = {}" "snd ` set seen \<inter> snd ` set reserved = {}"
proof -
  let ?j = "before CHR ''/'' primary"
  from assms obtain vs pp reserved seen where l: "load_unambiguous_json W ''source bundle JSON'' text = Inr (JArr vs)"
    and n: "length vs \<le> max_source_bundle_citations"
    and pr: "validate_citation (JStr primary) ''primary citation'' = Inr (primary, pp)"
    and r: "for_each (reserve_citation ?j) [(primary, pp)] (enumerate 1 excluded) = Inr reserved"
    and a: "for_each (add_source ?j reserved) [] (enumerate 1 vs) = Inr seen" and cs: "cs = map fst seen"
    unfolding parse_source_bundle_def
    by (auto elim!: bind_r_InrE split: if_split_asm prod.splits simp: Let_def is_arr_iff not_less validate_citation_Inr)
  have p: "cited_module ?j (primary, pp)" using pr by (auto simp: validate_citation_Inr cited_module_def)
  note run = sources.run_all[OF a]
  have "vs = map (JStr \<circ> fst) seen" using run(2) by (induction rule: list_all2_induct) auto
  then have "load_unambiguous_json W ''source bundle JSON'' text = Inr (JArr (map JStr cs))" using l cs by simp
  moreover have "list_all (cited_module ?j) seen" "fst ` set seen \<inter> fst ` set reserved = {}" "snd ` set seen \<inter> snd ` set reserved = {}"
    using run(1) by (auto simp: list_all_iff)
  ultimately show ?thesis using p reserved_citations[OF r p] run(3) source_modules.run_all(3)[OF a] cs n run(4)
    by (intro that[of pp reserved seen]) auto
qed

text \<open>C33. An accepted bundle of fresh sources is exactly the list that was sent: at most 16 distinct canonical citations of the
  jurisdiction of the primary, none of them the primary or an excluded citation, whose modules are pairwise distinct
  and distinct from the modules of the primary and the excluded citations. So no two lanes of the transaction can
  write the same file.\<close>

theorem source_bundle_disjoint:
  assumes "parse_source_bundle W text primary excluded = Inr cs"
  shows "load_unambiguous_json W ''source bundle JSON'' text = Inr (JArr (map JStr cs))
     \<and> length cs \<le> 16 \<and> distinct cs \<and> set cs \<inter> set (primary # excluded) = {}
     \<and> list_all (\<lambda>c. canonical_citation c \<and> before CHR ''/'' c = before CHR ''/'' primary) (primary # excluded @ cs)
     \<and> (\<exists>ms. map_r citation_rulespec_path cs = Inr ms \<and> distinct ms
          \<and> (\<forall>r\<in>set (primary # excluded). \<exists>m. citation_rulespec_path r = Inr m \<and> m \<notin> set ms))"
proof -
  obtain pp reserved seen where p: "load_unambiguous_json W ''source bundle JSON'' text = Inr (JArr (map JStr cs))"
    "length cs \<le> max_source_bundle_citations" "cited_module (before CHR ''/'' primary) (primary, pp)"
    "map fst reserved = primary # excluded" "list_all (cited_module (before CHR ''/'' primary)) reserved"
    "map fst seen = cs" "list_all (cited_module (before CHR ''/'' primary)) seen"
    "distinct (map fst seen)" "distinct (map snd seen)"
    "fst ` set seen \<inter> fst ` set reserved = {}" "snd ` set seen \<inter> snd ` set reserved = {}"
    by (rule parsed_sources[OF assms])
  have cited: "map_r citation_rulespec_path (map fst xs) = Inr (map snd xs)
      \<and> list_all (\<lambda>c. canonical_citation c \<and> before CHR ''/'' c = j) (map fst xs)" if "list_all (cited_module j) xs" for xs j
    using that by (induction xs) (auto simp: cited_module_def)
  have res: "\<exists>m. citation_rulespec_path r = Inr m \<and> m \<notin> set (map snd seen)" if "r \<in> set (map fst reserved)" for r
    using that p(5,11) by (force simp: list_all_iff cited_module_def)
  have sets: "fst ` set reserved = set (primary # excluded)" "fst ` set seen = set cs" using p(4,6) by (metis list.set_map)+
  show ?thesis using p(1,2,8,9,10) cited[OF p(5)] cited[OF p(7)] res unfolding p(4,6) sets
    by (auto simp: max_source_bundle_citations_def)
qed

section \<open>Additions do not overwrite\<close>

lemma citation_module_not_Nil: "citation_rulespec_path c = Inr p \<Longrightarrow> p \<noteq> []"
  by (auto simp: citation_rulespec_path_def citation_parts_path_def elim!: bind_r_InrE split: if_splits)

lemma no_indirection_absent:
  "exists_without_indirection W label p n = Inr False \<Longrightarrow> n \<le> length p \<Longrightarrow> 0 < n \<Longrightarrow>
     \<exists>k. length p - n < k \<and> k \<le> length p \<and> bw_node W (take k p) = Absent"
proof (induction n)
  case (Suc n)
  show ?case
  proof (cases "bw_node W (take (length p - n) p) = Absent")
    case True
    then show ?thesis using Suc.prems by (intro exI[of _ "length p - n"]) auto
  next
    case False
    then have "exists_without_indirection W label p n = Inr False" "0 < n" using Suc.prems
      by (auto simp: Let_def split: fs_node.splits if_splits)
    then obtain k where "length p - n < k" "k \<le> length p" "bw_node W (take k p) = Absent" using Suc by auto
    then show ?thesis by (intro exI[of _ k]) auto
  qed
qed simp

text \<open>C34. When fresh sources are admitted, none of the files they will write exists in the checkout: for each of them (and for
  the primary, unless it replaces a module), the module, its companion and its manifest are missing at some
  component of their path, so nothing signed earlier can be overwritten by an addition.\<close>

theorem additions_overwrite_nothing:
  assumes "validate_source_add_targets W text primary replacement = Inr cs"
    and "c \<in> set cs \<or> (replacement = [] \<and> c = primary)"
  shows "\<exists>p. citation_rulespec_path c = Inr p
     \<and> (\<forall>q\<in>{p, companion_path p, manifest_path_of p}. (\<exists>k\<le>length q. 0 < k \<and> bw_node W (take k q) = Absent))"
proof -
  define additions where "additions = (if replacement \<noteq> [] then cs else primary # cs)"
  have c: "c \<in> set additions" using assms(2) by (auto simp: additions_def)
  have "\<exists>found. map_r (add_conflicts W) additions = Inr found \<and> concat found = []"
    using assms(1) unfolding validate_source_add_targets_def Let_def additions_def
    by (auto elim!: bind_r_InrE split: if_split_asm simp del: map_r.simps concat_eq_Nil_conv)
  then obtain found where m: "map_r (add_conflicts W) additions = Inr found" and none: "concat found = []" by blast
  obtain f where f: "f \<in> set found" "add_conflicts W c = Inr f" using m c
    by (auto simp: map_r_Inr_iff list_all2_conv_all_nth in_set_conv_nth) metis
  then obtain p fs where p: "citation_rulespec_path c = Inr p"
    and fs: "map_r (\<lambda>(label, q). bind_r (exists_without_indirection W label q (length q)) (\<lambda>there.
        Inr (if there then [path_str q] else [])))
      [(''RuleSpec primary'', p), (''RuleSpec companion'', companion_path p), (''RuleSpec ownership manifest'', manifest_path_of p)]
      = Inr fs" and e: "concat fs = []" using none by (auto simp: add_conflicts_def elim!: bind_r_InrE)
  have ex: "\<exists>k\<le>length q. 0 < k \<and> bw_node W (take k q) = Absent"
    if "exists_without_indirection W label q (length q) = Inr False" "q \<noteq> []" for label q
    using no_indirection_absent[OF that(1)] that(2) by auto
  have "\<exists>label. exists_without_indirection W label q (length q) = Inr False" if "q \<in> {p, companion_path p, manifest_path_of p}" for q
    using fs e that unfolding map_r_Cons_iff
    by (auto elim!: bind_r_InrE split: if_split_asm)
  moreover have "q \<noteq> []" if "q \<in> {p, companion_path p, manifest_path_of p}" for q
    using that citation_module_not_Nil[OF p] by (auto simp: companion_path_def with_name_def manifest_path_of_def manifest_root_def)
  ultimately show ?thesis using p ex by meson
qed

section \<open>Required test cases\<close>

definition period_ok :: "jobj \<Rightarrow> bool" where
  "period_ok d \<longleftrightarrow> keys d = period_fields (JObj d) \<and> list_all (\<lambda>(k, f). normal_str normal_line f) d
     \<and> str_of (dget d ''period_kind'') \<in> set period_kinds
     \<and> (\<exists>m n. iso_ordinal (str_of (dget d ''start'')) = Some m \<and> iso_ordinal (str_of (dget d ''end'')) = Some n \<and> m \<le> n)"

definition mapping_ok :: "jobj \<Rightarrow> bool" where
  "mapping_ok d \<longleftrightarrow> length d \<le> max_required_test_case_fields \<and> list_all (\<lambda>(k, v). normal_line k \<and> finite_scalar v
     \<and> (is_str v \<longrightarrow> normal_text (str_of v))) d"

text \<open>The type of a normalised case: its keys in their order, a period of two ISO dates in order, and sorted mappings of
  finite scalars.\<close>

definition case_type :: "json \<Rightarrow> bool" where
  "case_type v \<longleftrightarrow> (\<exists>name pd inp out. v = JObj [(''name'', JStr name), (''period'', normal_period pd), (''input'', JObj inp), (''required_output'', JObj out)]
     \<and> normal_line name \<and> period_ok pd \<and> mapping_ok inp \<and> mapping_ok out \<and> out \<noteq> [] \<and> sorted (map fst inp) \<and> sorted (map fst out))"

lemma check_period_Inr: "check_period label v = Inr u \<longleftrightarrow> (\<exists>d. v = JObj d \<and> period_ok d)"
  by (cases v) (auto simp: check_period_def period_ok_def Let_def not_less)

lemma normal_mapping_Inr:
  "normal_mapping label field v = Inr d \<longleftrightarrow> (\<exists>e. v = JObj e \<and> mapping_ok e \<and> d = sort_key fst e \<and> (field = ''required_output'' \<longrightarrow> e \<noteq> []))"
proof -
  have "checks (map (check_field label field) e) = Inr u \<longleftrightarrow> list_all (\<lambda>(k, v). normal_line k \<and> finite_scalar v
     \<and> (is_str v \<longrightarrow> normal_text (str_of v))) e" for e u
    by (induction e) (auto simp: check_field_def)
  then show ?thesis
    by (cases v) (auto simp: normal_mapping_def mapping_ok_def Let_def bind_r_Inr_iff not_less)
qed

lemma mapping_ok_sorted: "mapping_ok (sort_key fst e) = mapping_ok e"
  by (simp add: mapping_ok_def list_all_iff)

lemma normal_period_stable:
  assumes "period_ok d"
  shows "normal_period d = JObj (obj_of (normal_period d)) \<and> period_ok (obj_of (normal_period d))
     \<and> normal_period (obj_of (normal_period d)) = normal_period d"
proof -
  have k: "keys d = period_fields (JObj d)" using assms by (simp add: period_ok_def)
  have val: "normal_str normal_line (dget d k)" if k: "k \<in> keys d" for k
  proof -
    obtain v where "map_of d k = Some v" using k unfolding keys_dom by blast
    then show ?thesis using assms map_of_SomeD[of d k v] by (auto simp: period_ok_def dget_def list_all_iff)
  qed
  have "normal_str normal_line (dget d ''period_kind'')" "normal_str normal_line (dget d ''start'')" "normal_str normal_line (dget d ''end'')"
    "dget d ''period_kind'' = JStr ''custom'' \<Longrightarrow> normal_str normal_line (dget d ''name'')"
    using val k by (auto simp: period_fields_def)
  moreover have "dget (obj_of (normal_period d)) k = dget d k" if "k \<in> {''period_kind'', ''start'', ''end''}" for k
    using that by (auto simp: normal_period_def dget_def)
  moreover have "dget d ''period_kind'' = JStr ''custom'' \<Longrightarrow> dget (obj_of (normal_period d)) ''name'' = dget d ''name''"
    by (auto simp: normal_period_def dget_def)
  ultimately show ?thesis using assms
    by (auto simp: period_ok_def normal_period_def period_fields_def keys_def)
qed

lemma unit_ex: "(\<exists>x::unit. P x) \<longleftrightarrow> P ()"
  by auto

lemma normal_case_admits:
  assumes "normal_case label seen (n, v) = Inr t"
  shows "\<exists>x. t = seen @ [x] \<and> case_type x \<and> dget (obj_of x) ''name'' \<notin> (\<lambda>c. dget (obj_of c) ''name'') ` set seen"
proof -
  let ?get = "dget (obj_of v)"
  define shape where "shape \<longleftrightarrow> \<not> is_obj v \<or> keys (obj_of v) \<noteq> {''name'', ''period'', ''input'', ''required_output''}"
  define used where "used \<longleftrightarrow> list_ex (\<lambda>c. dget (obj_of c) ''name'' = ?get ''name'') seen"
  have "normal_str normal_line (?get ''name'') \<and> \<not> used \<and> (\<exists>lab inp out. check_period lab (?get ''period'') = Inr ()
      \<and> normal_mapping lab ''input'' (?get ''input'') = Inr inp \<and> normal_mapping lab ''required_output'' (?get ''required_output'') = Inr out
      \<and> t = seen @ [JObj [(''name'', ?get ''name''), (''period'', normal_period (obj_of (?get ''period''))),
                           (''input'', JObj inp), (''required_output'', JObj out)]])"
    using assms unfolding normal_case_def prod.case Let_def shape_def[symmetric] used_def[symmetric]
    by (simp only: sum.distinct simp_thms bind_r_Inr_iff sum.inject unit_ex split: if_split_asm) blast
  then obtain lab inp out where n: "normal_str normal_line (?get ''name'')" "\<not> used" and p: "check_period lab (?get ''period'') = Inr ()"
    and m: "normal_mapping lab ''input'' (?get ''input'') = Inr inp" "normal_mapping lab ''required_output'' (?get ''required_output'') = Inr out"
    and t: "t = seen @ [JObj [(''name'', ?get ''name''), (''period'', normal_period (obj_of (?get ''period''))),
                           (''input'', JObj inp), (''required_output'', JObj out)]]" by blast
  from n obtain name where name: "?get ''name'' = JStr name" "normal_line name" by (auto simp: normal_str_def is_str_iff)
  from p obtain pd where pd: "?get ''period'' = JObj pd" "period_ok pd" by (auto simp: check_period_Inr)
  from m have "mapping_ok inp" "mapping_ok out" "out \<noteq> []" "sorted (map fst inp)" "sorted (map fst out)"
    by (auto simp: normal_mapping_Inr mapping_ok_sorted) (metis length_0_conv length_sort)
  then show ?thesis using t name pd n(2) by (force simp: case_type_def used_def list_ex_iff dget_def)
qed

lemma normal_case_readmits:
  assumes "case_type x" and "dget (obj_of x) ''name'' \<notin> (\<lambda>c. dget (obj_of c) ''name'') ` set seen"
  shows "normal_case label seen (n, x) = Inr (seen @ [x])"
proof -
  obtain name pd inp out where x: "x = JObj [(''name'', JStr name), (''period'', normal_period pd), (''input'', JObj inp), (''required_output'', JObj out)]"
    and ok: "normal_line name" "period_ok pd" "mapping_ok inp" "mapping_ok out" "out \<noteq> []" "sorted (map fst inp)" "sorted (map fst out)"
    using assms(1) by (auto simp: case_type_def)
  note p = normal_period_stable[OF ok(2)]
  have u: "\<not> list_ex (\<lambda>c. dget (obj_of c) ''name'' = JStr name) seen" using assms(2) by (force simp: x dget_def list_ex_iff)
  have cp: "check_period l (normal_period pd) = Inr ()" for l using p by (subst check_period_Inr) blast
  have m: "normal_mapping l ''input'' (JObj inp) = Inr inp" "normal_mapping l ''required_output'' (JObj out) = Inr out" for l
    using ok by (simp_all add: normal_mapping_Inr sort_key_id_if_sorted)
  show ?thesis using u ok(1) p by (simp add: normal_case_def x dget_def keys_def cp m normal_str_def Let_def)
qed

interpretation cases: stable_admission "normal_case label" case_type "\<lambda>c. dget (obj_of c) ''name''" "\<lambda>v x. True" "normal_case label'"
  for label label'
proof unfold_locales
  show "normal_case label seen (n, v) = Inr t \<Longrightarrow> \<exists>x. t = seen @ [x] \<and> case_type x
      \<and> dget (obj_of x) ''name'' \<notin> (\<lambda>c. dget (obj_of c) ''name'') ` set seen \<and> True" for seen n v t
    using normal_case_admits by simp
qed (rule normal_case_readmits)

text \<open>C35. The required test cases that leave the normalisation are at most 32 cases of the normalised type, with distinct names.\<close>

theorem required_cases_typed:
  assumes "normalize_required_test_cases v label = Inr cs"
  shows "list_all case_type cs \<and> length cs \<le> 32 \<and> distinct (map (\<lambda>c. dget (obj_of c) ''name'') cs) \<and> length cs = length (arr_of v)"
proof -
  have l: "length (arr_of v) \<le> 32" and r: "for_each (normal_case label) [] (enumerate 1 (arr_of v)) = Inr cs"
    using assms by (auto simp: normalize_required_test_cases_def max_required_test_cases_def split: if_split_asm)
  show ?thesis using cases.run_all[OF r] l by simp
qed

lemma normal_cases_stable: "normalize_required_test_cases v label = Inr cs \<Longrightarrow> normalize_required_test_cases (JArr cs) label' = Inr cs"
proof -
  assume a: "normalize_required_test_cases v label = Inr cs"
  have l: "length (arr_of v) \<le> max_required_test_cases" and r: "for_each (normal_case label) [] (enumerate 1 (arr_of v)) = Inr cs"
    using a by (auto simp: normalize_required_test_cases_def split: if_split_asm)
  show ?thesis using cases.rerun[OF r] cases.run_all(4)[OF r] l by (simp add: normalize_required_test_cases_def)
qed

text \<open>Normalisation is idempotent, whatever label the error messages carry: cases that one stage of the workflow has
  normalised are accepted unchanged by every later stage, which is how the verification of a target recognises them.\<close>

theorem required_cases_stable:
  assumes "normalize_required_test_cases v label = Inr cs"
  shows "normalize_required_test_cases (JArr cs) label' = Inr cs"
  using assms by (rule normal_cases_stable)

end
