(* ===== verification/Backfill_Refresh_Facts.thy ===== *)
theory Backfill_Refresh_Facts
  imports Backfill_Facts
begin

text \<open>
  What the refresh of canonical modules guarantees: the targets of a parsed bundle are bound to the bytes at \<open>HEAD\<close>, a
  verified target still has these bytes, and every target of a parsed bundle is verified as long as the checkout does
  not change.
\<close>

section \<open>Reading\<close>

definition regular_content :: "bundle_world \<Rightarrow> ppath \<Rightarrow> nat \<Rightarrow> string \<Rightarrow> bool" where
  "regular_content W p n raw \<longleftrightarrow> parents_open W p \<and> bw_node W p = File 420 raw \<and> length raw \<le> n"

lemma read_regular_iff:
  "read_bounded_regular W p label n = Inr raw \<longleftrightarrow>
     p \<noteq> [] \<and> \<not> path_absolute p \<and> \<not> list_ex (\<lambda>s. s \<in> {[], ''.'', ''..''}) p \<and> regular_content W p n raw"
  unfolding read_bounded_regular_def read_bounded_regular_file_def Let_def regular_content_def
  by (cases "bw_node W p") auto

lemma contained_plain: "contained p \<Longrightarrow> p \<noteq> [] \<and> \<not> path_absolute p \<and> \<not> list_ex (\<lambda>s. s \<in> {[], ''.'', ''..''}) p"
  by (auto simp: contained_relative) (auto simp: contained_def list_all_iff list_ex_iff safe_segment_def)

lemma read_contained: "contained p \<Longrightarrow> read_bounded_regular W p label n = Inr raw \<longleftrightarrow> regular_content W p n raw"
  using contained_plain by (auto simp: read_regular_iff)

lemma safe_relative_iff:
  "safe_relative_path v label = Inr p \<longleftrightarrow> v = JStr (path_str p) \<and> contained p"
proof
  assume s: "safe_relative_path v label = Inr p"
  then obtain t where v: "v = JStr t" by (cases v) (auto simp: safe_relative_path_def)
  from s have p: "p = path_of t" "path_str p = t" "\<not> path_absolute p" "\<not> list_ex (\<lambda>s. s \<in> {[], ''.'', ''..''}) p" "p \<noteq> []"
    unfolding v safe_relative_path_def Let_def by (auto split: if_split_asm)
  have "path_root t = []" using p(1,3) by (cases "path_root t") (auto simp: path_of_def path_absolute_def path_root_def is_root_def split: if_splits)
  then have "p = posix_parts t" using p(1) by (simp add: path_of_def)
  then have "contained p" using p(4,5) posix_parts_segments by (fastforce simp: contained_def list_all_iff list_ex_iff safe_segment_def)
  then show "v = JStr (path_str p) \<and> contained p" using v p(2) by simp
next
  assume "v = JStr (path_str p) \<and> contained p"
  then show "safe_relative_path v label = Inr p"
    using contained_plain[of p] path_of_str[of p] by (simp add: safe_relative_path_def Let_def)
qed

section \<open>The paths beside a module\<close>

lemma stem_no_slash: "contained p \<Longrightarrow> CHR ''/'' \<notin> set (path_stem (path_name p))"
proof -
  assume c: "contained p"
  then have l: "last p \<in> set p" by (intro last_in_set) (simp add: contained_def)
  have "safe_segment (last p)" using c l unfolding contained_def list_all_iff by blast
  then have "CHR ''/'' \<notin> set (path_name p)" unfolding path_name_def safe_segment_def by simp
  then show ?thesis by (auto simp: path_stem_def dest: in_set_takeD)
qed

lemma safe_extension: "CHR ''/'' \<notin> set s \<Longrightarrow> safe_segment (s @ ''.json'') \<and> safe_segment (s @ ''.test.yaml'')"
  by (auto simp: safe_segment_def append_eq_Cons_conv)

lemma contained_with_name: "contained p \<Longrightarrow> safe_segment n \<Longrightarrow> contained (with_name p n)"
  by (auto simp: contained_def with_name_def list_all_iff dest: in_set_butlastD)

lemma contained_beside:
  assumes "contained p"
  shows "contained (companion_path p)" "contained (manifest_path_of p)"
proof -
  note e = safe_extension[OF stem_no_slash[OF assms]]
  show "contained (companion_path p)" using contained_with_name[OF assms] e by (simp add: companion_path_def)
  have "contained (with_suffix p ''.json'')" using contained_with_name[OF assms] e by (simp add: with_suffix_def)
  then show "contained (manifest_path_of p)" by (auto simp: manifest_path_of_def manifest_root_def contained_def safe_segment_def)
qed

section \<open>Requests\<close>

lemma contract_size_Inr:
  "validate_wrapped_review_contract_size c p contracts cases label = Inr u \<longleftrightarrow>
     (contracts = [] \<and> cases = []) \<or> length (utf8_encode (print_raw (review_contract c p contracts cases))) \<le> max_review_contract_json_bytes"
  by (auto simp: validate_wrapped_review_contract_size_def not_less)

interpretation contracts: admission "normal_contract label" contract_ok "\<lambda>c. dget (obj_of c) ''output''" "\<lambda>v x. True" for label
proof unfold_locales
  fix seen n v t
  assume a: "normal_contract label seen (n, v) = Inr t"
  let ?o = "dget (obj_of v) ''output''" and ?r = "dget (obj_of v) ''reason''" and ?P = "normal_str (\<lambda>s. s \<noteq> [] \<and> normal_text s)"
  have "t = seen @ [JObj [(''output'', ?o), (''reason'', ?r)]] \<and> ?P ?o \<and> ?P ?r \<and> \<not> list_ex (\<lambda>c. dget (obj_of c) ''output'' = ?o) seen"
    using a unfolding normal_contract_def prod.case Let_def
    by (simp only: sum.distinct simp_thms sum.inject split: if_split_asm) simp
  then show "\<exists>x. t = seen @ [x] \<and> contract_ok x \<and> dget (obj_of x) ''output'' \<notin> (\<lambda>c. dget (obj_of c) ''output'') ` set seen \<and> True"
    by (force simp: contract_ok_def dget_def keys_def list_ex_iff)
qed

definition refresh_ok :: "string \<Rightarrow> refresh_request \<Rightarrow> bool" where
  "refresh_ok jur q \<longleftrightarrow> canonical_citation (rq_citation q) \<and> before CHR ''/'' (rq_citation q) = jur
     \<and> citation_rulespec_path (rq_citation q) = Inr (rq_path q) \<and> normal_finding (rq_finding q)
     \<and> length (rq_contracts q) \<le> max_deferred_output_contracts \<and> list_all contract_ok (rq_contracts q)
     \<and> distinct (map (\<lambda>c. dget (obj_of c) ''output'') (rq_contracts q))
     \<and> (\<exists>v label. normalize_required_test_cases v label = Inr (rq_cases q))
     \<and> (\<exists>label. validate_wrapped_review_contract_size (rq_citation q) (rq_path q) (rq_contracts q) (rq_cases q) label = Inr ())"

lemma parts_jurisdiction: "citation_parts_path c = Inr (j, rel) \<Longrightarrow> j = before CHR ''/'' c"
  by (auto simp: citation_parts_path_def split: if_splits)

lemma admit_refresh_step:
  assumes "admit_refresh jur seen (n, v) = Inr t"
  shows "\<exists>q. t = seen @ [q] \<and> refresh_ok jur q \<and> rq_citation q \<notin> rq_citation ` set seen \<and> rq_path q \<notin> rq_path ` set seen"
proof -
  let ?get = "dget (obj_of v)"
  define shape where "shape \<longleftrightarrow> \<not> is_obj v \<or> \<not> {''citation'', ''replace_rulespec_path''} \<subseteq> keys (obj_of v)
    \<or> \<not> keys (obj_of v) \<subseteq> {''citation'', ''replace_rulespec_path''} \<union> {''review_finding'', ''deferred_output_contracts'', ''required_test_cases''}"
  from assms obtain label cases contracts c jp p where
    cs: "normalize_required_test_cases (get_or_empty_list (obj_of v) ''required_test_cases'') (label @ '' required test cases'') = Inr cases"
    and f: "normal_finding (?get ''review_finding'')"
    and l: "length (arr_of (get_or_empty_list (obj_of v) ''deferred_output_contracts'')) \<le> max_deferred_output_contracts"
    and k: "for_each (normal_contract label) [] (enumerate 1 (arr_of (get_or_empty_list (obj_of v) ''deferred_output_contracts''))) = Inr contracts"
    and c: "require_canonical (str_of (?get ''citation'')) = Inr c" and jp: "citation_parts_path c = Inr jp" "fst jp = jur"
    and p: "citation_rulespec_path c = Inr p" and s: "validate_wrapped_review_contract_size c p contracts cases label = Inr ()"
    and u: "c \<notin> rq_citation ` set seen" "p \<notin> rq_path ` set seen"
    and t: "t = seen @ [\<lparr>rq_citation = c, rq_path = p, rq_finding = ?get ''review_finding'', rq_contracts = contracts, rq_cases = cases\<rparr>]"
    unfolding admit_refresh_def prod.case Let_def shape_def[symmetric]
    by (simp only: sum.distinct simp_thms bind_r_Inr_iff sum.inject unit_ex value_error_as_Inr not_less not_not split_beta
        de_Morgan_disj split: if_split_asm)
  note run = contracts.run_all[OF k]
  have "jur = before CHR ''/'' c" using jp by (cases jp) (auto dest: parts_jurisdiction)
  then show ?thesis using cs f l c p s u t run by (auto simp: refresh_ok_def require_canonical_iff)
qed

interpretation refreshes: admission "admit_refresh jur" "refresh_ok jur" rq_citation "\<lambda>v x. True" for jur
  by unfold_locales (use admit_refresh_step in blast)

interpretation refresh_modules: admission "admit_refresh jur" "refresh_ok jur" rq_path "\<lambda>v x. True" for jur
  by unfold_locales (use admit_refresh_step in blast)

section \<open>Targets\<close>

text \<open>What binds a target to a checkout: the module, its manifest and its companion have the recorded digests.\<close>

definition companion_matches :: "bundle_world \<Rightarrow> ppath \<Rightarrow> json \<Rightarrow> bool" where
  "companion_matches W cp digest \<longleftrightarrow>
     (if digest = JNull then \<not> bw_present W cp \<and> bw_node W cp \<noteq> Link
      else \<exists>raw. regular_content W cp rulespec_bytes_limit raw \<and> digest = JStr (bw_sha256 W raw))"

definition target_matches :: "bundle_world \<Rightarrow> jobj \<Rightarrow> bool" where
  "target_matches W t \<longleftrightarrow> (\<exists>c p raw mraw. dget t ''citation'' = JStr c \<and> citation_rulespec_path c = Inr p \<and> contained p
     \<and> dget t ''rulespec_path'' = JStr (path_str p) \<and> dget t ''manifest_path'' = JStr (path_str (manifest_path_of p))
     \<and> dget t ''companion_path'' = JStr (path_str (companion_path p))
     \<and> regular_content W p rulespec_bytes_limit raw \<and> dget t ''rulespec_sha256'' = JStr (bw_sha256 W raw)
     \<and> regular_content W (manifest_path_of p) manifest_bytes_limit mraw \<and> dget t ''manifest_sha256'' = JStr (bw_sha256 W mraw)
     \<and> companion_matches W (companion_path p) (dget t ''companion_sha256''))"

lemma require_digest_matches:
  "contained p \<Longrightarrow> require_digest W p digest label n msg = Inr u \<longleftrightarrow> (\<exists>raw. regular_content W p n raw \<and> digest = JStr (bw_sha256 W raw))"
  by (auto simp: require_digest_def bind_r_Inr_iff read_contained)

lemma require_companion_Inr: "contained cp \<Longrightarrow> require_companion W cp digest = Inr u \<longleftrightarrow> companion_matches W cp digest"
  by (auto simp: require_companion_def companion_matches_def require_digest_matches)

lemma verified_target:
  assumes "verify_refresh_value W v = Inr t"
  shows "v = JObj t \<and> target_matches W t \<and> (\<exists>cases. normalize_required_test_cases (dget t ''required_test_cases'')
     ''canonical refresh target required test cases'' = Inr cases \<and> well_formed_target v cases)"
proof -
  let ?t = "obj_of v"
  from assms obtain cases p mp cp where
    cs: "normalize_required_test_cases (if is_obj v then dget ?t ''required_test_cases'' else JNull)
            ''canonical refresh target required test cases'' = Inr cases" and wf: "well_formed_target v cases"
    and p: "safe_relative_path (dget ?t ''rulespec_path'') ''canonical refresh target RuleSpec'' = Inr p"
    and mp: "safe_relative_path (dget ?t ''manifest_path'') ''canonical refresh target manifest'' = Inr mp"
    and cp: "safe_relative_path (dget ?t ''companion_path'') ''canonical refresh target companion'' = Inr cp"
    and c: "citation_rulespec_path (str_of (dget ?t ''citation'')) = Inr p" "manifest_path_of p = mp" "companion_path p = cp"
    and d: "\<exists>l m. require_digest W p (dget ?t ''rulespec_sha256'') l rulespec_bytes_limit m = Inr ()"
    and md: "\<exists>l m. require_digest W mp (dget ?t ''manifest_sha256'') l manifest_bytes_limit m = Inr ()"
    and cd: "require_companion W cp (dget ?t ''companion_sha256'') = Inr ()"
    and t: "t = ?t"
    unfolding verify_refresh_value_def Let_def
    by (simp only: if_Inl_Inr bind_r_Inr_iff sum.inject unit_ex value_error_as_Inr not_not de_Morgan_disj simp_thms)
      (elim exE conjE, hypsubst, blast)
  have v: "v = JObj t" using wf t by (cases v) (auto simp: well_formed_target_def Let_def)
  have str: "dget t ''citation'' = JStr (str_of (dget t ''citation''))" using wf v
    by (cases "dget t ''citation''") (auto simp: well_formed_target_def Let_def normal_str_def)
  have p': "contained p" "dget t ''rulespec_path'' = JStr (path_str p)" using p t by (auto simp: safe_relative_iff)
  have m': "contained mp" "dget t ''manifest_path'' = JStr (path_str mp)" using mp t by (auto simp: safe_relative_iff)
  have c': "contained cp" "dget t ''companion_path'' = JStr (path_str cp)" using cp t by (auto simp: safe_relative_iff)
  have "companion_matches W cp (dget t ''companion_sha256'')" using cd c'(1) t by (simp add: require_companion_Inr)
  moreover obtain raw where "regular_content W p rulespec_bytes_limit raw" "dget t ''rulespec_sha256'' = JStr (bw_sha256 W raw)"
    using d t by (auto simp: require_digest_matches[OF p'(1)])
  moreover obtain mraw where "regular_content W mp manifest_bytes_limit mraw" "dget t ''manifest_sha256'' = JStr (bw_sha256 W mraw)"
    using md t by (auto simp: require_digest_matches[OF m'(1)])
  ultimately have "target_matches W t" unfolding target_matches_def using str c p' m' c' t by metis
  then show ?thesis using cs wf v by auto
qed

text \<open>C36. A target that is verified before its lane names the canonical module of its citation and the files beside it, and
  each of the three is, at this moment, a regular file of mode 0644 reached through no symbolic link whose bytes have
  exactly the recorded digest; a companion recorded as missing is missing.\<close>

theorem verified_target_unchanged:
  assumes "verify_canonical_refresh_target W text = Inr t"
  shows "target_matches W t \<and> keys t = target_fields"
proof -
  from assms obtain v where "verify_refresh_value W v = Inr t"
    by (auto simp: verify_canonical_refresh_target_def split: sum.splits load_error.splits)
  then have "v = JObj t" "target_matches W t" "\<exists>cases. well_formed_target v cases" using verified_target by blast+
  then show ?thesis by (auto simp: well_formed_target_def Let_def)
qed

lemma unchanged_Inr:
  "contained p \<Longrightarrow> unchanged_bytes W p label n = Inr raw \<longleftrightarrow> regular_content W p n raw \<and> bw_git W (at_head p) = Some raw"
  by (auto simp: unchanged_bytes_def bind_r_Inr_iff read_contained split: option.splits if_splits)

definition staged_at :: "bundle_world \<Rightarrow> ppath \<Rightarrow> bool" where
  "staged_at W p \<longleftrightarrow> (\<exists>out t. bw_git W [''ls-files'', ''--stage'', ''--'', path_str p] = Some out \<and> decoded out = Inr t
     \<and> staged_exactly (split_lines t) p)"

lemma stage_lines_Inr:
  "stage_lines W p msg = Inr ls \<longleftrightarrow> (\<exists>out t. bw_git W [''ls-files'', ''--stage'', ''--'', path_str p] = Some out \<and> decoded out = Inr t
     \<and> ls = split_lines t)"
  by (auto simp: stage_lines_def bind_r_Inr_iff split: option.splits)

lemma tracked_Inr:
  "contained p \<Longrightarrow> tracked_bytes W p label n = Inr raw \<longleftrightarrow> staged_at W p \<and> regular_content W p n raw \<and> bw_git W (at_head p) = Some raw"
  unfolding tracked_bytes_def Let_def bind_r_Inr_iff stage_lines_Inr staged_at_def by (auto simp: unchanged_Inr)

text \<open>The companion is tracked with the recorded digest at \<open>HEAD\<close>, or neither staged nor in the tree of \<open>HEAD\<close>.\<close>

definition companion_at_head :: "bundle_world \<Rightarrow> ppath \<Rightarrow> json \<Rightarrow> bool" where
  "companion_at_head W cp digest \<longleftrightarrow>
     (if digest = JNull then (\<exists>out t. bw_git W [''ls-files'', ''--stage'', ''--'', path_str cp] = Some out \<and> decoded out = Inr t \<and> split_lines t = [])
        \<and> bw_git W [''ls-tree'', ''--full-tree'', ''-z'', ''HEAD'', ''--'', path_str cp] = Some []
      else \<exists>raw. staged_at W cp \<and> bw_git W (at_head cp) = Some raw \<and> digest = JStr (bw_sha256 W raw))"

lemma companion_digest_at_head: "contained cp \<Longrightarrow> companion_digest W c cp = Inr d \<Longrightarrow> companion_at_head W cp d"
  unfolding companion_digest_def Let_def staged_at_def companion_at_head_def bind_r_Inr_iff stage_lines_Inr
  by (auto simp: unchanged_Inr bind_r_Inr_iff split: if_splits option.splits)

text \<open>What the inventory of a target records about \<open>HEAD\<close>.\<close>

definition bound_to_head :: "bundle_world \<Rightarrow> jobj \<Rightarrow> bool" where
  "bound_to_head W t \<longleftrightarrow> (\<exists>c p raw mraw m. dget t ''citation'' = JStr c \<and> citation_rulespec_path c = Inr p
     \<and> staged_at W p \<and> bw_git W (at_head p) = Some raw \<and> dget t ''rulespec_sha256'' = JStr (bw_sha256 W raw)
     \<and> staged_at W (manifest_path_of p) \<and> bw_git W (at_head (manifest_path_of p)) = Some mraw
     \<and> dget t ''manifest_sha256'' = JStr (bw_sha256 W mraw)
     \<and> companion_at_head W (companion_path p) (dget t ''companion_sha256'')
     \<and> load_manifest W (''canonical refresh manifest for '' @ c @ '' is invalid JSON'') mraw = Inr (JObj m)
     \<and> covers_target m c p (bw_sha256 W raw))"

lemma companion_digest_matches:
  "contained cp \<Longrightarrow> companion_digest W c cp = Inr d \<Longrightarrow> companion_matches W cp d \<and> (d = JNull \<or> (\<exists>raw. d = JStr (bw_sha256 W raw)))"
  unfolding companion_digest_def Let_def
  by (auto simp: companion_matches_def unchanged_Inr elim!: bind_r_InrE split: if_splits option.splits)
    (rule exI, rule conjI, assumption, rule refl)+

lemma inventory_Inr:
  assumes "canonical_refresh_target_inventory W c p f contracts cases = Inr t" and "citation_rulespec_path c = Inr p" and "contained p"
  shows "target_matches W t \<and> bound_to_head W t \<and> (\<exists>raw mraw d. (d = JNull \<or> (\<exists>x. d = JStr (bw_sha256 W x))) \<and>
     t = [(''citation'', JStr c), (''review_finding'', f),
       (''deferred_output_contracts'', JArr contracts), (''required_test_cases'', JArr cases),
       (''rulespec_path'', JStr (path_str p)), (''rulespec_sha256'', JStr (bw_sha256 W raw)),
       (''companion_path'', JStr (path_str (companion_path p))), (''companion_sha256'', d),
       (''manifest_path'', JStr (path_str (manifest_path_of p))), (''manifest_sha256'', JStr (bw_sha256 W mraw))])"
proof -
  from assms(1) obtain raw mraw d m where r: "\<exists>l. tracked_bytes W p l rulespec_bytes_limit = Inr raw"
    and mr: "\<exists>l. tracked_bytes W (manifest_path_of p) l manifest_bytes_limit = Inr mraw"
    and d: "companion_digest W c (companion_path p) = Inr d"
    and m: "load_manifest W (''canonical refresh manifest for '' @ c @ '' is invalid JSON'') mraw = Inr m"
      "is_obj m" "covers_target (obj_of m) c p (bw_sha256 W raw)"
    and t: "t = [(''citation'', JStr c), (''review_finding'', f),
       (''deferred_output_contracts'', JArr contracts), (''required_test_cases'', JArr cases),
       (''rulespec_path'', JStr (path_str p)), (''rulespec_sha256'', JStr (bw_sha256 W raw)),
       (''companion_path'', JStr (path_str (companion_path p))), (''companion_sha256'', d),
       (''manifest_path'', JStr (path_str (manifest_path_of p))), (''manifest_sha256'', JStr (bw_sha256 W mraw))]"
    unfolding canonical_refresh_target_inventory_def Let_def
    by (simp only: sum.distinct simp_thms bind_r_Inr_iff sum.inject not_not de_Morgan_disj split: if_split_asm) blast
  note b = contained_beside[OF assms(3)]
  have r': "staged_at W p" "regular_content W p rulespec_bytes_limit raw" "bw_git W (at_head p) = Some raw"
    using r tracked_Inr[OF assms(3)] by auto
  have m': "staged_at W (manifest_path_of p)" "regular_content W (manifest_path_of p) manifest_bytes_limit mraw"
    "bw_git W (at_head (manifest_path_of p)) = Some mraw" using mr tracked_Inr[OF b(2)] by auto
  have c: "companion_matches W (companion_path p) d" "d = JNull \<or> (\<exists>raw. d = JStr (bw_sha256 W raw))"
    using companion_digest_matches[OF b(1) d] by auto
  have "target_matches W t" unfolding target_matches_def using assms(2,3) r' m' c by (simp add: t dget_def) blast
  moreover have "bound_to_head W t" unfolding bound_to_head_def using assms(2) r' m' m companion_digest_at_head[OF b(1) d] by (auto simp: t dget_def is_obj_iff)
  ultimately show ?thesis using t c(2) by blast
qed

lemma parsed_refresh:
  assumes "parse_canonical_refresh_bundle W text primary primary_path cases_text = Inr ts"
  obtains "ts = []" | qs where "list_all (refresh_ok (before CHR ''/'' primary)) qs" "distinct (map rq_citation qs)"
    "distinct (map rq_path qs)" "qs \<noteq> []" "rq_citation (hd qs) = primary" "length qs \<le> 16"
    "map_r (\<lambda>q. canonical_refresh_target_inventory W (rq_citation q) (rq_path q) (rq_finding q) (rq_contracts q) (rq_cases q)) qs = Inr ts"
proof -
  define inventories where "inventories = map_r (\<lambda>q :: refresh_request. canonical_refresh_target_inventory W (rq_citation q) (rq_path q) (rq_finding q)
    (rq_contracts q) (rq_cases q))"
  define run where "run payload cases = (if arr_of payload = [] \<and> cases = [] then Inr [] else
       bind_r (primary_request W primary primary_path cases) (\<lambda>p.
       bind_r (for_each (admit_refresh (before CHR ''/'' (rq_citation p))) [p] (enumerate 1 (arr_of payload))) inventories))"
    for payload cases
  have "\<exists>payload cases cv. length (arr_of payload) \<le> max_canonical_refresh_bundle_citations
      \<and> normalize_required_test_cases cv ''primary required test cases'' = Inr cases \<and> run payload cases = Inr ts"
    using assms unfolding parse_canonical_refresh_bundle_def inventories_def[symmetric] run_def[symmetric]
    by (simp only: if_Inl_Inr bind_r_Inr_iff not_less not_not) blast
  then obtain payload cases cv where l: "length (arr_of payload) \<le> max_canonical_refresh_bundle_citations"
    and cs: "normalize_required_test_cases cv ''primary required test cases'' = Inr cases" and rest: "run payload cases = Inr ts" by blast
  show ?thesis
  proof (cases "arr_of payload = [] \<and> cases = []")
    case True
    then show ?thesis using rest that(1) by (simp add: run_def)
  next
    case False
    from rest[unfolded run_def if_not_P[OF False]] obtain p qs where p: "primary_request W primary primary_path cases = Inr p"
      and r: "for_each (admit_refresh (before CHR ''/'' (rq_citation p))) [p] (enumerate 1 (arr_of payload)) = Inr qs"
      and m: "inventories qs = Inr ts"
      by (auto elim!: bind_r_InrE simp del: for_each.simps)
    from p obtain e where pq: "canonical_citation primary" "citation_rulespec_path primary = Inr e"
      "validate_wrapped_review_contract_size primary e [] cases ''canonical refresh primary'' = Inr ()"
      "p = \<lparr>rq_citation = primary, rq_path = e, rq_finding = JNull, rq_contracts = [], rq_cases = cases\<rparr>"
      unfolding primary_request_def
      by (auto elim!: bind_r_InrE split: prod.splits if_split_asm simp: require_canonical_iff)
    have ok: "refresh_ok (before CHR ''/'' primary) p" using pq cs unfolding refresh_ok_def by (auto simp: normal_finding_def)
    from refreshes.run[OF r] obtain xs where xs: "qs = p # xs" "list_all (refresh_ok (before CHR ''/'' primary)) xs"
      "length xs = length (arr_of payload)" "distinct (map rq_citation qs)" using pq(4) by (auto dest: list_all2_lengthD)
    have "distinct (map rq_path qs)" using refresh_modules.run[OF r] by auto
    then show ?thesis using xs ok m pq(4) l
      by (intro that(2)[of qs]) (simp_all add: max_canonical_refresh_bundle_citations_def max_source_bundle_citations_def inventories_def del: map_r.simps)
  qed
qed

lemma refresh_module_contained: "refresh_ok jur q \<Longrightarrow> contained (rq_path q)"
  using citation_path_shape by (fastforce simp: refresh_ok_def)

text \<open>C37. A parsed refresh bundle has at most 16 targets, with distinct canonical citations of the jurisdiction of the
  primary, which comes first. Each target is bound to the checkout and to \<open>HEAD\<close>: module and
  manifest are tracked as regular files, their working copies equal the blobs at \<open>HEAD\<close>, the recorded digests are
  theirs, and the manifest lists the module exactly once with its digest and citation; the companion is tracked with the
  recorded digest in the same way, or, where none is recorded, absent from the checkout, the index and \<open>HEAD\<close>.\<close>

theorem refresh_targets_bound:
  assumes "parse_canonical_refresh_bundle W text primary primary_path cases_text = Inr ts"
  shows "length ts \<le> 16 \<and> list_all (\<lambda>t. target_matches W t \<and> bound_to_head W t) ts
     \<and> list_all (\<lambda>t. \<exists>c. dget t ''citation'' = JStr c \<and> canonical_citation c \<and> before CHR ''/'' c = before CHR ''/'' primary) ts
     \<and> distinct (map (\<lambda>t. dget t ''citation'') ts) \<and> distinct (map (\<lambda>t. dget t ''rulespec_path'') ts)
     \<and> (ts \<noteq> [] \<longrightarrow> dget (hd ts) ''citation'' = JStr primary)"
  using assms
proof (cases rule: parsed_refresh)
  case (2 qs)
  note m = \<open>map_r _ qs = Inr ts\<close>[unfolded map_r_Inr_iff]
  have each: "target_matches W t \<and> bound_to_head W t \<and> dget t ''citation'' = JStr (rq_citation q)
      \<and> canonical_citation (rq_citation q) \<and> before CHR ''/'' (rq_citation q) = before CHR ''/'' primary
      \<and> dget t ''rulespec_path'' = JStr (path_str (rq_path q)) \<and> contained (rq_path q)"
    if "canonical_refresh_target_inventory W (rq_citation q) (rq_path q) (rq_finding q) (rq_contracts q) (rq_cases q) = Inr t"
      "q \<in> set qs" for q t
  proof -
    have q: "refresh_ok (before CHR ''/'' primary) q" using that(2) 2(1) by (auto simp: list_all_iff)
    then have c: "contained (rq_path q)" "citation_rulespec_path (rq_citation q) = Inr (rq_path q)"
      by (auto simp: refresh_module_contained) (simp add: refresh_ok_def)
    have "canonical_citation (rq_citation q) \<and> before CHR ''/'' (rq_citation q) = before CHR ''/'' primary"
      using q by (simp add: refresh_ok_def)
    then show ?thesis using inventory_Inr[OF that(1) c(2,1)] c(1) by (auto simp: dget_def)
  qed
  have cits: "map (\<lambda>t. dget t ''citation'') ts = map (JStr \<circ> rq_citation) qs"
    "map (\<lambda>t. dget t ''rulespec_path'') ts = map (JStr \<circ> path_str \<circ> rq_path) qs"
    "list_all (\<lambda>t. target_matches W t \<and> bound_to_head W t) ts" "length ts = length qs"
    "list_all (\<lambda>t. \<exists>c. dget t ''citation'' = JStr c \<and> canonical_citation c \<and> before CHR ''/'' c = before CHR ''/'' primary) ts"
    using m each by (induction rule: list_all2_induct) auto
  have "inj_on (path_str \<circ> rq_path) (set qs)"
  proof (rule inj_onI)
    fix a b assume "a \<in> set qs" "b \<in> set qs" "(path_str \<circ> rq_path) a = (path_str \<circ> rq_path) b"
    moreover from this have "rq_path a = rq_path b" using 2(1) refresh_module_contained path_str_inj
      by (metis comp_apply list_all_iff)
    ultimately show "a = b" using 2(3) by (auto simp: distinct_map dest: inj_onD)
  qed
  then have "distinct (map (JStr \<circ> path_str \<circ> rq_path) qs)" "distinct (map (JStr \<circ> rq_citation) qs)"
    using 2(2,3) by (auto simp: distinct_map inj_on_def)
  moreover have "ts \<noteq> [] \<longrightarrow> dget (hd ts) ''citation'' = JStr primary"
    using cits(1) 2(4,5) by (cases ts; cases qs) auto
  ultimately show ?thesis using cits 2(6) by simp
qed simp

lemma inventory_verifies:
  assumes "canonical_refresh_target_inventory W (rq_citation q) (rq_path q) (rq_finding q) (rq_contracts q) (rq_cases q) = Inr t"
    and "refresh_ok jur q" and hex: "\<And>b. hex_of_length 64 (bw_sha256 W b)"
  shows "verify_refresh_value W (JObj t) = Inr t"
proof -
  define c p where "c = rq_citation q" and "p = rq_path q"
  have cp: "citation_rulespec_path c = Inr p" "contained p" using assms(2) refresh_module_contained by (auto simp: refresh_ok_def c_def p_def)
  from inventory_Inr[OF assms(1)[folded c_def p_def] cp] obtain raw mraw d where m: "target_matches W t"
    and d: "d = JNull \<or> (\<exists>x. d = JStr (bw_sha256 W x))" and t: "t = [(''citation'', JStr c), (''review_finding'', rq_finding q),
       (''deferred_output_contracts'', JArr (rq_contracts q)), (''required_test_cases'', JArr (rq_cases q)),
       (''rulespec_path'', JStr (path_str p)), (''rulespec_sha256'', JStr (bw_sha256 W raw)),
       (''companion_path'', JStr (path_str (companion_path p))), (''companion_sha256'', d),
       (''manifest_path'', JStr (path_str (manifest_path_of p))), (''manifest_sha256'', JStr (bw_sha256 W mraw))]" by blast
  have get: "dget t ''citation'' = JStr c" "dget t ''review_finding'' = rq_finding q"
    "dget t ''deferred_output_contracts'' = JArr (rq_contracts q)" "dget t ''required_test_cases'' = JArr (rq_cases q)"
    "dget t ''rulespec_path'' = JStr (path_str p)" "dget t ''rulespec_sha256'' = JStr (bw_sha256 W raw)"
    "dget t ''companion_path'' = JStr (path_str (companion_path p))" "dget t ''companion_sha256'' = d"
    "dget t ''manifest_path'' = JStr (path_str (manifest_path_of p))" "dget t ''manifest_sha256'' = JStr (bw_sha256 W mraw)"
    by (simp_all add: t dget_def)
  have ks: "keys t = target_fields" by (auto simp: t keys_def target_fields_def)
  have hexes: "bw_sha256 W x \<noteq> []" for x using hex[of x] by (auto simp: hex_of_length_def)
  have strs: "path_str r \<noteq> []" if "contained r" for r using that path_of_str[OF that] contained_plain[OF that] by (auto simp: path_of_def path_root_def posix_parts_def)
  have cne: "c \<noteq> []" using assms(2) canonical_kept(2) by (auto simp: refresh_ok_def c_def)
  note beside = contained_beside[OF cp(2)]
  have cases: "normalize_required_test_cases (JArr (rq_cases q)) l = Inr (rq_cases q)" for l
    using assms(2) normal_cases_stable by (auto simp: refresh_ok_def)
  have wf: "well_formed_target (JObj t) (rq_cases q)"
    unfolding well_formed_target_def Let_def obj_of.simps get
    using assms(2) ks hex hexes strs[OF cp(2)] strs[OF beside(1)] strs[OF beside(2)] cne d
    by (auto simp: normal_str_def digest_str_def refresh_ok_def get)
  have size: "validate_wrapped_review_contract_size c p (rq_contracts q) (rq_cases q) l = Inr ()" for l
    using assms(2) by (auto simp: refresh_ok_def c_def p_def contract_size_Inr)
  have safe: "safe_relative_path (JStr (path_str r)) l = Inr r" if "contained r" for r l using that by (simp add: safe_relative_iff)
  have digests: "require_digest W p (JStr (bw_sha256 W raw)) l rulespec_bytes_limit msg = Inr ()"
    "require_digest W (manifest_path_of p) (JStr (bw_sha256 W mraw)) l manifest_bytes_limit msg = Inr ()"
    "require_companion W (companion_path p) d = Inr ()" for l msg
    using m cp beside by (auto simp: target_matches_def get require_digest_matches require_companion_Inr)
  show ?thesis unfolding verify_refresh_value_def Let_def obj_of.simps is_obj.simps if_True get cases
    by (simp add: value_error_as_def wf safe[OF cp(2)] safe[OF beside(1)] safe[OF beside(2)] size cp digests)
qed

text \<open>C38. Planning and verification agree: every target of a parsed bundle, passed on as JSON text, is accepted by the
  verification before its lane and returned unchanged, as long as the checkout is the one that was planned on. The
  later stage never rejects what the earlier one produced. (SHA-256 yields 64 hexadecimal digits.)\<close>

theorem planned_target_verifies:
  assumes "parse_canonical_refresh_bundle W text primary primary_path cases_text = Inr ts" and "t \<in> set ts"
    and "\<forall>b. hex_of_length 64 (bw_sha256 W b)" and "loads (unique_conf W) (bw_depth W) target_text = Inr (JObj t)"
  shows "verify_canonical_refresh_target W target_text = Inr t"
  using assms(1)
proof (cases rule: parsed_refresh)
  case (2 qs)
  obtain q where q: "q \<in> set qs" "canonical_refresh_target_inventory W (rq_citation q) (rq_path q) (rq_finding q) (rq_contracts q) (rq_cases q) = Inr t"
    using map_r_mem[OF 2(7) assms(2)] by blast
  have "refresh_ok (before CHR ''/'' primary) q" using q(1) 2(1) by (auto simp: list_all_iff)
  from inventory_verifies[OF q(2) this] assms(3,4) show ?thesis by (simp add: verify_canonical_refresh_target_def)
qed (use assms(2) in simp)

end
