(* ===== verification/Backfill_Imports.thy ===== *)
theory Backfill_Imports
  imports Backfill_Bundle
begin

text \<open>
  \<open>src/axiom_encode/prepare_signed_backfill.py\<close>, modules that a backfill relies on: existing signed modules that the new
  module may import, and the modules that import the target directly, which must be supplied completely.
\<close>

section \<open>Existing signed imports\<close>

definition test_module :: "ppath \<Rightarrow> bool" where
  "test_module p \<longleftrightarrow> suffix ''.test.yaml'' (path_name p)"

definition primary_module_of :: "string \<Rightarrow> ppath \<Rightarrow> bool" where
  "primary_module_of jur p \<longleftrightarrow> length p \<ge> 3 \<and> hd p = jur \<and> p ! 1 \<in> set atomic_roots
     \<and> path_suffix (path_name p) = ''.yaml'' \<and> \<not> test_module p"

definition reserve_module :: "string \<Rightarrow> ppath list \<Rightarrow> string \<Rightarrow> (path_error, ppath list) result" where
  "reserve_module jur reserved citation = bind_r (citation_parts_path citation) (\<lambda>(j, rel).
     if j \<noteq> jur then bad ''fresh source and excluded citations must use the primary citation jurisdiction and country''
     else Inr (reserved @ [path_of j @ rel]))"

definition reserve_path :: "string \<Rightarrow> ppath list \<Rightarrow> nat \<times> string \<Rightarrow> (path_error, ppath list) result" where
  "reserve_path jur reserved = (\<lambda>(n, value).
     bind_r (safe_relative_path (JStr value) (''excluded RuleSpec path #'' @ nat_repr n)) (\<lambda>p.
       if \<not> primary_module_of jur p
       then bad ''excluded RuleSpec paths must be canonical primary modules in the primary citation jurisdiction''
       else Inr (reserved @ [p])))"

definition require_tracked_file :: "bundle_world \<Rightarrow> ppath \<Rightarrow> string \<Rightarrow> nat \<Rightarrow> (path_error, unit) result" where
  "require_tracked_file W p label max_bytes =
    (let msg = label @ '' must be exactly tracked'' in
     case bw_git W [''ls-files'', ''--error-unmatch'', ''--'', path_str p] of None \<Rightarrow> bad msg
     | Some b \<Rightarrow> bind_r (value_error_as msg (decoded b)) (\<lambda>t.
         if split_lines t \<noteq> [path_str p] then bad msg
         else bind_r (read_bounded_regular W p label max_bytes) (\<lambda>_. Inr ())))"

definition imports_bytes_limit :: nat where "imports_bytes_limit = 16 * 1024 * 1024"
definition import_manifest_limit :: nat where "import_manifest_limit = 1024 * 1024"

text \<open>A manifest that is not JSON raises what the decoders raise.\<close>

definition load_signed_manifest :: "bundle_world \<Rightarrow> ppath \<Rightarrow> string \<Rightarrow> (path_error, json) result" where
  "load_signed_manifest W mp label = bind_r (read_bounded_regular W mp label import_manifest_limit) (\<lambda>raw.
     bind_r (decoded raw) (lenient_json W))"

definition signed_v5 :: "json \<Rightarrow> bool" where
  "signed_v5 v \<longleftrightarrow> is_obj v \<and> dget (obj_of v) ''schema_version'' = JStr ''axiom-encode/applied-rulespec/v5''"

definition add_import :: "bundle_world \<Rightarrow> string \<Rightarrow> ppath list \<Rightarrow> ppath list \<Rightarrow> nat \<times> json \<Rightarrow> (path_error, ppath list) result" where
  "add_import W jur reserved seen = (\<lambda>(n, value).
    let label = ''existing signed import #'' @ nat_repr n; mlabel = label @ '' manifest'' in
    bind_r (safe_relative_path value label) (\<lambda>p. let mp = manifest_path_of p in
    if list_ex (\<lambda>c. code c < 32 \<or> code c = 127) (str_of value) \<or> \<not> primary_module_of jur p
    then bad (label @ '' must be a canonical primary RuleSpec path in the primary citation jurisdiction'')
    else if p \<in> set reserved then bad ''existing signed imports must exclude the primary, fresh source, and dependent paths''
    else if p \<in> set seen then bad ''existing signed import paths must be unique''
    else bind_r (require_tracked_file W p label imports_bytes_limit) (\<lambda>_.
      bind_r (require_tracked_file W mp mlabel import_manifest_limit) (\<lambda>_.
      bind_r (load_signed_manifest W mp mlabel) (\<lambda>m.
        if \<not> signed_v5 m then bad (mlabel @ '' must use signed-v5 schema'') else Inr (seen @ [p]))))))"

definition parse_existing_signed_imports ::
    "bundle_world \<Rightarrow> string \<Rightarrow> string \<Rightarrow> string list \<Rightarrow> string list \<Rightarrow> string list \<Rightarrow> (path_error, ppath list) result" where
  "parse_existing_signed_imports W text primary_citation sources excluded excluded_paths =
    (if length (utf8_encode text) > max_source_bundle_json_bytes
     then bad ''existing signed imports JSON exceeds the maximum input size''
     else bind_r (lenient_json W text) (\<lambda>payload.
     if \<not> is_arr payload then bad ''existing signed imports JSON must be an array''
     else if length (arr_of payload) + length sources > max_source_bundle_citations
     then bad (''fresh source bundle and existing signed imports contain more than ''
               @ nat_repr max_source_bundle_citations @ '' modules'')
     else bind_r (citation_parts_path primary_citation) (\<lambda>(jur, rel).
     bind_r (validate_country (before CHR ''-'' jur)) (\<lambda>_.
     bind_r (for_each (reserve_module jur) [path_of jur @ rel] (sources @ excluded)) (\<lambda>reserved0.
     bind_r (for_each (reserve_path jur) reserved0 (enumerate 1 excluded_paths)) (\<lambda>reserved.
     if arr_of payload = [] then Inr []
     else if path_name (bw_root W) \<noteq> repository_name jur
     then bad (''repository directory must match the primary citation country: '' @ repository_name jur)
     else for_each (add_import W jur reserved) [] (enumerate 1 (arr_of payload))))))))"

section \<open>Direct dependents\<close>

definition regular_beneath :: "bundle_world \<Rightarrow> ppath \<Rightarrow> ppath \<Rightarrow> bool" where
  "regular_beneath W root rel \<longleftrightarrow> bw_node W root = Folder
     \<and> list_all (\<lambda>k. bw_node W (root @ take k rel) \<noteq> Link) [1..<length rel + 1] \<and> is_file (bw_node W (root @ rel))"

text \<open>The module of the target, relative to its jurisdiction; a replacement path takes the place of the citation's.\<close>

definition target_module :: "string \<Rightarrow> ppath \<Rightarrow> string \<Rightarrow> (path_error, ppath) result" where
  "target_module jur rel replacement_text =
    (if replacement_text = [] then Inr rel
     else let r = path_of replacement_text in
       if path_absolute r \<or> path_str r \<noteq> replacement_text \<or> list_ex (\<lambda>s. s \<in> {[], ''.'', ''..''}) r \<or> \<not> primary_module_of jur r
       then bad ''target RuleSpec path must be a canonical checkout-relative primary module in the citation jurisdiction''
       else Inr (tl r))"

definition dependent_module :: "string \<Rightarrow> ppath \<Rightarrow> string \<Rightarrow> (path_error, ppath) result" where
  "dependent_module jur target citation = bind_r (citation_parts_path citation) (\<lambda>(j, rel).
     if jur \<noteq> j then bad ''target and dependents must use the same jurisdiction''
     else if target = rel then bad ''dependent citation must differ from the target citation'' else Inr rel)"

definition import_target :: "string \<Rightarrow> string" where
  "import_target s = strip_slashes (strip (before CHR ''#'' s))"

definition names_target :: "string list \<Rightarrow> json \<Rightarrow> bool" where
  "names_target targets payload \<longleftrightarrow> is_obj payload \<and> is_arr (dget (obj_of payload) ''imports'')
     \<and> list_ex (\<lambda>i. is_str i \<and> import_target (str_of i) \<in> set targets) (arr_of (dget (obj_of payload) ''imports''))"

definition baseline_payload :: "bundle_world \<Rightarrow> ppath \<Rightarrow> (path_error, json) result" where
  "baseline_payload W p =
    (let msg = ''cannot inspect baseline RuleSpec module '' @ path_str (bw_root W @ p) in
     case bw_node W p of File mode content \<Rightarrow>
       bind_r (value_error_as msg (decoded content)) (\<lambda>t.
         case bw_yaml W (universal_newlines t) of None \<Rightarrow> bad msg | Some v \<Rightarrow> Inr v)
     | _ \<Rightarrow> bad ''baseline RuleSpec scan encountered a non-regular module'')"

definition scan_candidate :: "bundle_world \<Rightarrow> string \<Rightarrow> ppath \<Rightarrow> string list \<Rightarrow> ppath list \<Rightarrow> ppath \<Rightarrow> (path_error, ppath list) result" where
  "scan_candidate W jur target targets found p =
    (if test_module p \<or> p = jur # target then Inr found
     else bind_r (baseline_payload W p) (\<lambda>v. Inr (if names_target targets v then found @ [tl p] else found)))"

definition sorted_roots :: "string list" where
  "sorted_roots = sort atomic_roots"

definition scan_root :: "bundle_world \<Rightarrow> string \<Rightarrow> ppath \<Rightarrow> string list \<Rightarrow> ppath list \<Rightarrow> string \<Rightarrow> (path_error, ppath list) result" where
  "scan_root W jur target targets found root =
    (if \<not> bw_present W [jur, root] then Inr found
     else for_each (scan_candidate W jur target targets) found (bw_yaml_below W [jur, root]))"

definition validate_dependent_cascade ::
    "bundle_world \<Rightarrow> string \<Rightarrow> string list \<Rightarrow> string \<Rightarrow> (path_error, ppath list) result" where
  "validate_dependent_cascade W target_citation dependents replacement_text =
    bind_r (citation_parts_path target_citation) (\<lambda>(jur, rel).
    bind_r (target_module jur rel replacement_text) (\<lambda>target.
    if dependents = [] then bad ''at least one dependent citation is required'' else
    bind_r (map_r (dependent_module jur target) dependents) (\<lambda>rels.
    if \<not> distinct rels then bad ''dependent citations must be unique''
    else if \<not> prefix ''rulespec-'' (path_name (bw_root W)) then bad ''repository directory must use the rulespec-<country> name'' else
    bind_r (validate_country (drop 9 (path_name (bw_root W)))) (\<lambda>country.
    if jur \<noteq> country \<and> \<not> prefix (country @ ''-'') jur then bad ''citation jurisdiction does not belong to the RuleSpec repo''
    else if \<not> regular_beneath W [jur] target then bad ''target citation has no regular baseline RuleSpec module''
    else if list_ex (\<lambda>r. \<not> regular_beneath W [jur] r) rels then bad ''dependent citation has no regular baseline RuleSpec module''
    else let import = path_str (with_suffix target []) in
    bind_r (for_each (scan_root W jur target [import, jur @ '':'' @ import]) [] sorted_roots) (\<lambda>found.
    if set found \<noteq> set rels
    then bad (''target direct-dependent set does not exactly match supplied dependents: ''
              @ (if found = [] then ''<none>'' else join '', '' (map path_str (sort (remdups found)))))
    else Inr rels)))))"

end
