(* ===== verification/Backfill_Imports_Facts.thy ===== *)
theory Backfill_Imports_Facts
  imports Backfill_Refresh_Facts Backfill_Imports
begin

text \<open>
  What is guaranteed about the modules a backfill relies on: reused imports are tracked signed modules that the
  transaction does not write, and the supplied dependents are all modules that import the target.
\<close>

section \<open>Existing imports\<close>

lemma tracked_file_Inr:
  assumes "require_tracked_file W p label n = Inr u"
  shows "(\<exists>raw. read_bounded_regular W p label n = Inr raw)
     \<and> (\<exists>out t. bw_git W [''ls-files'', ''--error-unmatch'', ''--'', path_str p] = Some out \<and> decoded out = Inr t
          \<and> split_lines t = [path_str p])"
  using assms by (auto simp: require_tracked_file_def Let_def split: option.splits if_split_asm elim!: bind_r_InrE)

text \<open>A module that may be imported: in the repository's own tracking, signed, and readable within the bounds.\<close>

definition importable :: "bundle_world \<Rightarrow> string \<Rightarrow> ppath \<Rightarrow> bool" where
  "importable W jur p \<longleftrightarrow> primary_module_of jur p \<and> contained p
     \<and> (\<exists>raw. regular_content W p imports_bytes_limit raw)
     \<and> (\<exists>mraw t m. regular_content W (manifest_path_of p) import_manifest_limit mraw \<and> decoded mraw = Inr t
          \<and> loads (lenient_conf W) (bw_depth W) t = Inr m \<and> signed_v5 m)
     \<and> (\<forall>q\<in>{p, manifest_path_of p}. \<exists>out t. bw_git W [''ls-files'', ''--error-unmatch'', ''--'', path_str q] = Some out
          \<and> decoded out = Inr t \<and> split_lines t = [path_str q])"

lemma load_signed_manifest_Inr:
  "load_signed_manifest W mp label = Inr m \<Longrightarrow> \<exists>raw t. read_bounded_regular W mp label import_manifest_limit = Inr raw
     \<and> decoded raw = Inr t \<and> loads (lenient_conf W) (bw_depth W) t = Inr m"
  by (auto simp: load_signed_manifest_def elim!: bind_r_InrE split: sum.splits load_error.splits)

lemma add_import_step:
  assumes "add_import W jur reserved seen (n, v) = Inr t"
  shows "\<exists>p. t = seen @ [p] \<and> (importable W jur p \<and> p \<notin> set reserved) \<and> p \<notin> set seen \<and> v = JStr (path_str p)"
proof -
  from assms obtain label p m where p: "safe_relative_path v label = Inr p" "primary_module_of jur p" "p \<notin> set reserved" "p \<notin> set seen"
    and f: "\<exists>l. require_tracked_file W p l imports_bytes_limit = Inr ()"
    and mf: "\<exists>l. require_tracked_file W (manifest_path_of p) l import_manifest_limit = Inr ()"
    and m: "\<exists>l. load_signed_manifest W (manifest_path_of p) l = Inr m" "signed_v5 m" and t: "t = seen @ [p]"
    unfolding add_import_def prod.case Let_def
    by (simp only: if_Inl_Inr bind_r_Inr_iff sum.inject unit_ex not_not de_Morgan_disj) blast
  have c: "contained p" "v = JStr (path_str p)" using p(1) by (auto simp: safe_relative_iff)
  note r = read_contained[OF c(1)] read_contained[OF contained_beside(2)[OF c(1)]]
  have "importable W jur p" unfolding importable_def using p(2) c(1) f mf m
    by (auto simp: r dest!: tracked_file_Inr load_signed_manifest_Inr)
  then show ?thesis using p(3,4) c(2) t by blast
qed

interpretation imported: admission "add_import W jur reserved" "\<lambda>p. importable W jur p \<and> p \<notin> set reserved" "\<lambda>p. p"
  "\<lambda>v p. v = JStr (path_str p)" for W jur reserved
  by unfold_locales (use add_import_step in force)

lemma reserve_module_run:
  "for_each (reserve_module jur) r0 cs = Inr r \<Longrightarrow> set r0 \<subseteq> set r \<and> (\<forall>c\<in>set cs. \<exists>m\<in>set r. citation_rulespec_path c = Inr m)"
proof (induction cs arbitrary: r0)
  case (Cons c cs)
  then obtain r1 where r1: "reserve_module jur r0 c = Inr r1" "for_each (reserve_module jur) r1 cs = Inr r"
    by (auto split: sum.splits)
  from r1(1) obtain m where "r1 = r0 @ [m]" "citation_rulespec_path c = Inr m"
    by (auto simp: reserve_module_def citation_rulespec_path_def elim!: bind_r_InrE split: if_splits)
  then show ?case using Cons.IH[OF r1(2)] by auto
qed simp

lemma reserve_path_run:
  "for_each (reserve_path jur) r0 (enumerate n vs) = Inr r \<Longrightarrow> set r0 \<subseteq> set r \<and> (\<forall>v\<in>set vs. \<exists>m\<in>set r. path_str m = v \<and> contained m)"
proof (induction vs arbitrary: r0 n)
  case (Cons v vs)
  then obtain r1 where r1: "reserve_path jur r0 (n, v) = Inr r1" "for_each (reserve_path jur) r1 (enumerate (Suc n) vs) = Inr r"
    by (auto split: sum.splits)
  from r1(1) obtain m where "r1 = r0 @ [m]" "path_str m = v" "contained m"
    by (auto simp: reserve_path_def safe_relative_iff elim!: bind_r_InrE split: if_splits)
  then show ?case using Cons.IH[OF r1(2)] by auto
qed simp

text \<open>C39. The existing modules a backfill may import are the distinct paths that were sent, at most 16 together with the fresh
  sources; each is a primary module of the jurisdiction, tracked by Git together with its manifest, which uses the
  signed schema; and none of them is written by the transaction: not the primary, no fresh or excluded source, and
  no excluded path.\<close>

theorem imports_signed_and_unwritten:
  assumes "parse_existing_signed_imports W text primary sources excluded excluded_paths = Inr ps"
  shows "distinct ps \<and> length ps + length sources \<le> 16 \<and> list_all (importable W (before CHR ''/'' primary)) ps
     \<and> (\<forall>c\<in>set (primary # sources @ excluded). \<exists>m. citation_rulespec_path c = Inr m \<and> m \<notin> set ps)
     \<and> set (map path_str ps) \<inter> set excluded_paths = {}"
proof -
  have "\<exists>payload jp reserved0 reserved. length (arr_of payload) + length sources \<le> max_source_bundle_citations
     \<and> citation_parts_path primary = Inr jp
     \<and> for_each (reserve_module (fst jp)) [path_of (fst jp) @ snd jp] (sources @ excluded) = Inr reserved0
     \<and> for_each (reserve_path (fst jp)) reserved0 (enumerate 1 excluded_paths) = Inr reserved
     \<and> (ps = [] \<or> for_each (add_import W (fst jp) reserved) [] (enumerate 1 (arr_of payload)) = Inr ps)"
    using assms unfolding parse_existing_signed_imports_def split_beta
    by (simp only: if_Inl_Inr bind_r_Inr_iff sum.inject not_not not_less split: if_split_asm) blast+
  then obtain payload jur rel reserved0 reserved where
    n: "length (arr_of payload) + length sources \<le> max_source_bundle_citations" and pr: "citation_parts_path primary = Inr (jur, rel)"
    and r0: "for_each (reserve_module jur) [path_of jur @ rel] (sources @ excluded) = Inr reserved0"
    and r: "for_each (reserve_path jur) reserved0 (enumerate 1 excluded_paths) = Inr reserved"
    and rest: "ps = [] \<or> for_each (add_import W jur reserved) [] (enumerate 1 (arr_of payload)) = Inr ps" by auto
  have jur: "jur = before CHR ''/'' primary" using pr by (rule parts_jurisdiction)
  have res: "\<forall>c\<in>set (primary # sources @ excluded). \<exists>m\<in>set reserved. citation_rulespec_path c = Inr m"
    "\<forall>v\<in>set excluded_paths. \<exists>m\<in>set reserved. path_str m = v \<and> contained m"
  proof -
    have "citation_rulespec_path primary = Inr (path_of jur @ rel)" using pr by (simp add: citation_rulespec_path_def)
    then show "\<forall>c\<in>set (primary # sources @ excluded). \<exists>m\<in>set reserved. citation_rulespec_path c = Inr m"
      using reserve_module_run[OF r0] reserve_path_run[OF r] by auto blast+
  qed (use reserve_path_run[OF r] in blast)
  have ps: "list_all (\<lambda>p. importable W jur p \<and> p \<notin> set reserved) ps \<and> distinct ps \<and> length ps \<le> length (arr_of payload)"
    using rest imported.run_all[of W jur reserved 1 "arr_of payload" ps] by auto
  have "path_str p \<notin> set excluded_paths" if "p \<in> set ps" for p
  proof
    assume "path_str p \<in> set excluded_paths"
    then obtain m where "m \<in> set reserved" "path_str m = path_str p" "contained m" using res(2) by blast
    moreover have "contained p" "p \<notin> set reserved" using ps that by (auto simp: list_all_iff importable_def)
    ultimately show False using path_str_inj by blast
  qed
  then show ?thesis using ps n res(1) jur by (fastforce simp: max_source_bundle_citations_def list_all_iff)
qed

section \<open>Direct dependents\<close>

lemma for_each_collects:
  assumes "for_each f acc xs = Inr out" and "\<And>acc x out. x \<in> set xs \<Longrightarrow> f acc x = Inr out \<Longrightarrow> set out = set acc \<union> g x \<and> good x"
  shows "set out = set acc \<union> (\<Union>x\<in>set xs. g x) \<and> (\<forall>x\<in>set xs. good x)"
  using assms
proof (induction xs arbitrary: acc)
  case (Cons x xs)
  then obtain s where "f acc x = Inr s" "for_each f s xs = Inr out" by (auto split: sum.splits)
  then show ?case using Cons.IH[of s] Cons.prems(2)[of x acc s] Cons.prems(2) by auto
qed simp

text \<open>The modules of the baseline that the scan must read, and those of them that import the target, stated without the scan.\<close>

definition baseline_modules :: "bundle_world \<Rightarrow> string \<Rightarrow> ppath \<Rightarrow> ppath set" where
  "baseline_modules W jur target = {p. \<exists>root\<in>set atomic_roots. bw_present W [jur, root] \<and> p \<in> set (bw_yaml_below W [jur, root])
     \<and> \<not> test_module p \<and> p \<noteq> jur # target}"

definition import_names :: "string \<Rightarrow> ppath \<Rightarrow> string list" where
  "import_names jur target = [path_str (with_suffix target []), jur @ '':'' @ path_str (with_suffix target [])]"

definition direct_dependents :: "bundle_world \<Rightarrow> string \<Rightarrow> ppath \<Rightarrow> ppath set" where
  "direct_dependents W jur target = {tl p | p. p \<in> baseline_modules W jur target
     \<and> (\<exists>v. baseline_payload W p = Inr v \<and> names_target (import_names jur target) v)}"

lemma scan_finds:
  assumes "for_each (scan_root W jur target (import_names jur target)) [] sorted_roots = Inr found"
  shows "set found = direct_dependents W jur target \<and> (\<forall>p\<in>baseline_modules W jur target. ok (baseline_payload W p))"
proof -
  let ?N = "import_names jur target"
  let ?hit = "\<lambda>p. if test_module p \<or> p = jur # target then {} else {tl p | v. baseline_payload W p = Inr v \<and> names_target ?N v}"
  let ?read = "\<lambda>p. \<not> (test_module p \<or> p = jur # target) \<longrightarrow> ok (baseline_payload W p)"
  have cand: "set out = set acc \<union> ?hit p \<and> ?read p" if "scan_candidate W jur target ?N acc p = Inr out" for acc p out
    using that by (auto simp: scan_candidate_def elim!: bind_r_InrE split: if_splits)
  have root: "set out = set acc \<union> (if bw_present W [jur, r] then \<Union>p\<in>set (bw_yaml_below W [jur, r]). ?hit p else {})
      \<and> (bw_present W [jur, r] \<longrightarrow> (\<forall>p\<in>set (bw_yaml_below W [jur, r]). ?read p))"
    if "scan_root W jur target ?N acc r = Inr out" for acc r out
  proof (cases "bw_present W [jur, r]")
    case True
    then have "for_each (scan_candidate W jur target ?N) acc (bw_yaml_below W [jur, r]) = Inr out" using that by (simp add: scan_root_def)
    from for_each_collects[OF this, of ?hit ?read] cand True show ?thesis by simp
  qed (use that in \<open>simp add: scan_root_def\<close>)
  from for_each_collects[OF assms, of "\<lambda>r. if bw_present W [jur, r] then \<Union>p\<in>set (bw_yaml_below W [jur, r]). ?hit p else {}"
      "\<lambda>r. bw_present W [jur, r] \<longrightarrow> (\<forall>p\<in>set (bw_yaml_below W [jur, r]). ?read p)"] root
  have f: "set found = (\<Union>r\<in>set sorted_roots. if bw_present W [jur, r] then \<Union>p\<in>set (bw_yaml_below W [jur, r]). ?hit p else {})"
    and r: "\<forall>r\<in>set sorted_roots. bw_present W [jur, r] \<longrightarrow> (\<forall>p\<in>set (bw_yaml_below W [jur, r]). ?read p)" by simp_all
  have sr: "set sorted_roots = set atomic_roots" by (simp add: sorted_roots_def)
  have "set found = direct_dependents W jur target" unfolding f sr direct_dependents_def baseline_modules_def
    by (auto split: if_splits)
  moreover have "\<forall>p\<in>baseline_modules W jur target. ok (baseline_payload W p)" using r unfolding sr baseline_modules_def by blast
  ultimately show ?thesis by blast
qed

lemma dependent_modules:
  "map_r (dependent_module jur target) cs = Inr rels \<Longrightarrow> map_r citation_parts_path cs = Inr (map (Pair jur) rels) \<and> target \<notin> set rels"
proof (induction cs arbitrary: rels)
  case (Cons c cs)
  then show ?case by (force simp: dependent_module_def elim!: bind_r_InrE split: if_splits sum.splits)
qed simp

text \<open>C40. A cascade is accepted only if the supplied dependents are exactly the direct dependents of the target: the modules below
  the atomic roots of the jurisdiction, tests and the target itself aside, whose list of imports names the target
  with or without its jurisdiction. Every module that had to be looked at was a regular file that could be decoded
  and parsed, so none was overlooked.\<close>

theorem cascade_exact:
  assumes "validate_dependent_cascade W target_citation dependents replacement = Inr rels"
  shows "\<exists>jur rel target. citation_parts_path target_citation = Inr (jur, rel) \<and> target_module jur rel replacement = Inr target
     \<and> map_r citation_parts_path dependents = Inr (map (Pair jur) rels) \<and> rels \<noteq> [] \<and> distinct rels \<and> target \<notin> set rels
     \<and> set rels = direct_dependents W jur target
     \<and> (\<forall>p\<in>baseline_modules W jur target. ok (baseline_payload W p))
     \<and> (\<forall>r\<in>set (target # rels). regular_beneath W [jur] r)"
proof -
  have "\<exists>jp target found country. citation_parts_path target_citation = Inr jp \<and> target_module (fst jp) (snd jp) replacement = Inr target
      \<and> dependents \<noteq> [] \<and> map_r (dependent_module (fst jp) target) dependents = Inr rels \<and> distinct rels
      \<and> validate_country (drop 9 (path_name (bw_root W))) = Inr country
      \<and> regular_beneath W [fst jp] target \<and> \<not> list_ex (\<lambda>r. \<not> regular_beneath W [fst jp] r) rels
      \<and> for_each (scan_root W (fst jp) target (import_names (fst jp) target)) [] sorted_roots = Inr found \<and> set found = set rels"
    using assms unfolding validate_dependent_cascade_def Let_def split_beta import_names_def
    by (simp only: if_Inl_Inr bind_r_Inr_iff sum.inject not_not) blast
  then obtain jur rel target found where c: "citation_parts_path target_citation = Inr (jur, rel)"
    "target_module jur rel replacement = Inr target" "dependents \<noteq> []" "map_r (dependent_module jur target) dependents = Inr rels"
    "distinct rels" "regular_beneath W [jur] target" "\<not> list_ex (\<lambda>r. \<not> regular_beneath W [jur] r) rels"
    "for_each (scan_root W jur target (import_names jur target)) [] sorted_roots = Inr found" "set found = set rels"
    by auto
  have "rels \<noteq> []" using map_r_length[OF c(4)] c(3) by auto
  then show ?thesis using c dependent_modules[OF c(4)] scan_finds[OF c(8)] by (auto simp: list_ex_iff)
qed

end
