(* ===== verification/Backfill_Examples.thy ===== *)
theory Backfill_Examples
  imports Backfill_Imports_Facts
begin

text \<open>
  The properties of the planning operations at one concrete checkout: \<open>rulespec-us\<close> with the modules of two sections of
  title 26, the second of which imports the first, and the manifests of both.
\<close>

section \<open>A checkout\<close>

definition cit_a :: string where "cit_a = ''us/statute/26/32''"
definition cit_b :: string where "cit_b = ''us/statute/26/24''"
definition mod_a :: ppath where "mod_a = [''us'', ''statutes'', ''26'', ''32.yaml'']"
definition mod_b :: ppath where "mod_b = [''us'', ''statutes'', ''26'', ''24.yaml'']"
definition man_a :: ppath where "man_a = [''.axiom'', ''encoding-manifests'', ''us'', ''statutes'', ''26'', ''32.json'']"
definition man_b :: ppath where "man_b = [''.axiom'', ''encoding-manifests'', ''us'', ''statutes'', ''26'', ''24.json'']"
definition txt_a :: string where "txt_a = ''format: 1''"
definition txt_b :: string where "txt_b = ''imports: us:statutes/26/32''"

definition toy_digest :: "string \<Rightarrow> string" where
  "toy_digest b = replicate 63 CHR ''0'' @ [digit_char (length b mod 10)]"

definition toy_manifest :: "string \<Rightarrow> ppath \<Rightarrow> string \<Rightarrow> json" where
  "toy_manifest c p content = JObj
     [(''applied_files'', JArr [JObj [(''path'', JStr (path_str p)), (''sha256'', JStr (toy_digest content))]]), (''citation'', JStr c),
      (''schema_version'', JStr ''axiom-encode/applied-rulespec/v5''), (''tool'', JStr model_apply_tool)]"

definition mtx_a :: string where "mtx_a = print_json (toy_manifest cit_a mod_a txt_a)"
definition mtx_b :: string where "mtx_b = print_json (toy_manifest cit_b mod_b txt_b)"

definition toy_paths :: "ppath list" where "toy_paths = [mod_a, mod_b, man_a, man_b]"

definition toy_content :: "ppath \<Rightarrow> string" where
  "toy_content p = (if p = mod_a then txt_a else if p = mod_b then txt_b else if p = man_a then mtx_a else mtx_b)"

definition toy_node :: "ppath \<Rightarrow> fs_node" where
  "toy_node p = (if p \<in> set toy_paths then File 420 (toy_content p)
     else if list_ex (strict_prefix p) toy_paths then Folder else Absent)"

definition toy_head :: string where "toy_head = replicate 40 CHR ''a''"

definition toy_git :: "string list \<Rightarrow> string option" where
  "toy_git args =
    (let p = path_of (last args); q = path_of (drop 5 (last args)); staged = (args ! 1 = ''--stage'') in
     if args = [''rev-parse'', ''HEAD''] \<or> args = [''rev-parse'', ''refs/remotes/origin/main''] then Some (toy_head @ [CHR 0x0A])
     else if hd args = ''merge-base'' then Some []
     else if hd args = ''ls-tree'' then Some []
     else if hd args = ''show'' then (if q \<in> set toy_paths then Some (toy_content q) else None)
     else if p \<notin> set toy_paths then (if staged then Some [] else None)
     else Some ((if staged then ''100644 0 0'' @ [CHR 0x09] else []) @ last args @ [CHR 0x0A]))"

definition toy_world :: bundle_world where
  "toy_world = \<lparr>bw_root = [''/'', ''repo'', ''rulespec-us''], bw_node = toy_node, bw_present = (\<lambda>p. toy_node p \<noteq> Absent),
     bw_yaml_below = (\<lambda>p. filter (prefix p) [mod_b, mod_a]), bw_git = toy_git, bw_sha256 = toy_digest,
     bw_yaml = (\<lambda>t. Some (JObj (if t = txt_b then [(''imports'', JArr [JStr ''us:statutes/26/32#eitc''])] else []))),
     bw_float_repr = id, bw_depth = 50\<rparr>"

section \<open>Texts\<close>

text \<open>Printed texts stay folded: what they read back as is known from \<open>loads_print\<close>.\<close>

declare print_json.simps [simp del] fits.simps [simp del]

lemma plain_confs: "plain_hook (unique_conf W)" "plain_hook (lenient_conf W)"
  using foldl_update_distinct[of "[]"] by (auto simp: plain_hook_def unique_conf_def unique_object_def lenient_conf_def)

lemma ascii_print: "fits v n \<Longrightarrow> decoded (print_json v) = Inr (print_json v) \<and> utf8_encode (print_json v) = print_json v"
  using print_json_ascii by (auto simp: decoded_def utf8_decode_ascii utf8_encode_ascii)

lemma load_print: "fits v (bw_depth W) \<Longrightarrow> load_unambiguous_json W label (print_json v) = Inr v"
  using loads_print[OF plain_confs(1)] by (simp add: load_unambiguous_json_def)

lemma lenient_print: "fits v (bw_depth W) \<Longrightarrow> lenient_json W (print_json v) = Inr v"
  by (simp add: loads_print plain_confs)

lemma manifest_fits: "fits (toy_manifest cit_a mod_a txt_a) 50" "fits (toy_manifest cit_b mod_b txt_b) 50"
  by code_simp+

lemma toy_depth [simp]: "bw_depth toy_world = 50" by (simp add: toy_world_def)

lemma manifest_loads:
  "load_manifest toy_world msg mtx_a = Inr (toy_manifest cit_a mod_a txt_a)"
  "load_manifest toy_world msg mtx_b = Inr (toy_manifest cit_b mod_b txt_b)"
  "loads (lenient_conf toy_world) 50 mtx_b = Inr (toy_manifest cit_b mod_b txt_b)" "decoded mtx_b = Inr mtx_b"
  "lenient_json toy_world mtx_b = Inr (toy_manifest cit_b mod_b txt_b)"
  using manifest_fits[THEN ascii_print] manifest_fits[THEN loads_print[OF plain_confs(2)[of toy_world]]]
  by (simp_all add: load_manifest_def mtx_a_def mtx_b_def value_error_as_def)

section \<open>Admission\<close>

lemma admitted_base_reviewed_witness: "hex_of_length 40 toy_head \<and> git_word toy_world [''rev-parse'', ''HEAD''] = Inr toy_head
   \<and> git_word toy_world [''rev-parse'', ''refs/remotes/origin/'' @ ''main''] = Inr toy_head"
proof -
  have "validate_rulespec_base toy_world ''us'' toy_head True ''main'' = Inr ''main''" by code_simp
  from admitted_base_reviewed[OF this] show ?thesis by blast
qed

definition toy_sources :: json where "toy_sources = JArr [JStr ''us/statute/26/63'']"

lemma toy_sources_text: "load_unambiguous_json toy_world label (print_json toy_sources) = Inr toy_sources"
  "utf8_encode (print_json toy_sources) = print_json toy_sources"
proof -
  have "fits toy_sources 50" by code_simp
  then show "load_unambiguous_json toy_world label (print_json toy_sources) = Inr toy_sources"
    "utf8_encode (print_json toy_sources) = print_json toy_sources" using ascii_print by (auto intro: load_print)
qed

lemma source_mode_exclusive_witness: "\<exists>m. split_atomic_source_input toy_world (print_json toy_sources) = Inr m \<and> sm_refresh m = [] \<and> sm_sources m \<noteq> []"
proof -
  have l: "length (print_json toy_sources) \<le> max_source_bundle_json_bytes" by code_simp
  have s: "split_atomic_source_input toy_world (print_json toy_sources)
      = Inr \<lparr>sm_refresh = [], sm_cases = [], sm_sources = [JStr ''us/statute/26/63'']\<rparr>" using l
    by (simp add: split_atomic_source_input_def toy_sources_text) (simp add: toy_sources_def)
  from source_mode_exclusive[OF s] s show ?thesis by auto
qed

lemma toy_parsed: "parse_source_bundle toy_world (print_json toy_sources) primary [] = Inr [''us/statute/26/63'']"
  if "primary \<in> {cit_a, ''us/statute/26/1''}"
proof -
  have l: "length (print_json toy_sources) \<le> max_source_bundle_json_bytes" by code_simp
  have "validate_citation (JStr cit_a) ''primary citation'' = Inr (cit_a, mod_a)"
    "validate_citation (JStr ''us/statute/26/1'') ''primary citation'' = Inr (''us/statute/26/1'', [''us'', ''statutes'', ''26'', ''1.yaml''])"
    "for_each (add_source ''us'' [(cit_a, mod_a)]) [] (enumerate 1 (arr_of toy_sources)) = Inr [(''us/statute/26/63'', [''us'', ''statutes'', ''26'', ''63.yaml''])]"
    "for_each (add_source ''us'' [(''us/statute/26/1'', [''us'', ''statutes'', ''26'', ''1.yaml''])]) [] (enumerate 1 (arr_of toy_sources))
       = Inr [(''us/statute/26/63'', [''us'', ''statutes'', ''26'', ''63.yaml''])]"
    "before CHR ''/'' cit_a = ''us''" "is_arr toy_sources" "length (arr_of toy_sources) \<le> max_source_bundle_citations"
    "validate_country ''us'' = Inr ''us''"
    by code_simp+
  then show ?thesis using that l by (auto simp: parse_source_bundle_def toy_sources_text Let_def before_def simp del: for_each.simps(2))
qed

lemma source_bundle_disjoint_witness: "\<exists>ms. map_r citation_rulespec_path [''us/statute/26/63''] = Inr ms \<and> mod_a \<notin> set ms"
proof -
  have "citation_rulespec_path cit_a = Inr mod_a" by code_simp
  then show ?thesis using source_bundle_disjoint[OF toy_parsed[of cit_a]] by auto
qed

lemma additions_overwrite_nothing_witness: "\<exists>p. citation_rulespec_path ''us/statute/26/1'' = Inr p
   \<and> (\<exists>k\<le>length p. bw_node toy_world (take k p) = Absent)"
proof -
  have m: "map_r (add_conflicts toy_world) [''us/statute/26/1'', ''us/statute/26/63''] = Inr [[], []]" by code_simp
  have n: "path_name (bw_root toy_world) = repository_name (before CHR ''/'' ''us/statute/26/1'')" by code_simp
  have "validate_source_add_targets toy_world (print_json toy_sources) ''us/statute/26/1'' [] = Inr [''us/statute/26/63'']"
    using toy_parsed[of "''us/statute/26/1''"] m n by (simp add: validate_source_add_targets_def Let_def del: map_r.simps)
  from additions_overwrite_nothing[OF this, of "''us/statute/26/1''"] show ?thesis by auto
qed

section \<open>Cases\<close>

definition toy_case :: json where
  "toy_case = JObj [(''name'', JStr ''one''), (''period'', JObj [(''period_kind'', JStr ''tax_year''), (''start'', JStr ''2024-01-01''),
     (''end'', JStr ''2024-W52'')]), (''input'', JObj [(''a'', JStr ''x''), (''b'', JInt 2)]), (''required_output'', JObj [(''c'', JBool True)])]"

lemma toy_dates: "iso_ordinal ''2024-01-01'' = Some 738886" "iso_ordinal ''2024-W52'' = Some 739243"
  by (simp_all add: iso_ordinal_def Let_def utf8_encode_def digits_at_def is_digit_def valid_date_def ordinal_def days_before_year_def
      days_before_month_def days_in_month_def is_leap_def week_ordinal_def weeks_in_year_def week1_monday_def max_ordinal_def upt_rec)

lemma toy_case_type: "case_type toy_case"
proof -
  define pd inp out where "pd = [(''period_kind'', JStr ''tax_year''), (''start'', JStr ''2024-01-01''), (''end'', JStr ''2024-W52'')]"
    and "inp = [(''a'', JStr ''x''), (''b'', JInt 2)]" and "out = [(''c'', JBool True)]"
  have "keys pd = period_fields (JObj pd)" by (auto simp: pd_def keys_def period_fields_def dget_def)
  moreover have "list_all (\<lambda>(k, f). normal_str normal_line f) pd" unfolding pd_def by code_simp
  ultimately have "period_ok pd" by (simp add: period_ok_def pd_def dget_def toy_dates period_kinds_def)
  moreover have "mapping_ok inp" "mapping_ok out" "sorted (map fst inp)" unfolding inp_def out_def by code_simp+
  moreover have "normal_period pd = JObj pd" by (simp add: normal_period_def pd_def dget_def)
  moreover have "normal_line ''one''" by code_simp
  ultimately show ?thesis unfolding case_type_def
    by (intro exI[of _ "''one''"] exI[of _ pd] exI[of _ inp] exI[of _ out]) (simp add: toy_case_def pd_def inp_def out_def)
qed

lemma toy_cases: "normalize_required_test_cases (JArr [toy_case]) label = Inr [toy_case]"
  using cases.good_run[of "[toy_case]" "[]" label] toy_case_type
  by (simp add: normalize_required_test_cases_def max_required_test_cases_def)

lemma required_cases_typed_witness: "list_all case_type [toy_case] \<and> length [toy_case] = length (arr_of (JArr [toy_case]))"
  using required_cases_typed[OF toy_cases] by blast

lemma required_cases_stable_witness: "normalize_required_test_cases (JArr [toy_case]) ''later stage'' = Inr [toy_case]"
  by (rule required_cases_stable[OF toy_cases[of "''label''"]])

section \<open>Refresh\<close>

definition toy_target :: "string \<Rightarrow> ppath \<Rightarrow> json \<Rightarrow> json list \<Rightarrow> jobj" where
  "toy_target c p finding cases = [(''citation'', JStr c), (''review_finding'', finding),
       (''deferred_output_contracts'', JArr []), (''required_test_cases'', JArr cases),
       (''rulespec_path'', JStr (path_str p)), (''rulespec_sha256'', JStr (toy_digest (toy_content p))),
       (''companion_path'', JStr (path_str (companion_path p))), (''companion_sha256'', JNull),
       (''manifest_path'', JStr (path_str (manifest_path_of p))), (''manifest_sha256'', JStr (toy_digest (toy_content (manifest_path_of p))))]"

definition toy_request :: json where
  "toy_request = JObj [(''citation'', JStr cit_b), (''replace_rulespec_path'', JStr (path_str mod_b)), (''review_finding'', JStr ''check'')]"

lemma toy_world_sha [simp]: "bw_sha256 toy_world = toy_digest" by (simp add: toy_world_def)

lemma toy_contained: "q \<in> set toy_paths \<Longrightarrow> contained q"
proof -
  have "list_all contained toy_paths" by code_simp
  then show "q \<in> set toy_paths \<Longrightarrow> ?thesis" by (auto simp: list_all_iff)
qed

lemma toy_sizes: "length txt_a \<le> manifest_bytes_limit" "length txt_b \<le> manifest_bytes_limit"
  "length mtx_a \<le> manifest_bytes_limit" "length mtx_b \<le> manifest_bytes_limit"
  by code_simp+

lemma toy_regular:
  assumes "q \<in> set toy_paths" "manifest_bytes_limit \<le> n"
  shows "regular_content toy_world q n (toy_content q)"
proof -
  have "list_all (parents_open toy_world) toy_paths" by code_simp
  moreover have "length (toy_content q) \<le> n" using toy_sizes assms(2) by (auto simp: toy_content_def)
  ultimately show ?thesis using assms(1) by (auto simp: regular_content_def list_all_iff toy_world_def toy_node_def)
qed

lemma toy_tracked:
  assumes "q \<in> set toy_paths" "manifest_bytes_limit \<le> n"
  shows "tracked_bytes toy_world q label n = Inr (toy_content q)"
proof -
  have c: "contained q" by (rule toy_contained[OF assms(1)])
  have "list_all (\<lambda>q. let x = ''100644 0 0'' @ [CHR 0x09] @ path_str q @ [CHR 0x0A] in
      bw_git toy_world [''ls-files'', ''--stage'', ''--'', path_str q] = Some x \<and> decoded x = Inr x \<and> staged_exactly (split_lines x) q) toy_paths"
    by code_simp
  then have "staged_at toy_world q" using assms(1) unfolding staged_at_def list_all_iff Let_def by blast
  moreover have "bw_git toy_world (at_head q) = Some (toy_content q)"
    using assms(1) path_of_str[OF c] by (simp add: toy_world_def toy_git_def at_head_def Let_def)
  ultimately show ?thesis using tracked_Inr[OF c] toy_regular[OF assms] by blast
qed

lemma toy_inventory:
  "canonical_refresh_target_inventory toy_world cit_a mod_a finding [] cases = Inr (toy_target cit_a mod_a finding cases)"
  "canonical_refresh_target_inventory toy_world cit_b mod_b finding [] cases = Inr (toy_target cit_b mod_b finding cases)"
proof -
  have p: "manifest_path_of mod_a = man_a" "manifest_path_of mod_b = man_b" by code_simp+
  have q: "mod_a \<in> set toy_paths" "mod_b \<in> set toy_paths" "man_a \<in> set toy_paths" "man_b \<in> set toy_paths" by (simp_all add: toy_paths_def)
  have n: "manifest_bytes_limit \<le> rulespec_bytes_limit" by (simp add: manifest_bytes_limit_def rulespec_bytes_limit_def)
  have t: "toy_content mod_a = txt_a" "toy_content mod_b = txt_b" "toy_content man_a = mtx_a" "toy_content man_b = mtx_b" by code_simp+
  have k: "companion_digest toy_world cit_a (companion_path mod_a) = Inr JNull" "companion_digest toy_world cit_b (companion_path mod_b) = Inr JNull"
    by code_simp+
  have m: "toy_manifest c r content = JObj (obj_of (toy_manifest c r content))
      \<and> is_arr (dget (obj_of (toy_manifest c r content)) ''applied_files'') \<and> covers_target (obj_of (toy_manifest c r content)) c r (toy_digest content)" for c r content
    by (simp add: toy_manifest_def covers_target_def dget_def)
  have it: "\<exists>xs. iterate (dget (obj_of (toy_manifest c r content)) ''applied_files'') = Inr xs" for c r content
    by (simp add: toy_manifest_def dget_def iterate_def)
  have i: "is_obj (toy_manifest c r content)" for c r content by (simp add: toy_manifest_def)
  show "canonical_refresh_target_inventory toy_world cit_a mod_a finding [] cases = Inr (toy_target cit_a mod_a finding cases)"
    "canonical_refresh_target_inventory toy_world cit_b mod_b finding [] cases = Inr (toy_target cit_b mod_b finding cases)"
    using it[of cit_a mod_a txt_a] it[of cit_b mod_b txt_b] m[of cit_a mod_a txt_a] m[of cit_b mod_b txt_b]
    unfolding canonical_refresh_target_inventory_def Let_def
    by (auto simp: p toy_tracked[OF q(1) n] toy_tracked[OF q(2) n] toy_tracked[OF q(3) le_refl] toy_tracked[OF q(4) le_refl] t k manifest_loads i
        toy_target_def)
qed

definition toy_primary :: refresh_request where
  "toy_primary = \<lparr>rq_citation = cit_a, rq_path = mod_a, rq_finding = JNull, rq_contracts = [], rq_cases = [toy_case]\<rparr>"

definition toy_addition :: refresh_request where
  "toy_addition = \<lparr>rq_citation = cit_b, rq_path = mod_b, rq_finding = JStr ''check'', rq_contracts = [], rq_cases = []\<rparr>"

abbreviation toy_targets :: "jobj list" where
  "toy_targets \<equiv> [toy_target cit_a mod_a JNull [toy_case], toy_target cit_b mod_b (JStr ''check'') []]"

lemma toy_bundle: "parse_canonical_refresh_bundle toy_world (print_json (JArr [toy_request])) cit_a (path_str mod_a)
    (print_json (JArr [toy_case])) = Inr toy_targets"
proof -
  have f: "fits (JArr [toy_request]) 50" "fits (JArr [toy_case]) 50" by code_simp+
  have l: "load_unambiguous_json toy_world label (print_json (JArr [toy_request])) = Inr (JArr [toy_request])"
    "load_unambiguous_json toy_world label (print_json (JArr [toy_case])) = Inr (JArr [toy_case])" for label
    using f by (simp_all add: load_print)
  have n: "length (utf8_encode (print_json (JArr [toy_request]))) \<le> max_source_bundle_json_bytes"
    "length (utf8_encode (print_json (JArr [toy_case]))) \<le> max_review_contract_json_bytes" by code_simp+
  have p: "primary_request toy_world cit_a (path_str mod_a) [toy_case] = Inr toy_primary" by code_simp
  have a: "admit_refresh (before CHR ''/'' (rq_citation toy_primary)) [toy_primary] (1, toy_request) = Inr [toy_primary, toy_addition]" by code_simp
  show ?thesis using n toy_inventory[of JNull "[toy_case]"] toy_inventory[of "JStr ''check''" "[]"] a
    by (simp add: parse_canonical_refresh_bundle_def l toy_cases p max_canonical_refresh_bundle_citations_def max_source_bundle_citations_def
        toy_primary_def toy_addition_def del: One_nat_def enumerate_simps) (simp add: toy_primary_def toy_addition_def)
qed

lemma refresh_targets_bound_witness: "list_all (\<lambda>t. target_matches toy_world t \<and> bound_to_head toy_world t) toy_targets"
  using refresh_targets_bound[OF toy_bundle] by blast

lemma toy_hex: "hex_of_length 64 (toy_digest b)"
proof -
  have "is_hex (digit_char (length b mod 10))" by (simp add: is_hex_def)
  moreover have "list_all is_hex (replicate 63 CHR ''0'')" by code_simp
  ultimately show ?thesis by (simp add: toy_digest_def hex_of_length_def)
qed

lemma toy_target_text: "loads (unique_conf toy_world) (bw_depth toy_world) (print_json (JObj (toy_target cit_a mod_a JNull [toy_case])))
    = Inr (JObj (toy_target cit_a mod_a JNull [toy_case]))"
proof -
  have "fits (JObj (toy_target cit_a mod_a JNull [toy_case])) 50" by code_simp
  then show ?thesis by (simp add: loads_print plain_confs)
qed

lemma planned_target_verifies_witness:
  "verify_canonical_refresh_target toy_world (print_json (JObj (toy_target cit_a mod_a JNull [toy_case]))) = Inr (toy_target cit_a mod_a JNull [toy_case])"
  by (rule planned_target_verifies[OF toy_bundle _ _ toy_target_text]) (use toy_hex in auto)

lemma toy_verified:
  "verify_canonical_refresh_target toy_world (print_json (JObj (toy_target cit_a mod_a JNull [toy_case]))) = Inr (toy_target cit_a mod_a JNull [toy_case])"
proof -
  have q: "refresh_ok ''us'' toy_primary"
  proof -
    have "canonical_citation cit_a" "before CHR ''/'' cit_a = ''us''" "citation_rulespec_path cit_a = Inr mod_a"
      "validate_wrapped_review_contract_size cit_a mod_a [] [toy_case] ''x'' = Inr ()" by code_simp+
    then show ?thesis using toy_cases by (auto simp: refresh_ok_def toy_primary_def normal_finding_def)
  qed
  have "verify_refresh_value toy_world (JObj (toy_target cit_a mod_a JNull [toy_case])) = Inr (toy_target cit_a mod_a JNull [toy_case])"
    using toy_inventory(1)[of JNull "[toy_case]"] toy_hex by (intro inventory_verifies[OF _ q]) (simp_all add: toy_primary_def)
  then show ?thesis by (simp add: verify_canonical_refresh_target_def toy_target_text[simplified])
qed

lemma verified_target_unchanged_witness: "target_matches toy_world (toy_target cit_a mod_a JNull [toy_case])"
  using verified_target_unchanged[OF toy_verified] by blast

section \<open>Modules relied on\<close>

lemma imports_signed_and_unwritten_witness: "list_all (importable toy_world ''us'') [mod_b] \<and> mod_a \<notin> set [mod_b]"
proof -
  have f: "fits (JArr [JStr (path_str mod_b)]) 50" by code_simp
  have n: "length (utf8_encode (print_json (JArr [JStr (path_str mod_b)]))) \<le> max_source_bundle_json_bytes" by code_simp
  have c: "contained mod_b" "contained man_b" by (simp_all add: toy_contained toy_paths_def)
  have p: "manifest_path_of mod_b = man_b" "citation_parts_path cit_a = Inr (''us'', tl mod_a)" "path_of ''us'' @ tl mod_a = mod_a"
    "validate_country ''us'' = Inr ''us''" "before CHR ''-'' ''us'' = ''us''" "primary_module_of ''us'' mod_b" "mod_b \<noteq> mod_a"
    "path_name (bw_root toy_world) = repository_name ''us''" "\<not> list_ex (\<lambda>c. code c < 32 \<or> code c = 127) (path_str mod_b)"
    "before CHR ''/'' cit_a = ''us''" "citation_rulespec_path cit_a = Inr mod_a" by code_simp+
  have tr: "list_all (\<lambda>q. let x = path_str q @ [CHR 0x0A] in bw_git toy_world [''ls-files'', ''--error-unmatch'', ''--'', path_str q] = Some x
      \<and> decoded x = Inr x \<and> split_lines x = [path_str q]) [mod_b, man_b]" by code_simp
  have t: "toy_content mod_b = txt_b" "toy_content man_b = mtx_b" by code_simp+
  have lim: "manifest_bytes_limit \<le> imports_bytes_limit" "manifest_bytes_limit \<le> import_manifest_limit" by code_simp+
  have r: "read_bounded_regular toy_world mod_b l imports_bytes_limit = Inr txt_b" "read_bounded_regular toy_world man_b l import_manifest_limit = Inr mtx_b" for l
    using toy_regular[OF _ lim(1), of mod_b] toy_regular[OF _ lim(2), of man_b] t by (simp_all add: read_contained c toy_paths_def)
  have tf: "require_tracked_file toy_world mod_b l imports_bytes_limit = Inr ()" "require_tracked_file toy_world man_b l import_manifest_limit = Inr ()" for l
    using tr r by (simp_all add: require_tracked_file_def Let_def value_error_as_def)
  have v5: "signed_v5 (toy_manifest cit_b mod_b txt_b)" by (simp add: signed_v5_def toy_manifest_def dget_def)
  have "add_import toy_world ''us'' [mod_a] [] (1, JStr (path_str mod_b)) = Inr [mod_b]"
    using p c by (simp add: add_import_def Let_def safe_relative_iff[THEN iffD2] tf load_signed_manifest_def r manifest_loads v5)
  then have "parse_existing_signed_imports toy_world (print_json (JArr [JStr (path_str mod_b)])) cit_a [] [] [] = Inr [mod_b]"
    using n p f by (simp add: parse_existing_signed_imports_def lenient_print max_source_bundle_citations_def del: One_nat_def enumerate_simps)
      (simp add: enumerate_simps)
  from imports_signed_and_unwritten[OF this] p show ?thesis by auto
qed

lemma cascade_exact_witness: "{tl mod_b} = direct_dependents toy_world ''us'' (tl mod_a)"
proof -
  have "validate_dependent_cascade toy_world cit_a [cit_b] [] = Inr [tl mod_b]" by code_simp
  from cascade_exact[OF this] obtain jur rel target where c: "citation_parts_path cit_a = Inr (jur, rel)" "target_module jur rel [] = Inr target"
    "set [tl mod_b] = direct_dependents toy_world jur target" by auto
  have "citation_parts_path cit_a = Inr (''us'', tl mod_a)" by code_simp
  then show ?thesis using c by (auto simp: target_module_def)
qed

end
