(* ===== verification/Repair_Candidate.thy ===== *)
theory Repair_Candidate
  imports Backfill_Refresh
begin

text \<open>
  \<open>scripts/verify_failed_encode_candidate.py\<close>: the verification of the artifact directory in which a failed encoding leaves
  its rejected module. The directory is a tree as \<open>lstat\<close> and \<open>scandir\<close> see it, read in one snapshot; a sealed directory
  is one that cannot be listed, a plain file without content one that cannot be opened, and a special file says whether
  it opens. JSON, SHA-256 and the interpreter limits are those of \<open>bundle_world\<close>.
\<close>

section \<open>The artifact\<close>

datatype artifact = Plain "string option" | Symlink bool | Special bool | Dir "(string \<times> artifact) list" | Sealed

fun node_at :: "artifact \<Rightarrow> ppath \<Rightarrow> artifact option" where
  "node_at t [] = Some t"
| "node_at (Dir es) (n # p) = (case map_of es n of None \<Rightarrow> None | Some t \<Rightarrow> node_at t p)"
| "node_at _ (n # p) = None"

text \<open>What \<open>os.walk\<close> takes for a directory: a link to one as well.\<close>

fun walks_as_dir :: "artifact \<Rightarrow> bool" where
  "walks_as_dir (Dir _) = True"
| "walks_as_dir Sealed = True"
| "walks_as_dir (Symlink to_dir) = to_dir"
| "walks_as_dir _ = False"

fun is_plain :: "artifact \<Rightarrow> bool" where
  "is_plain (Plain _) = True"
| "is_plain _ = False"

fun is_link :: "artifact \<Rightarrow> bool" where
  "is_link (Symlink _) = True"
| "is_link _ = False"

text \<open>\<open>_directory_inventory\<close>: the directories and the regular files below a directory, from the top down. A directory that
  cannot be listed counts as empty.\<close>

fun inventory :: "ppath \<Rightarrow> artifact \<Rightarrow> (path_error, ppath list \<times> ppath list) result"
and inventories :: "ppath \<Rightarrow> (string \<times> artifact) list \<Rightarrow> (path_error, ppath list \<times> ppath list) result" where
  "inventory here (Dir es) =
    (let dirs = filter (walks_as_dir \<circ> snd) es; files = filter (Not \<circ> walks_as_dir \<circ> snd) es in
     if list_ex (is_link \<circ> snd) dirs then bad ''failed candidate artifact contains a symlink''
     else if \<not> list_all (is_plain \<circ> snd) files then bad ''failed candidate artifact contains a symlink or non-regular file''
     else bind_r (inventories here es) (\<lambda>(ds, fs). Inr (map (\<lambda>e. here @ [fst e]) dirs @ ds, map (\<lambda>e. here @ [fst e]) files @ fs)))"
| "inventory here _ = Inr ([], [])"
| "inventories here [] = Inr ([], [])"
| "inventories here ((n, t) # es) = bind_r (inventory (here @ [n]) t) (\<lambda>(d1, f1). bind_r (inventories here es) (\<lambda>(d2, f2).
     Inr (d1 @ d2, f1 @ f2)))"

definition directory_inventory :: "artifact option \<Rightarrow> (path_error, ppath list \<times> ppath list) result" where
  "directory_inventory root = (case root of
     None \<Rightarrow> bad ''failed candidate root is unavailable''
   | Some t \<Rightarrow> if \<not> walks_as_dir t \<or> is_link t then bad ''failed candidate root must be a real directory'' else inventory [] t)"

text \<open>Every component is opened below its parent without following a link.\<close>

definition read_artifact_file :: "artifact \<Rightarrow> ppath \<Rightarrow> string \<Rightarrow> nat \<Rightarrow> (path_error, string) result" where
  "read_artifact_file t p label max_bytes =
    (let unsafe = bad (''could not safely open '' @ label); irregular = bad (label @ '' is not a regular file'') in
     case node_at t p of
       Some (Plain (Some content)) \<Rightarrow> if length content > max_bytes then bad (label @ '' exceeds its size limit'') else Inr content
     | Some (Dir _) \<Rightarrow> irregular
     | Some (Special True) \<Rightarrow> irregular
     | _ \<Rightarrow> unsafe)"

section \<open>The path of a candidate\<close>

definition protected_segments :: "string list" where
  "protected_segments = [''.git'', ''.github'', ''_axiom'', ''scripts'']"

text \<open>\<open>[a-z]{2}(?:-[a-z0-9_]+)*\<close>.\<close>

definition candidate_jurisdiction_re :: "string \<Rightarrow> bool" where
  "candidate_jurisdiction_re s \<longleftrightarrow> (let ps = split_on CHR ''-'' s in
     list_all is_lower (hd ps) \<and> length (hd ps) = 2
     \<and> list_all (\<lambda>p. p \<noteq> [] \<and> list_all (\<lambda>c. is_lower c \<or> is_digit c \<or> c = CHR ''_'') p) (tl ps))"

definition module_parts :: "ppath \<Rightarrow> ppath" where
  "module_parts p =
    (if p \<noteq> [] \<and> hd p \<in> set atomic_roots then p
     else if length p \<ge> 2 \<and> candidate_jurisdiction_re (hd p) \<and> p ! 1 \<in> set atomic_roots then tl p else [])"

definition canonical_candidate_path :: "json \<Rightarrow> (path_error, ppath) result" where
  "canonical_candidate_path v =
    (if \<not> is_str v then bad ''failed candidate path must be text''
     else let raw = str_of v; p = path_of raw in
       if raw = [] \<or> path_absolute p \<or> path_str p \<noteq> raw \<or> CHR 0x5C \<in> set raw
          \<or> list_ex (\<lambda>s. s \<in> {[], ''.'', ''..''}) p \<or> list_ex (\<lambda>s. s \<in> set protected_segments) p
          \<or> list_ex (list_ex control_char) p
       then bad ''failed candidate path is not canonical''
       else if length (module_parts p) < 2 \<or> path_suffix (path_name p) \<noteq> ''.yaml'' \<or> suffix ''.test.yaml'' (path_name p)
       then bad ''failed candidate path is not a canonical RuleSpec module''
       else Inr p)"

text \<open>The parents of the paths, without the root.\<close>

definition parents :: "ppath \<Rightarrow> ppath list" where
  "parents p = map (\<lambda>k. take k p) [1..<length p]"

definition expected_directories :: "ppath list \<Rightarrow> string set" where
  "expected_directories ps = set (concat (map (map path_str \<circ> parents) ps))"

section \<open>The metadata\<close>

definition failed_candidate_schema :: string where
  "failed_candidate_schema = ''axiom-encode/failed-encode-candidate/v1''"

definition metadata_fields :: "string set" where
  "metadata_fields = {''schema'', ''citation'', ''path'', ''issues'', ''rulespec_sha256'', ''tests_sha256'', ''encoder_version'', ''attempt_count''}"

definition max_issues_bytes :: nat where "max_issues_bytes = 512 * 1024"
definition max_issues :: nat where "max_issues = 4096"
definition max_candidate_bytes :: nat where "max_candidate_bytes = 512 * 1024"
definition max_candidate_total_bytes :: nat where "max_candidate_total_bytes = 1024 * 1024"

text \<open>\<open>[A-Za-z0-9][A-Za-z0-9.+_-]{0,127}\<close>.\<close>

definition version_re :: "string \<Rightarrow> bool" where
  "version_re s \<longleftrightarrow> s \<noteq> [] \<and> length s \<le> 128 \<and> is_alnum (hd s) \<and> list_all (\<lambda>c. is_alnum c \<or> c \<in> set ''.+_-'') s"

definition issues_ok :: "json \<Rightarrow> bool" where
  "issues_ok v \<longleftrightarrow> is_arr v \<and> arr_of v \<noteq> [] \<and> length (arr_of v) \<le> max_issues
     \<and> list_all (\<lambda>i. normal_str (\<lambda>s. s \<noteq> []) i) (arr_of v)"

definition attempts_ok :: "json \<Rightarrow> bool" where
  "attempts_ok v \<longleftrightarrow> (case v of JInt i \<Rightarrow> 1 \<le> i | _ \<Rightarrow> False)"

definition check_metadata :: "jobj \<Rightarrow> (path_error, unit) result" where
  "check_metadata d = checks
    [fail_if (\<not> issues_ok (dget d ''issues'')) (ValueError ''failed candidate issues must be a nonempty string array''),
     fail_if (\<not> attempts_ok (dget d ''attempt_count'')) (ValueError ''failed candidate attempt count must be positive''),
     fail_if (\<not> normal_str version_re (dget d ''encoder_version'')) (ValueError ''failed candidate encoder version is invalid''),
     fail_if (\<not> digest_str (dget d ''rulespec_sha256'')) (ValueError ''failed candidate rulespec_sha256 is invalid''),
     fail_if (\<not> digest_str (dget d ''tests_sha256'')) (ValueError ''failed candidate tests_sha256 is invalid'')]"

section \<open>The verification\<close>

record candidate_report =
  cr_root :: string
  cr_path :: string
  cr_rulespec_sha256 :: string
  cr_tests_sha256 :: string

definition issues_path :: ppath where "issues_path = [''issues.json'']"

definition check_identity :: "json \<Rightarrow> string option \<Rightarrow> (path_error, unit) result" where
  "check_identity v citation =
    (let d = obj_of v; own = dget d ''citation'' in checks
      [fail_if (\<not> is_obj v \<or> keys d \<noteq> metadata_fields) (ValueError ''failed candidate issues.json has an invalid shape''),
       fail_if (dget d ''schema'' \<noteq> JStr failed_candidate_schema) (ValueError ''failed candidate issues.json schema is invalid''),
       fail_if (\<not> normal_str (\<lambda>s. s \<noteq> []) own) (ValueError ''failed candidate citation is invalid''),
       fail_if (citation \<noteq> None \<and> own \<noteq> JStr (the citation)) (ValueError ''failed candidate citation mismatch'')])"

definition check_inventory :: "ppath list \<times> ppath list \<Rightarrow> ppath \<Rightarrow> (path_error, unit) result" where
  "check_inventory found p =
    (let tests = companion_path p in
     fail_if (set (map path_str (snd found)) \<noteq> {''issues.json'', path_str p, path_str tests}
         \<or> set (map path_str (fst found)) \<noteq> expected_directories [p, tests])
       (ValueError (''failed candidate artifact must contain exactly the rejected RuleSpec, ''
                    @ ''companion tests, and issues.json'')))"

definition verify_candidate_directory ::
    "bundle_world \<Rightarrow> string \<Rightarrow> artifact option \<Rightarrow> string option \<Rightarrow> (path_error, candidate_report) result" where
  "verify_candidate_directory W root dir citation =
    bind_r (directory_inventory dir) (\<lambda>found. let t = the dir in
    bind_r (read_artifact_file t issues_path ''failed candidate issues.json'' max_issues_bytes) (\<lambda>issues_raw.
    bind_r (load_manifest W ''failed candidate issues.json is not valid UTF-8 JSON'' issues_raw) (\<lambda>v.
    bind_r (check_identity v citation) (\<lambda>_. let d = obj_of v in
    bind_r (canonical_candidate_path (dget d ''path'')) (\<lambda>p.
    bind_r (check_inventory found p) (\<lambda>_.
    bind_r (check_metadata d) (\<lambda>_.
    bind_r (read_artifact_file t p ''failed candidate RuleSpec'' max_candidate_bytes) (\<lambda>rulespec.
    bind_r (read_artifact_file t (companion_path p) ''failed candidate companion tests'' max_candidate_bytes) (\<lambda>tests.
    let rs = bw_sha256 W rulespec; ts = bw_sha256 W tests in
    bind_r (checks
      [fail_if (length rulespec + length tests > max_candidate_total_bytes)
         (ValueError ''failed candidate pair exceeds its aggregate size limit''),
       fail_if (\<not> utf8_valid rulespec \<or> \<not> utf8_valid tests) (ValueError ''failed candidate pair is not valid UTF-8''),
       fail_if (JStr rs \<noteq> dget d ''rulespec_sha256'') (ValueError ''failed candidate RuleSpec SHA-256 mismatch''),
       fail_if (JStr ts \<noteq> dget d ''tests_sha256'') (ValueError ''failed candidate tests SHA-256 mismatch'')]) (\<lambda>_.
      Inr \<lparr>cr_root = root, cr_path = path_str p, cr_rulespec_sha256 = rs, cr_tests_sha256 = ts\<rparr>))))))))))"

end
