(* ===== verification/Repair_Extract.thy ===== *)
theory Repair_Extract
  imports Repair_Candidate
begin

text \<open>
  \<open>scripts/extract_repair_candidate.py\<close>: the extraction of one preserved repair candidate from the diagnostics archive of a
  failed run. The archive is the sequence of members that iterating over the tar file yields, with what \<open>extractfile\<close>
  answers for each of them. The files are written below a fresh destination as the code writes them, one after the
  other, on a disk that may refuse a path or break a write, so what a failed extraction leaves behind is part of the
  model: an operation is a function on the destination that answers a result or an exception together with the new destination.
\<close>

section \<open>The archive\<close>

record tar_member =
  tm_name :: string
  tm_regular :: bool
  tm_size :: int
  tm_data :: "string option"

definition max_metadata_bytes :: nat where "max_metadata_bytes = 4 * 1024 * 1024"
definition max_archive_members :: nat where "max_archive_members = 8192"

definition normalized_member_name :: "string \<Rightarrow> (path_error, string) result" where
  "normalized_member_name raw =
    (let name = (if prefix ''./'' raw then drop 2 raw else raw); p = path_of name in
     if name = [] \<or> path_absolute p \<or> list_ex (\<lambda>s. s \<in> {[], ''.'', ''..''}) p
     then bad ''repair artifact contains an unsafe member path'' else Inr (path_str p))"

type_synonym member_map = "(string \<times> tar_member) list"

definition add_member :: "member_map \<Rightarrow> nat \<times> tar_member \<Rightarrow> (path_error, member_map) result" where
  "add_member seen = (\<lambda>(n, m).
     if n > max_archive_members then bad ''repair artifact exceeds its member limit''
     else bind_r (normalized_member_name (tm_name m)) (\<lambda>name.
       if name \<in> fst ` set seen then bad ''repair artifact contains a duplicate member path'' else Inr (seen @ [(name, m)])))"

definition member_index :: "tar_member list \<Rightarrow> (path_error, member_map) result" where
  "member_index archive = for_each add_member [] (enumerate 1 archive)"

definition regular_member :: "member_map \<Rightarrow> string \<Rightarrow> (path_error, tar_member) result" where
  "regular_member members expected = (case map_of members expected of
     Some m \<Rightarrow> if tm_regular m then Inr m else bad (''repair artifact must contain one regular '' @ expected)
   | None \<Rightarrow> bad (''repair artifact must contain one regular '' @ expected))"

definition read_member :: "tar_member \<Rightarrow> nat \<Rightarrow> (path_error, string) result" where
  "read_member m max_bytes =
    (if tm_size m < 0 \<or> tm_size m > int max_bytes then bad (''repair artifact member exceeds its size limit: '' @ tm_name m)
     else case tm_data m of
       None \<Rightarrow> bad (''repair artifact member is unreadable: '' @ tm_name m)
     | Some content \<Rightarrow> let data = take (max_bytes + 1) content in
         if int (length data) \<noteq> tm_size m \<or> length data > max_bytes
         then bad (''repair artifact member size changed while reading: '' @ tm_name m) else Inr data)"

text \<open>The files that the metadata binds: the digest and the size of each path.\<close>

type_synonym file_map = "(string \<times> string \<times> int) list"

definition file_entry_ok :: "jobj \<Rightarrow> file_map \<Rightarrow> (path_error, bool) result" where
  "file_entry_ok e files =
    (let path = dget e ''path''; digest = dget e ''sha256''; bytes = dget e ''size'' in
     if \<not> is_str path then Inr False
     else bind_r (normalized_member_name (str_of path)) (\<lambda>name.
       Inr (name = str_of path \<and> digest_str digest \<and> is_int bytes \<and> 0 \<le> int_of bytes \<and> str_of path \<notin> fst ` set files)))"

definition add_file_entry :: "file_map \<Rightarrow> json \<Rightarrow> (path_error, file_map) result" where
  "add_file_entry files v =
    (if \<not> is_obj v then bad ''repair metadata file entries must be objects''
     else let e = obj_of v in bind_r (file_entry_ok e files) (\<lambda>fine.
       if \<not> fine then bad ''repair metadata contains an invalid file entry''
       else Inr (files @ [(str_of (dget e ''path''), str_of (dget e ''sha256''), int_of (dget e ''size''))])))"

definition metadata_file_map :: "jobj \<Rightarrow> (path_error, file_map) result" where
  "metadata_file_map metadata = (let raw = dget metadata ''files'' in
     if \<not> is_arr raw then bad ''repair metadata files must be an array'' else for_each add_file_entry [] (arr_of raw))"

definition verified_generated_file ::
    "bundle_world \<Rightarrow> member_map \<Rightarrow> file_map \<Rightarrow> string \<Rightarrow> (path_error, string) result" where
  "verified_generated_file W members files rel = (case map_of files rel of
     None \<Rightarrow> bad (''repair metadata does not bind '' @ rel)
   | Some (digest, bytes) \<Rightarrow>
       bind_r (regular_member members (''generated/'' @ rel)) (\<lambda>m.
       bind_r (read_member m max_candidate_bytes) (\<lambda>data.
         if int (length data) \<noteq> bytes \<or> bw_sha256 W data \<noteq> digest
         then bad (''repair candidate digest mismatch: '' @ rel) else Inr data)))"

section \<open>Names\<close>

definition strip_yaml :: "string \<Rightarrow> string" where
  "strip_yaml s = (if suffix ''.yaml'' s then take (length s - 5) s else s)"

definition tests_name :: "string \<Rightarrow> string" where
  "tests_name s = strip_yaml s @ ''.test.yaml''"

definition repair_roots :: "string list" where
  "repair_roots = [''guidance'', ''manuals'', ''policies'', ''programs'', ''regulations'', ''statutes'']"

text \<open>\<open>[a-z]{2,3}(?:-[a-z0-9]+)*\<close>.\<close>

definition repair_jurisdiction_re :: "string \<Rightarrow> bool" where
  "repair_jurisdiction_re s \<longleftrightarrow> (let ps = split_on CHR ''-'' s in
     list_all is_lower (hd ps) \<and> length (hd ps) \<in> {2, 3}
     \<and> list_all (\<lambda>p. p \<noteq> [] \<and> list_all (\<lambda>c. is_lower c \<or> is_digit c) p) (tl ps))"

text \<open>The conditions on a module path of the repository, which two scripts share.\<close>

definition module_of_country :: "string \<Rightarrow> ppath \<Rightarrow> bool" where
  "module_of_country country p \<longleftrightarrow> \<not> path_absolute p \<and> length p \<ge> 3 \<and> repair_jurisdiction_re (hd p)
     \<and> (hd p = country \<or> prefix (country @ ''-'') (hd p)) \<and> p ! 1 \<in> set repair_roots
     \<and> path_suffix (path_name p) = ''.yaml'' \<and> \<not> suffix ''.test.yaml'' (path_name p)
     \<and> \<not> list_ex (\<lambda>s. s \<in> {[], ''.'', ''..''}) p"

definition expected_module_path :: "string \<Rightarrow> string \<Rightarrow> (path_error, string) result" where
  "expected_module_path country replace_path =
    (let p = path_of replace_path in
     if \<not> module_of_country country p \<or> path_str p \<noteq> replace_path
     then bad ''replace RuleSpec path is not canonical for the country'' else Inr (path_str (tl p)))"

text \<open>\<open>[A-Za-z0-9][A-Za-z0-9._-]*\<close>, between two fixed texts; it holds no slash, so there is one way to match.\<close>

definition runner_re :: "string \<Rightarrow> bool" where
  "runner_re s \<longleftrightarrow> s \<noteq> [] \<and> is_alnum (hd s) \<and> list_all (\<lambda>c. is_alnum c \<or> c \<in> set ''._-'') s"

definition runner_between :: "string \<Rightarrow> string \<Rightarrow> string \<Rightarrow> string option" where
  "runner_between pre post path =
    (let runner = take (length path - length pre - length post) (drop (length pre) path) in
     if path = pre @ runner @ post \<and> runner_re runner then Some runner else None)"

definition runners_of :: "string \<Rightarrow> string \<Rightarrow> file_map \<Rightarrow> (string \<times> string) list" where
  "runners_of pre post files =
    concat (map (\<lambda>(path, _). case runner_between pre post path of Some r \<Rightarrow> [(path, r)] | None \<Rightarrow> []) files)"

section \<open>The lane\<close>

definition same_mode :: "source_mode \<Rightarrow> source_mode \<Rightarrow> bool" where
  "same_mode a b \<longleftrightarrow> py_eq (JArr (sm_refresh a)) (JArr (sm_refresh b)) \<and> py_eq (JArr (sm_cases a)) (JArr (sm_cases b))
     \<and> py_eq (JArr (sm_sources a)) (JArr (sm_sources b))"

definition source_lane :: "nat \<Rightarrow> string" where
  "source_lane n = ''source-'' @ zero_padded 2 n"

definition is_strs :: "json \<Rightarrow> string list \<Rightarrow> bool" where
  "is_strs v ss \<longleftrightarrow> v = JArr (map JStr ss)"

definition incompatible :: "string \<Rightarrow> string" where
  "incompatible f = ''repair artifact is not a compatible single-target run: '' @ f"

definition repair_lane_for_atomic_source :: "bundle_world \<Rightarrow> jobj \<Rightarrow> string \<Rightarrow> (path_error, string \<times> string list) result" where
  "repair_lane_for_atomic_source W metadata expected_source =
    bind_r (value_error_as ''expected atomic source input is invalid'' (split_atomic_source_input W expected_source)) (\<lambda>expected.
    let has = (\<lambda>f. f \<in> keys metadata); raw = dget metadata ''atomic_source_input''; lanes = dget metadata ''generated_lanes'';
        source_lanes = map source_lane [1..<length (sm_sources expected) + 1] in
    if sm_refresh expected \<noteq> [] then bad ''repair replay does not support canonical refresh bundles''
    else if has ''atomic_source_input'' then
      (if has ''source_bundle_input'' \<or> has ''canonical_refresh_bundle_input'' then bad (incompatible ''atomic_source_input'')
       else bind_r (value_error_as (incompatible ''atomic_source_input'')
           (if is_str raw then split_atomic_source_input W (str_of raw) else bad ''atomic source JSON must be a string'')) (\<lambda>split.
         if \<not> same_mode split expected then bad ''repair artifact metadata mismatch: atomic_source_input''
         else if sm_sources expected = [] then Inr (''target'', [''target''])
         else if is_strs lanes [''target-preflight''] then Inr (''target-preflight'', [''target-preflight''])
         else if list_ex (is_strs lanes) [sort ([''target'', ''target-preflight''] @ source_lanes), sort (''target'' # source_lanes)]
         then Inr (''target'', map str_of (arr_of lanes))
         else bad (''repair artifact generated lanes do not bind a target preflight '' @ ''or final composed target'')))
    else if sm_cases expected \<noteq> [] \<or> sm_sources expected \<noteq> []
    then bad ''legacy repair metadata cannot bind a nonempty atomic source input''
    else if \<not> has ''source_bundle_input'' \<or> dget metadata ''source_bundle_input'' \<noteq> JStr ''[]''
    then bad (incompatible ''source_bundle_input'')
    else if has ''canonical_refresh_bundle_input'' \<and> dget metadata ''canonical_refresh_bundle_input'' \<noteq> JStr ''[]''
    then bad (incompatible ''canonical_refresh_bundle_input'')
    else Inr (''target'', [''target'']))"

section \<open>The retained candidate\<close>

text \<open>A text decoded under \<open>except (JSONDecodeError, RecursionError)\<close>.\<close>

definition load_text :: "bundle_world \<Rightarrow> string \<Rightarrow> string \<Rightarrow> (path_error, json) result" where
  "load_text W msg text = (case loads (lenient_conf W) (bw_depth W) text of Inr v \<Rightarrow> Inr v
     | Inl DecodeError \<Rightarrow> bad msg | Inl RecursionLimit \<Rightarrow> bad msg
     | Inl IntLimit \<Rightarrow> bad int_limit_message | Inl _ \<Rightarrow> Inl OutsideText)"

definition retained_metadata_ok :: "json \<Rightarrow> string \<Rightarrow> string \<Rightarrow> bool" where
  "retained_metadata_ok v expected_module citation \<longleftrightarrow>
    (let d = obj_of v in
     is_obj v \<and> keys d = metadata_fields \<and> dget d ''schema'' = JStr failed_candidate_schema
     \<and> dget d ''citation'' = JStr citation \<and> dget d ''path'' = JStr expected_module
     \<and> normal_str version_re (dget d ''encoder_version'') \<and> attempts_ok (dget d ''attempt_count'')
     \<and> issues_ok (dget d ''issues'') \<and> digest_str (dget d ''rulespec_sha256'') \<and> digest_str (dget d ''tests_sha256''))"

definition retained_root :: "string \<Rightarrow> string" where
  "retained_root lane = lane @ ''/final-rejected-candidate''"

definition retained_candidate ::
    "bundle_world \<Rightarrow> member_map \<Rightarrow> file_map \<Rightarrow> string \<Rightarrow> string \<Rightarrow> string \<Rightarrow> (path_error, (string \<times> string) option) result" where
  "retained_candidate W members files lane expected_module citation =
    (let root = retained_root lane; issues_at = root @ ''/issues.json''; candidate_at = root @ ''/'' @ expected_module;
         tests_at = root @ ''/'' @ tests_name expected_module;
         retained = filter (prefix (root @ ''/'')) (map fst files); invalid_msg = ''retained repair candidate metadata is invalid'' in
     if retained \<noteq> [] \<and> set retained \<noteq> {issues_at, candidate_at, tests_at}
     then bad ''retained repair candidate must bind exactly three files''
     else if issues_at \<notin> fst ` set files then Inr None
     else bind_r (verified_generated_file W members files issues_at) (\<lambda>raw.
     bind_r (load_manifest W invalid_msg raw) (\<lambda>v.
     if \<not> retained_metadata_ok v expected_module citation then bad invalid_msg else
     bind_r (verified_generated_file W members files candidate_at) (\<lambda>candidate.
     bind_r (verified_generated_file W members files tests_at) (\<lambda>tests.
     if JStr (bw_sha256 W candidate) \<noteq> dget (obj_of v) ''rulespec_sha256'' \<or> JStr (bw_sha256 W tests) \<noteq> dget (obj_of v) ''tests_sha256''
     then bad ''retained repair candidate digest mismatch'' else Inr (Some (candidate, tests)))))))"

section \<open>Writing below the destination\<close>

text \<open>Directories and files of the destination, by their path below it; the destination itself is the path \<open>[]\<close>.\<close>

record dest =
  d_dirs :: "ppath list"
  d_files :: "(ppath \<times> string) list"

type_synonym 'a io = "dest \<Rightarrow> (path_error, 'a) result \<times> dest"

text \<open>The disk may refuse to create a path, or fail to write a file after some bytes.\<close>

datatype disk_fault = Refused | Broken nat

type_synonym disk = "ppath \<Rightarrow> disk_fault option"

definition pure :: "(path_error, 'a) result \<Rightarrow> 'a io" where
  "pure r = (\<lambda>D. (r, D))"

definition bind_io :: "'a io \<Rightarrow> ('a \<Rightarrow> 'b io) \<Rightarrow> 'b io" where
  "bind_io m f = (\<lambda>D. case m D of (Inl e, D') \<Rightarrow> (Inl e, D') | (Inr x, D') \<Rightarrow> f x D')"

text \<open>\<open>path.mkdir(parents=True, exist_ok=False)\<close>, from the top down.\<close>

definition make_dirs :: "disk \<Rightarrow> ppath \<Rightarrow> unit io" where
  "make_dirs K q = (\<lambda>D.
    let prefixes = map (\<lambda>k. take k q) [0..<length q + 1]; fresh = filter (\<lambda>r. r \<notin> set (d_dirs D)) prefixes;
        made = takeWhile (\<lambda>r. K r \<noteq> Some Refused) fresh in
    if q \<in> set (d_dirs D) \<or> list_ex (\<lambda>r. r \<in> fst ` set (d_files D)) prefixes then (Inl OSError, D)
    else (if made = fresh then Inr () else Inl OSError, D\<lparr>d_dirs := d_dirs D @ made\<rparr>))"

text \<open>Exclusive creation of a file in an existing directory, and the write of its bytes: when it fails, what was written stays.\<close>

definition create_file :: "disk \<Rightarrow> ppath \<Rightarrow> string \<Rightarrow> unit io" where
  "create_file K q data = (\<lambda>D.
    if butlast q \<notin> set (d_dirs D) \<or> q \<in> set (d_dirs D) \<or> q \<in> fst ` set (d_files D) \<or> K q = Some Refused then (Inl OSError, D)
    else case K q of
      Some (Broken n) \<Rightarrow> (Inl OSError, D\<lparr>d_files := d_files D @ [(q, take n data)]\<rparr>)
    | _ \<Rightarrow> (Inr (), D\<lparr>d_files := d_files D @ [(q, data)]\<rparr>))"

definition write_candidate_pair :: "disk \<Rightarrow> ppath \<Rightarrow> string \<Rightarrow> string \<Rightarrow> string \<Rightarrow> unit io" where
  "write_candidate_pair K root rel candidate tests =
    (let output = root @ path_of rel; test_output = with_suffix output ''.test.yaml'' in
     bind_io (make_dirs K (butlast output)) (\<lambda>_. bind_io (create_file K output candidate) (\<lambda>_. create_file K test_output tests)))"

section \<open>Source candidates\<close>

record source_report =
  so_citation :: json
  so_lane :: string
  so_path :: string
  so_root :: ppath
  so_runner :: string
  so_rulespec_sha256 :: string
  so_tests_sha256 :: string

definition preferred_runner :: string where "preferred_runner = ''openai-gpt-5.6-sol''"

text \<open>The runners that left both files of a module, without repetition.\<close>

definition paired_runners :: "file_map \<Rightarrow> string \<Rightarrow> string \<Rightarrow> string list" where
  "paired_runners files lane module =
    remdups (map snd (filter (\<lambda>(_, r). lane @ ''/'' @ r @ ''/'' @ tests_name module \<in> fst ` set files)
      (runners_of (lane @ ''/'') (''/'' @ module) files)))"

definition source_candidate ::
    "bundle_world \<Rightarrow> disk \<Rightarrow> member_map \<Rightarrow> file_map \<Rightarrow> string \<Rightarrow> source_report list \<Rightarrow> nat \<times> json \<times> string \<Rightarrow> source_report list io" where
  "source_candidate W K members files country found = (\<lambda>(n, citation, rulespec_path).
    let lane = source_lane n in
    bind_io (pure (expected_module_path country rulespec_path)) (\<lambda>module.
    let runners = paired_runners files lane module in
    bind_io (pure (if preferred_runner \<in> set runners then Inr preferred_runner
        else if length runners = 1 then Inr (hd runners)
        else bad (''repair artifact does not bind one final source candidate: '' @ lane))) (\<lambda>runner.
    let base = lane @ ''/'' @ runner @ ''/'' in
    bind_io (pure (verified_generated_file W members files (base @ module))) (\<lambda>candidate.
    bind_io (pure (verified_generated_file W members files (base @ tests_name module))) (\<lambda>tests.
    let root = [''source-candidates'', lane, runner] in
    bind_io (write_candidate_pair K root module candidate tests) (\<lambda>_.
      pure (Inr (found @ [\<lparr>so_citation = citation, so_lane = lane, so_path = module, so_root = root, so_runner = runner,
        so_rulespec_sha256 = bw_sha256 W candidate, so_tests_sha256 = bw_sha256 W tests\<rparr>]))))))))"

fun each_io :: "('s \<Rightarrow> 'a \<Rightarrow> 's io) \<Rightarrow> 's \<Rightarrow> 'a list \<Rightarrow> 's io" where
  "each_io f s [] = pure (Inr s)"
| "each_io f s (x # xs) = bind_io (f s x) (\<lambda>s'. each_io f s' xs)"

definition source_repair_candidates ::
    "bundle_world \<Rightarrow> disk \<Rightarrow> member_map \<Rightarrow> file_map \<Rightarrow> string \<Rightarrow> json list \<Rightarrow> string option \<Rightarrow> source_report list io" where
  "source_repair_candidates W K members files country citations paths_text =
    (case paths_text of None \<Rightarrow> pure (Inr []) | Some text \<Rightarrow>
      let msg = ''expected source RuleSpec paths are invalid'' in
      bind_io (pure (load_text W msg text)) (\<lambda>v.
      if \<not> is_arr v \<or> length (arr_of v) \<noteq> length citations \<or> \<not> list_all is_str (arr_of v) then pure (bad msg)
      else each_io (source_candidate W K members files country) []
        (enumerate 1 (zip citations (map str_of (arr_of v))))))"

section \<open>The extraction\<close>

record extract_args =
  ea_citation :: string
  ea_country :: string
  ea_encoder_commit :: string
  ea_corpus_ref :: string
  ea_rules_engine_ref :: string
  ea_rulespec_ref :: string
  ea_base_advance :: bool
  ea_atomic_source :: string
  ea_replace_path :: string
  ea_source_paths :: "string option"
  ea_run_id :: string

record extract_report =
  er_root :: ppath
  er_path :: string
  er_rulespec_sha256 :: string
  er_tests_sha256 :: string
  er_runner :: string
  er_source_ref :: string
  er_sources :: "source_report list"

definition diagnostics_schema :: string where
  "diagnostics_schema = ''axiom-encode/failed-reencode-diagnostics/v1''"

definition expected_fields :: "extract_args \<Rightarrow> (string \<times> json) list" where
  "expected_fields A =
    [(''citation'', JStr (ea_citation A)), (''country'', JStr (ea_country A)), (''encoder_commit'', JStr (ea_encoder_commit A)),
     (''corpus_ref'', JStr (ea_corpus_ref A)), (''rules_engine_ref'', JStr (ea_rules_engine_ref A)),
     (''replace_rulespec_path'', JStr (ea_replace_path A)), (''workflow_run_id'', JStr (ea_run_id A))]"

definition single_target_mode_fields :: "(string \<times> json) list" where
  "single_target_mode_fields =
    [(''dependent_citation'', JNull), (''existing_signed_imports_input'', JStr ''[]''),
     (''legacy_exact_dependent_rulespec_path'', JNull), (''legacy_retained_successor_rulespec_paths_input'', JStr ''[]''),
     (''queue_dispatcher_run_id'', JNull), (''queue_id'', JNull), (''queue_item_generation_sha256'', JNull), (''queue_item_id'', JNull),
     (''queue_manifest_sha256'', JNull), (''replace_legacy_rulespec_path'', JNull), (''second_dependent_citation'', JNull),
     (''second_legacy_exact_dependent_rulespec_path'', JNull)]"

definition field_is :: "jobj \<Rightarrow> string \<times> json \<Rightarrow> bool" where
  "field_is metadata = (\<lambda>(f, v). f \<in> keys metadata \<and> dget metadata f = v)"

definition check_run_identity :: "json \<Rightarrow> extract_args \<Rightarrow> (path_error, unit) result" where
  "check_run_identity v A =
    (let m = obj_of v; ref = dget m ''rulespec_ref''; mismatch = (\<lambda>f. ValueError (''repair artifact metadata mismatch: '' @ f)) in
     checks
      ([fail_if (\<not> is_obj v \<or> dget m ''schema'' \<noteq> JStr diagnostics_schema) (ValueError ''repair artifact metadata schema is invalid'')]
       @ map (\<lambda>fv. fail_if (\<not> field_is m fv) (mismatch (fst fv))) (expected_fields A)
       @ [fail_if (\<not> normal_str (hex_of_length 40) ref) (mismatch ''rulespec_ref''),
          fail_if (ref \<noteq> JStr (ea_rulespec_ref A) \<and> \<not> ea_base_advance A) (mismatch ''rulespec_ref'')]
       @ map (\<lambda>fv. fail_if (\<not> field_is m fv) (ValueError (incompatible (fst fv)))) single_target_mode_fields))"

definition check_run_outcome :: "jobj \<Rightarrow> string \<Rightarrow> string list \<Rightarrow> (path_error, unit) result" where
  "check_run_outcome m lane lanes = checks
    [fail_if (\<not> py_eq (dget m ''workflow_run_attempt'') (JInt 1)) (ValueError ''repair artifact must come from workflow attempt 1''),
     fail_if (\<not> is_strs (dget m ''failed_steps'') [''encode_apply'']) (ValueError ''repair artifact is not an encode/apply validation failure''),
     fail_if (\<not> is_strs (dget m ''generated_lanes'') lanes) (ValueError (''repair artifact must contain only the '' @ lane @ '' lane''))]"

definition repair_manifest_ok :: "json \<Rightarrow> string \<Rightarrow> string \<Rightarrow> bool" where
  "repair_manifest_ok v citation runner \<longleftrightarrow> is_obj v \<and> dget (obj_of v) ''schema_version'' = JStr ''axiom-encode/repair-manifest/v1''
     \<and> dget (obj_of v) ''citation'' = JStr citation \<and> dget (obj_of v) ''runner'' = JStr runner"

text \<open>Everything up to the first write of the main candidate: the metadata, its files, the runner and the pair.\<close>

definition select_candidate ::
    "bundle_world \<Rightarrow> member_map \<Rightarrow> jobj \<Rightarrow> extract_args \<Rightarrow> string \<Rightarrow> string
      \<Rightarrow> (path_error, file_map \<times> string \<times> string \<times> string) result" where
  "select_candidate W members m A lane module =
    bind_r (metadata_file_map m) (\<lambda>files.
    case runners_of (lane @ ''/'') (''/'' @ take (length module - 5) module @ ''.repair.json'') files of
      [(repair_path, runner)] \<Rightarrow>
        bind_r (verified_generated_file W members files repair_path) (\<lambda>raw.
        bind_r (bind_r (decoded raw) (lenient_json W)) (\<lambda>v.
        if \<not> repair_manifest_ok v (ea_citation A) runner then bad ''final repair manifest identity is invalid'' else
        bind_r (retained_candidate W members files lane module (ea_citation A)) (\<lambda>retained.
        case retained of
          Some (candidate, tests) \<Rightarrow> Inr (files, ''retained-best'', candidate, tests)
        | None \<Rightarrow> (let base = lane @ ''/'' @ runner @ ''/'' in
            bind_r (verified_generated_file W members files (base @ module)) (\<lambda>candidate.
            bind_r (verified_generated_file W members files (base @ tests_name module)) (\<lambda>tests.
              Inr (files, runner, candidate, tests)))))))
    | _ \<Rightarrow> bad ''repair artifact must bind one final repair manifest'')"

text \<open>Everything the code decides before it writes.\<close>

record extract_plan =
  pl_module :: string
  pl_members :: member_map
  pl_metadata :: jobj
  pl_sources :: "json list"
  pl_files :: file_map
  pl_runner :: string
  pl_candidate :: string
  pl_tests :: string

definition plan_extraction :: "bundle_world \<Rightarrow> tar_member list \<Rightarrow> extract_args \<Rightarrow> (path_error, extract_plan) result" where
  "plan_extraction W archive A =
    bind_r (expected_module_path (ea_country A) (ea_replace_path A)) (\<lambda>module.
    bind_r (member_index archive) (\<lambda>members.
    bind_r (regular_member members ''metadata.json'') (\<lambda>meta.
    bind_r (bind_r (read_member meta max_metadata_bytes) (\<lambda>raw. bind_r (decoded raw) (lenient_json W))) (\<lambda>v.
    bind_r (check_run_identity v A) (\<lambda>_.
    bind_r (value_error_as ''expected atomic source input is invalid'' (split_atomic_source_input W (ea_atomic_source A))) (\<lambda>mode.
    bind_r (repair_lane_for_atomic_source W (obj_of v) (ea_atomic_source A)) (\<lambda>lane.
    bind_r (check_run_outcome (obj_of v) (fst lane) (snd lane)) (\<lambda>_.
    bind_r (select_candidate W members (obj_of v) A (fst lane) module) (\<lambda>(files, runner, candidate, tests).
    bind_r (fail_if (ea_source_paths A \<noteq> None \<and> fst lane \<noteq> ''target'')
        (ValueError ''source repair candidates require a final composed target artifact'')) (\<lambda>_.
      Inr \<lparr>pl_module = module, pl_members = members, pl_metadata = obj_of v, pl_sources = sm_sources mode, pl_files = files,
        pl_runner = runner, pl_candidate = candidate, pl_tests = tests\<rparr>))))))))))"

definition extract_candidate :: "bundle_world \<Rightarrow> disk \<Rightarrow> tar_member list \<Rightarrow> bool \<Rightarrow> extract_args \<Rightarrow> extract_report io" where
  "extract_candidate W K archive destination_exists A =
    (if destination_exists then pure (Inl OSError)
     else bind_io (make_dirs K []) (\<lambda>_.
     bind_io (pure (plan_extraction W archive A)) (\<lambda>P.
     bind_io (source_repair_candidates W K (pl_members P) (pl_files P) (ea_country A) (pl_sources P) (ea_source_paths A)) (\<lambda>sources.
     bind_io (write_candidate_pair K [pl_runner P] (pl_module P) (pl_candidate P) (pl_tests P)) (\<lambda>_.
       pure (Inr \<lparr>er_root = [pl_runner P], er_path = pl_module P, er_rulespec_sha256 = bw_sha256 W (pl_candidate P),
         er_tests_sha256 = bw_sha256 W (pl_tests P), er_runner = pl_runner P,
         er_source_ref = str_of (dget (pl_metadata P) ''rulespec_ref''), er_sources = sources\<rparr>))))))"

end
