(* ===== verification/Repair_Base.thy ===== *)
theory Repair_Base
  imports Repair_Extract
begin

text \<open>
  \<open>scripts/verify_repair_base_advance.py\<close>: a repair candidate may be replayed on a later RuleSpec base only if the module it
  repairs is the same there. Git is the function \<open>bw_git\<close> of \<open>bundle_world\<close>: the standard output of a command line, or
  \<open>None\<close> when it exits with an error.
\<close>

definition blob_identity_re :: "string \<Rightarrow> bool" where
  "blob_identity_re s \<longleftrightarrow> 40 \<le> length s \<and> length s \<le> 64 \<and> list_all is_hex s"

definition blob_identity :: "bundle_world \<Rightarrow> string \<Rightarrow> ppath \<Rightarrow> (path_error, string option) result" where
  "blob_identity W commit p =
    (case git_word W [''rev-parse'', ''--verify'', commit @ '':'' @ path_str p] of
       Inl CalledProcessError \<Rightarrow> Inr None
     | Inl e \<Rightarrow> Inl e
     | Inr identity \<Rightarrow>
         if \<not> blob_identity_re identity then Inl (RuntimeError ''repair replay target returned an invalid blob identity'')
         else bind_r (git_word W [''cat-file'', ''-t'', identity]) (\<lambda>object_type.
           if object_type \<noteq> ''blob'' then bad ''repair replay target identity is not a tracked blob'' else Inr (Some identity)))"

text \<open>Exactly one of the paths has an identity.\<close>

definition unique_manifest_identity :: "bundle_world \<Rightarrow> string \<Rightarrow> ppath list \<Rightarrow> string \<Rightarrow> (path_error, string) result" where
  "unique_manifest_identity W commit paths label =
    bind_r (map_r (blob_identity W commit) paths) (\<lambda>found.
      case concat (map (\<lambda>i. case i of Some s \<Rightarrow> [s] | None \<Rightarrow> []) found) of
        [] \<Rightarrow> bad (''repair replay target identity is missing at its '' @ label @ '' RuleSpec base: ownership manifest'')
      | [identity] \<Rightarrow> Inr identity
      | _ \<Rightarrow> bad (''repair replay target identity is ambiguous at its '' @ label @ '' RuleSpec base: ownership manifest''))"

text \<open>\<open>[a-z][a-z0-9-]*\<close>.\<close>

definition country_re :: "string \<Rightarrow> bool" where
  "country_re s \<longleftrightarrow> s \<noteq> [] \<and> is_lower (hd s) \<and> list_all (\<lambda>c. is_lower c \<or> is_digit c \<or> c = CHR ''-'') s"

definition candidate_path_ok :: "string \<Rightarrow> ppath \<Rightarrow> string \<Rightarrow> bool" where
  "candidate_path_ok country p candidate_path \<longleftrightarrow> country_re country \<and> \<not> path_absolute p \<and> path_str p = candidate_path
     \<and> length p \<ge> 2 \<and> hd p \<in> set repair_roots \<and> path_suffix (path_name p) = ''.yaml'' \<and> \<not> suffix ''.test.yaml'' (path_name p)
     \<and> \<not> list_ex (\<lambda>s. s \<in> {[], ''.'', ''..''}) p"

definition manifest_below :: "ppath \<Rightarrow> ppath" where
  "manifest_below p = with_suffix (manifest_root @ p) ''.json''"

text \<open>The target has the same blob at both bases.\<close>

definition same_identity :: "bundle_world \<Rightarrow> string \<Rightarrow> string \<Rightarrow> ppath \<Rightarrow> (path_error, unit) result" where
  "same_identity W source_ref current_ref p =
    (let missing = (\<lambda>label. ''repair replay target identity is missing at its '' @ label @ '' RuleSpec base: '' @ path_str p) in
     bind_r (blob_identity W source_ref p) (\<lambda>source. if source = None then bad (missing ''source'') else
     bind_r (blob_identity W current_ref p) (\<lambda>current. if current = None then bad (missing ''current'') else
       fail_if (source \<noteq> current) (ValueError ''repair replay target identity changed after its source RuleSpec base''))))"

definition require_commits :: "bundle_world \<Rightarrow> string \<Rightarrow> string \<Rightarrow> (path_error, unit) result" where
  "require_commits W source_ref current_ref =
    (if \<not> hex_of_length 40 source_ref then bad ''repair source RuleSpec ref is not a full commit SHA''
     else if \<not> hex_of_length 40 current_ref then bad ''repair current RuleSpec ref is not a full commit SHA''
     else bind_r (git_word W [''rev-parse'', ''HEAD'']) (\<lambda>head.
       if head \<noteq> current_ref then bad ''repair current RuleSpec ref is not the checkout HEAD''
       else bind_r (git_word W [''rev-parse'', ''--verify'', source_ref @ ''^{commit}'']) (\<lambda>source_commit.
         fail_if (source_commit \<noteq> source_ref) (ValueError ''repair source RuleSpec ref does not identify its commit''))))"

definition require_same_manifest :: "bundle_world \<Rightarrow> string \<Rightarrow> string \<Rightarrow> ppath list \<Rightarrow> (path_error, unit) result" where
  "require_same_manifest W source_ref current_ref paths =
    bind_r (unique_manifest_identity W source_ref paths ''source'') (\<lambda>source.
    bind_r (unique_manifest_identity W current_ref paths ''current'') (\<lambda>current.
      fail_if (source \<noteq> current) (ValueError ''repair replay target identity changed after its source RuleSpec base'')))"

definition verify_base_advance ::
    "bundle_world \<Rightarrow> string \<Rightarrow> string \<Rightarrow> string \<Rightarrow> string \<Rightarrow> string option \<Rightarrow> (path_error, unit) result" where
  "verify_base_advance W country source_ref current_ref candidate_path rulespec_path =
    (let p = path_of candidate_path in
     if \<not> candidate_path_ok country p candidate_path then bad ''repair candidate path is not canonical''
     else bind_r (require_commits W source_ref current_ref) (\<lambda>_.
     let repository_path = (case rulespec_path of Some r \<Rightarrow> path_of r | None \<Rightarrow> path_join (path_of country) candidate_path) in
     if \<not> module_of_country country repository_path \<or> (rulespec_path \<noteq> None \<and> path_str repository_path \<noteq> the rulespec_path)
        \<or> tl repository_path \<noteq> p
     then bad ''repair repository RuleSpec path is not canonical''
     else bind_r (same_identity W source_ref current_ref repository_path) (\<lambda>_.
     bind_r (same_identity W source_ref current_ref (hd repository_path # with_suffix p ''.test.yaml'')) (\<lambda>_.
       require_same_manifest W source_ref current_ref
         (remdups [manifest_below repository_path, manifest_below p])))))"

end
