(* ===== verification/Repair_Facts.thy ===== *)
theory Repair_Facts
  imports Repair_Base Backfill_Refresh_Facts
begin

text \<open>
  What the scripts around a repair candidate guarantee: an accepted artifact directory holds exactly the rejected pair and
  its metadata; an extraction writes only bytes that the archive binds by digest, whether or not it succeeds; a replay
  on a later base is admitted exactly when the repaired module is the same there; and what the first script accepts,
  the second one retains.
\<close>

section \<open>The artifact directory\<close>

text \<open>A tree whose names are file names: distinct in each directory, and no way out of it.\<close>

fun posix_tree :: "artifact \<Rightarrow> bool" where
  "posix_tree (Dir es) \<longleftrightarrow> distinct (map fst es) \<and> (\<forall>e\<in>set es. safe_segment (fst e) \<and> posix_tree (snd e))"
| "posix_tree _ \<longleftrightarrow> True"

lemma node_at_contained: "posix_tree t \<Longrightarrow> node_at t q = Some x \<Longrightarrow> list_all safe_segment q"
  by (induction t q rule: node_at.induct) (auto split: option.splits dest!: map_of_SomeD)

lemma node_at_prefix: "node_at t (q @ r) = Some x \<Longrightarrow> r \<noteq> [] \<Longrightarrow> \<exists>es. node_at t q = Some (Dir es)"
proof (induction t q rule: node_at.induct)
  case (1 t)
  then show ?case by (cases t; cases r) auto
qed (auto split: option.splits)

definition listed :: "ppath list \<Rightarrow> ppath list \<Rightarrow> ppath \<Rightarrow> artifact \<Rightarrow> bool" where
  "listed ds fs q x \<longleftrightarrow> (is_plain x \<and> q \<in> set fs) \<or> (walks_as_dir x \<and> \<not> is_link x \<and> q \<in> set ds)"

lemma inventory_Dir_Inr:
  "inventory here (Dir es) = Inr out \<longleftrightarrow> (let dirs = filter (walks_as_dir \<circ> snd) es; files = filter (Not \<circ> walks_as_dir \<circ> snd) es in
     (\<forall>e\<in>set es. walks_as_dir (snd e) \<longrightarrow> \<not> is_link (snd e)) \<and> (\<forall>e\<in>set es. \<not> walks_as_dir (snd e) \<longrightarrow> is_plain (snd e))
     \<and> (\<exists>ds fs. inventories here es = Inr (ds, fs)
        \<and> out = (map (\<lambda>e. here @ [fst e]) dirs @ ds, map (\<lambda>e. here @ [fst e]) files @ fs)))"
proof -
  have "list_ex (is_link \<circ> snd) (filter (walks_as_dir \<circ> snd) es) \<longleftrightarrow> \<not> (\<forall>e\<in>set es. walks_as_dir (snd e) \<longrightarrow> \<not> is_link (snd e))"
    "list_all (is_plain \<circ> snd) (filter (Not \<circ> walks_as_dir \<circ> snd) es)
       \<longleftrightarrow> (\<forall>e\<in>set es. \<not> walks_as_dir (snd e) \<longrightarrow> is_plain (snd e))"
    unfolding list_ex_iff list_all_iff comp_def set_filter by blast+
  note checks = this
  show ?thesis unfolding inventory.simps Let_def checks if_Inl_Inr bind_r_Inr_iff split_paired_Ex prod.case sum.inject not_not by blast
qed

lemma inventory_lists:
  "inventory here t = Inr (ds, fs) \<Longrightarrow> node_at t (n # q) = Some x \<Longrightarrow> listed ds fs (here @ n # q) x"
  "inventories here es = Inr (ds, fs) \<Longrightarrow> (n, t) \<in> set es \<Longrightarrow> q \<noteq> [] \<Longrightarrow> node_at t q = Some x
     \<Longrightarrow> listed ds fs (here @ n # q) x"
proof (induction here t and here es arbitrary: ds fs n q x and ds fs n t q x rule: inventory_inventories.induct)
  case (1 here es)
  let ?dirs = "filter (walks_as_dir \<circ> snd) es" and ?files = "filter (Not \<circ> walks_as_dir \<circ> snd) es"
  from "1.prems"(1) obtain ds' fs' where rest: "inventories here es = Inr (ds', fs')"
    and ds: "ds = map (\<lambda>e. here @ [fst e]) ?dirs @ ds'" and fs: "fs = map (\<lambda>e. here @ [fst e]) ?files @ fs'"
    and links: "\<forall>e\<in>set es. walks_as_dir (snd e) \<longrightarrow> \<not> is_link (snd e)"
    and plain: "\<forall>e\<in>set es. \<not> walks_as_dir (snd e) \<longrightarrow> is_plain (snd e)"
    unfolding inventory_Dir_Inr Let_def by blast
  from "1.prems"(2) obtain t where t: "(n, t) \<in> set es" "node_at t q = Some x"
    by (auto split: option.splits dest: map_of_SomeD)
  show ?case
  proof (cases q)
    case Nil
    then have x: "x = t" using t by simp
    have "here @ [n] = (\<lambda>e. here @ [fst e]) (n, t)" by simp
    then have "walks_as_dir t \<Longrightarrow> here @ [n] \<in> set ds" "\<not> walks_as_dir t \<Longrightarrow> here @ [n] \<in> set fs"
      using t(1) unfolding ds fs set_append set_map set_filter comp_def by (metis (mono_tags, lifting) UnI1 image_eqI mem_Collect_eq snd_conv)+
    then show ?thesis using bspec[OF links t(1)] bspec[OF plain t(1)] Nil x by (auto simp: listed_def)
  next
    case (Cons a q')
    have "listed ds' fs' (here @ n # q) x"
      using "1.IH"[OF refl refl _ _ rest t(1) _ t(2)] links plain Cons by (simp add: list_ex_iff list_all_iff)
    then show ?thesis by (auto simp: listed_def ds fs)
  qed
next
  case (4 here m u es)
  from "4.prems"(1) obtain d1 f1 d2 f2 where u: "inventory (here @ [m]) u = Inr (d1, f1)" and es: "inventories here es = Inr (d2, f2)"
    and ds: "ds = d1 @ d2" and fs: "fs = f1 @ f2" by auto
  show ?case
  proof (cases "(n, t) = (m, u)")
    case True
    then obtain a q' where q: "q = a # q'" using "4.prems"(3) by (cases q) auto
    have "listed d1 f1 ((here @ [m]) @ a # q') x" using "4.IH"(1)[OF u] "4.prems"(4) True q by simp
    then show ?thesis using True q by (auto simp: listed_def ds fs)
  next
    case False
    then have "listed d2 f2 (here @ n # q) x" using "4.IH"(2)[OF es] "4.prems"(2-4) by auto
    then show ?thesis by (auto simp: listed_def ds fs)
  qed
qed auto

lemma read_artifact_Inr:
  "read_artifact_file t p label n = Inr raw \<longleftrightarrow> node_at t p = Some (Plain (Some raw)) \<and> length raw \<le> n"
  by (auto simp: read_artifact_file_def Let_def not_less split: option.splits artifact.splits bool.splits)

definition invalid_issues :: string where
  "invalid_issues = ''failed candidate issues.json is not valid UTF-8 JSON''"

lemma verify_candidate_Inr:
  assumes "verify_candidate_directory W root (Some t) citation = Inr rep"
  shows "\<exists>found issues_raw v p rulespec tests. directory_inventory (Some t) = Inr found
     \<and> (node_at t issues_path = Some (Plain (Some issues_raw)) \<and> length issues_raw \<le> max_issues_bytes)
     \<and> load_manifest W invalid_issues issues_raw = Inr v \<and> check_identity v citation = Inr ()
     \<and> canonical_candidate_path (dget (obj_of v) ''path'') = Inr p \<and> check_inventory found p = Inr ()
     \<and> check_metadata (obj_of v) = Inr ()
     \<and> (node_at t p = Some (Plain (Some rulespec)) \<and> length rulespec \<le> max_candidate_bytes)
     \<and> (node_at t (companion_path p) = Some (Plain (Some tests)) \<and> length tests \<le> max_candidate_bytes)
     \<and> length rulespec + length tests \<le> max_candidate_total_bytes
     \<and> JStr (bw_sha256 W rulespec) = dget (obj_of v) ''rulespec_sha256'' \<and> JStr (bw_sha256 W tests) = dget (obj_of v) ''tests_sha256''
     \<and> rep = \<lparr>cr_root = root, cr_path = path_str p, cr_rulespec_sha256 = bw_sha256 W rulespec, cr_tests_sha256 = bw_sha256 W tests\<rparr>"
  using assms unfolding verify_candidate_directory_def Let_def option.sel invalid_issues_def[symmetric]
  by (simp only: bind_r_Inr_iff checks_Cons_Inr fail_if_Inr sum.inject unit_ex not_not not_less read_artifact_Inr eq_commute[of rep]) blast

lemma canonical_candidate_Inr:
  assumes "canonical_candidate_path v = Inr p"
  shows "v = JStr (path_str p) \<and> contained p \<and> set p \<inter> set protected_segments = {} \<and> path_suffix (path_name p) = ''.yaml''
     \<and> 2 \<le> length (module_parts p) \<and> \<not> suffix ''.test.yaml'' (path_name p)"
proof -
  have f: "is_str v" "str_of v \<noteq> []" "p = path_of (str_of v)" "path_str p = str_of v" "\<not> path_absolute p"
    "\<not> list_ex (\<lambda>s. s \<in> {[], ''.'', ''..''}) p" "\<not> list_ex (\<lambda>s. s \<in> set protected_segments) p"
    "2 \<le> length (module_parts p)" "path_suffix (path_name p) = ''.yaml''" "\<not> suffix ''.test.yaml'' (path_name p)"
    using assms unfolding canonical_candidate_path_def Let_def
    by (simp_all only: if_Inl_Inr de_Morgan_disj not_not not_less sum.inject simp_thms) blast+
  have ne: "p \<noteq> []" using f(8) by (auto simp: module_parts_def)
  have "CHR ''/'' \<notin> set q" if "q \<in> set p" for q
    using that f(3,5) posix_parts_segments by (auto simp: path_of_def path_absolute_def path_root_def is_root_def split: if_splits)
  then have "contained p" using f(6) ne by (auto simp: contained_def safe_segment_def list_all_iff list_ex_iff)
  then show ?thesis using f by (auto simp: is_str_iff list_ex_iff)
qed

lemma parents_prefix: "q \<in> set (parents p) \<longleftrightarrow> q \<noteq> [] \<and> strict_prefix q p"
proof
  assume "q \<in> set (parents p)"
  then obtain k where k: "q = take k p" "1 \<le> k" "k < length p" by (auto simp: parents_def)
  then have "q \<noteq> p" "q \<noteq> []" by (auto dest: arg_cong[where f = length])
  then show "q \<noteq> [] \<and> strict_prefix q p" using k(1) take_is_prefix[of k p] by (simp add: strict_prefix_def)
next
  assume q: "q \<noteq> [] \<and> strict_prefix q p"
  then have "q = take (length q) p" "1 \<le> length q" "length q < length p"
    by (auto simp: strict_prefix_def prefix_def Suc_le_eq)
  then show "q \<in> set (parents p)" unfolding parents_def set_map set_upt by (metis atLeastLessThan_iff image_eqI)
qed

lemma companion_parents: "contained p \<Longrightarrow> parents (companion_path p) = parents p"
  by (auto simp: parents_def companion_path_def with_name_def contained_def take_butlast)

lemma contained_take: "contained p \<Longrightarrow> q \<in> set (parents p) \<Longrightarrow> contained q"
  by (auto simp: parents_def contained_def list_all_iff dest: in_set_takeD)

text \<open>C28. An accepted artifact directory of a failed encoding holds the rejected module, its companion tests and
  \<open>issues.json\<close>, and nothing else at any depth: every other node is a directory on the way to the module, so there is no
  link and no special file anywhere. The reported digests are those of the two files, they are the digests that the
  metadata states, the metadata is that of the requested citation and of the reported path, and the path stays below the
  directory and outside the protected ones.\<close>

theorem candidate_directory_exact:
  assumes "verify_candidate_directory W root (Some t) citation = Inr rep" and "posix_tree t"
  shows "\<exists>p rulespec tests d. cr_path rep = path_str p \<and> contained p \<and> set p \<inter> {''.git'', ''.github'', ''_axiom'', ''scripts''} = {}
     \<and> (\<forall>q x. q \<noteq> [] \<longrightarrow> node_at t q = Some x \<longrightarrow>
          (if q \<in> {[''issues.json''], p, companion_path p} then is_plain x else strict_prefix q p \<and> (\<exists>es. x = Dir es)))
     \<and> node_at t p = Some (Plain (Some rulespec)) \<and> bw_sha256 W rulespec = cr_rulespec_sha256 rep
     \<and> node_at t (companion_path p) = Some (Plain (Some tests)) \<and> bw_sha256 W tests = cr_tests_sha256 rep
     \<and> length rulespec + length tests \<le> 1024 * 1024
     \<and> (\<exists>raw label. node_at t [''issues.json''] = Some (Plain (Some raw)) \<and> load_manifest W label raw = Inr (JObj d))
     \<and> dget d ''path'' = JStr (cr_path rep) \<and> (citation \<noteq> None \<longrightarrow> dget d ''citation'' = JStr (the citation))
     \<and> dget d ''rulespec_sha256'' = JStr (cr_rulespec_sha256 rep) \<and> dget d ''tests_sha256'' = JStr (cr_tests_sha256 rep)"
proof -
  from verify_candidate_Inr[OF assms(1)]
  obtain found issues_raw v p rulespec tests where
    inv: "directory_inventory (Some t) = Inr found" and v: "load_manifest W invalid_issues issues_raw = Inr v" "check_identity v citation = Inr ()"
    and raw: "node_at t issues_path = Some (Plain (Some issues_raw))"
    and p: "canonical_candidate_path (dget (obj_of v) ''path'') = Inr p" and ci: "check_inventory found p = Inr ()"
    and rs: "node_at t p = Some (Plain (Some rulespec))" and ts: "node_at t (companion_path p) = Some (Plain (Some tests))"
    and sizes: "length rulespec + length tests \<le> 1024 * 1024"
    and shas: "JStr (bw_sha256 W rulespec) = dget (obj_of v) ''rulespec_sha256''" "JStr (bw_sha256 W tests) = dget (obj_of v) ''tests_sha256''"
    and rep: "rep = \<lparr>cr_root = root, cr_path = path_str p, cr_rulespec_sha256 = bw_sha256 W rulespec, cr_tests_sha256 = bw_sha256 W tests\<rparr>"
    unfolding max_candidate_total_bytes_def by blast
  note c = canonical_candidate_Inr[OF p]
  have cc: "contained p" "contained (companion_path p)" "contained [''issues.json'']"
    using c contained_beside(1)[of p] by (auto simp: contained_def safe_segment_def)
  have files: "set (map path_str (snd found)) = path_str ` {[''issues.json''], p, companion_path p}"
    and dirs: "set (map path_str (fst found)) = path_str ` set (parents p)"
    using ci companion_parents[OF cc(1)] by (auto simp: check_inventory_def Let_def expected_directories_def path_str_def is_root_def)
  have only: "if q \<in> {[''issues.json''], p, companion_path p} then is_plain x else strict_prefix q p \<and> (\<exists>es. x = Dir es)"
    if q: "q \<noteq> []" "node_at t q = Some x" for q x
  proof -
    obtain n q' where nq: "q = n # q'" using q(1) by (cases q) auto
    have "inventory [] t = Inr (fst found, snd found)" using inv by (auto simp: directory_inventory_def split: if_splits)
    then have l: "listed (fst found) (snd found) q x" using inventory_lists(1) q(2) nq by fastforce
    have cq: "contained q" using node_at_contained[OF assms(2) q(2)] q(1) by (simp add: contained_def)
    show ?thesis
    proof (cases "is_plain x")
      case True
      then have "q \<in> set (snd found)" using l by (cases x) (auto simp: listed_def)
      then have "path_str q \<in> path_str ` {[''issues.json''], p, companion_path p}" using files by auto
      then have "q \<in> {[''issues.json''], p, companion_path p}" using path_str_inj[OF cq] cc by auto
      then show ?thesis using True by simp
    next
      case False
      then have "path_str q \<in> path_str ` set (parents p)" using l dirs by (force simp: listed_def)
      then have "q \<in> set (parents p)" using path_str_inj[OF cq] contained_take[OF cc(1)] by auto
      then have pre: "strict_prefix q p" by (simp add: parents_prefix)
      then obtain r where "p = q @ r" "r \<noteq> []" by (auto simp: strict_prefix_def prefix_def)
      then obtain es where es: "x = Dir es" using node_at_prefix[of t q r] rs q(2) by auto
      moreover have "q \<notin> {[''issues.json''], p, companion_path p}" using rs ts raw q(2) es by (auto simp: issues_path_def)
      ultimately show ?thesis using pre by simp
    qed
  qed
  obtain d where d: "v = JObj d" using v(2) by (auto simp: check_identity_def Let_def is_obj_iff)
  have "citation \<noteq> None \<longrightarrow> dget d ''citation'' = JStr (the citation)" using v(2) d by (auto simp: check_identity_def Let_def)
  then show ?thesis using c only rs ts sizes shas raw v(1) d rep unfolding issues_path_def protected_segments_def
    by (intro exI[of _ p] exI[of _ rulespec] exI[of _ tests] exI[of _ d]) auto
qed

end
