(* ===== verification/Repair_Extract_Facts.thy ===== *)
theory Repair_Extract_Facts
  imports Repair_Facts
begin

text \<open>
  What the extraction of a repair candidate may leave below its destination, and what a later base must look like for the
  candidate to be replayed. The destination is read through the invariant \<open>confined\<close>, which every write keeps, so the
  guarantee also covers the extractions that fail half way.
\<close>

section \<open>Operations on the destination\<close>

lemma pure_eq [simp]: "pure r D = (r', D') \<longleftrightarrow> r' = r \<and> D' = D"
  by (auto simp: pure_def)

lemma bind_io_Inr: "bind_io m f D = (Inr y, E) \<longleftrightarrow> (\<exists>x D'. m D = (Inr x, D') \<and> f x D' = (Inr y, E))"
  by (auto simp: bind_io_def split: prod.splits sum.splits)

definition keeps :: "(dest \<Rightarrow> bool) \<Rightarrow> 'a io \<Rightarrow> bool" where
  "keeps P m \<longleftrightarrow> (\<forall>D r E. P D \<longrightarrow> m D = (r, E) \<longrightarrow> P E)"

lemma keeps_pure: "keeps P (pure r)"
  by (simp add: keeps_def)

lemma keeps_bind:
  assumes "keeps P m" and "\<And>x D E. m D = (Inr x, E) \<Longrightarrow> keeps P (f x)"
  shows "keeps P (bind_io m f)"
  unfolding keeps_def
proof (intro allI impI)
  fix D r E
  assume D: "P D" and e: "bind_io m f D = (r, E)"
  obtain r1 D1 where m: "m D = (r1, D1)" by (cases "m D")
  then have "P D1" using assms(1) D by (simp add: keeps_def)
  then show "P E" using e m assms(2)[of D _ D1] by (cases r1) (auto simp: bind_io_def keeps_def)
qed

lemma keeps_bind_pure: "(\<And>x. r = Inr x \<Longrightarrow> keeps P (f x)) \<Longrightarrow> keeps P (bind_io (pure r) f)"
  by (rule keeps_bind[OF keeps_pure]) simp

lemma keeps_each: "(\<And>s x. keeps P (f s x)) \<Longrightarrow> keeps P (each_io f s xs)"
  by (induction xs arbitrary: s) (auto intro: keeps_pure keeps_bind)

lemma each_io_run:
  assumes "each_io f s xs D = (Inr t, E)" and "P s D"
    and "\<And>s x D t E. P s D \<Longrightarrow> f s x D = (Inr t, E) \<Longrightarrow> P t E"
  shows "P t E"
  using assms(1,2)
proof (induction xs arbitrary: s D)
  case (Cons x xs)
  then show ?case using assms(3) by (auto simp: bind_io_Inr)
qed auto

text \<open>Every file satisfies the policy, and none was written twice.\<close>

definition confined :: "(ppath \<Rightarrow> string \<Rightarrow> bool) \<Rightarrow> dest \<Rightarrow> bool" where
  "confined G D \<longleftrightarrow> (\<forall>(q, data)\<in>set (d_files D). G q data) \<and> distinct (map fst (d_files D))"

lemma keeps_make_dirs: "keeps (confined G) (make_dirs K q)"
  by (auto simp: keeps_def make_dirs_def confined_def Let_def split: if_splits)

lemma keeps_create: "(\<And>w. prefix w data \<Longrightarrow> K q = None \<longrightarrow> w = data \<Longrightarrow> G q w) \<Longrightarrow> keeps (confined G) (create_file K q data)"
  using take_is_prefix[of _ data]
  by (auto simp: keeps_def create_file_def confined_def split: if_splits option.splits disk_fault.splits)

lemma keeps_write_pair:
  assumes "\<And>w. prefix w candidate \<Longrightarrow> K (root @ path_of rel) = None \<longrightarrow> w = candidate \<Longrightarrow> G (root @ path_of rel) w"
    and "\<And>w. prefix w tests \<Longrightarrow> K (with_suffix (root @ path_of rel) ''.test.yaml'') = None \<longrightarrow> w = tests
      \<Longrightarrow> G (with_suffix (root @ path_of rel) ''.test.yaml'') w"
  shows "keeps (confined G) (write_candidate_pair K root rel candidate tests)"
  unfolding write_candidate_pair_def Let_def by (intro keeps_bind keeps_make_dirs keeps_create assms)

text \<open>A pair that was written, and stays.\<close>

definition holds_pair :: "bundle_world \<Rightarrow> dest \<Rightarrow> ppath \<Rightarrow> string \<Rightarrow> string \<Rightarrow> string \<Rightarrow> bool" where
  "holds_pair W D root rel rulespec_sha256 tests_sha256 \<longleftrightarrow>
    (\<exists>candidate tests. map_of (d_files D) (root @ path_of rel) = Some candidate \<and> bw_sha256 W candidate = rulespec_sha256
       \<and> map_of (d_files D) (with_suffix (root @ path_of rel) ''.test.yaml'') = Some tests \<and> bw_sha256 W tests = tests_sha256)"

lemma make_dirs_Inr: "make_dirs K q D = (Inr u, E) \<Longrightarrow> d_files E = d_files D"
  by (auto simp: make_dirs_def Let_def split: if_splits)

lemma create_file_Inr: "create_file K q data D = (Inr u, E) \<Longrightarrow> q \<notin> fst ` set (d_files D) \<and> d_files E = d_files D @ [(q, data)]"
  by (auto simp: create_file_def split: if_splits option.splits disk_fault.splits)

lemma write_pair_Inr:
  assumes "write_candidate_pair K root rel candidate tests D = (Inr u, E)"
  shows "map_of (d_files E) (root @ path_of rel) = Some candidate \<and> map_of (d_files E) (with_suffix (root @ path_of rel) ''.test.yaml'') = Some tests
     \<and> (\<forall>q data. map_of (d_files D) q = Some data \<longrightarrow> map_of (d_files E) q = Some data)"
proof -
  let ?out = "root @ path_of rel" let ?test = "with_suffix ?out ''.test.yaml''"
  from assms obtain D1 D2 where s: "make_dirs K (butlast ?out) D = (Inr (), D1)" "create_file K ?out candidate D1 = (Inr (), D2)"
    "create_file K ?test tests D2 = (Inr u, E)"
    unfolding write_candidate_pair_def Let_def bind_io_Inr by auto
  from make_dirs_Inr[OF s(1)] create_file_Inr[OF s(2)] create_file_Inr[OF s(3)]
  have "?out \<notin> fst ` set (d_files D)" "?test \<notin> fst ` set (d_files D)" "?test \<noteq> ?out"
    "d_files E = d_files D @ [(?out, candidate), (?test, tests)]" by auto
  then show ?thesis by (auto simp: map_add_def map_of_eq_None_iff[THEN iffD2] split: option.splits)
qed

lemma write_pair_holds: "write_candidate_pair K root rel candidate tests D = (Inr u, E)
   \<Longrightarrow> holds_pair W E root rel (bw_sha256 W candidate) (bw_sha256 W tests)"
  using write_pair_Inr unfolding holds_pair_def by blast

lemma holds_pair_mono: "holds_pair W D root rel a b \<Longrightarrow> (\<forall>q data. map_of (d_files D) q = Some data \<longrightarrow> map_of (d_files E) q = Some data)
   \<Longrightarrow> holds_pair W E root rel a b"
  unfolding holds_pair_def by blast

section \<open>What the archive binds\<close>

definition archive_has :: "tar_member list \<Rightarrow> string \<Rightarrow> tar_member \<Rightarrow> bool" where
  "archive_has archive name m \<longleftrightarrow> m \<in> set archive \<and> normalized_member_name (tm_name m) = Inr name \<and> tm_regular m"

text \<open>The files that \<open>metadata.json\<close> of the archive lists, and bytes that are those of a listed file.\<close>

definition archive_metadata :: "bundle_world \<Rightarrow> tar_member list \<Rightarrow> json \<Rightarrow> bool" where
  "archive_metadata W archive v \<longleftrightarrow> (\<exists>m raw text. archive_has archive ''metadata.json'' m \<and> tm_data m = Some raw
     \<and> length raw \<le> 4 * 1024 * 1024 \<and> decoded raw = Inr text \<and> loads (lenient_conf W) (bw_depth W) text = Inr v)"

definition archived :: "bundle_world \<Rightarrow> tar_member list \<Rightarrow> string \<Rightarrow> bool" where
  "archived W archive data \<longleftrightarrow> (\<exists>v files path m. archive_metadata W archive v \<and> metadata_file_map (obj_of v) = Inr files
     \<and> map_of files path = Some (bw_sha256 W data, int (length data))
     \<and> archive_has archive (''generated/'' @ path) m \<and> tm_data m = Some data \<and> length data \<le> 512 * 1024)"

lemma member_index_run:
  assumes "for_each add_member seen (enumerate n ms) = Inr members"
  shows "map_of members name = Some m \<Longrightarrow> map_of seen name = Some m \<or> m \<in> set ms \<and> normalized_member_name (tm_name m) = Inr name"
  using assms
proof (induction ms arbitrary: seen n)
  case (Cons m' ms)
  then obtain seen' where s: "add_member seen (n, m') = Inr seen'" "for_each add_member seen' (enumerate (Suc n) ms) = Inr members"
    by (auto split: sum.splits)
  then obtain name' where "normalized_member_name (tm_name m') = Inr name'" "seen' = seen @ [(name', m')]"
    by (auto simp: add_member_def split: if_splits)
  then show ?case using Cons.IH[OF Cons.prems(1) s(2)] by (auto split: option.splits if_splits)
qed simp

lemma regular_member_Inr:
  assumes "member_index archive = Inr members" and "regular_member members name = Inr m"
  shows "archive_has archive name m"
  using assms member_index_run[of "[]" 1 archive members name m]
  by (auto simp: member_index_def regular_member_def archive_has_def split: option.splits if_splits)

lemma read_member_Inr: "read_member m n = Inr data \<Longrightarrow> tm_data m = Some data \<and> length data \<le> n \<and> int (length data) = tm_size m"
  by (auto simp: read_member_def Let_def split: option.splits if_splits)

lemma generated_file_archived:
  assumes "member_index archive = Inr members" and "archive_metadata W archive v" and "metadata_file_map (obj_of v) = Inr files"
    and "verified_generated_file W members files rel = Inr data"
  shows "archived W archive data"
proof -
  from assms(4) obtain digest bytes m where f: "map_of files rel = Some (digest, bytes)" and m: "regular_member members (''generated/'' @ rel) = Inr m"
    and r: "read_member m max_candidate_bytes = Inr data" and d: "int (length data) = bytes" "bw_sha256 W data = digest"
    by (auto simp: verified_generated_file_def split: option.splits if_splits)
  show ?thesis unfolding archived_def
    using regular_member_Inr[OF assms(1) m] read_member_Inr[OF r] f d assms(2,3) by (auto simp: max_candidate_bytes_def)
qed

section \<open>Names below the destination\<close>

lemma runner_safe: "runner_re r \<Longrightarrow> safe_segment r"
proof -
  assume r: "runner_re r"
  then have "CHR ''/'' \<notin> set r" by (auto simp: runner_re_def list_all_iff is_alnum_def is_digit_def is_lower_def is_upper_def)
  moreover have "hd r \<noteq> CHR ''.''" using r dot_no_alnum unfolding runner_re_def by metis
  ultimately show ?thesis using r by (auto simp: runner_re_def safe_segment_def)
qed

lemma runners_of_safe: "(q, r) \<in> set (runners_of pre post files) \<Longrightarrow> safe_segment r \<and> q = pre @ r @ post \<and> q \<in> fst ` set files"
  by (force simp: runners_of_def runner_between_def Let_def intro: runner_safe split: if_splits option.splits)

lemma source_lane_safe: "safe_segment (source_lane n)"
proof -
  have "set (zero_padded 2 n) \<subseteq> {c. is_digit c}"
    by (auto simp: zero_padded_def dest: nat_repr_digits) (simp add: is_digit_def)
  then have "CHR ''/'' \<notin> set (zero_padded 2 n)" by (auto simp: is_digit_def)
  then show ?thesis by (auto simp: source_lane_def safe_segment_def)
qed

lemma expected_module_Inr:
  assumes "expected_module_path country raw = Inr module"
  shows "path_of module = tl (path_of raw) \<and> contained (path_of module) \<and> path_suffix (path_name (path_of module)) = ''.yaml''"
proof -
  let ?p = "path_of raw"
  have m: "module_of_country country ?p" "module = path_str (tl ?p)"
    using assms by (auto simp: expected_module_path_def Let_def split: if_splits)
  have "CHR ''/'' \<notin> set q" if "q \<in> set ?p" for q
    using that m(1) posix_parts_segments by (auto simp: path_of_def module_of_country_def path_absolute_def path_root_def is_root_def split: if_splits)
  then have "list_all safe_segment ?p" using m(1) by (auto simp: module_of_country_def safe_segment_def list_all_iff list_ex_iff)
  moreover obtain a b rest where "?p = a # b # rest" using m(1)
    by (cases ?p; cases "tl ?p") (auto simp: module_of_country_def)
  ultimately have c: "contained (tl ?p)" "path_name (tl ?p) = path_name ?p" by (auto simp: contained_def path_name_def)
  then show ?thesis using m path_of_str[OF c(1)] by (simp add: module_of_country_def)
qed

lemma contained_below:
  assumes "list_all safe_segment root" and "contained p"
  shows "contained (root @ p) \<and> contained (with_suffix (root @ p) ''.test.yaml'')"
proof -
  have c: "contained (root @ p)" using assms by (simp add: contained_def)
  have "companion_path (root @ p) = with_suffix (root @ p) ''.test.yaml''" by (simp add: companion_path_def with_suffix_def)
  then show ?thesis using c contained_beside(1)[OF c] by simp
qed

section \<open>The candidate and the sources\<close>

text \<open>Only a file whose write the disk broke may be short of the archived bytes.\<close>

definition archive_policy :: "bundle_world \<Rightarrow> disk \<Rightarrow> tar_member list \<Rightarrow> ppath \<Rightarrow> string \<Rightarrow> bool" where
  "archive_policy W K archive q data \<longleftrightarrow> contained q
     \<and> (if K q = None then archived W archive data else \<exists>whole. archived W archive whole \<and> prefix data whole)"

lemma keeps_archived_pair:
  assumes "list_all safe_segment root" "contained (path_of rel)" "archived W archive candidate" "archived W archive tests"
  shows "keeps (confined (archive_policy W K archive)) (write_candidate_pair K root rel candidate tests)"
  using assms contained_below[OF assms(1,2)] by (intro keeps_write_pair) (auto simp: archive_policy_def)

definition reads_archive :: "bundle_world \<Rightarrow> tar_member list \<Rightarrow> member_map \<Rightarrow> file_map \<Rightarrow> bool" where
  "reads_archive W archive members files \<longleftrightarrow> member_index archive = Inr members
     \<and> (\<exists>v. archive_metadata W archive v \<and> metadata_file_map (obj_of v) = Inr files)"

lemma file_archived: "reads_archive W archive members files \<Longrightarrow> verified_generated_file W members files rel = Inr data
   \<Longrightarrow> archived W archive data"
  by (auto simp: reads_archive_def intro: generated_file_archived)

lemma retained_archived:
  "reads_archive W archive members files \<Longrightarrow> retained_candidate W members files lane module citation = Inr (Some (candidate, tests))
     \<Longrightarrow> archived W archive candidate \<and> archived W archive tests"
  unfolding retained_candidate_def Let_def
  by (simp only: if_Inl_Inr bind_r_Inr_iff split: if_split_asm) (auto intro: file_archived)

lemma source_candidate_keeps:
  assumes "reads_archive W archive members files"
  shows "keeps (confined (archive_policy W K archive)) (source_candidate W K members files country found x)"
proof -
  note bound = file_archived[OF assms]
  obtain n citation path where x: "x = (n, citation, path)" by (cases x) auto
  have safe: "safe_segment ''source-candidates''" by (simp add: safe_segment_def)
  show ?thesis unfolding x source_candidate_def prod.case Let_def
  proof (intro keeps_bind_pure)
    fix module runner candidate tests
    assume module: "expected_module_path country path = Inr module"
      and runner: "(if preferred_runner \<in> set (paired_runners files (source_lane n) module) then Inr preferred_runner
        else if length (paired_runners files (source_lane n) module) = 1 then Inr (hd (paired_runners files (source_lane n) module))
        else bad (''repair artifact does not bind one final source candidate: '' @ source_lane n)) = Inr runner"
      and candidate: "verified_generated_file W members files ((source_lane n @ ''/'' @ runner @ ''/'') @ module) = Inr candidate"
      and tests: "verified_generated_file W members files ((source_lane n @ ''/'' @ runner @ ''/'') @ tests_name module) = Inr tests"
    have "runner \<in> set (paired_runners files (source_lane n) module)" using runner
      by (auto simp: length_Suc_conv split: if_splits)
    then have "safe_segment runner" by (auto simp: paired_runners_def dest: runners_of_safe)
    then have "list_all safe_segment [''source-candidates'', source_lane n, runner]" using safe source_lane_safe by simp
    from keeps_archived_pair[OF this] expected_module_Inr[OF module] bound[OF candidate] bound[OF tests]
    show "keeps (confined (archive_policy W K archive)) (bind_io (write_candidate_pair K [''source-candidates'', source_lane n, runner] module candidate tests)
      (\<lambda>_. pure (Inr (found @ [\<lparr>so_citation = citation, so_lane = source_lane n, so_path = module,
         so_root = [''source-candidates'', source_lane n, runner], so_runner = runner,
         so_rulespec_sha256 = bw_sha256 W candidate, so_tests_sha256 = bw_sha256 W tests\<rparr>]))))"
      by (intro keeps_bind keeps_pure) auto
  qed
qed

lemma sources_keep: "reads_archive W archive members files
   \<Longrightarrow> keeps (confined (archive_policy W K archive)) (source_repair_candidates W K members files country citations paths)"
  unfolding source_repair_candidates_def Let_def
  by (auto split: option.split intro!: keeps_bind_pure keeps_pure keeps_each source_candidate_keeps)

lemma select_candidate_Inr:
  assumes "select_candidate W members m A lane module = Inr (files, runner, candidate, tests)"
    and "member_index archive = Inr members" and "archive_metadata W archive v" and "obj_of v = m"
  shows "reads_archive W archive members files \<and> safe_segment runner \<and> archived W archive candidate \<and> archived W archive tests"
proof -
  let ?runners = "runners_of (lane @ ''/'') (''/'' @ take (length module - 5) module @ ''.repair.json'')"
  from assms(1) obtain fs where fs: "metadata_file_map m = Inr fs"
    and rest: "(case ?runners fs of
      [(repair_path, runner)] \<Rightarrow>
        bind_r (verified_generated_file W members fs repair_path) (\<lambda>raw.
        bind_r (bind_r (decoded raw) (lenient_json W)) (\<lambda>v.
        if \<not> repair_manifest_ok v (ea_citation A) runner then bad ''final repair manifest identity is invalid'' else
        bind_r (retained_candidate W members fs lane module (ea_citation A)) (\<lambda>retained.
        case retained of
          Some (candidate, tests) \<Rightarrow> Inr (fs, ''retained-best'', candidate, tests)
        | None \<Rightarrow> (let base = lane @ ''/'' @ runner @ ''/'' in
            bind_r (verified_generated_file W members fs (base @ module)) (\<lambda>candidate.
            bind_r (verified_generated_file W members fs (base @ tests_name module)) (\<lambda>tests.
              Inr (fs, runner, candidate, tests))))))) 
    | _ \<Rightarrow> bad ''repair artifact must bind one final repair manifest'') = Inr (files, runner, candidate, tests)"
    unfolding select_candidate_def by (elim bind_r_InrE)
  have r: "reads_archive W archive members fs" using assms(2-4) fs by (auto simp: reads_archive_def)
  from rest obtain q r0 where q: "?runners fs = [(q, r0)]" by (auto split: list.splits)
  have safe: "safe_segment r0" using runners_of_safe[of q r0] q by (metis list.set_intros(1))
  have best: "safe_segment ''retained-best''" by (simp add: safe_segment_def)
  from rest q obtain retained where ret: "retained_candidate W members fs lane module (ea_citation A) = Inr retained"
    and pick: "(case retained of
          Some (candidate, tests) \<Rightarrow> Inr (fs, ''retained-best'', candidate, tests)
        | None \<Rightarrow> (let base = lane @ ''/'' @ r0 @ ''/'' in
            bind_r (verified_generated_file W members fs (base @ module)) (\<lambda>candidate.
            bind_r (verified_generated_file W members fs (base @ tests_name module)) (\<lambda>tests.
              Inr (fs, r0, candidate, tests))))) = Inr (files, runner, candidate, tests)"
    by (simp only: list.case prod.case if_Inl_Inr bind_r_Inr_iff) blast
  show ?thesis
  proof (cases retained)
    case None
    then show ?thesis using pick r safe file_archived[OF r] by (auto simp: Let_def)
  next
    case (Some pair)
    then show ?thesis using pick r best ret retained_archived[OF r] by (cases pair) auto
  qed
qed

lemma source_candidate_run:
  assumes "source_candidate W K members files country found x D = (Inr out, E)"
    and "\<forall>s\<in>set found. holds_pair W D (so_root s) (so_path s) (so_rulespec_sha256 s) (so_tests_sha256 s)"
  shows "\<forall>s\<in>set out. holds_pair W E (so_root s) (so_path s) (so_rulespec_sha256 s) (so_tests_sha256 s)"
proof -
  obtain n citation path where x: "x = (n, citation, path)" by (cases x) auto
  from assms(1) obtain module runner candidate tests u where
    w: "write_candidate_pair K [''source-candidates'', source_lane n, runner] module candidate tests D = (Inr u, E)"
    and out: "out = found @ [\<lparr>so_citation = citation, so_lane = source_lane n, so_path = module,
         so_root = [''source-candidates'', source_lane n, runner], so_runner = runner,
         so_rulespec_sha256 = bw_sha256 W candidate, so_tests_sha256 = bw_sha256 W tests\<rparr>]"
    unfolding x source_candidate_def prod.case Let_def bind_io_Inr pure_eq by blast
  show ?thesis using write_pair_Inr[OF w] write_pair_holds[OF w] assms(2) holds_pair_mono unfolding out by auto
qed

lemma source_candidates_run:
  assumes "source_repair_candidates W K members files country citations paths D = (Inr out, E)"
  shows "\<forall>s\<in>set out. holds_pair W E (so_root s) (so_path s) (so_rulespec_sha256 s) (so_tests_sha256 s)"
proof (cases paths)
  case None
  then show ?thesis using assms by (simp add: source_repair_candidates_def)
next
  case (Some t)
  then obtain xs where "each_io (source_candidate W K members files country) [] xs D = (Inr out, E)"
    using assms by (auto simp: source_repair_candidates_def Let_def bind_io_Inr split: if_splits)
  from each_io_run[OF this, of "\<lambda>found D. \<forall>s\<in>set found. holds_pair W D (so_root s) (so_path s) (so_rulespec_sha256 s) (so_tests_sha256 s)"]
  show ?thesis using source_candidate_run by fastforce
qed

lemma metadata_of_archive:
  assumes "member_index archive = Inr members" and "regular_member members ''metadata.json'' = Inr meta"
    and "bind_r (read_member meta max_metadata_bytes) (\<lambda>raw. bind_r (decoded raw) (lenient_json W)) = Inr v"
  shows "archive_metadata W archive v"
  using regular_member_Inr[OF assms(1,2)] assms(3) unfolding archive_metadata_def max_metadata_bytes_def
  by (fastforce simp: bind_r_Inr_iff dest: read_member_Inr)

definition run_identity :: "bundle_world \<Rightarrow> tar_member list \<Rightarrow> extract_args \<Rightarrow> string \<Rightarrow> bool" where
  "run_identity W archive A ref \<longleftrightarrow> (\<exists>v. archive_metadata W archive v
     \<and> (\<forall>(f, x)\<in>set (expected_fields A @ single_target_mode_fields). dget (obj_of v) f = x)
     \<and> dget (obj_of v) ''rulespec_ref'' = JStr ref \<and> (ref = ea_rulespec_ref A \<or> ea_base_advance A)
     \<and> py_eq (dget (obj_of v) ''workflow_run_attempt'') (JInt 1) \<and> dget (obj_of v) ''failed_steps'' = JArr [JStr ''encode_apply''])"

lemma checked_identity:
  assumes "archive_metadata W archive v" and "check_run_identity v A = Inr u" and "check_run_outcome (obj_of v) lane lanes = Inr u'"
  shows "run_identity W archive A (str_of (dget (obj_of v) ''rulespec_ref''))"
proof -
  have f: "\<forall>fv\<in>set (expected_fields A @ single_target_mode_fields). field_is (obj_of v) fv"
    and ref: "normal_str (hex_of_length 40) (dget (obj_of v) ''rulespec_ref'')"
      "dget (obj_of v) ''rulespec_ref'' = JStr (ea_rulespec_ref A) \<or> ea_base_advance A"
    using assms(2) unfolding check_run_identity_def Let_def
    by (auto simp: checks_append_Inr checks_map_fail)
  have "\<forall>(f, x)\<in>set (expected_fields A @ single_target_mode_fields). dget (obj_of v) f = x"
    using f unfolding field_is_def by fast
  moreover obtain s where s: "dget (obj_of v) ''rulespec_ref'' = JStr s" using ref(1) by (auto simp: normal_str_def is_str_iff)
  moreover have "py_eq (dget (obj_of v) ''workflow_run_attempt'') (JInt 1)" "dget (obj_of v) ''failed_steps'' = JArr [JStr ''encode_apply'']"
    using assms(3) by (auto simp: check_run_outcome_def is_strs_def)
  ultimately show ?thesis using assms(1) ref(2) unfolding run_identity_def by (intro exI[of _ v]) simp
qed

lemma plan_steps:
  assumes "plan_extraction W archive A = Inr P"
  obtains module members meta v lane files runner candidate tests and mode :: source_mode where
    "expected_module_path (ea_country A) (ea_replace_path A) = Inr module"
    "member_index archive = Inr members" "regular_member members ''metadata.json'' = Inr meta"
    "bind_r (read_member meta max_metadata_bytes) (\<lambda>raw. bind_r (decoded raw) (lenient_json W)) = Inr v"
    "repair_lane_for_atomic_source W (obj_of v) (ea_atomic_source A) = Inr lane"
    "check_run_identity v A = Inr ()" "check_run_outcome (obj_of v) (fst lane) (snd lane) = Inr ()"
    "select_candidate W members (obj_of v) A (fst lane) module = Inr (files, runner, candidate, tests)"
    "P = \<lparr>pl_module = module, pl_members = members, pl_metadata = obj_of v, pl_sources = sm_sources mode, pl_files = files,
        pl_runner = runner, pl_candidate = candidate, pl_tests = tests\<rparr>"
proof -
  have "\<exists>module members meta v lane sel (mode :: source_mode). expected_module_path (ea_country A) (ea_replace_path A) = Inr module
     \<and> member_index archive = Inr members \<and> regular_member members ''metadata.json'' = Inr meta
     \<and> bind_r (read_member meta max_metadata_bytes) (\<lambda>raw. bind_r (decoded raw) (lenient_json W)) = Inr v
     \<and> repair_lane_for_atomic_source W (obj_of v) (ea_atomic_source A) = Inr lane
     \<and> check_run_identity v A = Inr () \<and> check_run_outcome (obj_of v) (fst lane) (snd lane) = Inr ()
     \<and> select_candidate W members (obj_of v) A (fst lane) module = Inr sel
     \<and> P = \<lparr>pl_module = module, pl_members = members, pl_metadata = obj_of v, pl_sources = sm_sources mode, pl_files = fst sel,
        pl_runner = fst (snd sel), pl_candidate = fst (snd (snd sel)), pl_tests = snd (snd (snd sel))\<rparr>"
    using assms unfolding plan_extraction_def split_beta
    by (simp only: bind_r_Inr_iff sum.inject unit_ex eq_commute[of P]) blast
  then show ?thesis using that by (metis prod.collapse)
qed

lemma plan_extraction_Inr:
  assumes "plan_extraction W archive A = Inr P"
  shows "contained (path_of (pl_module P)) \<and> reads_archive W archive (pl_members P) (pl_files P) \<and> safe_segment (pl_runner P)
     \<and> archived W archive (pl_candidate P) \<and> archived W archive (pl_tests P)
     \<and> run_identity W archive A (str_of (dget (pl_metadata P) ''rulespec_ref''))"
  using assms
proof (rule plan_steps)
  fix module members meta v lane files runner candidate tests and mode :: source_mode
  assume mo: "expected_module_path (ea_country A) (ea_replace_path A) = Inr module"
    and m: "member_index archive = Inr members" "regular_member members ''metadata.json'' = Inr meta"
      "bind_r (read_member meta max_metadata_bytes) (\<lambda>raw. bind_r (decoded raw) (lenient_json W)) = Inr v"
    and id: "check_run_identity v A = Inr ()" "check_run_outcome (obj_of v) (fst lane) (snd lane) = Inr ()"
    and sel: "select_candidate W members (obj_of v) A (fst lane) module = Inr (files, runner, candidate, tests)"
    and P: "P = \<lparr>pl_module = module, pl_members = members, pl_metadata = obj_of v, pl_sources = sm_sources mode, pl_files = files,
        pl_runner = runner, pl_candidate = candidate, pl_tests = tests\<rparr>"
  note meta = metadata_of_archive[OF m]
  show ?thesis using expected_module_Inr[OF mo, THEN conjunct2] select_candidate_Inr[OF sel m(1) meta refl] checked_identity[OF meta id] by (simp add: P)
qed

lemma extraction_keeps: "keeps (confined (archive_policy W K archive)) (extract_candidate W K archive destination_exists A)"
proof (cases destination_exists)
  case False
  show ?thesis unfolding extract_candidate_def if_not_P[OF False]
  proof (intro keeps_bind[OF keeps_make_dirs] keeps_bind_pure)
    fix P
    assume "plan_extraction W archive A = Inr P"
    note p = plan_extraction_Inr[OF this]
    show "keeps (confined (archive_policy W K archive))
      (bind_io (source_repair_candidates W K (pl_members P) (pl_files P) (ea_country A) (pl_sources P) (ea_source_paths A)) (\<lambda>sources.
       bind_io (write_candidate_pair K [pl_runner P] (pl_module P) (pl_candidate P) (pl_tests P)) (\<lambda>_.
       pure (Inr \<lparr>er_root = [pl_runner P], er_path = pl_module P, er_rulespec_sha256 = bw_sha256 W (pl_candidate P),
         er_tests_sha256 = bw_sha256 W (pl_tests P), er_runner = pl_runner P,
         er_source_ref = str_of (dget (pl_metadata P) ''rulespec_ref''), er_sources = sources\<rparr>))))"
      using p by (intro keeps_bind keeps_pure sources_keep keeps_archived_pair) auto
  qed
qed (simp add: extract_candidate_def keeps_pure)

text \<open>An extraction that succeeds met no broken write.\<close>

definition unbroken :: "disk \<Rightarrow> 'a io \<Rightarrow> bool" where
  "unbroken K m \<longleftrightarrow> (\<forall>D x E. m D = (Inr x, E) \<longrightarrow> (\<forall>q\<in>fst ` set (d_files D). K q = None) \<longrightarrow> (\<forall>q\<in>fst ` set (d_files E). K q = None))"

lemma unbroken_pure: "unbroken K (pure r)"
  by (simp add: unbroken_def)

lemma unbroken_bind: "unbroken K m \<Longrightarrow> (\<And>x. unbroken K (f x)) \<Longrightarrow> unbroken K (bind_io m f)"
  unfolding unbroken_def bind_io_Inr by meson

lemma unbroken_make_dirs: "unbroken K (make_dirs K q)"
  by (simp add: unbroken_def make_dirs_Inr)

lemma unbroken_create: "unbroken K (create_file K q data)"
  by (auto simp: unbroken_def create_file_def split: if_splits option.splits disk_fault.splits)

lemma unbroken_each: "(\<And>s x. unbroken K (f s x)) \<Longrightarrow> unbroken K (each_io f s xs)"
  by (induction xs arbitrary: s) (auto intro: unbroken_pure unbroken_bind)

lemmas unbroken_rules = unbroken_pure unbroken_bind unbroken_make_dirs unbroken_create unbroken_each

lemma unbroken_write_pair: "unbroken K (write_candidate_pair K root rel candidate tests)"
  unfolding write_candidate_pair_def Let_def by (intro unbroken_rules)

lemma unbroken_source: "unbroken K (source_candidate W K members files country found x)"
  unfolding source_candidate_def Let_def by (cases x) (auto intro!: unbroken_rules unbroken_write_pair)

lemma unbroken_extraction: "unbroken K (extract_candidate W K archive destination_exists A)"
  unfolding extract_candidate_def source_repair_candidates_def Let_def
  by (auto intro!: unbroken_rules unbroken_write_pair unbroken_source split: option.split)

text \<open>C29. Whatever the archive, whatever the disk does and however the extraction ends, every file below the destination has a
  path that stays below it, none is written twice, and its bytes are those of a regular archive member whose digest and
  size the metadata of the archive binds; only a file whose write the disk broke, in an extraction that failed, may hold
  just the first of these bytes. When the extraction succeeds, the reported pair and all reported source pairs are there with their
  reported digests, and the metadata is that of the requested run: the same citation, commits and target, attempt one, a
  failed encoding, and the requested RuleSpec base unless a later base is allowed.\<close>

theorem extraction_writes_only_archived:
  assumes "extract_candidate W K archive destination_exists A \<lparr>d_dirs = [], d_files = []\<rparr> = (r, D)"
  shows "(\<forall>(q, data)\<in>set (d_files D). contained q
        \<and> (if K q = None \<or> (\<exists>rep. r = Inr rep) then archived W archive data else \<exists>whole. archived W archive whole \<and> prefix data whole))
     \<and> distinct (map fst (d_files D))
     \<and> (\<forall>rep. r = Inr rep \<longrightarrow> holds_pair W D (er_root rep) (er_path rep) (er_rulespec_sha256 rep) (er_tests_sha256 rep)
          \<and> (\<forall>s\<in>set (er_sources rep). holds_pair W D (so_root s) (so_path s) (so_rulespec_sha256 s) (so_tests_sha256 s))
          \<and> run_identity W archive A (er_source_ref rep))"
proof (intro conjI allI impI)
  have "confined (archive_policy W K archive) \<lparr>d_dirs = [], d_files = []\<rparr>" by (simp add: confined_def)
  then have "confined (archive_policy W K archive) D" using extraction_keeps assms unfolding keeps_def by blast
  then have c: "\<forall>(q, data)\<in>set (d_files D). archive_policy W K archive q data" "distinct (map fst (d_files D))"
    by (simp_all add: confined_def)
  have u: "K q = None" if "(q, data) \<in> set (d_files D)" "r = Inr rep" for q data rep
    using that unbroken_extraction[of K W archive destination_exists A] assms unfolding unbroken_def by fastforce
  show "distinct (map fst (d_files D))" by (rule c(2))
  show "\<forall>(q, data)\<in>set (d_files D). contained q
      \<and> (if K q = None \<or> (\<exists>rep. r = Inr rep) then archived W archive data else \<exists>whole. archived W archive whole \<and> prefix data whole)"
    using c(1) u unfolding archive_policy_def by fastforce
  fix rep
  assume r: "r = Inr rep"
  have fresh: "\<not> destination_exists" using assms r by (auto simp: extract_candidate_def)
  from assms obtain D0 D1 P sources where pl: "Inr P = plan_extraction W archive A"
    and so: "source_repair_candidates W K (pl_members P) (pl_files P) (ea_country A) (pl_sources P) (ea_source_paths A) D0 = (Inr sources, D1)"
    and wr: "write_candidate_pair K [pl_runner P] (pl_module P) (pl_candidate P) (pl_tests P) D1 = (Inr (), D)"
    and rep: "rep = \<lparr>er_root = [pl_runner P], er_path = pl_module P, er_rulespec_sha256 = bw_sha256 W (pl_candidate P),
         er_tests_sha256 = bw_sha256 W (pl_tests P), er_runner = pl_runner P,
         er_source_ref = str_of (dget (pl_metadata P) ''rulespec_ref''), er_sources = sources\<rparr>"
    unfolding r extract_candidate_def if_not_P[OF fresh] bind_io_Inr pure_eq prod.inject sum.inject unit_ex by blast
  note written = write_pair_Inr[OF wr] write_pair_holds[OF wr]
  show "holds_pair W D (er_root rep) (er_path rep) (er_rulespec_sha256 rep) (er_tests_sha256 rep)"
    using written by (simp add: rep)
  show "\<forall>s\<in>set (er_sources rep). holds_pair W D (so_root s) (so_path s) (so_rulespec_sha256 s) (so_tests_sha256 s)"
    using source_candidates_run[OF so] written holds_pair_mono by (auto simp: rep)
  show "run_identity W archive A (er_source_ref rep)"
    using plan_extraction_Inr[OF pl[symmetric]] by (simp add: rep)
qed

section \<open>What was verified is retained\<close>

text \<open>The halves do not agree on where a module may live: the verification admits a module below \<open>legislation\<close>, which no
  extraction asks for and no replay accepts.\<close>

lemma legislation_never_replayed:
  "canonical_candidate_path (JStr ''legislation/gb/1.yaml'') = Inr [''legislation'', ''gb'', ''1.yaml'']"
  "expected_module_path country replaced \<noteq> Inr ''legislation/gb/1.yaml''"
  "\<not> candidate_path_ok country (path_of ''legislation/gb/1.yaml'') ''legislation/gb/1.yaml''"
proof -
  show "canonical_candidate_path (JStr ''legislation/gb/1.yaml'') = Inr [''legislation'', ''gb'', ''1.yaml'']" by code_simp
  have p: "path_of ''legislation/gb/1.yaml'' = [''legislation'', ''gb'', ''1.yaml'']" by code_simp
  show "expected_module_path country replaced \<noteq> Inr ''legislation/gb/1.yaml''"
  proof
    assume m: "expected_module_path country replaced = Inr ''legislation/gb/1.yaml''"
    then have "path_of replaced ! 1 \<in> set repair_roots" "2 < length (path_of replaced)"
      by (auto simp: expected_module_path_def module_of_country_def Let_def split: if_splits)
    then have "hd (tl (path_of replaced)) \<in> set repair_roots" by (cases "path_of replaced"; cases "tl (path_of replaced)") auto
    moreover have "tl (path_of replaced) = [''legislation'', ''gb'', ''1.yaml'']" using expected_module_Inr[OF m] p by simp
    ultimately show False by (simp add: repair_roots_def)
  qed
  show "\<not> candidate_path_ok country (path_of ''legislation/gb/1.yaml'') ''legislation/gb/1.yaml''"
    by (simp add: p candidate_path_ok_def repair_roots_def)
qed

text \<open>A file of the artifact directory as the archive packs it: bound by the metadata and present as a regular member.\<close>

definition packs :: "bundle_world \<Rightarrow> member_map \<Rightarrow> file_map \<Rightarrow> string \<Rightarrow> string \<Rightarrow> bool" where
  "packs W members files name data \<longleftrightarrow> map_of files name = Some (bw_sha256 W data, int (length data))
     \<and> (\<exists>m. map_of members (''generated/'' @ name) = Some m \<and> tm_regular m \<and> tm_size m = int (length data) \<and> tm_data m = Some data)"

lemma packed_file: "packs W members files name data \<Longrightarrow> length data \<le> max_candidate_bytes
   \<Longrightarrow> verified_generated_file W members files name = Inr data"
  by (auto simp: packs_def verified_generated_file_def regular_member_def read_member_def Let_def)

lemma path_stem_suffix: "path_stem n @ path_suffix n = n"
proof (cases "path_suffix n = []")
  case False
  let ?ext = "takeWhile (\<lambda>c. c \<noteq> CHR ''.'') (rev n)" let ?rest = "dropWhile (\<lambda>c. c \<noteq> CHR ''.'') (rev n)"
  have s: "path_suffix n = CHR ''.'' # rev ?ext" and dot: "CHR ''.'' \<in> set n" using False
    by (simp_all add: path_suffix_def Let_def split: if_splits)
  have "?rest \<noteq> []" using dot by (auto simp: dropWhile_eq_Nil_conv)
  then have "?rest = CHR ''.'' # tl ?rest" using hd_dropWhile[of "\<lambda>c. c \<noteq> CHR ''.''" "rev n"] by (cases ?rest) auto
  then have "rev n = ?ext @ CHR ''.'' # tl ?rest" by (metis takeWhile_dropWhile_id)
  then have "n = rev (tl ?rest) @ path_suffix n" unfolding s by (metis append.assoc append_Cons append_Nil rev_append rev_rev_ident rev.simps(2))
  then show ?thesis unfolding path_stem_def by (metis append_eq_conv_conj append_take_drop_id diff_add_inverse2 length_append)
qed (simp add: path_stem_def)

lemma join_last: "join sep (ps @ [a @ x]) = join sep (ps @ [a]) @ x"
  by (induction ps) (simp_all add: join_Cons)

lemma tests_name_companion:
  assumes "contained p" and "path_suffix (path_name p) = ''.yaml''"
  shows "tests_name (path_str p) = path_str (companion_path p)"
proof -
  have c: "contained (companion_path p)" by (rule contained_beside(1)[OF assms(1)])
  let ?stem = "path_stem (path_name p)" let ?base = "join ''/'' (butlast p @ [?stem])"
  have "last p \<in> set p" using assms(1) by (auto simp: contained_def)
  then have n: "path_name p = last p" "p \<noteq> []" using assms(1) safe_not_root[of "last p"]
    by (auto simp: path_name_def contained_def list_all_iff)
  have "p = butlast p @ [?stem @ ''.yaml'']" using n path_stem_suffix[of "path_name p"] assms(2) by simp
  then have "path_str p = ?base @ ''.yaml''" using path_str_contained[OF assms(1)] join_last by metis
  moreover have "path_str (companion_path p) = ?base @ ''.test.yaml''"
    unfolding path_str_contained[OF c] by (simp only: companion_path_def with_name_def join_last)
  ultimately show ?thesis by (simp add: tests_name_def strip_yaml_def suffix_def)
qed

lemma checked_retained:
  assumes "check_identity v (Some citation) = Inr ()" and "check_metadata (obj_of v) = Inr ()"
    and "dget (obj_of v) ''path'' = JStr p"
  shows "retained_metadata_ok v p citation"
  using assms by (simp add: retained_metadata_ok_def Let_def check_identity_def check_metadata_def checks_Cons_Inr fail_if_Inr)

text \<open>The message of the error does not matter when there is none.\<close>

lemma load_manifest_any: "load_manifest W m raw = Inr v \<Longrightarrow> load_manifest W m' raw = Inr v"
  by (auto simp: load_manifest_def value_error_as_def split: sum.splits load_error.splits path_error.splits if_splits)

lemma retained_names:
  fixes names :: "string list"
  assumes inside: "\<And>f. f \<in> F \<Longrightarrow> lead @ f \<in> set names"
    and only: "\<And>n. n \<in> set names \<Longrightarrow> prefix lead n \<Longrightarrow> n \<in> (@) lead ` F"
  shows "set (filter (prefix lead) names) = (@) lead ` F"
proof (intro set_eqI iffI)
  fix n
  assume "n \<in> (@) lead ` F"
  then obtain f where f: "f \<in> F" "n = lead @ f" by blast
  have "prefix lead n" unfolding f(2) by (rule prefixI[OF refl])
  then show "n \<in> set (filter (prefix lead) names)" using inside[OF f(1)] unfolding f(2) by simp
qed (use only in auto)

text \<open>The verification of a directory is at least as strict as the extraction on metadata, sizes and digests.\<close>

lemma verified_is_retained:
  assumes "verify_candidate_directory W root (Some t) (Some citation) = Inr rep"
    and packed: "\<And>q data. q \<in> {[''issues.json''], path_of (cr_path rep), companion_path (path_of (cr_path rep))}
      \<Longrightarrow> node_at t q = Some (Plain (Some data)) \<Longrightarrow> packs W members files (retained_root lane @ ''/'' @ path_str q) data"
    and only: "\<And>name. name \<in> fst ` set files \<Longrightarrow> prefix (retained_root lane @ ''/'') name
      \<Longrightarrow> name \<in> (\<lambda>f. retained_root lane @ ''/'' @ f) ` {''issues.json'', cr_path rep, tests_name (cr_path rep)}"
  shows "\<exists>candidate tests. retained_candidate W members files lane (cr_path rep) citation = Inr (Some (candidate, tests))
     \<and> node_at t (path_of (cr_path rep)) = Some (Plain (Some candidate)) \<and> bw_sha256 W candidate = cr_rulespec_sha256 rep
     \<and> node_at t (companion_path (path_of (cr_path rep))) = Some (Plain (Some tests)) \<and> bw_sha256 W tests = cr_tests_sha256 rep"
proof -
  from verify_candidate_Inr[OF assms(1)]
  obtain found issues_raw v p rulespec tests where
    iss: "node_at t [''issues.json''] = Some (Plain (Some issues_raw))" "length issues_raw \<le> max_candidate_bytes"
    and v: "load_manifest W invalid_issues issues_raw = Inr v" "check_identity v (Some citation) = Inr ()"
    and p: "canonical_candidate_path (dget (obj_of v) ''path'') = Inr p" and md: "check_metadata (obj_of v) = Inr ()"
    and rs: "node_at t p = Some (Plain (Some rulespec))" "length rulespec \<le> max_candidate_bytes"
    and ts: "node_at t (companion_path p) = Some (Plain (Some tests))" "length tests \<le> max_candidate_bytes"
    and sha: "JStr (bw_sha256 W rulespec) = dget (obj_of v) ''rulespec_sha256''" "JStr (bw_sha256 W tests) = dget (obj_of v) ''tests_sha256''"
    and rep: "rep = \<lparr>cr_root = root, cr_path = path_str p, cr_rulespec_sha256 = bw_sha256 W rulespec, cr_tests_sha256 = bw_sha256 W tests\<rparr>"
    unfolding max_issues_bytes_def max_candidate_bytes_def issues_path_def by blast
  note c = canonical_candidate_Inr[OF p]
  have round: "path_of (cr_path rep) = p" using path_of_str c rep by simp
  have tn: "tests_name (path_str p) = path_str (companion_path p)" using tests_name_companion c by blast
  let ?root = "retained_root lane @ ''/''"
  have strs: "path_str [''issues.json''] = ''issues.json''" by (simp add: path_str_def is_root_def)
  have packs: "packs W members files (?root @ ''issues.json'') issues_raw" "packs W members files (?root @ path_str p) rulespec"
    "packs W members files (?root @ tests_name (path_str p)) tests"
    using packed[unfolded round, of "[''issues.json'']" issues_raw] packed[unfolded round, of p rulespec]
      packed[unfolded round, of "companion_path p" tests] iss(1) rs(1) ts(1) by (simp_all add: tn strs)
  note bytes = packed_file[OF packs(1) iss(2)] packed_file[OF packs(2) rs(2)] packed_file[OF packs(3) ts(2)]
  have inside: "?root @ f \<in> fst ` set files" if "f \<in> {''issues.json'', path_str p, tests_name (path_str p)}" for f
  proof -
    have "map_of files (?root @ f) \<noteq> None" using packs that by (auto simp: packs_def)
    then show ?thesis unfolding map_of_eq_None_iff by blast
  qed
  have "set (filter (prefix ?root) (map fst files)) = (@) ?root ` {''issues.json'', path_str p, tests_name (path_str p)}"
  proof (rule retained_names)
    show "?root @ f \<in> set (map fst files)" if "f \<in> {''issues.json'', path_str p, tests_name (path_str p)}" for f
      using inside[OF that] by simp
    show "n \<in> (@) ?root ` {''issues.json'', path_str p, tests_name (path_str p)}" if "n \<in> set (map fst files)" "prefix ?root n" for n
      using only[of n] that unfolding rep candidate_report.simps append_assoc set_map by blast
  qed
  then have retained: "set (filter (prefix ?root) (map fst files)) = {?root @ ''issues.json'', ?root @ path_str p, ?root @ tests_name (path_str p)}"
    by (simp only: image_insert image_empty)
  have ok: "retained_metadata_ok v (path_str p) citation" using checked_retained[OF v(2) md] c by blast
  note loaded = load_manifest_any[OF v(1)]
  have "retained_candidate W members files lane (path_str p) citation = Inr (Some (rulespec, tests))"
    using bytes ok loaded retained inside[of "''issues.json''"] sha
    by (simp add: retained_candidate_def Let_def)
  then show ?thesis using rs(1) ts(1) rep round by simp
qed

text \<open>The members of an archive, its metadata and the files that the metadata lists.\<close>

definition archive_contents :: "bundle_world \<Rightarrow> tar_member list \<Rightarrow> (path_error, member_map \<times> json \<times> file_map) result" where
  "archive_contents W archive =
    bind_r (member_index archive) (\<lambda>members.
    bind_r (regular_member members ''metadata.json'') (\<lambda>meta.
    bind_r (bind_r (read_member meta max_metadata_bytes) (\<lambda>raw. bind_r (decoded raw) (lenient_json W))) (\<lambda>v.
    bind_r (metadata_file_map (obj_of v)) (\<lambda>files. Inr (members, v, files)))))"

lemma select_retained:
  assumes "select_candidate W members m A lane module = Inr (files', runner, candidate, tests)"
    and "metadata_file_map m = Inr files" and "retained_candidate W members files lane module (ea_citation A) = Inr (Some (c, t))"
  shows "runner = ''retained-best'' \<and> candidate = c \<and> tests = t"
  using assms unfolding select_candidate_def by (auto simp: bind_r_Inr_iff split: list.splits if_splits)

lemma plan_retained:
  assumes "plan_extraction W archive A = Inr P" and "archive_contents W archive = Inr (members, v, files)"
    and "repair_lane_for_atomic_source W (obj_of v) (ea_atomic_source A) = Inr (lane, lanes)"
    and "expected_module_path (ea_country A) (ea_replace_path A) = Inr module"
    and "retained_candidate W members files lane module (ea_citation A) = Inr (Some (c, t))"
  shows "pl_module P = module \<and> pl_runner P = ''retained-best'' \<and> pl_candidate P = c \<and> pl_tests P = t"
  using assms(1)
proof (rule plan_steps)
  fix module' members' meta v' l files' runner candidate tests and mode :: source_mode
  assume p: "expected_module_path (ea_country A) (ea_replace_path A) = Inr module'"
    and m: "member_index archive = Inr members'" "regular_member members' ''metadata.json'' = Inr meta"
      "bind_r (read_member meta max_metadata_bytes) (\<lambda>raw. bind_r (decoded raw) (lenient_json W)) = Inr v'"
    and l: "repair_lane_for_atomic_source W (obj_of v') (ea_atomic_source A) = Inr l"
    and sel: "select_candidate W members' (obj_of v') A (fst l) module' = Inr (files', runner, candidate, tests)"
    and P: "P = \<lparr>pl_module = module', pl_members = members', pl_metadata = obj_of v', pl_sources = sm_sources mode, pl_files = files',
        pl_runner = runner, pl_candidate = candidate, pl_tests = tests\<rparr>"
  have same: "members' = members" "v' = v" "metadata_file_map (obj_of v) = Inr files"
    using assms(2) m by (auto simp: archive_contents_def bind_r_Inr_iff simp del: lenient_json_Inr)
  have "l = (lane, lanes)" "module' = module" using l p assms(3,4) same by simp_all
  then have "select_candidate W members (obj_of v) A lane module = Inr (files', runner, candidate, tests)" using sel same by simp
  from select_retained[OF this same(3) assms(5)] show ?thesis using P \<open>module' = module\<close> by simp
qed

lemma with_suffix_below: "contained p \<Longrightarrow> with_suffix (root @ p) ''.test.yaml'' = root @ companion_path p"
  by (cases p rule: rev_cases) (auto simp: contained_def with_suffix_def companion_path_def with_name_def path_name_def is_root_def butlast_append)

text \<open>C30. What was verified is what is extracted. Take an artifact directory that the verification accepted for the citation of a
  repair, an archive that packs its three files, and nothing else, as the retained candidate of the lane of the run, and
  an extraction that was asked for the module of the candidate and succeeds. Then it reports that module, below
  \<open>retained-best\<close>, with the digests that the verification reported, and below its destination are the very bytes of the
  directory, whatever other candidates the archive holds and whatever the disk did.\<close>

theorem verified_candidate_is_extracted:
  assumes "verify_candidate_directory W root (Some t) (Some (ea_citation A)) = Inr rep"
    and "expected_module_path (ea_country A) (ea_replace_path A) = Inr (cr_path rep)"
    and "archive_contents W archive = Inr (members, v, files)"
    and "repair_lane_for_atomic_source W (obj_of v) (ea_atomic_source A) = Inr (lane, lanes)"
    and packed: "\<And>q data. q \<in> {[''issues.json''], path_of (cr_path rep), companion_path (path_of (cr_path rep))}
      \<Longrightarrow> node_at t q = Some (Plain (Some data)) \<Longrightarrow> packs W members files (retained_root lane @ ''/'' @ path_str q) data"
    and only: "\<And>name. name \<in> fst ` set files \<Longrightarrow> prefix (retained_root lane @ ''/'') name
      \<Longrightarrow> name \<in> (\<lambda>f. retained_root lane @ ''/'' @ f) ` {''issues.json'', cr_path rep, tests_name (cr_path rep)}"
    and run: "extract_candidate W K archive False A \<lparr>d_dirs = [], d_files = []\<rparr> = (Inr out, D)"
  shows "er_root out = [''retained-best''] \<and> er_path out = cr_path rep
     \<and> er_rulespec_sha256 out = cr_rulespec_sha256 rep \<and> er_tests_sha256 out = cr_tests_sha256 rep
     \<and> (\<forall>q\<in>{path_of (cr_path rep), companion_path (path_of (cr_path rep))}.
          \<exists>data. node_at t q = Some (Plain (Some data)) \<and> map_of (d_files D) (''retained-best'' # q) = Some data)"
proof -
  from verified_is_retained[OF assms(1) packed only] obtain candidate tests where
    ret: "retained_candidate W members files lane (cr_path rep) (ea_citation A) = Inr (Some (candidate, tests))"
    and c: "node_at t (path_of (cr_path rep)) = Some (Plain (Some candidate))" "bw_sha256 W candidate = cr_rulespec_sha256 rep"
    and t: "node_at t (companion_path (path_of (cr_path rep))) = Some (Plain (Some tests))" "bw_sha256 W tests = cr_tests_sha256 rep" by blast
  from run obtain P D1 sources where pl: "plan_extraction W archive A = Inr P"
    and wr: "write_candidate_pair K [pl_runner P] (pl_module P) (pl_candidate P) (pl_tests P) D1 = (Inr (), D)"
    and out: "out = \<lparr>er_root = [pl_runner P], er_path = pl_module P, er_rulespec_sha256 = bw_sha256 W (pl_candidate P),
         er_tests_sha256 = bw_sha256 W (pl_tests P), er_runner = pl_runner P,
         er_source_ref = str_of (dget (pl_metadata P) ''rulespec_ref''), er_sources = sources\<rparr>"
    unfolding extract_candidate_def if_False bind_io_Inr pure_eq prod.inject sum.inject unit_ex by metis
  note P = plan_retained[OF pl assms(3,4,2) ret]
  have below: "contained (path_of (cr_path rep))" using expected_module_Inr[OF assms(2)] by blast
  from write_pair_Inr[OF wr] P have "map_of (d_files D) (''retained-best'' # path_of (cr_path rep)) = Some candidate"
    "map_of (d_files D) (''retained-best'' # companion_path (path_of (cr_path rep))) = Some tests"
    using with_suffix_below[OF below, of "[''retained-best'']"] by simp_all
  then show ?thesis using c t P by (simp add: out)
qed

section \<open>Replay on a later base\<close>

text \<open>Exactly one of the paths has an identity at a commit, and it is \<open>b\<close>.\<close>

definition sole_identity :: "bundle_world \<Rightarrow> string \<Rightarrow> ppath list \<Rightarrow> string \<Rightarrow> bool" where
  "sole_identity W commit paths b \<longleftrightarrow> (\<exists>m\<in>set paths. blob_identity W commit m = Inr (Some b)
     \<and> (\<forall>n\<in>set paths. n \<noteq> m \<longrightarrow> blob_identity W commit n = Inr None))"

abbreviation found_identities :: "string option list \<Rightarrow> string list" where
  "found_identities found \<equiv> concat (map (\<lambda>i. case i of Some s \<Rightarrow> [s] | None \<Rightarrow> []) found)"

lemma no_identities: "map_r f paths = Inr found \<Longrightarrow> found_identities found = [] \<longleftrightarrow> (\<forall>n\<in>set paths. f n = Inr None)"
  by (induction paths arbitrary: found) (auto simp: map_r_Cons_iff simp del: map_r.simps(2) split: option.splits)

lemma one_identity: "map_r f paths = Inr found \<Longrightarrow> distinct paths
   \<Longrightarrow> found_identities found = [b] \<longleftrightarrow> (\<exists>m\<in>set paths. f m = Inr (Some b) \<and> (\<forall>n\<in>set paths. n \<noteq> m \<longrightarrow> f n = Inr None))"
proof (induction paths arbitrary: found)
  case (Cons p paths)
  then obtain y zs where y: "f p = Inr y" and zs: "map_r f paths = Inr zs" and found: "found = y # zs"
    by (auto simp only: map_r_Cons_iff)
  have p: "p \<notin> set paths" and d: "distinct paths" using Cons.prems(2) by auto
  show ?case
  proof (cases y)
    case None
    then show ?thesis using Cons.IH[OF zs d] y p found by auto
  next
    case (Some s)
    then show ?thesis using no_identities[OF zs] y p found by auto
  qed
qed simp

lemma map_r_total: "(\<exists>ys. map_r f xs = Inr ys) \<longleftrightarrow> (\<forall>x\<in>set xs. \<exists>y. f x = Inr y)"
  by (induction xs) (auto simp: map_r_Cons_iff simp del: map_r.simps(2))

lemma unique_manifest_Inr:
  assumes "distinct paths"
  shows "unique_manifest_identity W commit paths label = Inr b \<longleftrightarrow> sole_identity W commit paths b"
proof
  assume "unique_manifest_identity W commit paths label = Inr b"
  then obtain found where f: "map_r (blob_identity W commit) paths = Inr found" "found_identities found = [b]"
    by (auto simp: unique_manifest_identity_def split: list.splits)
  then show "sole_identity W commit paths b" using one_identity[OF f(1) assms] by (simp add: sole_identity_def)
next
  assume s: "sole_identity W commit paths b"
  then have "\<forall>n\<in>set paths. \<exists>y. blob_identity W commit n = Inr y" by (auto simp: sole_identity_def)
  then obtain found where f: "map_r (blob_identity W commit) paths = Inr found" using map_r_total by blast
  then have "found_identities found = [b]" using one_identity[OF f assms] s by (simp add: sole_identity_def)
  then show "unique_manifest_identity W commit paths label = Inr b" by (simp add: unique_manifest_identity_def f)
qed

lemma same_identity_Inr:
  "same_identity W s c p = Inr () \<longleftrightarrow> (\<exists>b. blob_identity W s p = Inr (Some b) \<and> blob_identity W c p = Inr (Some b))"
  by (auto simp: same_identity_def Let_def bind_r_Inr_iff fail_if_Inr)

lemma same_manifest_Inr:
  "distinct paths \<Longrightarrow> require_same_manifest W s c paths = Inr () \<longleftrightarrow> (\<exists>b. sole_identity W s paths b \<and> sole_identity W c paths b)"
  by (auto simp: require_same_manifest_def bind_r_Inr_iff fail_if_Inr unique_manifest_Inr)

lemma commits_Inr: "require_commits W s c = Inr () \<longleftrightarrow> hex_of_length 40 s \<and> hex_of_length 40 c
   \<and> git_word W [''rev-parse'', ''HEAD''] = Inr c \<and> git_word W [''rev-parse'', ''--verify'', s @ ''^{commit}''] = Inr s"
  by (auto simp: require_commits_def bind_r_Inr_iff fail_if_Inr)

text \<open>C31. A repair candidate is replayed on a later base exactly when its path is canonical, both commits are named in full, the
  later one is the checked out head, and nothing that the candidate stands for changed between them: the module and its companion
  tests have the same blob at both commits, and of the two places where the ownership manifest can live exactly one has a
  blob at each commit, the same one. The place may move; a manifest in both places is refused.\<close>

theorem base_advance_exact:
  "verify_base_advance W country s c candidate rulespec = Inr () \<longleftrightarrow>
    (let p = path_of candidate; r = (case rulespec of Some x \<Rightarrow> path_of x | None \<Rightarrow> path_join (path_of country) candidate);
         manifests = [with_suffix (manifest_root @ r) ''.json'', with_suffix (manifest_root @ p) ''.json''] in
     candidate_path_ok country p candidate \<and> module_of_country country r \<and> tl r = p
     \<and> (\<forall>x. rulespec = Some x \<longrightarrow> path_str r = x)
     \<and> hex_of_length 40 s \<and> hex_of_length 40 c
     \<and> git_word W [''rev-parse'', ''HEAD''] = Inr c \<and> git_word W [''rev-parse'', ''--verify'', s @ ''^{commit}''] = Inr s
     \<and> (\<forall>q\<in>{r, hd r # with_suffix p ''.test.yaml''}. \<exists>b. blob_identity W s q = Inr (Some b) \<and> blob_identity W c q = Inr (Some b))
     \<and> (\<exists>b. \<forall>commit\<in>{s, c}. \<exists>m\<in>set manifests. blob_identity W commit m = Inr (Some b)
          \<and> (\<forall>n\<in>set manifests. n \<noteq> m \<longrightarrow> blob_identity W commit n = Inr None)))"
proof -
  have m: "require_same_manifest W s c (remdups [a, b]) = Inr () \<longleftrightarrow> (\<exists>i. \<forall>commit\<in>{s, c}. sole_identity W commit [a, b] i)" for a b
    by (simp only: same_manifest_Inr distinct_remdups sole_identity_def set_remdups ball_simps simp_thms)
  have given: "(rulespec \<noteq> None \<and> path_str r \<noteq> the rulespec) \<longleftrightarrow> \<not> (\<forall>x. rulespec = Some x \<longrightarrow> path_str r = x)" for r
    by (cases rulespec) simp_all
  show ?thesis unfolding verify_base_advance_def Let_def manifest_below_def given
    by (simp only: if_Inl_Inr bind_r_Inr_iff unit_ex same_identity_Inr commits_Inr m sole_identity_def
        ball_simps de_Morgan_disj not_not) blast
qed

end
