(* ===== verification/Repair_Examples.thy ===== *)
theory Repair_Examples
  imports Repair_Extract_Facts Backfill_Examples
begin

text \<open>
  The properties of the repair candidates at one failed run: the artifact directory of the encoding of a section of title
  26, and the diagnostics archive that the run left. The checkout and its parameters are those of \<open>Backfill_Examples\<close>.
\<close>

section \<open>The artifact directory\<close>

definition rel_mod :: ppath where "rel_mod = [''statutes'', ''26'', ''32.yaml'']"
definition rel_tests :: ppath where "rel_tests = [''statutes'', ''26'', ''32.test.yaml'']"
definition rel_str :: string where "rel_str = ''statutes/26/32.yaml''"
definition txt_t :: string where "txt_t = ''- name: one''"

definition failed_meta :: json where
  "failed_meta = JObj [(''attempt_count'', JInt 3), (''citation'', JStr cit_a), (''encoder_version'', JStr ''0.2.1''),
     (''issues'', JArr [JStr ''missing unit'']), (''path'', JStr rel_str), (''rulespec_sha256'', JStr (toy_digest txt_a)),
     (''schema'', JStr failed_candidate_schema), (''tests_sha256'', JStr (toy_digest txt_t))]"

definition failed_text :: string where "failed_text = print_json failed_meta"

definition toy_artifact :: artifact where
  "toy_artifact = Dir [(''issues.json'', Plain (Some failed_text)),
     (''statutes'', Dir [(''26'', Dir [(''32.yaml'', Plain (Some txt_a)), (''32.test.yaml'', Plain (Some txt_t))])])]"

lemma toy_nodes:
  "node_at toy_artifact [''issues.json''] = Some (Plain (Some failed_text))" "node_at toy_artifact rel_mod = Some (Plain (Some txt_a))"
  "node_at toy_artifact rel_tests = Some (Plain (Some txt_t))"
  by (simp_all add: toy_artifact_def rel_mod_def rel_tests_def)

lemma failed_loads: "load_manifest toy_world m failed_text = Inr failed_meta"
proof -
  have f: "fits failed_meta 50" by code_simp
  show ?thesis using ascii_print[OF f] loads_print[OF plain_confs(2)[of toy_world] f]
    by (simp add: load_manifest_def failed_text_def value_error_as_def)
qed

definition toy_verified_report :: candidate_report where
  "toy_verified_report = \<lparr>cr_root = ''/tmp/failed'', cr_path = rel_str, cr_rulespec_sha256 = toy_digest txt_a, cr_tests_sha256 = toy_digest txt_t\<rparr>"

lemma toy_verification: "verify_candidate_directory toy_world ''/tmp/failed'' (Some toy_artifact) (Some cit_a) = Inr toy_verified_report"
proof -
  define found where "found = ([[''statutes''], [''statutes'', ''26'']], [[''issues.json''], rel_mod, rel_tests])"
  have inv: "directory_inventory (Some toy_artifact) = Inr found"
    by (simp add: directory_inventory_def toy_artifact_def found_def rel_mod_def rel_tests_def)
  have small: "length failed_text \<le> max_issues_bytes" "length txt_a \<le> max_candidate_bytes" "length txt_t \<le> max_candidate_bytes" by code_simp+
  have reads: "read_artifact_file toy_artifact issues_path l max_issues_bytes = Inr failed_text"
    "read_artifact_file toy_artifact rel_mod l max_candidate_bytes = Inr txt_a"
    "read_artifact_file toy_artifact rel_tests l max_candidate_bytes = Inr txt_t" for l
    using small toy_nodes by (simp_all add: read_artifact_Inr issues_path_def)
  have p: "canonical_candidate_path (dget (obj_of failed_meta) ''path'') = Inr rel_mod" "companion_path rel_mod = rel_tests"
    "path_str rel_mod = rel_str" by code_simp+
  have c: "check_identity failed_meta (Some cit_a) = Inr ()" "check_metadata (obj_of failed_meta) = Inr ()" by code_simp+
  have i: "check_inventory found rel_mod = Inr ()" unfolding found_def by code_simp
  have d: "dget (obj_of failed_meta) ''rulespec_sha256'' = JStr (toy_digest txt_a)"
    "dget (obj_of failed_meta) ''tests_sha256'' = JStr (toy_digest txt_t)" by code_simp+
  have u: "utf8_valid txt_a" "utf8_valid txt_t" "length txt_a + length txt_t \<le> max_candidate_total_bytes" by code_simp+
  show ?thesis using u by (simp add: verify_candidate_directory_def Let_def inv reads failed_loads p c i d toy_verified_report_def fail_if_def)
qed

lemma candidate_directory_exact_witness: "\<exists>p rulespec. rel_str = path_str p \<and> contained p
   \<and> node_at toy_artifact p = Some (Plain (Some rulespec)) \<and> toy_digest rulespec = toy_digest txt_a"
proof -
  have "posix_tree toy_artifact" by code_simp
  from candidate_directory_exact[OF toy_verification this] show ?thesis by (auto simp: toy_verified_report_def)
qed

section \<open>The diagnostics archive\<close>

definition member :: "string \<Rightarrow> string \<Rightarrow> tar_member" where
  "member name data = \<lparr>tm_name = name, tm_regular = True, tm_size = int (length data), tm_data = Some data\<rparr>"

definition bound_file :: "string \<Rightarrow> string \<Rightarrow> json" where
  "bound_file name data = JObj [(''path'', JStr name), (''sha256'', JStr (toy_digest data)), (''size'', JInt (int (length data)))]"

definition repair_text :: string where
  "repair_text = print_json (JObj [(''citation'', JStr cit_a), (''runner'', JStr ''r1''), (''schema_version'', JStr ''axiom-encode/repair-manifest/v1'')])"

definition toy_generated :: "(string \<times> string) list" where
  "toy_generated = [(''target/r1/statutes/26/32.repair.json'', repair_text), (''target/r1/statutes/26/32.yaml'', txt_b),
     (''target/r1/statutes/26/32.test.yaml'', txt_b), (''target/final-rejected-candidate/issues.json'', failed_text),
     (''target/final-rejected-candidate/statutes/26/32.yaml'', txt_a), (''target/final-rejected-candidate/statutes/26/32.test.yaml'', txt_t)]"

definition no_sources_text :: string where "no_sources_text = print_json (JArr [])"

definition toy_args :: extract_args where
  "toy_args = \<lparr>ea_citation = cit_a, ea_country = ''us'', ea_encoder_commit = toy_head, ea_corpus_ref = ''c1'', ea_rules_engine_ref = ''e1'',
     ea_rulespec_ref = toy_head, ea_base_advance = False, ea_atomic_source = no_sources_text, ea_replace_path = ''us/statutes/26/32.yaml'',
     ea_source_paths = None, ea_run_id = ''77''\<rparr>"

definition toy_run :: json where
  "toy_run = JObj ([(''schema'', JStr diagnostics_schema), (''rulespec_ref'', JStr toy_head), (''source_bundle_input'', JStr ''[]''),
      (''workflow_run_attempt'', JInt 1), (''failed_steps'', JArr [JStr ''encode_apply'']), (''generated_lanes'', JArr [JStr ''target'']),
      (''files'', JArr (map (\<lambda>(n, c). bound_file n c) toy_generated))]
    @ expected_fields toy_args @ single_target_mode_fields)"

definition run_text :: string where "run_text = print_json toy_run"

definition toy_archive :: "tar_member list" where
  "toy_archive = member ''./metadata.json'' run_text # map (\<lambda>(n, c). member (''generated/'' @ n) c) toy_generated"

lemma toy_run_loads: "decoded run_text = Inr run_text" "lenient_json toy_world run_text = Inr toy_run"
proof -
  have f: "fits toy_run 50" by code_simp
  show "decoded run_text = Inr run_text" "lenient_json toy_world run_text = Inr toy_run"
    using ascii_print[OF f] lenient_print[of toy_run toy_world] f by (simp_all add: run_text_def)
qed

definition toy_members :: member_map where
  "toy_members = (''metadata.json'', member ''./metadata.json'' run_text) # map (\<lambda>(n, c). (''generated/'' @ n, member (''generated/'' @ n) c)) toy_generated"

definition toy_files :: file_map where
  "toy_files = map (\<lambda>(n, c). (n, toy_digest c, int (length c))) toy_generated"

lemma toy_index: "member_index toy_archive = Inr toy_members"
proof -
  have n: "normalized_member_name ''./metadata.json'' = Inr ''metadata.json''"
    "normalized_member_name ''generated/target/r1/statutes/26/32.repair.json'' = Inr ''generated/target/r1/statutes/26/32.repair.json''"
    "normalized_member_name ''generated/target/r1/statutes/26/32.yaml'' = Inr ''generated/target/r1/statutes/26/32.yaml''"
    "normalized_member_name ''generated/target/r1/statutes/26/32.test.yaml'' = Inr ''generated/target/r1/statutes/26/32.test.yaml''"
    "normalized_member_name ''generated/target/final-rejected-candidate/issues.json'' = Inr ''generated/target/final-rejected-candidate/issues.json''"
    "normalized_member_name ''generated/target/final-rejected-candidate/statutes/26/32.yaml'' = Inr ''generated/target/final-rejected-candidate/statutes/26/32.yaml''"
    "normalized_member_name ''generated/target/final-rejected-candidate/statutes/26/32.test.yaml'' = Inr ''generated/target/final-rejected-candidate/statutes/26/32.test.yaml''" by code_simp+
  then show ?thesis by (simp add: member_index_def toy_archive_def toy_members_def toy_generated_def add_member_def max_archive_members_def
      member_def enumerate_simps)
qed

lemma toy_file_map: "metadata_file_map (obj_of toy_run) = Inr toy_files"
proof -
  have n: "normalized_member_name ''target/r1/statutes/26/32.repair.json'' = Inr ''target/r1/statutes/26/32.repair.json''"
    "normalized_member_name ''target/r1/statutes/26/32.yaml'' = Inr ''target/r1/statutes/26/32.yaml''"
    "normalized_member_name ''target/r1/statutes/26/32.test.yaml'' = Inr ''target/r1/statutes/26/32.test.yaml''"
    "normalized_member_name ''target/final-rejected-candidate/issues.json'' = Inr ''target/final-rejected-candidate/issues.json''"
    "normalized_member_name ''target/final-rejected-candidate/statutes/26/32.yaml'' = Inr ''target/final-rejected-candidate/statutes/26/32.yaml''"
    "normalized_member_name ''target/final-rejected-candidate/statutes/26/32.test.yaml'' = Inr ''target/final-rejected-candidate/statutes/26/32.test.yaml''" by code_simp+
  have d: "dget (obj_of toy_run) ''files'' = JArr (map (\<lambda>(n, c). bound_file n c) toy_generated)"
    by (simp add: toy_run_def dget_def)
  show ?thesis unfolding metadata_file_map_def d using n toy_hex
    by (simp add: toy_generated_def toy_files_def add_file_entry_def file_entry_ok_def bound_file_def dget_def Let_def digest_str_def normal_str_def)
qed

lemma toy_packed:
  assumes "(n, c) \<in> set toy_generated"
  shows "verified_generated_file toy_world toy_members toy_files n = Inr c"
proof (rule packed_file)
  have "distinct (map fst toy_members)" "distinct (map fst toy_files)" by (simp_all add: toy_members_def toy_files_def toy_generated_def)
  moreover have "(''generated/'' @ n, member (''generated/'' @ n) c) \<in> set toy_members" "(n, toy_digest c, int (length c)) \<in> set toy_files"
    using assms by (force simp: toy_members_def toy_files_def)+
  ultimately show "packs toy_world toy_members toy_files n c" by (simp add: packs_def member_def map_of_is_SomeI)
  have "list_all (\<lambda>(n, c). length c \<le> max_candidate_bytes) toy_generated" by code_simp
  then show "length c \<le> max_candidate_bytes" using assms by (auto simp: list_all_iff)
qed

lemma toy_no_sources: "split_atomic_source_input toy_world no_sources_text = Inr \<lparr>sm_refresh = [], sm_cases = [], sm_sources = []\<rparr>"
proof -
  have f: "fits (JArr []) 50" by code_simp
  have l: "length no_sources_text \<le> max_source_bundle_json_bytes" by code_simp
  show ?thesis using ascii_print[OF f] load_print[of "JArr []" toy_world] f l
    by (simp add: split_atomic_source_input_def no_sources_text_def del: print_json.simps)
qed

definition toy_plan :: extract_plan where
  "toy_plan = \<lparr>pl_module = rel_str, pl_members = toy_members, pl_metadata = obj_of toy_run, pl_sources = [], pl_files = toy_files,
     pl_runner = ''retained-best'', pl_candidate = txt_a, pl_tests = txt_t\<rparr>"

text \<open>The archive packs the artifact directory as the retained candidate, beside another candidate of the same module.\<close>

lemma toy_report_path: "cr_path toy_verified_report = ''statutes/26/32.yaml''" "path_of ''statutes/26/32.yaml'' = rel_mod"
  "companion_path rel_mod = rel_tests" "path_str [''issues.json''] = ''issues.json''" "path_str rel_mod = ''statutes/26/32.yaml''"
  "path_str rel_tests = ''statutes/26/32.test.yaml''" "tests_name ''statutes/26/32.yaml'' = ''statutes/26/32.test.yaml''" by code_simp+

lemma toy_packs:
  assumes "q \<in> {[''issues.json''], path_of (cr_path toy_verified_report), companion_path (path_of (cr_path toy_verified_report))}"
    and "node_at toy_artifact q = Some (Plain (Some data))"
  shows "packs toy_world toy_members toy_files (retained_root ''target'' @ ''/'' @ path_str q) data"
proof -
  from assms(1)[unfolded toy_report_path] assms(2) toy_nodes have "(q, data) \<in> {([''issues.json''], failed_text), (rel_mod, txt_a), (rel_tests, txt_t)}" by auto
  then show ?thesis
    by (elim insertE emptyE) (simp_all add: toy_report_path packs_def retained_root_def toy_members_def toy_files_def toy_generated_def member_def)
qed

lemma toy_packs_only:
  assumes "n \<in> fst ` set toy_files" "prefix (retained_root ''target'' @ ''/'') n"
  shows "n \<in> (\<lambda>f. retained_root ''target'' @ ''/'' @ f) ` {''issues.json'', cr_path toy_verified_report, tests_name (cr_path toy_verified_report)}"
  using assms unfolding toy_report_path retained_root_def image_insert image_empty
  by (auto simp: toy_files_def toy_generated_def prefix_def)

lemma toy_retained: "retained_candidate toy_world toy_members toy_files ''target'' rel_str cit_a = Inr (Some (txt_a, txt_t))"
  using verified_is_retained[OF toy_verification toy_packs toy_packs_only] toy_nodes by (simp add: toy_report_path rel_str_def)

lemma toy_selected: "select_candidate toy_world toy_members (obj_of toy_run) toy_args ''target'' rel_str = Inr (toy_files, ''retained-best'', txt_a, txt_t)"
proof -
  define v where "v = JObj [(''citation'', JStr cit_a), (''runner'', JStr ''r1''), (''schema_version'', JStr ''axiom-encode/repair-manifest/v1'')]"
  have f: "fits v 50" unfolding v_def by code_simp
  have t: "repair_text = print_json v" by (simp add: repair_text_def v_def)
  have text_ok: "decoded repair_text = Inr repair_text" "lenient_json toy_world repair_text = Inr v"
    using ascii_print[OF f] lenient_print[of v toy_world] f by (simp_all add: t)
  have m: "repair_manifest_ok v cit_a ''r1''" by (simp add: repair_manifest_ok_def v_def dget_def)
  have r: "runners_of ''target/'' ''/statutes/26/32.repair.json'' toy_files = [(''target/r1/statutes/26/32.repair.json'', ''r1'')]" by code_simp
  have n: "take (length rel_str - 5) rel_str = ''statutes/26/32''" "tests_name rel_str = ''statutes/26/32.test.yaml''" by code_simp+
  have files: "verified_generated_file toy_world toy_members toy_files ''target/r1/statutes/26/32.repair.json'' = Inr repair_text"
    by (rule toy_packed, simp add: toy_generated_def)
  show ?thesis using r n files
    by (simp add: select_candidate_def toy_file_map text_ok m toy_retained toy_args_def)
qed

lemma toy_lane: "repair_lane_for_atomic_source toy_world (obj_of toy_run) (ea_atomic_source toy_args) = Inr (''target'', [''target''])"
  by (simp add: repair_lane_for_atomic_source_def toy_args_def toy_no_sources value_error_as_def Let_def
      toy_run_def keys_def dget_def expected_fields_def single_target_mode_fields_def)

lemma toy_planned: "plan_extraction toy_world toy_archive toy_args = Inr toy_plan"
proof -
  have e: "expected_module_path (ea_country toy_args) (ea_replace_path toy_args) = Inr rel_str" by code_simp
  have small: "length run_text \<le> max_metadata_bytes" by code_simp
  have "regular_member toy_members ''metadata.json'' = Inr (member ''./metadata.json'' run_text)"
    by (simp add: regular_member_def toy_members_def member_def)
  moreover have "read_member (member ''./metadata.json'' run_text) max_metadata_bytes = Inr run_text"
    using small by (simp add: read_member_def member_def)
  moreover have "check_run_identity toy_run toy_args = Inr ()" by code_simp
  moreover have "check_run_outcome (obj_of toy_run) ''target'' [''target''] = Inr ()" by code_simp
  moreover have a: "ea_atomic_source toy_args = no_sources_text" "ea_source_paths toy_args = None" by (simp_all add: toy_args_def)
  ultimately show ?thesis using e toy_lane[unfolded a(1)]
    by (simp add: plan_extraction_def toy_index toy_run_loads toy_no_sources toy_selected toy_plan_def value_error_as_def fail_if_def)
qed

text \<open>On a disk that works the candidate is extracted; on one that breaks its tests, what is left is part of the archive.\<close>

abbreviation toy_broken :: disk where
  "toy_broken \<equiv> (\<lambda>q. if q = ''retained-best'' # rel_tests then Some (Broken 3) else None)"

lemma toy_extraction:
  obtains rep D where "extract_candidate toy_world (\<lambda>_. None) toy_archive False toy_args \<lparr>d_dirs = [], d_files = []\<rparr> = (Inr rep, D)"
proof -
  have e: "ea_source_paths toy_args = None" by (simp add: toy_args_def)
  have w: "write_candidate_pair (\<lambda>_. None) [''retained-best''] rel_str txt_a txt_t \<lparr>d_dirs = [[]], d_files = []\<rparr>
      = (Inr (), \<lparr>d_dirs = [[], [''retained-best''], [''retained-best'', ''statutes''], [''retained-best'', ''statutes'', ''26'']],
           d_files = [(''retained-best'' # rel_mod, txt_a), (''retained-best'' # rel_tests, txt_t)]\<rparr>)" by code_simp
  have "make_dirs (\<lambda>_. None) [] \<lparr>d_dirs = [], d_files = []\<rparr> = (Inr (), \<lparr>d_dirs = [[]], d_files = []\<rparr>)" by code_simp
  then show ?thesis using that w by (simp add: extract_candidate_def bind_io_def pure_def toy_planned toy_plan_def source_repair_candidates_def e)
qed

lemma extraction_writes_only_archived_witness:
  "\<exists>D :: dest. d_files D = [(''retained-best'' # rel_mod, txt_a), (''retained-best'' # rel_tests, ''- n'')]
     \<and> archived toy_world toy_archive txt_a \<and> (\<exists>whole. archived toy_world toy_archive whole \<and> prefix ''- n'' whole)"
proof -
  have e: "ea_source_paths toy_args = None" by (simp add: toy_args_def)
  have w: "write_candidate_pair toy_broken [''retained-best''] rel_str txt_a txt_t \<lparr>d_dirs = [[]], d_files = []\<rparr>
      = (Inl OSError, \<lparr>d_dirs = [[], [''retained-best''], [''retained-best'', ''statutes''], [''retained-best'', ''statutes'', ''26'']],
           d_files = [(''retained-best'' # rel_mod, txt_a), (''retained-best'' # rel_tests, ''- n'')]\<rparr>)" by code_simp
  have "make_dirs toy_broken [] \<lparr>d_dirs = [], d_files = []\<rparr> = (Inr (), \<lparr>d_dirs = [[]], d_files = []\<rparr>)" by code_simp
  then obtain D where r: "extract_candidate toy_world toy_broken toy_archive False toy_args \<lparr>d_dirs = [], d_files = []\<rparr> = (Inl OSError, D)"
    and d: "d_files D = [(''retained-best'' # rel_mod, txt_a), (''retained-best'' # rel_tests, ''- n'')]"
    using w by (simp add: extract_candidate_def bind_io_def pure_def toy_planned toy_plan_def source_repair_candidates_def e)
  have "rel_mod \<noteq> rel_tests" by (simp add: rel_mod_def rel_tests_def)
  with extraction_writes_only_archived[OF r] show ?thesis by (intro exI[of _ D]) (simp add: d)
qed

lemma toy_contents: "archive_contents toy_world toy_archive = Inr (toy_members, toy_run, toy_files)"
proof -
  have small: "length run_text \<le> max_metadata_bytes" by code_simp
  have "regular_member toy_members ''metadata.json'' = Inr (member ''./metadata.json'' run_text)"
    by (simp add: regular_member_def toy_members_def member_def)
  moreover have "read_member (member ''./metadata.json'' run_text) max_metadata_bytes = Inr run_text"
    using small by (simp add: read_member_def member_def)
  ultimately show ?thesis by (simp add: archive_contents_def toy_index toy_run_loads toy_file_map)
qed

lemma verified_candidate_is_extracted_witness:
  "\<exists>out D. extract_candidate toy_world (\<lambda>_. None) toy_archive False toy_args \<lparr>d_dirs = [], d_files = []\<rparr> = (Inr out, D)
     \<and> er_root out = [''retained-best''] \<and> er_path out = ''statutes/26/32.yaml'' \<and> map_of (d_files D) (''retained-best'' # rel_mod) = Some txt_a"
proof -
  obtain out D where r: "extract_candidate toy_world (\<lambda>_. None) toy_archive False toy_args \<lparr>d_dirs = [], d_files = []\<rparr> = (Inr out, D)"
    by (rule toy_extraction)
  have c: "ea_citation toy_args = cit_a" by (simp add: toy_args_def)
  have m: "expected_module_path (ea_country toy_args) (ea_replace_path toy_args) = Inr (cr_path toy_verified_report)" by code_simp
  from verified_candidate_is_extracted[OF toy_verification[folded c] m toy_contents toy_lane toy_packs toy_packs_only r]
  show ?thesis using toy_nodes r unfolding toy_report_path by auto
qed

section \<open>A later base\<close>

text \<open>The ownership manifest moved between the two bases; nothing else changed.\<close>

definition later_head :: string where "later_head = replicate 40 CHR ''c''"

definition base_git :: "string list \<Rightarrow> string option" where
  "base_git args =
    (let blob = (\<lambda>c. replicate 40 c @ [CHR 0x0A]); at = (\<lambda>commit paths. last args \<in> (\<lambda>p. commit @ '':'' @ p) ` set paths);
         manifest = ''.axiom/encoding-manifests/statutes/26/32.json'' in
     if args = [''rev-parse'', ''HEAD''] then Some (later_head @ [CHR 0x0A])
     else if hd args = ''cat-file'' then Some (''blob'' @ [CHR 0x0A])
     else if last args = toy_head @ ''^{commit}'' then Some (toy_head @ [CHR 0x0A])
     else if at toy_head [''us/statutes/26/32.yaml''] \<or> at later_head [''us/statutes/26/32.yaml''] then Some (blob CHR ''1'')
     else if at toy_head [''us/statutes/26/32.test.yaml''] \<or> at later_head [''us/statutes/26/32.test.yaml''] then Some (blob CHR ''2'')
     else if at toy_head [''.axiom/encoding-manifests/us/statutes/26/32.json''] \<or> at later_head [manifest] then Some (blob CHR ''3'')
     else None)"

lemma base_advance_exact_witness:
  "verify_base_advance (toy_world\<lparr>bw_git := base_git\<rparr>) ''us'' toy_head later_head rel_str None = Inr ()"
proof -
  define W where "W = toy_world\<lparr>bw_git := base_git\<rparr>"
  have p: "path_of rel_str = rel_mod" "path_join (path_of ''us'') rel_str = mod_a" "hd mod_a # with_suffix rel_mod ''.test.yaml'' = ''us'' # rel_tests"
    "with_suffix (manifest_root @ mod_a) ''.json'' = man_a"
    "with_suffix (manifest_root @ rel_mod) ''.json'' = [''.axiom'', ''encoding-manifests'', ''statutes'', ''26'', ''32.json'']" by code_simp+
  have "candidate_path_ok ''us'' rel_mod rel_str" "module_of_country ''us'' mod_a" "tl mod_a = rel_mod" "hex_of_length 40 toy_head" "hex_of_length 40 later_head"
    "git_word W [''rev-parse'', ''HEAD''] = Inr later_head" "git_word W [''rev-parse'', ''--verify'', toy_head @ ''^{commit}''] = Inr toy_head"
    "blob_identity W toy_head mod_a = Inr (Some (replicate 40 CHR ''1''))" "blob_identity W later_head mod_a = Inr (Some (replicate 40 CHR ''1''))"
    "blob_identity W toy_head (''us'' # rel_tests) = Inr (Some (replicate 40 CHR ''2''))"
    "blob_identity W later_head (''us'' # rel_tests) = Inr (Some (replicate 40 CHR ''2''))"
    "blob_identity W toy_head man_a = Inr (Some (replicate 40 CHR ''3''))" "blob_identity W later_head man_a = Inr None"
    "blob_identity W toy_head [''.axiom'', ''encoding-manifests'', ''statutes'', ''26'', ''32.json''] = Inr None"
    "blob_identity W later_head [''.axiom'', ''encoding-manifests'', ''statutes'', ''26'', ''32.json''] = Inr (Some (replicate 40 CHR ''3''))"
    unfolding W_def by code_simp+
  then show ?thesis unfolding base_advance_exact W_def[symmetric]
    by (simp add: p)
qed

end
