(* ===== verification/Spec2Isabelle.thy ===== *)
theory Spec2Isabelle
  imports Release_Examples Queue_Examples Queue_Build_Examples Waiver_Examples Broker_Examples Budget_Examples Concept_Examples
    Backfill_Examples Repair_Examples
begin

text \<open>
  Verification of axiom-encode, the program that encodes statutes as RuleSpec modules under human control.

  \<^bold>\<open>The program.\<close> axiom-encode turns documents of a signed legal corpus into executable RuleSpec. A run is expensive
  and partly done by a model, so the program surrounds it with gates: the corpus is a signed release, the work is
  a reviewed queue whose items are dispatched to protected workflow runs, generated modules must pass validation
  or carry an expiring waiver, generated names must agree with a registry of canonical concepts, signatures are
  made by a separate broker process that the model cannot reach, and repeated failures are cut off by a budget.
  The development models these gates. What they have in common is that they decide from documents (JSON, YAML,
  API answers) written by others, and that a wrong acceptance cannot be undone.

  \<^bold>\<open>Theories.\<close>

  \<^item> \<open>Py_Prelude\<close>, \<open>Py_Json\<close>, \<open>Py_Json_Parse\<close>, \<open>Py_Base64\<close>, \<open>Py_Regex\<close>, \<open>Py_Path\<close>, \<open>Py_Date\<close>: what the sources use of Python. Exceptions are
    the left summand of \<open>result\<close>; \<open>bind_r\<close>, \<open>for_each\<close>, \<open>map_r\<close> and \<open>checks\<close> are the sequencing of statements, loops that
    may raise, comprehensions and guard sequences. A dict is an association list with \<open>AList.update\<close>. \<open>Py_Json\<close> has
    JSON values with Python's \<open>==\<close>, truth and \<open>str\<close>, and the canonical \<open>json.dumps\<close>, shown to determine its value up to
    the order of keys; \<open>Py_Json_Parse\<close> has \<open>json.loads\<close> with fuel, shown to be enough on every text, and shown to
    invert \<open>dumps\<close>; \<open>Py_Path\<close> has \<open>PurePosixPath\<close> and \<open>Py_Date\<close> the ISO dates that \<open>date.fromisoformat\<close> reads. Contracts shared by components are the locales \<open>kept_invariant\<close> and \<open>respected_preorder\<close> (state
    machines), \<open>canonical_encoding\<close> (digest pins), \<open>codec\<close> (base64) and \<open>stream_codec\<close> (framed messages).

  \<^item> \<open>Corpus_Release\<close>, \<open>Release_Examples\<close>: \<open>src/axiom_encode/corpus_release.py\<close>. One definition per function:
    \<open>verify_release_object\<close> and the validators of scopes, artifacts, membership and attestations it calls. SHA-256,
    Ed25519 and the PEM reader are the fields of the record \<open>crypto\<close>. Acceptance means a valid signature over the
    canonical bytes and a complete, confined, duplicate-free inventory; a content pin and the signed bytes each
    determine the release that is used.

  \<^item> \<open>Signed_Queue\<close>, \<open>Queue_Facts\<close>, \<open>Queue_Evidence\<close>, \<open>Queue_Finalize\<close>, \<open>Queue_Examples\<close>: \<open>scripts/prepare_signed_queue.py\<close>,
    with \<open>load_release_pin\<close> of \<open>scripts/materialize_corpus_release.py\<close>. The queue is the JSON manifest itself; the
    operations are \<open>validate_queue\<close>, \<open>select_items\<close>, \<open>validate_tracked_dispatch\<close>, \<open>record_disposition\<close>, \<open>pause_queue\<close>,
    \<open>verify_paused_transition\<close>, the verifiers of activation and merge evidence, \<open>reconcile_candidates\<close> and
    \<open>finalize_and_repin\<close>. \<open>queue_env\<close> has SHA-256 and the table of queue profiles (\<open>program_env\<close> is the program's own);
    GitHub documents and Git answers are arguments. The invariant of a valid queue, what selection may return, that
    accepted transitions only move forward, that work is never dispatched twice, and that finalisation completes
    only items contained in the reviewed tip are the properties.

  \<^item> \<open>Queue_Build\<close>, \<open>Queue_Build_Facts\<close>, \<open>Queue_Build_Examples\<close>: the construction of a queue in the same file,
    \<open>build_snap_queue\<close> and \<open>build_all_state_snap_queue\<close>, from a corpus checkout and its signed release. A built queue holds
    exactly the logical source units of the corpus files, in order, and every file it was read from is an artifact of
    the release with the signed digest. The numbering of items is the contract \<open>item_numbering\<close>.

  \<^item> \<open>Validation_Waivers\<close>, \<open>Failure_Fingerprint\<close>, \<open>Waiver_Facts\<close>, \<open>Waiver_Examples\<close>:
    \<open>src/axiom_encode/validation_waivers.py\<close>. The YAML parser is an argument (its events and its value), the repository
    is the record \<open>file_system\<close>, a date is compared by its Gregorian ordinal. Loaded waivers are confined and
    end within 90 days, unexpired in the strict mode of the loader; along the merges of a protected branch an active waiver was approved by an earlier waiver-only
    pull request; the fingerprint of a failure does not depend on the order of its reports.

  \<^item> \<open>Signing_Broker\<close>, \<open>Broker_Facts\<close>, \<open>Broker_Examples\<close>: \<open>src/axiom_encode/signing_broker.py\<close>. A socket is the sequence
    of what its reads find; the client, the process-wide slot and the environment are records. Frames survive any
    cutting of the stream, responses answer the request just sent, request numbers are never reused, a signature
    that is sent arrives, a receive is bounded whatever the peer sends, trust roots are distinct, attachments are authenticated and children are confined.

  \<^item> \<open>Attempt_Budget\<close>, \<open>Budget_Examples\<close>: \<open>scripts/enforce_attempt_budget.py\<close>. The streak refines its description for
    histories of up to ten runs (the bound on job lookups), is always backed by failures, does not depend on the
    order of the listing. The guard fails open on missing inputs and on an incomplete listing of runs, and counts failures it
    cannot classify.

  \<^item> \<open>Concept_Registry\<close>, \<open>Concept_Facts\<close>, \<open>Concept_Examples\<close>: \<open>registry.py\<close>, \<open>validator.py\<close> and \<open>auto_repair.py\<close> of
    \<open>src/axiom_encode/concepts\<close>. A loaded registry is unambiguous, a silent validator means canonical names
    throughout, and repaired test files are accepted by the validator's scan and stable under repair.

  \<^item> \<open>Citation_Paths\<close>, \<open>Citation_Facts\<close>: the USC parser of \<open>statute.py\<close>, the canonical corpus citation paths of
    \<open>corpus_resolver.py\<close>, and the mapping of a citation to its RuleSpec module in \<open>harness/evals.py\<close> and
    \<open>prepare_signed_backfill.py\<close>. The accepted machine identities are characterised exactly, and the module of a citation
    is confined to its jurisdiction.

  \<^item> \<open>Backfill_Bundle\<close>, \<open>Backfill_Refresh\<close>, \<open>Backfill_Imports\<close> with \<open>Backfill_Facts\<close>, \<open>Backfill_Refresh_Facts\<close>,
    \<open>Backfill_Imports_Facts\<close>, \<open>Backfill_Examples\<close>: the planning half of \<open>src/axiom_encode/prepare_signed_backfill.py\<close>. The
    checkout is the record \<open>bundle_world\<close>. A loop that admits untrusted entries one by one is the contract \<open>admission\<close>,
    interpreted on fresh sources, required test cases, output contracts, refresh targets and signed imports;
    \<open>stable_admission\<close> adds that its own results are admitted again. The properties: the base is the reviewed commit, bundles
    are disjoint from what is reserved, additions overwrite nothing, a planned refresh target is bound to the bytes at
    \<open>HEAD\<close>, is accepted by the later verification, and what that verification accepts is unchanged, imports are signed
    modules the backfill does not write, and a cascade names exactly the direct dependents.

  \<^item> \<open>Repair_Candidate\<close>, \<open>Repair_Extract\<close>, \<open>Repair_Base\<close> with \<open>Repair_Facts\<close>, \<open>Repair_Extract_Facts\<close>, \<open>Repair_Examples\<close>: the
    scripts \<open>verify_failed_encode_candidate.py\<close>, \<open>extract_repair_candidate.py\<close> and \<open>verify_repair_base_advance.py\<close>. A failed
    encoding leaves its rejected module in a directory (a tree of \<open>artifact\<close> nodes), the run packs it in an archive (the
    list of its members), and a later run extracts it and may replay it on a newer base. The extraction is a function on
    the destination, on a \<open>disk\<close> that may refuse paths and break writes, so that what a failed one leaves behind is covered
    by its invariant \<open>confined\<close>. An accepted directory
    holds nothing but the candidate, an extraction writes only archived bytes below its destination, what was verified is
    what is extracted, and a replay needs the same blobs at both bases.

  \<^bold>\<open>How the parts interact.\<close> The queue pins a release by the digest that \<open>Corpus_Release\<close> computes and dispatches runs whose
  failures \<open>Attempt_Budget\<close> counts; a dispatch carries a backfill plan, whose citations
  and modules are those of the citation mapping, on a base that was reviewed; a run signs through the broker, whose signing message separates the scopes of the
  two keys; its generated files pass the concept validator, and a module that still fails needs a waiver with the
  fingerprint of exactly that failure. The module of a failed run travels as a repair candidate, whose metadata repeats the
  citation, the commits and the source bundle of the backfill plan.

  \<^bold>\<open>Modelling choices.\<close> Text and bytes are lists of characters with code points below 256; a Python text beyond that is
  outside the model (the decoder reports it as \<open>OutsideModel\<close>, and does not look for further errors in a JSON text that
  has one; bytes that are not UTF-8 are malformed in every case). Integers are unbounded, as in Python, with the digit
  limit of \<open>int\<close> where a text is converted. A float is its \<open>repr\<close>. Regular expressions are executable predicates and
  matchers. Fuel appears in the JSON decoder only: twice the length of the text plus one, never exhausted. Code that
  is not in the repository (cryptography, YAML, Git, GitHub, the operating system) is an argument everywhere, and the
  properties hold for every such argument.

  \<^bold>\<open>Not modelled.\<close> The command line (\<open>cli.py\<close>), the validation pipeline, source completeness, evaluations, proof
  validation and prompts of \<open>harness\<close>: they drive model calls and external engines or are natural-language heuristics.
  Of the backfill program, the receipts of legacy replacements and the staging of authorized changes; of the corpus
  resolver, everything after the citation. Run logs, judges, routing, telemetry and database code are listed with
  their reasons in the manifest. Of the modelled files, the command-line front ends and the Markdown summary of the
  budget are left out.
\<close>

end
